(* ===== verification/Prelude.thy ===== *)
theory Prelude
  imports Main "HOL-Library.AList" "HOL-Library.List_Lexorder" "HOL-Library.Char_ord"
begin

text \<open>
  What every component of the development shares: the development's own fact collections, the
  parts of Go's \<open>strings\<close>, \<open>regexp\<close> and \<open>fmt\<close> packages that the sources use, and lemmas on
  association lists and sorted lists.

  A Go \<open>string\<close> or \<open>[]byte\<close> is a list of bytes, written \<open>string\<close>.  A Go map with string
  keys is an association list with distinct keys; its order stands for one iteration order of the
  map, which Go leaves open, so a statement about every association list covers every order.
\<close>

named_theorems op_intros "rules that prove that an operation respects a relation on states"
named_theorems op_defs "the definitions of the combinators of effectful operations"

section \<open>Text\<close>

definition digit_char :: "nat \<Rightarrow> char" where
  "digit_char d = char_of (48 + d)"

fun itoa_nat :: "nat \<Rightarrow> string" where
  "itoa_nat n = (if n < 10 then [digit_char n] else itoa_nat (n div 10) @ [digit_char (n mod 10)])"

declare itoa_nat.simps [simp del]

text \<open>The verb \<open>%d\<close> of \<open>fmt\<close>.\<close>

definition itoa :: "int \<Rightarrow> string" where
  "itoa i = (if i < 0 then ''-'' @ itoa_nat (nat (- i)) else itoa_nat (nat i))"

text \<open>
  The verb \<open>%q\<close> of \<open>fmt\<close>, for printable ASCII text: quotation marks and backslashes are
  escaped.  Control characters and bytes above 127, which Go escapes further, are left as they
  are; the result only ever occurs in the text of an error.
\<close>

definition quote_char :: "char \<Rightarrow> string" where
  "quote_char c = (if c = CHR 0x22 \<or> c = CHR 0x5C then [CHR 0x5C, c] else [c])"

definition quoted :: "string \<Rightarrow> string" where
  "quoted s = [CHR 0x22] @ concat (map quote_char s) @ [CHR 0x22]"

text \<open>\<open>strings.Split\<close> at a separator of one character, and \<open>strings.Cut\<close>.\<close>

fun split_on :: "char \<Rightarrow> string \<Rightarrow> string list" where
  "split_on sep [] = [[]]"
| "split_on sep (c # cs) =
     (if c = sep then [] # split_on sep cs
      else case split_on sep cs of [] \<Rightarrow> [[c]] | p # ps \<Rightarrow> (c # p) # ps)"

fun join_on :: "char \<Rightarrow> string list \<Rightarrow> string" where
  "join_on sep [] = []"
| "join_on sep [p] = p"
| "join_on sep (p # ps) = p @ [sep] @ join_on sep ps"

definition cut :: "char \<Rightarrow> string \<Rightarrow> (string \<times> string) option" where
  "cut sep s =
     (if sep \<in> set s then Some (takeWhile (\<lambda>c. c \<noteq> sep) s, drop 1 (dropWhile (\<lambda>c. c \<noteq> sep) s)) else None)"

lemma split_on_nonempty [simp]: "split_on sep s \<noteq> []"
  by (cases s) (auto split: list.split)

lemma split_on_parts: "p \<in> set (split_on sep s) \<Longrightarrow> sep \<notin> set p"
  by (induction s arbitrary: p) (auto split: list.splits if_splits)

lemma split_on_single: "sep \<notin> set p \<Longrightarrow> split_on sep p = [p]"
  by (induction p) auto

lemma split_on_append: "sep \<notin> set p \<Longrightarrow> split_on sep (p @ sep # s) = p # split_on sep s"
  by (induction p) auto

lemma split_on_concat: "split_on sep (a @ sep # b) = split_on sep a @ split_on sep b"
proof (induction a)
  case (Cons c a)
  then show ?case by (cases "split_on sep a") auto
qed simp

lemma split_join:
  "ps \<noteq> [] \<Longrightarrow> (\<And>p. p \<in> set ps \<Longrightarrow> sep \<notin> set p) \<Longrightarrow> split_on sep (join_on sep ps) = ps"
proof (induction ps rule: join_on.induct)
  case (2 sep p)
  then show ?case by (simp add: split_on_single)
next
  case (3 sep p q ps)
  then show ?case using split_on_append [of sep p "join_on sep (q # ps)"] by simp
qed simp

lemma join_split: "join_on sep (split_on sep s) = s"
proof (induction s)
  case (Cons c s)
  show ?case
  proof (cases "split_on sep s")
    case Nil
    then show ?thesis by simp
  next
    case (Cons p ps)
    with Cons.IH show ?thesis by (cases ps) auto
  qed
qed simp

section \<open>White space\<close>

text \<open>The UTF-8 encodings of the runes that \<open>unicode.IsSpace\<close> accepts.\<close>

definition space_runes :: "string list" where
  "space_runes =
    [[CHR 0x09], [CHR 0x0A], [CHR 0x0B], [CHR 0x0C], [CHR 0x0D], [CHR 0x20],
     [CHR 0xC2, CHR 0x85], [CHR 0xC2, CHR 0xA0], [CHR 0xE1, CHR 0x9A, CHR 0x80],
     [CHR 0xE2, CHR 0x80, CHR 0x80], [CHR 0xE2, CHR 0x80, CHR 0x81], [CHR 0xE2, CHR 0x80, CHR 0x82],
     [CHR 0xE2, CHR 0x80, CHR 0x83], [CHR 0xE2, CHR 0x80, CHR 0x84], [CHR 0xE2, CHR 0x80, CHR 0x85],
     [CHR 0xE2, CHR 0x80, CHR 0x86], [CHR 0xE2, CHR 0x80, CHR 0x87], [CHR 0xE2, CHR 0x80, CHR 0x88],
     [CHR 0xE2, CHR 0x80, CHR 0x89], [CHR 0xE2, CHR 0x80, CHR 0x8A], [CHR 0xE2, CHR 0x80, CHR 0xA8],
     [CHR 0xE2, CHR 0x80, CHR 0xA9], [CHR 0xE2, CHR 0x80, CHR 0xAF], [CHR 0xE2, CHR 0x81, CHR 0x9F],
     [CHR 0xE3, CHR 0x80, CHR 0x80]]"

fun is_prefix_of :: "string \<Rightarrow> string \<Rightarrow> bool" where
  "is_prefix_of [] s = True"
| "is_prefix_of (p # ps) [] = False"
| "is_prefix_of (p # ps) (c # cs) = (p = c \<and> is_prefix_of ps cs)"

text \<open>Removes leading elements of \<open>runes\<close>; the fuel is the length of the text.\<close>

fun trim_with :: "nat \<Rightarrow> string list \<Rightarrow> string \<Rightarrow> string" where
  "trim_with 0 runes s = s"
| "trim_with (Suc n) runes s =
     (case find (\<lambda>r. is_prefix_of r s) runes of
        None \<Rightarrow> s
      | Some r \<Rightarrow> trim_with n runes (drop (length r) s))"

definition TrimLeft :: "string \<Rightarrow> string" where
  "TrimLeft s = trim_with (length s) space_runes s"

definition TrimRight :: "string \<Rightarrow> string" where
  "TrimRight s = rev (trim_with (length s) (map rev space_runes) (rev s))"

definition TrimSpace :: "string \<Rightarrow> string" where
  "TrimSpace s = TrimRight (TrimLeft s)"

text \<open>The test \<open>strings.TrimSpace(s) == ""\<close>, which the sources use for a missing value.\<close>

definition blank :: "string \<Rightarrow> bool" where
  "blank s \<longleftrightarrow> TrimSpace s = []"

lemma blank_Nil [simp]: "blank []"
  by (simp add: blank_def TrimSpace_def TrimLeft_def TrimRight_def)

section \<open>Names\<close>

definition lower_alnum :: "char \<Rightarrow> bool" where
  "lower_alnum c \<longleftrightarrow> c \<in> set ''abcdefghijklmnopqrstuvwxyz0123456789''"

definition label_char :: "char \<Rightarrow> bool" where
  "label_char c \<longleftrightarrow> c = CHR ''-'' \<or> lower_alnum c"

definition lower_hex :: "char \<Rightarrow> bool" where
  "lower_hex c \<longleftrightarrow> c \<in> set ''0123456789abcdef''"

text \<open>
  The regular expression \<open>^[a-z0-9](?:[-a-z0-9]*[a-z0-9])?$\<close>, which the packages session,
  workflow and workload declare each for themselves.
\<close>

definition dns_label :: "string \<Rightarrow> bool" where
  "dns_label s \<longleftrightarrow>
     s \<noteq> [] \<and> list_all label_char s \<and> lower_alnum (hd s) \<and> lower_alnum (last s)"

text \<open>The regular expression \<open>^[0-9a-f]{n}$\<close>.\<close>

definition hex_of_length :: "nat \<Rightarrow> string \<Rightarrow> bool" where
  "hex_of_length n s \<longleftrightarrow> length s = n \<and> list_all lower_hex s"

lemma lower_hex_alnum: "lower_hex c \<Longrightarrow> lower_alnum c"
  by (auto simp: lower_hex_def lower_alnum_def)

lemma lower_alnum_label [simp]: "lower_alnum c \<Longrightarrow> label_char c"
  by (simp add: label_char_def)

lemma dns_label_append_hex:
  assumes "dns_label s" and "list_all lower_hex h" and "h \<noteq> []"
  shows "dns_label (s @ ''-'' @ h)"
proof -
  have "list_all label_char h"
    using assms(2) by (auto simp: list_all_iff lower_hex_alnum)
  moreover have "lower_alnum (last h)"
    using assms(2,3) by (auto simp: list_all_iff lower_hex_alnum)
  ultimately show ?thesis
    using assms(1,3) by (auto simp: dns_label_def label_char_def)
qed

definition hex_digit :: "nat \<Rightarrow> char" where
  "hex_digit d = ''0123456789abcdef'' ! (d mod 16)"

definition hex_byte :: "char \<Rightarrow> string" where
  "hex_byte b = [hex_digit (of_char b div 16), hex_digit (of_char b mod 16)]"

text \<open>\<open>hex.EncodeToString\<close>\<close>

definition hex_encode :: "string \<Rightarrow> string" where
  "hex_encode bs = concat (map hex_byte bs)"

lemma lower_hex_digit [simp]: "lower_hex (hex_digit d)"
proof -
  have "d mod 16 < length ''0123456789abcdef''" by simp
  then show ?thesis unfolding hex_digit_def lower_hex_def by (rule nth_mem)
qed

lemma hex_encode_lower [simp]: "list_all lower_hex (hex_encode bs)"
  by (auto simp: hex_encode_def hex_byte_def list_all_iff)

lemma length_hex_encode [simp]: "length (hex_encode bs) = 2 * length bs"
  by (induction bs) (auto simp: hex_encode_def hex_byte_def)

section \<open>Durations\<close>

text \<open>
  \<open>int64(d.Seconds())\<close>: the sum of the seconds and of the nanoseconds over \<open>1e9\<close> is rounded to 53 bits
  and then truncated.  From \<open>2 ^ 24\<close> seconds on the rounding can reach the next second.
\<close>

fun power_below :: "nat \<Rightarrow> nat" where
  "power_below n = (if n < 2 then 1 else 2 * power_below (n div 2))"

declare power_below.simps [simp del]

definition whole_seconds :: "int \<Rightarrow> int" where
  "whole_seconds d =
     (let s = \<bar>d\<bar> div 1000000000; ns = \<bar>d\<bar> mod 1000000000;
          up = (0 < s \<and> (1000000000 - ns) * 2 ^ 53 \<le> 1000000000 * int (power_below (nat s)))
      in sgn d * (if up then s + 1 else s))"

lemma power_below_le: "power_below n \<le> max 1 n"
proof (induction n rule: power_below.induct)
  case (1 n)
  then show ?case by (subst power_below.simps) auto
qed

lemma whole_seconds_small:
  assumes "\<bar>d\<bar> < 2 ^ 23 * 1000000000"
  shows "whole_seconds d = sgn d * (\<bar>d\<bar> div 1000000000)"
proof -
  let ?s = "\<bar>d\<bar> div 1000000000" and ?ns = "\<bar>d\<bar> mod 1000000000"
  have "?s * 1000000000 + ?ns < 8388608000000000" "0 \<le> ?ns" using assms by simp_all
  moreover have "s < 8388608" if "s * 1000000000 + n < 8388608000000000" "0 \<le> n" for s n :: int
    using that by linarith
  ultimately have "?s < 8388608" by blast
  then have "int (power_below (nat ?s)) \<le> 8388608" using power_below_le [of "nat ?s"] by linarith
  moreover have "?ns \<le> 999999999" using pos_mod_bound [of 1000000000 "\<bar>d\<bar>"] by simp
  then have "9007199254740992 \<le> (1000000000 - ?ns) * 9007199254740992" by simp
  moreover have "\<not> x \<le> 1000000000 * p" if "p \<le> 8388608" "9007199254740992 \<le> x" for p x :: int
    using that by linarith
  ultimately have "\<not> (1000000000 - ?ns) * 9007199254740992 \<le> 1000000000 * int (power_below (nat ?s))"
    by blast
  then show ?thesis by (simp add: whole_seconds_def Let_def)
qed

lemma whole_seconds_0 [simp]: "whole_seconds 0 = 0"
  by (simp add: whole_seconds_def)

lemma whole_seconds_bound:
  assumes "\<bar>d\<bar> < 2 ^ 63"
  shows "\<bar>whole_seconds d\<bar> \<le> 9223372036"
proof -
  let ?s = "\<bar>d\<bar> div 1000000000" and ?ns = "\<bar>d\<bar> mod 1000000000"
  let ?up = "0 < ?s \<and> (1000000000 - ?ns) * 2 ^ 53 \<le> 1000000000 * int (power_below (nat ?s))"
  have d: "?s * 1000000000 + ?ns \<le> 9223372036854775807" "0 \<le> ?ns" using assms by simp_all
  then have s: "0 \<le> ?s" "?s \<le> 9223372036" by (simp_all add: pos_imp_zdiv_nonneg_iff)
  have "?s + 1 \<le> 9223372036" if ?up
  proof (rule ccontr)
    assume "\<not> ?s + 1 \<le> 9223372036"
    with s have last: "?s = 9223372036" by linarith
    with d have "?ns \<le> 854775807" by simp
    moreover have "int (power_below (nat ?s)) \<le> 9223372036"
      using power_below_le [of "nat ?s"] last by simp
    moreover have "(1000000000 - ?ns) * 9007199254740992 \<le> 1000000000 * int (power_below (nat ?s))"
      using that by simp
    moreover have False if "n \<le> 854775807" "p \<le> 9223372036" "(1000000000 - n) * 9007199254740992 \<le> 1000000000 * p"
      for n p :: int
      using that by (simp add: left_diff_distrib)
    ultimately show False by blast
  qed
  with s have bound: "0 \<le> (if ?up then ?s + 1 else ?s)" "(if ?up then ?s + 1 else ?s) \<le> 9223372036" by auto
  have "\<bar>sgn d * n\<bar> \<le> 9223372036" if "0 \<le> n" "n \<le> 9223372036" for n :: int
    using that by (cases "d = 0") (simp_all add: abs_mult)
  from this [OF bound] show ?thesis
    by (simp only: whole_seconds_def Let_def)
qed

lemma whole_seconds_positive: "0 < d \<Longrightarrow> whole_seconds d \<le> 0 \<longleftrightarrow> d < 1000000000"
  by (auto simp: whole_seconds_def Let_def pos_imp_zdiv_pos_iff not_less)

section \<open>Maps with string keys\<close>

lemma map_fst_update_key:
  "k \<in> fst ` set m \<Longrightarrow> map fst (AList.update k v m) = map fst m"
  by (induction m) auto

lemma map_of_update: "map_of (AList.update k v m) k' = (if k' = k then Some v else map_of m k')"
  by (simp add: update_conv)

lemma keys_map_of: "fst ` set m = dom (map_of m)"
  by (simp add: dom_map_of_conv_image_fst)

lemma map_of_key_obtain:
  assumes "k \<in> fst ` set m"
  obtains v where "map_of m k = Some v"
  using assms by (auto simp: keys_map_of)

lemma map_of_Some_set: "map_of m k = Some v \<Longrightarrow> (k, v) \<in> set m"
  by (rule map_of_SomeD)

lemma distinct_map_of_set:
  "distinct (map fst m) \<Longrightarrow> (k, v) \<in> set m \<longleftrightarrow> map_of m k = Some v"
  by (auto dest: map_of_SomeD)

text \<open>The keys of a map in increasing order: \<open>slices.Sort\<close> after collecting them.\<close>

definition sorted_keys :: "(string \<times> 'v) list \<Rightarrow> string list" where
  "sorted_keys m = sort (map fst m)"

lemma set_sorted_keys [simp]: "set (sorted_keys m) = fst ` set m"
  by (simp add: sorted_keys_def)

lemma distinct_sorted_keys [simp]: "distinct (sorted_keys m) = distinct (map fst m)"
  by (simp add: sorted_keys_def)

lemma sorted_sorted_keys [simp]: "sorted (sorted_keys m)"
  by (simp add: sorted_keys_def)

text \<open>The number of entries of a map with a property, under an update of one entry.\<close>

definition count_entries :: "('v \<Rightarrow> bool) \<Rightarrow> (string \<times> 'v) list \<Rightarrow> nat" where
  "count_entries P m = length (filter (\<lambda>e. P (snd e)) m)"

lemma count_entries_update:
  assumes "map_of m k = Some v"
  shows "count_entries P (AList.update k v' m) + (if P v then 1 else 0)
       = count_entries P m + (if P v' then 1 else 0)"
  using assms
proof (induction m)
  case Nil
  then show ?case by simp
next
  case (Cons e m)
  then show ?case
    by (cases e) (auto simp: count_entries_def split: if_splits)
qed

end
