(* ===== verification/Effects.thy ===== *)
theory Effects
  imports Prelude
begin

text \<open>
  Errors as values, and operations that read and change a world of any type \<open>'w\<close>.

  The type \<open>err\<close> is the tree of a Go error: the package-level values (\<open>errors.New\<close>) that callers
  recognise with \<open>errors.Is\<close>, the \<open>operationError\<close> structs of the packages session, workflow,
  publish and agent, \<open>fmt.Errorf\<close> with and without a wrapped cause, and \<open>errors.Join\<close>.  An
  operation returns an error or a result together with the new world: what it wrote before it
  failed stays written, as in the code.
\<close>

section \<open>Errors\<close>

datatype sentinel =
    SessionErrNotFound
  | SessionErrConflict
  | SessionErrActiveTask
  | ErrRunNotFound
  | ErrConcurrentUpdate
  | PublishErrNotFound
  | PublishErrConflict
  | ErrExecutionFailed
  | ErrNoRows

datatype pkg = PkgSession | PkgWorkflow | PkgPublish | PkgAgent

datatype error_kind = ErrorInvalid | ErrorNotFound | ErrorConflict | ErrorUnavailable

datatype err =
    Sentinel sentinel
  | Text string
  | Wrapped string err
  | OpError pkg error_kind string "err option"
  | Join "err list"

fun sentinel_text :: "sentinel \<Rightarrow> string" where
  "sentinel_text SessionErrNotFound = ''session not found''"
| "sentinel_text SessionErrConflict = ''session conflict''"
| "sentinel_text SessionErrActiveTask = ''session has an active task''"
| "sentinel_text ErrRunNotFound = ''workflow run not found''"
| "sentinel_text ErrConcurrentUpdate = ''workflow run changed''"
| "sentinel_text PublishErrNotFound = ''publication not found''"
| "sentinel_text PublishErrConflict = ''publication conflict''"
| "sentinel_text ErrExecutionFailed = ''publisher execution failed''"
| "sentinel_text ErrNoRows = ''sql: no rows in result set''"

fun join_lines :: "string list \<Rightarrow> string" where
  "join_lines [] = []"
| "join_lines [s] = s"
| "join_lines (s # ss) = s @ [CHR 0x0A] @ join_lines ss"

text \<open>The method \<open>Error()\<close>.\<close>

fun error_text :: "err \<Rightarrow> string" where
  "error_text (Sentinel s) = sentinel_text s"
| "error_text (Text t) = t"
| "error_text (Wrapped t e) = t"
| "error_text (OpError p k t c) = t"
| "error_text (Join es) = join_lines (map error_text es)"

text \<open>\<open>errors.Is(err, sentinel)\<close>\<close>

fun errors_is :: "err \<Rightarrow> sentinel \<Rightarrow> bool" where
  "errors_is (Sentinel s) t = (s = t)"
| "errors_is (Text m) t = False"
| "errors_is (Wrapped m e) t = errors_is e t"
| "errors_is (OpError p k m None) t = False"
| "errors_is (OpError p k m (Some e)) t = errors_is e t"
| "errors_is (Join es) t = list_ex (\<lambda>e. errors_is e t) es"

fun first_some :: "'a option list \<Rightarrow> 'a option" where
  "first_some [] = None"
| "first_some (None # xs) = first_some xs"
| "first_some (Some x # xs) = Some x"

text \<open>
  \<open>ErrorKindOf\<close> of a package: the kind of the first \<open>operationError\<close> of that package in the
  tree, \<open>None\<close> for the empty kind.
\<close>

fun ErrorKindOf :: "pkg \<Rightarrow> err \<Rightarrow> error_kind option" where
  "ErrorKindOf p (Sentinel s) = None"
| "ErrorKindOf p (Text t) = None"
| "ErrorKindOf p (Wrapped t e) = ErrorKindOf p e"
| "ErrorKindOf p (OpError q k t None) = (if q = p then Some k else None)"
| "ErrorKindOf p (OpError q k t (Some e)) = (if q = p then Some k else ErrorKindOf p e)"
| "ErrorKindOf p (Join es) = first_some (map (ErrorKindOf p) es)"

text \<open>\<open>fmt.Errorf("prefix: %w", cause)\<close>\<close>

definition errorf :: "string \<Rightarrow> err \<Rightarrow> err" where
  "errorf msg e = Wrapped (msg @ '': '' @ error_text e) e"

lemma errors_is_errorf [simp]: "errors_is (errorf p e) t = errors_is e t"
  by (simp add: errorf_def)

lemma ErrorKindOf_errorf [simp]: "ErrorKindOf q (errorf p e) = ErrorKindOf q e"
  by (simp add: errorf_def)

lemma ErrorKindOf_own [simp]: "ErrorKindOf p (OpError p k m c) = Some k"
  by (cases c) auto

text \<open>A sequence of checks, the first failing one of which decides: \<open>if bad { return errors.New(m) }\<close>.\<close>

fun first_error :: "err option list \<Rightarrow> err option" where
  "first_error [] = None"
| "first_error (Some e # cs) = Some e"
| "first_error (None # cs) = first_error cs"

definition check :: "bool \<Rightarrow> string \<Rightarrow> err option" where
  "check bad m = (if bad then Some (Text m) else None)"

lemma first_error_None: "first_error cs = None \<longleftrightarrow> list_all (\<lambda>c. c = None) cs"
  by (induction cs rule: first_error.induct) auto

lemma check_None [simp]: "check bad m = None \<longleftrightarrow> \<not> bad"
  by (simp add: check_def)

section \<open>Operations\<close>

type_synonym ('w, 'a) op = "'w \<Rightarrow> (err + 'a) \<times> 'w"

definition ret :: "'a \<Rightarrow> ('w, 'a) op" where
  "ret a = (\<lambda>w. (Inr a, w))"

definition throw :: "err \<Rightarrow> ('w, 'a) op" where
  "throw e = (\<lambda>w. (Inl e, w))"

text \<open>\<open>a, err := m(); if err != nil { h(err) }; k(a)\<close>\<close>

definition handle :: "('w, 'a) op \<Rightarrow> (err \<Rightarrow> ('w, 'b) op) \<Rightarrow> ('a \<Rightarrow> ('w, 'b) op) \<Rightarrow> ('w, 'b) op" where
  "handle m h k = (\<lambda>w. case m w of (Inl e, w') \<Rightarrow> h e w' | (Inr a, w') \<Rightarrow> k a w')"

text \<open>The common case \<open>if err != nil { return err }\<close>.\<close>

definition andThen :: "('w, 'a) op \<Rightarrow> ('a \<Rightarrow> ('w, 'b) op) \<Rightarrow> ('w, 'b) op" where
  "andThen m k = handle m throw k"

text \<open>A Go function that has no error result.\<close>

definition total :: "('w \<Rightarrow> 'a \<times> 'w) \<Rightarrow> ('w, 'a) op" where
  "total f = (\<lambda>w. case f w of (a, w') \<Rightarrow> (Inr a, w'))"

text \<open>An optional result: \<open>if err := check(); err != nil { return wrap(err) }\<close>.\<close>

definition require :: "err option \<Rightarrow> (err \<Rightarrow> err) \<Rightarrow> ('w, 'b) op \<Rightarrow> ('w, 'b) op" where
  "require c wrap k = (case c of Some e \<Rightarrow> throw (wrap e) | None \<Rightarrow> k)"

text \<open>A loop over a list that carries a value and stops at the first error.\<close>

fun for_each :: "('x \<Rightarrow> 'a \<Rightarrow> ('w, 'a) op) \<Rightarrow> 'x list \<Rightarrow> 'a \<Rightarrow> ('w, 'a) op" where
  "for_each f [] a = ret a"
| "for_each f (x # xs) a = andThen (f x a) (\<lambda>a'. for_each f xs a')"

text \<open>A loop that collects the errors of its body and goes on: \<open>errors.Join\<close> at the end.\<close>

fun collect_errors :: "('x \<Rightarrow> ('w, unit) op) \<Rightarrow> 'x list \<Rightarrow> 'w \<Rightarrow> err list \<times> 'w" where
  "collect_errors f [] w = ([], w)"
| "collect_errors f (x # xs) w =
     (case f x w of
        (Inl e, w') \<Rightarrow> (case collect_errors f xs w' of (es, w'') \<Rightarrow> (e # es, w''))
      | (Inr u, w') \<Rightarrow> collect_errors f xs w')"

definition join_errors :: "err list \<Rightarrow> ('w, unit) op" where
  "join_errors es = (if es = [] then ret () else throw (Join es))"

lemmas op_run [op_defs] =
  ret_def throw_def handle_def andThen_def total_def require_def join_errors_def

lemma handle_ret [simp]: "handle (ret a) h k = k a"
  by (simp add: op_defs)

lemma handle_throw [simp]: "handle (throw e) h k = h e"
  by (simp add: op_defs)

lemma andThen_ret [simp]: "andThen (ret a) k = k a"
  by (simp add: andThen_def)

lemma andThen_throw [simp]: "andThen (throw e) k = throw e"
  by (simp add: andThen_def)

lemma fst_ret [simp]: "fst (ret a w) = Inr a"
  by (simp add: ret_def)

lemma snd_ret [simp]: "snd (ret a w) = w"
  by (simp add: ret_def)

lemma fst_throw [simp]: "fst (throw e w) = Inl e"
  by (simp add: throw_def)

lemma snd_throw [simp]: "snd (throw e w) = w"
  by (simp add: throw_def)

lemma handle_Inl: "m w = (Inl e, w') \<Longrightarrow> handle m h k w = h e w'"
  by (simp add: handle_def)

lemma handle_Inr: "m w = (Inr a, w') \<Longrightarrow> handle m h k w = k a w'"
  by (simp add: handle_def)

lemma andThen_Inl: "m w = (Inl e, w') \<Longrightarrow> andThen m k w = (Inl e, w')"
  by (simp add: op_defs)

lemma andThen_Inr: "m w = (Inr a, w') \<Longrightarrow> andThen m k w = k a w'"
  by (simp add: op_defs)

lemma handle_cases:
  assumes "handle m h k w = r"
  obtains (Inl) e w' where "m w = (Inl e, w')" and "h e w' = r"
    | (Inr) a w' where "m w = (Inr a, w')" and "k a w' = r"
  using assms by (cases "m w") (auto simp: handle_def split: sum.splits)

lemma andThen_success:
  assumes "andThen m k w = (Inr b, w2)"
  obtains a w1 where "m w = (Inr a, w1)" and "k a w1 = (Inr b, w2)"
  using assms by (auto simp: op_defs split: prod.splits sum.splits)

section \<open>What an operation may do to the world\<close>

text \<open>
  \<open>obeys R m\<close>: whatever \<open>m\<close> returns, and whether it fails or not, the world it leaves is
  related to the world it started from.  With \<open>R w w' = (I w \<longrightarrow> I w')\<close> this says that \<open>m\<close> keeps
  the invariant \<open>I\<close>, with \<open>R w w' = (f w = f w')\<close> that it does not change the part \<open>f\<close>.
\<close>

definition obeys :: "('w \<Rightarrow> 'w \<Rightarrow> bool) \<Rightarrow> ('w, 'a) op \<Rightarrow> bool" where
  "obeys R m \<longleftrightarrow> (\<forall>w. R w (snd (m w)))"

definition keeps :: "('w \<Rightarrow> bool) \<Rightarrow> 'w \<Rightarrow> 'w \<Rightarrow> bool" where
  "keeps I w w' \<longleftrightarrow> (I w \<longrightarrow> I w')"

definition same :: "('w \<Rightarrow> 'a) \<Rightarrow> 'w \<Rightarrow> 'w \<Rightarrow> bool" where
  "same f w w' \<longleftrightarrow> f w' = f w"

lemma obeysD: "obeys R m \<Longrightarrow> R w (snd (m w))"
  by (simp add: obeys_def)

lemma obeys_result: "obeys R m \<Longrightarrow> m w = (r, w') \<Longrightarrow> R w w'"
  by (metis obeysD snd_conv)

text \<open>
  The interface of a relation that composes: every operation built from operations that respect
  it obeys it.
\<close>

locale world_order =
  fixes R :: "'w \<Rightarrow> 'w \<Rightarrow> bool"
  assumes refl: "R w w"
    and trans: "R u v \<Longrightarrow> R v w \<Longrightarrow> R u w"
begin

lemma obeys_ret [op_intros]: "obeys R (ret a)"
  by (simp add: obeys_def refl)

lemma obeys_throw [op_intros]: "obeys R (throw e)"
  by (simp add: obeys_def refl)

lemma obeys_handle [op_intros]:
  assumes m: "obeys R m" and h: "\<And>e. obeys R (h e)" and k: "\<And>a. obeys R (k a)"
  shows "obeys R (handle m h k)"
  unfolding obeys_def
proof
  fix w
  obtain r w' where mw: "m w = (r, w')" by fastforce
  with m have "R w w'" by (rule obeys_result)
  then show "R w (snd (handle m h k w))"
    using obeysD [OF h] obeysD [OF k] mw by (cases r) (auto simp: handle_def intro: trans [of w w'])
qed

lemma obeys_andThen [op_intros]:
  "obeys R m \<Longrightarrow> (\<And>a. obeys R (k a)) \<Longrightarrow> obeys R (andThen m k)"
  unfolding andThen_def by (intro obeys_handle obeys_throw)

lemma obeys_require [op_intros]: "obeys R k \<Longrightarrow> obeys R (require c wrap k)"
  by (cases c) (auto simp: require_def obeys_throw)

lemma obeys_total: "(\<And>w. R w (snd (f w))) \<Longrightarrow> obeys R (total f)"
  by (simp add: obeys_def total_def split: prod.splits) (metis snd_conv)

lemma obeys_if [op_intros]:
  "obeys R a \<Longrightarrow> obeys R b \<Longrightarrow> obeys R (if c then a else b)"
  by simp

lemma obeys_option [op_intros]:
  "obeys R a \<Longrightarrow> (\<And>x. obeys R (b x)) \<Longrightarrow> obeys R (case x of None \<Rightarrow> a | Some y \<Rightarrow> b y)"
  by (cases x) auto

lemma obeys_for_each [op_intros]:
  assumes "\<And>x a. obeys R (f x a)"
  shows "obeys R (for_each f xs a)"
  by (induction xs arbitrary: a) (auto intro: assms obeys_ret obeys_andThen)

lemma collect_errors_obeys:
  assumes "\<And>x. obeys R (f x)"
  shows "R w (snd (collect_errors f xs w))"
proof (induction xs arbitrary: w)
  case Nil
  show ?case by (simp add: refl)
next
  case (Cons x xs)
  obtain r w1 where f: "f x w = (r, w1)" by fastforce
  then have "R w w1" using assms by (rule obeys_result [rotated])
  moreover have "R w1 (snd (collect_errors f xs w1))" by (rule Cons.IH)
  ultimately show ?case
    using f by (cases r) (auto split: prod.splits intro: trans [of w w1])
qed

lemma obeys_join_errors [op_intros]: "obeys R (join_errors es)"
  by (simp add: join_errors_def obeys_ret obeys_throw)

end

interpretation keeps: world_order "keeps I" for I
  by unfold_locales (auto simp: keeps_def)

interpretation same: world_order "same f" for f
  by unfold_locales (auto simp: same_def)

lemma obeys_keepsD: "obeys (keeps I) m \<Longrightarrow> I w \<Longrightarrow> I (snd (m w))"
  by (auto simp: obeys_def keeps_def)

lemma obeys_sameD: "obeys (same f) m \<Longrightarrow> f (snd (m w)) = f w"
  by (auto simp: obeys_def same_def)

lemma obeys_keepsI: "(\<And>w. I w \<Longrightarrow> I (snd (m w))) \<Longrightarrow> obeys (keeps I) m"
  by (auto simp: obeys_def keeps_def)

lemma obeys_sameI: "(\<And>w. f (snd (m w)) = f w) \<Longrightarrow> obeys (same f) m"
  by (auto simp: obeys_def same_def)


section \<open>What an operation returns\<close>

text \<open>
  \<open>ensures I m Q\<close>: from a world that satisfies \<open>I\<close>, \<open>m\<close> keeps \<open>I\<close> even when it fails, and
  what it returns satisfies \<open>Q\<close>.
\<close>

definition ensures :: "('w \<Rightarrow> bool) \<Rightarrow> ('w, 'a) op \<Rightarrow> ('a \<Rightarrow> bool) \<Rightarrow> bool" where
  "ensures I m Q \<longleftrightarrow> (\<forall>w. I w \<longrightarrow> I (snd (m w)) \<and> (\<forall>a. fst (m w) = Inr a \<longrightarrow> Q a))"

lemma ensuresI:
  "(\<And>w. I w \<Longrightarrow> I (snd (m w))) \<Longrightarrow> (\<And>w a. I w \<Longrightarrow> fst (m w) = Inr a \<Longrightarrow> Q a) \<Longrightarrow> ensures I m Q"
  by (auto simp: ensures_def)

lemma ensures_inv: "ensures I m Q \<Longrightarrow> I w \<Longrightarrow> I (snd (m w))"
  by (simp add: ensures_def)

lemma ensures_result: "ensures I m Q \<Longrightarrow> I w \<Longrightarrow> m w = (Inr a, w') \<Longrightarrow> I w' \<and> Q a"
  by (metis ensures_def fst_conv snd_conv)

lemma ensures_mono: "ensures I m Q \<Longrightarrow> (\<And>a. Q a \<Longrightarrow> Q' a) \<Longrightarrow> ensures I m Q'"
  by (auto simp: ensures_def)

lemma ensures_keeps: "obeys (keeps I) m \<longleftrightarrow> ensures I m (\<lambda>_. True)"
  by (simp add: ensures_def obeys_def keeps_def)

lemma ensures_ret: "Q a \<Longrightarrow> ensures I (ret a) Q"
  by (simp add: ensures_def)

lemma ensures_throw: "ensures I (throw e) Q"
  by (simp add: ensures_def)

lemma ensures_handle:
  assumes "ensures I m Q" and "\<And>e. ensures I (h e) R" and "\<And>a. Q a \<Longrightarrow> ensures I (k a) R"
  shows "ensures I (handle m h k) R"
  unfolding ensures_def
proof (intro allI impI)
  fix w assume "I w"
  then show "I (snd (handle m h k w)) \<and> (\<forall>b. fst (handle m h k w) = Inr b \<longrightarrow> R b)"
  proof (cases "m w")
    case (Pair r w')
    with \<open>I w\<close> assms(1) have "I w'" and "\<And>a. r = Inr a \<Longrightarrow> Q a"
      by (auto simp: ensures_def dest: spec [of _ w])
    with Pair assms(2,3) show ?thesis
      by (cases r) (auto simp: handle_def ensures_def)
  qed
qed

lemma ensures_andThen:
  "ensures I m Q \<Longrightarrow> (\<And>a. Q a \<Longrightarrow> ensures I (k a) R) \<Longrightarrow> ensures I (andThen m k) R"
  unfolding andThen_def by (rule ensures_handle [OF _ ensures_throw])

lemma ensures_total:
  "(\<And>w. I w \<Longrightarrow> I (snd (f w)) \<and> Q (fst (f w))) \<Longrightarrow> ensures I (total f) Q"
  by (fastforce simp: ensures_def total_def split: prod.splits)

lemma ensures_for_each:
  assumes "\<And>x a. Q a \<Longrightarrow> ensures I (f x a) Q" and "Q a"
  shows "ensures I (for_each f xs a) Q"
  using assms(2)
  by (induction xs arbitrary: a) (auto intro: ensures_ret ensures_andThen assms(1))

lemma ensures_if:
  "(c \<Longrightarrow> ensures I a Q) \<Longrightarrow> (\<not> c \<Longrightarrow> ensures I b Q) \<Longrightarrow> ensures I (if c then a else b) Q"
  by simp

text \<open>
  \<open>triple I P m Q\<close>: from a world that satisfies \<open>P\<close>, \<open>m\<close> leaves a world that satisfies \<open>I\<close>, and
  \<open>Q\<close> together with its result if it succeeds.
\<close>

definition triple :: "('w \<Rightarrow> bool) \<Rightarrow> ('w \<Rightarrow> bool) \<Rightarrow> ('w, 'a) op \<Rightarrow> ('a \<Rightarrow> 'w \<Rightarrow> bool) \<Rightarrow> bool" where
  "triple I P m Q \<longleftrightarrow>
     (\<forall>w. P w \<longrightarrow> I (snd (m w)) \<and> (\<forall>a. fst (m w) = Inr a \<longrightarrow> Q a (snd (m w))))"

lemma tripleI:
  "(\<And>w. P w \<Longrightarrow> I (snd (m w))) \<Longrightarrow> (\<And>w a. P w \<Longrightarrow> fst (m w) = Inr a \<Longrightarrow> Q a (snd (m w))) \<Longrightarrow> triple I P m Q"
  by (auto simp: triple_def)

lemma triple_inv: "triple I P m Q \<Longrightarrow> P w \<Longrightarrow> I (snd (m w))"
  by (simp add: triple_def)

lemma triple_result: "triple I P m Q \<Longrightarrow> P w \<Longrightarrow> m w = (Inr a, w') \<Longrightarrow> I w' \<and> Q a w'"
  by (metis fst_conv snd_conv triple_def)

lemma triple_pre: "triple I P m Q \<Longrightarrow> (\<And>w. P' w \<Longrightarrow> P w) \<Longrightarrow> triple I P' m Q"
  by (simp add: triple_def)

lemma triple_post: "triple I P m Q \<Longrightarrow> (\<And>a w. Q a w \<Longrightarrow> Q' a w) \<Longrightarrow> triple I P m Q'"
  by (auto simp: triple_def)

lemma triple_ensures: "triple I I m (\<lambda>a w. I w \<and> Q a) \<longleftrightarrow> ensures I m Q"
  by (auto simp: triple_def ensures_def)

lemma triple_weak: "triple I P m Q \<Longrightarrow> triple I P m (\<lambda>_. I)"
  by (auto simp: triple_def)

lemma triple_ret: "(\<And>w. P w \<Longrightarrow> I w \<and> Q a w) \<Longrightarrow> triple I P (ret a) Q"
  by (simp add: triple_def)

lemma triple_throw: "(\<And>w. P w \<Longrightarrow> I w) \<Longrightarrow> triple I P (throw e) Q"
  by (simp add: triple_def)

lemma triple_handle:
  assumes "triple I P m Q" and "\<And>e. triple I I (h e) R" and "\<And>a. triple I (Q a) (k a) R"
  shows "triple I P (handle m h k) R"
  unfolding triple_def
proof (intro allI impI)
  fix w assume P: "P w"
  obtain r w' where m: "m w = (r, w')" by fastforce
  show "I (snd (handle m h k w)) \<and>
      (\<forall>b. fst (handle m h k w) = Inr b \<longrightarrow> R b (snd (handle m h k w)))"
  proof (cases r)
    case (Inl e)
    with m triple_inv [OF assms(1) P] assms(2) [of e] show ?thesis
      by (simp add: handle_def triple_def)
  next
    case (Inr a)
    with m triple_result [OF assms(1) P, of a w'] assms(3) [of a] show ?thesis
      by (simp add: handle_def triple_def)
  qed
qed

lemma triple_andThen:
  "triple I P m Q \<Longrightarrow> (\<And>a. triple I (Q a) (k a) R) \<Longrightarrow> triple I P (andThen m k) R"
  unfolding andThen_def by (rule triple_handle [OF _ triple_throw])

lemma triple_total:
  "(\<And>w. P w \<Longrightarrow> I (snd (f w)) \<and> Q (fst (f w)) (snd (f w))) \<Longrightarrow> triple I P (total f) Q"
  by (fastforce simp: triple_def total_def split: prod.splits)

lemma triple_if:
  "(c \<Longrightarrow> triple I P a Q) \<Longrightarrow> (\<not> c \<Longrightarrow> triple I P b Q) \<Longrightarrow> triple I P (if c then a else b) Q"
  by simp

end
