(* ===== verification/Json_Value.thy ===== *)
theory Json_Value
  imports Effects
begin

text \<open>
  Raw JSON messages (\<open>json.RawMessage\<close> and the byte slices that reach \<open>json.Unmarshal\<close>) and the
  decoding of an object into a Go struct whose fields are strings, which is all that the session,
  workflow and publish packages decode themselves.

  A message is one of three things to the code: it has no bytes, its bytes are not a JSON document
  (then the decoder returns an error with some text), or it is a document, given by its value.
\<close>

datatype json =
    JNull
  | JBool bool
  | JNumber string
  | JString string
  | JArray "json list"
  | JObject "(string \<times> json) list"

datatype raw = RawEmpty | RawMalformed string | RawDoc json

text \<open>\<open>len(message) == 0\<close>\<close>

definition raw_empty :: "raw \<Rightarrow> bool" where
  "raw_empty r \<longleftrightarrow> r = RawEmpty"

text \<open>
  The decoder matches an object's keys with the field names up to case; the long s and the Kelvin
  sign fold to \<open>s\<close> and \<open>k\<close>.
\<close>

definition ascii_lower :: "char \<Rightarrow> char" where
  "ascii_lower c = (if 65 \<le> (of_char c :: nat) \<and> (of_char c :: nat) \<le> 90
     then char_of (of_char c + (32 :: nat)) else c)"

fun fold_name :: "string \<Rightarrow> string" where
  "fold_name [] = []"
| "fold_name (c # cs) =
     (case cs of
        d # es \<Rightarrow>
          if c = CHR 0xC5 \<and> d = CHR 0xBF then CHR ''s'' # fold_name es
          else (case es of
                  e # fs \<Rightarrow>
                    if c = CHR 0xE2 \<and> d = CHR 0x84 \<and> e = CHR 0xAA then CHR ''k'' # fold_name fs
                    else ascii_lower c # fold_name cs
                | [] \<Rightarrow> ascii_lower c # fold_name cs)
      | [] \<Rightarrow> [ascii_lower c])"

fun json_kind :: "json \<Rightarrow> string" where
  "json_kind JNull = ''null''"
| "json_kind (JBool b) = ''bool''"
| "json_kind (JNumber n) = ''number''"
| "json_kind (JString s) = ''string''"
| "json_kind (JArray xs) = ''array''"
| "json_kind (JObject fs) = ''object''"

text \<open>The text of \<open>json.UnmarshalTypeError\<close> without the name of the Go type it ends with.\<close>

definition type_error :: "json \<Rightarrow> err" where
  "type_error j = Text (''json: cannot unmarshal '' @ json_kind j @ '' into Go value'')"

definition field_matches :: "string \<Rightarrow> string \<times> json \<Rightarrow> bool" where
  "field_matches name f \<longleftrightarrow> fold_name (fst f) = fold_name name"

text \<open>A string field keeps its zero value on \<open>null\<close>; the last value of a repeated key counts.\<close>

definition string_field :: "(string \<times> json) list \<Rightarrow> string \<Rightarrow> string" where
  "string_field fs name =
     foldl (\<lambda>v f. if field_matches name f then (case snd f of JString s \<Rightarrow> s | _ \<Rightarrow> v) else v) [] fs"

fun bad_field :: "string list \<Rightarrow> string \<times> json \<Rightarrow> bool" where
  "bad_field names (k, JNull) = False"
| "bad_field names (k, JString s) = False"
| "bad_field names (k, v) = list_ex (\<lambda>n. field_matches n (k, v)) names"

text \<open>
  \<open>json.Unmarshal\<close> into a struct with the string fields \<open>names\<close>; the result maps a field to its
  value.
\<close>

fun decode_strings :: "string list \<Rightarrow> raw \<Rightarrow> err + (string \<Rightarrow> string)" where
  "decode_strings names RawEmpty = Inl (Text ''unexpected end of JSON input'')"
| "decode_strings names (RawMalformed t) = Inl (Text t)"
| "decode_strings names (RawDoc JNull) = Inr (\<lambda>n. [])"
| "decode_strings names (RawDoc (JObject fs)) =
     (case find (bad_field names) fs of
        Some f \<Rightarrow> Inl (type_error (snd f))
      | None \<Rightarrow> Inr (string_field fs))"
| "decode_strings names (RawDoc j) = Inl (type_error j)"

lemma decode_strings_nonempty: "decode_strings names r = Inr f \<Longrightarrow> r \<noteq> RawEmpty"
  by auto

section \<open>Reading a value\<close>

fun jfield :: "string \<Rightarrow> json \<Rightarrow> json" where
  "jfield k (JObject fs) = (case map_of fs k of Some v \<Rightarrow> v | None \<Rightarrow> JNull)"
| "jfield k _ = JNull"

fun jelements :: "json \<Rightarrow> json list" where
  "jelements (JArray xs) = xs"
| "jelements _ = []"

fun jtext :: "json \<Rightarrow> string" where
  "jtext (JString s) = s"
| "jtext _ = []"

fun jentries :: "json \<Rightarrow> (string \<times> json) list" where
  "jentries (JObject fs) = fs"
| "jentries _ = []"

declare jfield.simps(1) [simp del]

text \<open>The text at a path of field names.\<close>

definition name_at :: "string list \<Rightarrow> json \<Rightarrow> string" where
  "name_at path j = jtext (fold jfield path j)"

end
