(* ===== verification/Session_Types.thy ===== *)
theory Session_Types
  imports Json_Value
begin

text \<open>
  The data of the packages session (\<open>internal/session/types.go\<close>) and workload
  (\<open>internal/workload/types.go\<close>), and the interfaces \<open>Repository\<close> and \<open>Runtime\<close> that session
  control is built from, each a record of operations on the world \<open>'w\<close>.

  Go's string enumerations are datatypes; an \<open>Other\<close> constructor stands for the remaining strings
  where the code has a default branch.  The workload package declares its own copies of \<open>Storage\<close>,
  \<open>ResultKind\<close>, \<open>Skill\<close>, \<open>ChangeArtifact\<close> and \<open>ChangeInput\<close> with the same fields; both copies are one
  type here.  Instants and durations are integers counting nanoseconds.
\<close>

datatype Storage = StorageEphemeral | StoragePersistent | StorageOther string

datatype ResultKind =
    ResultKindPullRequest
  | ResultKindWorkflowOutput
  | ResultKindWorkflowChange
  | ResultKindOther string

record ChangeArtifact =
  ca_SHA256 :: string
  ca_Bytes :: int

record ChangeInput =
  ci_Session :: string
  ci_Artifact :: ChangeArtifact

datatype TaskState =
    TaskPending
  | TaskRunning
  | TaskCompleted
  | TaskBlocked
  | TaskFailed
  | TaskCanceled

record Skill =
  sk_Name :: string
  sk_Contents :: string

record Definition =
  def_Agent :: string
  def_Storage :: Storage
  def_Instructions :: string
  def_Skills :: "Skill list"
  def_SetupCommand :: string
  def_CloneDepth :: int
  def_StorageSize :: string
  def_Timeout :: int

record StartRequest =
  req_Name :: string
  req_Repository :: string
  req_InitialRef :: string
  req_Prompt :: string
  req_Timeout :: int
  req_ResultKind :: ResultKind
  req_WorkflowRun :: string
  req_WorkflowStep :: string
  req_ChangeInput :: "ChangeInput option"

record StartResult =
  res_Agent :: string
  res_Name :: string
  res_TaskID :: string

record ContinueRequest =
  cont_Name :: string
  cont_Prompt :: string
  cont_Timeout :: int

record TaskResult =
  tr_Name :: string
  tr_TaskID :: string

record Status =
  st_Name :: string
  st_TaskID :: string
  st_State :: TaskState

record Artifacts =
  art_Outcome :: raw
  art_PullRequest :: raw
  art_WorkflowOutput :: raw
  art_Change :: "ChangeArtifact option"

record Deletion =
  del_Storage :: bool

record Record =
  rec_Name :: string
  rec_IntentID :: string
  rec_RuntimeScope :: string
  rec_Image :: string
  rec_Definition :: Definition
  rec_Repository :: string
  rec_InitialRef :: string
  rec_WorkflowRun :: string
  rec_WorkflowStep :: string
  rec_Deletion :: "Deletion option"
  rec_CreatedAt :: int

record Task =
  task_ID :: string
  task_Prompt :: string
  task_Timeout :: int
  task_ResultKind :: ResultKind
  task_ChangeInput :: "ChangeInput option"
  task_State :: TaskState
  task_Artifacts :: Artifacts
  task_Failure :: string
  task_CreatedAt :: int
  task_FinishedAt :: "int option"

record PublicationSource =
  src_Repository :: string
  src_InitialRef :: string
  src_Image :: string
  src_PullRequest :: raw
  src_Change :: "ChangeArtifact option"

definition no_artifacts :: Artifacts where
  "no_artifacts = \<lparr>art_Outcome = RawEmpty, art_PullRequest = RawEmpty,
     art_WorkflowOutput = RawEmpty, art_Change = None\<rparr>"

section \<open>What the runtime is asked and what it reports\<close>

record TaskRequest =
  tq_SessionName :: string
  tq_TaskName :: string
  tq_Image :: string
  tq_Storage :: Storage
  tq_Repository :: string
  tq_InitialRef :: string
  tq_SetupCommand :: string
  tq_Prompt :: string
  tq_AgentName :: string
  tq_Instructions :: string
  tq_Skills :: "Skill list"
  tq_CloneDepth :: int
  tq_StorageSize :: string
  tq_Timeout :: int
  tq_ResultKind :: ResultKind
  tq_WorkflowRun :: string
  tq_WorkflowStep :: string
  tq_ChangeInput :: "ChangeInput option"
  tq_Resume :: bool
  tq_RepositoryCredential :: string

datatype TaskPhase =
    PhasePending
  | PhaseRunning
  | PhaseSucceeded
  | PhaseFailed
  | PhaseOther string

record TaskArtifacts =
  ta_Outcome :: raw
  ta_PullRequest :: raw
  ta_WorkflowOutput :: raw
  ta_Change :: "ChangeArtifact option"

record TaskObservation =
  obs_Phase :: TaskPhase
  obs_Artifacts :: TaskArtifacts
  obs_Failure :: string

section \<open>Interfaces\<close>

text \<open>\<open>session.Repository\<close>\<close>

record 'w SessionRepository =
  sr_Create :: "Record \<Rightarrow> Task \<Rightarrow> ('w, unit) op"
  sr_Get :: "string \<Rightarrow> ('w, Record) op"
  sr_AddTask :: "string \<Rightarrow> Task \<Rightarrow> ('w, unit) op"
  sr_LatestTask :: "string \<Rightarrow> ('w, Task) op"
  sr_UpdateTask :: "string \<Rightarrow> Task \<Rightarrow> ('w, unit) op"
  sr_BeginDeletion :: "string \<Rightarrow> bool \<Rightarrow> ('w, unit) op"
  sr_FinishDeletion :: "string \<Rightarrow> bool \<Rightarrow> ('w, unit) op"
  sr_Deleting :: "('w, Record list) op"

text \<open>\<open>session.Runtime\<close>; the writer that \<open>WriteLogs\<close> is given is part of the world.\<close>

record 'w SessionRuntime =
  rt_Scope :: string
  rt_Start :: "TaskRequest \<Rightarrow> ('w, unit) op"
  rt_Observe :: "string \<Rightarrow> string \<Rightarrow> ('w, TaskObservation) op"
  rt_WriteLogs :: "string \<Rightarrow> string \<Rightarrow> bool \<Rightarrow> ('w, unit) op"
  rt_Delete :: "string \<Rightarrow> bool \<Rightarrow> ('w, unit) op"

text \<open>
  The dependencies of \<open>session.Control\<close>.  Besides the fields of the struct: \<open>sc_sha256\<close> is
  \<open>sha256.Sum256\<close> and \<open>sc_marshalIntent\<close> the JSON text of the anonymous struct that
  \<open>taskIntentID\<close> encodes.
\<close>

record 'w SessionControl =
  sc_repository :: "'w SessionRepository"
  sc_runtime :: "'w SessionRuntime"
  sc_repositoryAuth :: "('w, string) op option"
  sc_image :: string
  sc_taskTimeout :: int
  sc_newTaskID :: "('w, string) op"
  sc_now :: "'w \<Rightarrow> int \<times> 'w"
  sc_sha256 :: "string \<Rightarrow> string"
  sc_marshalIntent :: "Definition \<Rightarrow> StartRequest \<Rightarrow> string \<Rightarrow> string \<Rightarrow> string"

end
