(* ===== verification/Workflow_Types.thy ===== *)
theory Workflow_Types
  imports Session_Types
begin

text \<open>
  The data of the package workflow (\<open>internal/workflow/types.go\<close>) and its interfaces
  \<open>Repository\<close>, \<open>Catalog\<close> and \<open>sessionOperations\<close>.
\<close>

datatype State =
    StatePending
  | StateRunning
  | StateCompleted
  | StateBlocked
  | StateFailed
  | StateCanceled
  | StateDeleting

datatype StepState =
    StepPending
  | StepStarting
  | StepRunning
  | StepCompleted
  | StepBlocked
  | StepFailed
  | StepCanceled
  | StepSkipped

record WorkflowRequest =
  wq_Workflow :: string
  wq_Name :: string
  wq_Repository :: string
  wq_Ref :: string
  wq_Prompt :: string

record Step =
  step_Name :: string
  step_Agent :: string
  step_Prompt :: string
  step_After :: "string list"
  step_ChangeFrom :: string
  step_Publishable :: bool
  step_Session :: string
  step_State :: StepState
  step_Summary :: string
  step_Blocker :: string
  step_Output :: raw
  step_Change :: "ChangeArtifact option"
  step_Cleaned :: bool
  step_StartedAt :: "int option"
  step_FinishedAt :: "int option"

record Run =
  run_Version :: string
  run_Name :: string
  run_Workflow :: string
  run_Description :: string
  run_Repository :: string
  run_Ref :: string
  run_Prompt :: string
  run_Intent :: string
  run_MaxParallelism :: int
  run_State :: State
  run_CancelRequested :: bool
  run_Steps :: "(string \<times> Step) list"
  run_CreatedAt :: int
  run_UpdatedAt :: int
  run_Revision :: int

record RunArtifacts =
  ra_Name :: string
  ra_Outputs :: "(string \<times> raw) list"
  ra_Changes :: "(string \<times> ChangeArtifact) list"
  ra_PublishableSession :: string

record StepDefinition =
  sd_Name :: string
  sd_Agent :: string
  sd_Prompt :: string
  sd_After :: "string list"
  sd_ChangeFrom :: string
  sd_Publishable :: bool
  sd_SessionDefinition :: Definition

record WorkflowDefinition =
  wd_Name :: string
  wd_Description :: string
  wd_MaxParallelism :: int
  wd_Steps :: "(string \<times> StepDefinition) list"

record WorkflowSummary =
  ws_Name :: string
  ws_Description :: string
  ws_MaxParallelism :: int
  ws_Steps :: nat

section \<open>Interfaces\<close>

record WorkflowCatalog =
  cat_List :: "WorkflowSummary list"
  cat_Find :: "string \<Rightarrow> WorkflowDefinition option"

record 'w RunRepository =
  wr_Create :: "Run \<Rightarrow> (string \<times> Definition) list \<Rightarrow> ('w, Run) op"
  wr_Update :: "Run \<Rightarrow> ('w, Run) op"
  wr_Run :: "string \<Rightarrow> ('w, Run) op"
  wr_Runs :: "('w, Run list) op"
  wr_SessionDefinition :: "string \<Rightarrow> string \<Rightarrow> ('w, Definition) op"
  wr_Delete :: "string \<Rightarrow> ('w, unit) op"

record 'w SessionOperations =
  so_Start :: "Definition \<Rightarrow> StartRequest \<Rightarrow> ('w, StartResult) op"
  so_Status :: "string \<Rightarrow> ('w, Status) op"
  so_Artifacts :: "string \<Rightarrow> ('w, Artifacts) op"
  so_Delete :: "string \<Rightarrow> ('w, unit) op"
  so_Destroy :: "string \<Rightarrow> ('w, unit) op"

text \<open>The values that \<open>workflowIntent\<close> encodes and hashes.\<close>

record IntentStep =
  is_Name :: string
  is_Agent :: string
  is_Prompt :: string
  is_After :: "string list"
  is_ChangeFrom :: string
  is_Publishable :: bool

record WorkflowIntent =
  wi_Request :: WorkflowRequest
  wi_Description :: string
  wi_MaxParallelism :: int
  wi_Steps :: "IntentStep list"

text \<open>
  The dependencies of \<open>workflow.Control\<close>.  Besides the fields of the struct: \<open>sha256.Sum256\<close> and the
  two JSON texts that the code makes, of the intent and of the outputs in a step's prompt.
\<close>

record 'w WorkflowControl =
  wc_repository :: "'w RunRepository"
  wc_sessions :: "'w SessionOperations"
  wc_catalog :: "WorkflowCatalog option"
  wc_now :: "'w \<Rightarrow> int \<times> 'w"
  wc_sha256 :: "string \<Rightarrow> string"
  wc_marshalIntent :: "WorkflowIntent \<Rightarrow> string"
  wc_marshalOutputs :: "(string \<times> raw) list \<Rightarrow> string"

end
