(* ===== verification/Publish_Types.thy ===== *)
theory Publish_Types
  imports Session_Types
begin

text \<open>
  The data of the package publish (\<open>internal/publish/publish.go\<close>) and the requests that it sends to
  the publisher runtime (\<open>internal/workload/types.go\<close>) and to GitHub (\<open>internal/github\<close>).
\<close>

record PublishRequest =
  pq_Session :: string
  pq_Branch :: string
  pq_BaseBranch :: string
  pq_CommitMessage :: string
  pq_Draft :: bool
  pq_Timeout :: int

record PublishResult =
  pr_PullRequestNumber :: int
  pr_PullRequestURL :: string
  pr_Branch :: string
  pr_CommitSHA :: string

datatype PublishState =
    PublishPending
  | PublishReady
  | PublishBranchPublished
  | PublishPullRequestCreated
  | PublishCompleted
  | PublishConflicted

record PublishRecord =
  pub_Session :: string
  pub_IntentID :: string
  pub_Request :: PublishRequest
  pub_Repository :: string
  pub_Image :: string
  pub_Title :: string
  pub_Body :: string
  pub_Change :: "ChangeArtifact option"
  pub_State :: PublishState
  pub_CommitSHA :: string
  pub_PullRequestNumber :: int
  pub_PullRequestURL :: string
  pub_Failure :: string
  pub_CreatedAt :: int
  pub_UpdatedAt :: int
  pub_Revision :: int

text \<open>\<open>workload.PublishRequest\<close> and \<open>workload.PublishResult\<close>\<close>

record PublisherRequest =
  pe_Session :: string
  pe_IntentID :: string
  pe_Image :: string
  pe_Repository :: string
  pe_RepositoryCredential :: string
  pe_BaseRef :: string
  pe_Branch :: string
  pe_CommitMessage :: string
  pe_AuthorName :: string
  pe_AuthorEmail :: string
  pe_Change :: "ChangeArtifact option"
  pe_Timeout :: int

record PublisherResult =
  po_Branch :: string
  po_CommitSHA :: string

record GitHubRepository =
  repo_owner :: string
  repo_name :: string

record PullRequest =
  pull_Number :: int
  pull_URL :: string

text \<open>\<open>publish.Repository\<close>\<close>

record 'w PublishRepository =
  bp_Create :: "PublishRecord \<Rightarrow> ('w, PublishRecord) op"
  bp_Get :: "string \<Rightarrow> ('w, PublishRecord) op"
  bp_Update :: "PublishRecord \<Rightarrow> ('w, PublishRecord) op"

end
