(* ===== verification/Database.thy ===== *)
theory Database
  imports Workflow_Types Publish_Types
begin

text \<open>
  The SQL database (\<open>internal/storage/schema\<close> and the statements of \<open>internal/storage/sql\<close>): its tables,
  each statement as a function on them, and how a statement or a transaction can fail.

  A column that holds JSON holds the Go value that was encoded.  Rows are lists in the order of
  their insertion; every statement that reads more than one row sorts them.
\<close>

section \<open>Tables\<close>

text \<open>The JSON text of a session definition: \<open>sessionSnapshot\<close> in \<open>storage/workflow.go\<close>.\<close>

record SessionSnapshot =
  snap_Name :: string
  snap_Storage :: Storage
  snap_Instructions :: string
  snap_Skills :: "Skill list"
  snap_SetupCommand :: string
  snap_CloneDepth :: int
  snap_StorageSize :: string
  snap_Timeout :: int

record SessionRow =
  sn_Name :: string
  sn_IntentID :: string
  sn_RuntimeScope :: string
  sn_Image :: string
  sn_Definition :: SessionSnapshot
  sn_Repository :: string
  sn_InitialRef :: string
  sn_WorkflowRun :: string
  sn_WorkflowStep :: string
  sn_DeletionStorage :: "bool option"
  sn_CreatedAt :: int

record TaskRow =
  tk_SessionName :: string
  tk_TaskID :: string
  tk_Prompt :: string
  tk_TimeoutNanoseconds :: int
  tk_ResultKind :: ResultKind
  tk_State :: TaskState
  tk_ChangeInput :: "ChangeInput option"
  tk_Outcome :: raw
  tk_PullRequest :: raw
  tk_WorkflowOutput :: raw
  tk_ChangeArtifact :: "ChangeArtifact option"
  tk_Failure :: string
  tk_CreatedAt :: int
  tk_FinishedAt :: "int option"

record RunRow =
  rr_Name :: string
  rr_Contents :: Run
  rr_Version :: int

record SnapshotRow =
  as_RunName :: string
  as_AgentName :: string
  as_Contents :: SessionSnapshot

record PublicationRow =
  pb_SessionName :: string
  pb_Contents :: PublishRecord
  pb_Version :: int

record Database =
  db_sessions :: "SessionRow list"
  db_tasks :: "TaskRow list"
  db_runs :: "RunRow list"
  db_snapshots :: "SnapshotRow list"
  db_publications :: "PublicationRow list"

definition emptyDatabase :: Database where
  "emptyDatabase = \<lparr>db_sessions = [], db_tasks = [], db_runs = [], db_snapshots = [], db_publications = []\<rparr>"

section \<open>Worlds, faults and transactions\<close>

text \<open>
  A statement may fail for reasons outside the database: before it took effect, or after, when the
  answer was lost.  The driver of the environment decides.
\<close>

datatype Fault = NoFault | FailBefore string | FailAfter string

record 'e world =
  w_db :: Database
  w_env :: 'e

type_synonym 'a stmt = "Database \<Rightarrow> (err + 'a) \<times> Database"

definition exec :: "('e \<Rightarrow> Fault \<times> 'e) \<Rightarrow> 'a stmt \<Rightarrow> ('e world, 'a) op" where
  "exec driver s w =
     (case driver (w_env w) of
        (NoFault, env) \<Rightarrow> (case s (w_db w) of (r, db) \<Rightarrow> (r, \<lparr>w_db = db, w_env = env\<rparr>))
      | (FailBefore t, env) \<Rightarrow> (Inl (Text t), \<lparr>w_db = w_db w, w_env = env\<rparr>)
      | (FailAfter t, env) \<Rightarrow> (Inl (Text t), \<lparr>w_db = snd (s (w_db w)), w_env = env\<rparr>))"

text \<open>
  \<open>BeginTx\<close>, the body, \<open>Commit\<close>, with the deferred \<open>Rollback\<close>: a body that fails leaves the database
  as it was.
\<close>

definition transaction ::
  "('e \<Rightarrow> Fault \<times> 'e) \<Rightarrow> (err \<Rightarrow> err) \<Rightarrow> (err \<Rightarrow> err) \<Rightarrow> ('e world, 'a) op \<Rightarrow> ('e world, 'a) op" where
  "transaction driver beginErr commitErr body w =
     (case driver (w_env w) of
        (NoFault, env) \<Rightarrow>
          (case body (w\<lparr>w_env := env\<rparr>) of
             (Inl e, w') \<Rightarrow> (Inl e, w'\<lparr>w_db := w_db w\<rparr>)
           | (Inr a, w') \<Rightarrow>
               (case driver (w_env w') of
                  (NoFault, env') \<Rightarrow> (Inr a, w'\<lparr>w_env := env'\<rparr>)
                | (FailBefore t, env') \<Rightarrow>
                    (Inl (commitErr (Text t)), \<lparr>w_db = w_db w, w_env = env'\<rparr>)
                | (FailAfter t, env') \<Rightarrow> (Inl (commitErr (Text t)), w'\<lparr>w_env := env'\<rparr>)))
      | (FailBefore t, env) \<Rightarrow> (Inl (beginErr (Text t)), w\<lparr>w_env := env\<rparr>)
      | (FailAfter t, env) \<Rightarrow> (Inl (beginErr (Text t)), w\<lparr>w_env := env\<rparr>))"

text \<open>An operation that only concerns the environment.\<close>

definition lift_env :: "('e, 'a) op \<Rightarrow> ('e world, 'a) op" where
  "lift_env m w = (case m (w_env w) of (r, env) \<Rightarrow> (r, w\<lparr>w_env := env\<rparr>))"

section \<open>Statements\<close>

definition constraint :: "string \<Rightarrow> err" where
  "constraint t = Text (''constraint failed: '' @ t)"

text \<open>Statements that return one row: \<open>sql.ErrNoRows\<close> without a match.\<close>

definition one_row :: "('r \<Rightarrow> bool) \<Rightarrow> 'r list \<Rightarrow> err + 'r" where
  "one_row P rows = (case find P rows of None \<Rightarrow> Inl (Sentinel ErrNoRows) | Some r \<Rightarrow> Inr r)"

definition affected :: "('r \<Rightarrow> bool) \<Rightarrow> 'r list \<Rightarrow> int" where
  "affected P rows = int (length (filter P rows))"

definition update_rows :: "('r \<Rightarrow> bool) \<Rightarrow> ('r \<Rightarrow> 'r) \<Rightarrow> 'r list \<Rightarrow> 'r list" where
  "update_rows P f rows = map (\<lambda>r. if P r then f r else r) rows"

definition sessionExists :: "Database \<Rightarrow> string \<Rightarrow> bool" where
  "sessionExists db name \<longleftrightarrow> list_ex (\<lambda>r. sn_Name r = name) (db_sessions db)"

definition activeTask :: "string \<Rightarrow> TaskRow \<Rightarrow> bool" where
  "activeTask name t \<longleftrightarrow> tk_SessionName t = name \<and> (tk_State t = TaskPending \<or> tk_State t = TaskRunning)"

subsection \<open>Sessions\<close>

definition CreateSession :: "SessionRow \<Rightarrow> int stmt" where
  "CreateSession row db =
     (if sessionExists db (sn_Name row) then (Inr 0, db)
      else (Inr 1, db\<lparr>db_sessions := db_sessions db @ [row\<lparr>sn_DeletionStorage := None\<rparr>]\<rparr>))"

definition GetSession :: "string \<Rightarrow> SessionRow stmt" where
  "GetSession name db = (one_row (\<lambda>r. sn_Name r = name) (db_sessions db), db)"

definition ListDeletingSessions :: "SessionRow list stmt" where
  "ListDeletingSessions db =
     (Inr (sort_key sn_Name (filter (\<lambda>r. sn_DeletionStorage r \<noteq> None) (db_sessions db))), db)"

definition SetSessionDeletion :: "string \<Rightarrow> bool \<Rightarrow> int stmt" where
  "SetSessionDeletion name storage db =
     (let P = (\<lambda>r. sn_Name r = name \<and>
                    (sn_DeletionStorage r = None \<or> sn_DeletionStorage r = Some storage))
      in (Inr (affected P (db_sessions db)),
          db\<lparr>db_sessions := update_rows P (\<lambda>r. r\<lparr>sn_DeletionStorage := Some storage\<rparr>) (db_sessions db)\<rparr>))"

definition ClearSessionDeletion :: "string \<Rightarrow> int stmt" where
  "ClearSessionDeletion name db =
     (let P = (\<lambda>r. sn_Name r = name)
      in (Inr (affected P (db_sessions db)),
          db\<lparr>db_sessions := update_rows P (\<lambda>r. r\<lparr>sn_DeletionStorage := None\<rparr>) (db_sessions db)\<rparr>))"

text \<open>Deleting a session deletes its tasks and its publication (\<open>ON DELETE CASCADE\<close>).\<close>

definition DeleteSession :: "string \<Rightarrow> int stmt" where
  "DeleteSession name db =
     (Inr (affected (\<lambda>r. sn_Name r = name) (db_sessions db)),
      db\<lparr>db_sessions := filter (\<lambda>r. sn_Name r \<noteq> name) (db_sessions db),
         db_tasks := filter (\<lambda>t. tk_SessionName t \<noteq> name) (db_tasks db),
         db_publications := filter (\<lambda>p. pb_SessionName p \<noteq> name) (db_publications db)\<rparr>)"

subsection \<open>Tasks\<close>

definition CreateSessionTask :: "TaskRow \<Rightarrow> unit stmt" where
  "CreateSessionTask row db =
     (if \<not> sessionExists db (tk_SessionName row)
      then (Inl (constraint ''session_tasks.session_name''), db)
      else if list_ex (\<lambda>t. tk_SessionName t = tk_SessionName row \<and> tk_TaskID t = tk_TaskID row) (db_tasks db)
      then (Inl (constraint ''session_tasks.task_id''), db)
      else if activeTask (tk_SessionName row) row \<and> list_ex (activeTask (tk_SessionName row)) (db_tasks db)
      then (Inl (constraint ''session_tasks_one_active''), db)
      else (Inr (), db\<lparr>db_tasks := db_tasks db @ [row]\<rparr>))"

definition newerTask :: "TaskRow \<Rightarrow> TaskRow \<Rightarrow> bool" where
  "newerTask a b \<longleftrightarrow>
     tk_CreatedAt b < tk_CreatedAt a \<or> tk_CreatedAt a = tk_CreatedAt b \<and> tk_TaskID b < tk_TaskID a"

fun newestTask :: "TaskRow list \<Rightarrow> TaskRow option" where
  "newestTask [] = None"
| "newestTask (t # ts) =
     (case newestTask ts of None \<Rightarrow> Some t | Some u \<Rightarrow> if newerTask u t then Some u else Some t)"

definition GetLatestSessionTask :: "string \<Rightarrow> TaskRow stmt" where
  "GetLatestSessionTask name db =
     ((case newestTask (filter (\<lambda>t. tk_SessionName t = name) (db_tasks db)) of
         None \<Rightarrow> Inl (Sentinel ErrNoRows) | Some t \<Rightarrow> Inr t), db)"

definition CountActiveSessionTasks :: "string \<Rightarrow> int stmt" where
  "CountActiveSessionTasks name db = (Inr (affected (activeTask name) (db_tasks db)), db)"

text \<open>
  The update of a task's progress.  The unique index is checked on the result: a task cannot become
  active while another one of its session is.
\<close>

definition progressOf :: "TaskRow \<Rightarrow> TaskRow \<Rightarrow> TaskRow" where
  "progressOf p t =
     t\<lparr>tk_State := tk_State p, tk_Outcome := tk_Outcome p, tk_PullRequest := tk_PullRequest p,
       tk_WorkflowOutput := tk_WorkflowOutput p, tk_ChangeArtifact := tk_ChangeArtifact p,
       tk_Failure := tk_Failure p, tk_FinishedAt := tk_FinishedAt p\<rparr>"

definition UpdateSessionTask :: "TaskRow \<Rightarrow> int stmt" where
  "UpdateSessionTask p db =
     (let P = (\<lambda>t. tk_SessionName t = tk_SessionName p \<and> tk_TaskID t = tk_TaskID p);
          tasks = update_rows P (progressOf p) (db_tasks db)
      in if affected (activeTask (tk_SessionName p)) tasks > 1
         then (Inl (constraint ''session_tasks_one_active''), db)
         else (Inr (affected P (db_tasks db)), db\<lparr>db_tasks := tasks\<rparr>))"

subsection \<open>Workflow runs\<close>

definition runExists :: "Database \<Rightarrow> string \<Rightarrow> bool" where
  "runExists db name \<longleftrightarrow> list_ex (\<lambda>r. rr_Name r = name) (db_runs db)"

definition CreateRun :: "string \<Rightarrow> Run \<Rightarrow> RunRow stmt" where
  "CreateRun name contents db =
     (if runExists db name then (Inl (constraint ''workflow_runs.name''), db)
      else let row = \<lparr>rr_Name = name, rr_Contents = contents, rr_Version = 1\<rparr>
           in (Inr row, db\<lparr>db_runs := db_runs db @ [row]\<rparr>))"

definition GetRun :: "string \<Rightarrow> RunRow stmt" where
  "GetRun name db = (one_row (\<lambda>r. rr_Name r = name) (db_runs db), db)"

definition ListRuns :: "RunRow list stmt" where
  "ListRuns db = (Inr (sort_key rr_Name (db_runs db)), db)"

definition UpdateRun :: "string \<Rightarrow> Run \<Rightarrow> int \<Rightarrow> RunRow stmt" where
  "UpdateRun name contents version db =
     (let P = (\<lambda>r. rr_Name r = name \<and> rr_Version r = version);
          f = (\<lambda>r. r\<lparr>rr_Contents := contents, rr_Version := rr_Version r + 1\<rparr>)
      in (map_sum id f (one_row P (db_runs db)), db\<lparr>db_runs := update_rows P f (db_runs db)\<rparr>))"

definition CreateAgentSnapshot :: "SnapshotRow \<Rightarrow> unit stmt" where
  "CreateAgentSnapshot row db =
     (if \<not> runExists db (as_RunName row)
      then (Inl (constraint ''workflow_agent_snapshots.run_name''), db)
      else if list_ex (\<lambda>s. as_RunName s = as_RunName row \<and> as_AgentName s = as_AgentName row) (db_snapshots db)
      then (Inl (constraint ''workflow_agent_snapshots.agent_name''), db)
      else (Inr (), db\<lparr>db_snapshots := db_snapshots db @ [row]\<rparr>))"

definition GetAgentSnapshot :: "string \<Rightarrow> string \<Rightarrow> SessionSnapshot stmt" where
  "GetAgentSnapshot run agent db =
     (map_sum id as_Contents
        (one_row (\<lambda>s. as_RunName s = run \<and> as_AgentName s = agent) (db_snapshots db)), db)"

definition DeleteRun :: "string \<Rightarrow> int stmt" where
  "DeleteRun name db =
     (Inr (affected (\<lambda>r. rr_Name r = name) (db_runs db)),
      db\<lparr>db_runs := filter (\<lambda>r. rr_Name r \<noteq> name) (db_runs db),
         db_snapshots := filter (\<lambda>s. as_RunName s \<noteq> name) (db_snapshots db)\<rparr>)"

subsection \<open>Publications\<close>

definition CreatePublication :: "string \<Rightarrow> PublishRecord \<Rightarrow> PublicationRow stmt" where
  "CreatePublication name contents db =
     (if \<not> sessionExists db name then (Inl (constraint ''publications.session_name''), db)
      else if list_ex (\<lambda>p. pb_SessionName p = name) (db_publications db)
      then (Inl (constraint ''publications.session_name''), db)
      else let row = \<lparr>pb_SessionName = name, pb_Contents = contents, pb_Version = 1\<rparr>
           in (Inr row, db\<lparr>db_publications := db_publications db @ [row]\<rparr>))"

definition GetPublication :: "string \<Rightarrow> PublicationRow stmt" where
  "GetPublication name db = (one_row (\<lambda>p. pb_SessionName p = name) (db_publications db), db)"

definition UpdatePublication :: "string \<Rightarrow> PublishRecord \<Rightarrow> int \<Rightarrow> PublicationRow stmt" where
  "UpdatePublication name contents version db =
     (let P = (\<lambda>p. pb_SessionName p = name \<and> pb_Version p = version);
          f = (\<lambda>p. p\<lparr>pb_Contents := contents, pb_Version := pb_Version p + 1\<rparr>)
      in (map_sum id f (one_row P (db_publications db)),
          db\<lparr>db_publications := update_rows P f (db_publications db)\<rparr>))"

end
