(* ===== verification/Storage.thy ===== *)
theory Storage
  imports Database
begin

text \<open>
  The repositories of \<open>internal/storage\<close> on the database: \<open>session.go\<close>, \<open>workflow.go\<close> and
  \<open>publish.go\<close>.  The parameter \<open>driver\<close> decides which statements fail.
\<close>

section \<open>Encodings\<close>

definition encodeSessionDefinition :: "Definition \<Rightarrow> SessionSnapshot" where
  "encodeSessionDefinition d =
     \<lparr>snap_Name = def_Agent d, snap_Storage = def_Storage d, snap_Instructions = def_Instructions d,
      snap_Skills = def_Skills d, snap_SetupCommand = def_SetupCommand d,
      snap_CloneDepth = def_CloneDepth d, snap_StorageSize = def_StorageSize d,
      snap_Timeout = def_Timeout d\<rparr>"

definition decodeSessionDefinition :: "SessionSnapshot \<Rightarrow> Definition" where
  "decodeSessionDefinition s =
     \<lparr>def_Agent = snap_Name s, def_Storage = snap_Storage s, def_Instructions = snap_Instructions s,
      def_Skills = snap_Skills s, def_SetupCommand = snap_SetupCommand s,
      def_CloneDepth = snap_CloneDepth s, def_StorageSize = snap_StorageSize s,
      def_Timeout = snap_Timeout s\<rparr>"

definition sessionParams :: "Record \<Rightarrow> SessionRow" where
  "sessionParams r =
     \<lparr>sn_Name = rec_Name r, sn_IntentID = rec_IntentID r, sn_RuntimeScope = rec_RuntimeScope r,
      sn_Image = rec_Image r, sn_Definition = encodeSessionDefinition (rec_Definition r),
      sn_Repository = rec_Repository r, sn_InitialRef = rec_InitialRef r,
      sn_WorkflowRun = rec_WorkflowRun r, sn_WorkflowStep = rec_WorkflowStep r,
      sn_DeletionStorage = None, sn_CreatedAt = rec_CreatedAt r\<rparr>"

definition decodeSession :: "SessionRow \<Rightarrow> Record" where
  "decodeSession r =
     \<lparr>rec_Name = sn_Name r, rec_IntentID = sn_IntentID r, rec_RuntimeScope = sn_RuntimeScope r,
      rec_Image = sn_Image r, rec_Definition = decodeSessionDefinition (sn_Definition r),
      rec_Repository = sn_Repository r, rec_InitialRef = sn_InitialRef r,
      rec_WorkflowRun = sn_WorkflowRun r, rec_WorkflowStep = sn_WorkflowStep r,
      rec_Deletion = map_option (\<lambda>b. \<lparr>del_Storage = b\<rparr>) (sn_DeletionStorage r),
      rec_CreatedAt = sn_CreatedAt r\<rparr>"

definition sessionTaskParams :: "string \<Rightarrow> Task \<Rightarrow> TaskRow" where
  "sessionTaskParams name t =
     \<lparr>tk_SessionName = name, tk_TaskID = task_ID t, tk_Prompt = task_Prompt t,
      tk_TimeoutNanoseconds = task_Timeout t, tk_ResultKind = task_ResultKind t,
      tk_State = task_State t, tk_ChangeInput = task_ChangeInput t,
      tk_Outcome = art_Outcome (task_Artifacts t), tk_PullRequest = art_PullRequest (task_Artifacts t),
      tk_WorkflowOutput = art_WorkflowOutput (task_Artifacts t),
      tk_ChangeArtifact = art_Change (task_Artifacts t), tk_Failure = task_Failure t,
      tk_CreatedAt = task_CreatedAt t, tk_FinishedAt = task_FinishedAt t\<rparr>"

definition decodeSessionTask :: "TaskRow \<Rightarrow> Task" where
  "decodeSessionTask r =
     \<lparr>task_ID = tk_TaskID r, task_Prompt = tk_Prompt r, task_Timeout = tk_TimeoutNanoseconds r,
      task_ResultKind = tk_ResultKind r, task_ChangeInput = tk_ChangeInput r, task_State = tk_State r,
      task_Artifacts = \<lparr>art_Outcome = tk_Outcome r, art_PullRequest = tk_PullRequest r,
                        art_WorkflowOutput = tk_WorkflowOutput r, art_Change = tk_ChangeArtifact r\<rparr>,
      task_Failure = tk_Failure r, task_CreatedAt = tk_CreatedAt r, task_FinishedAt = tk_FinishedAt r\<rparr>"

text \<open>
  \<open>json.Marshal\<close> of a run: it leaves the revision out and fails on a step output that is not JSON.
\<close>

definition malformed :: "raw \<Rightarrow> bool" where
  "malformed r \<longleftrightarrow> (case r of RawMalformed t \<Rightarrow> True | _ \<Rightarrow> False)"

definition encodeRun :: "Run \<Rightarrow> err + Run" where
  "encodeRun run =
     (if list_ex (\<lambda>e. malformed (step_Output (snd e))) (run_Steps run)
      then Inl (errorf (''encode workflow run '' @ run_Name run)
             (Text ''json: error calling MarshalJSON for type json.RawMessage''))
      else Inr (run\<lparr>run_Revision := 0\<rparr>))"

definition decodeRun :: "RunRow \<Rightarrow> err + Run" where
  "decodeRun row =
     (let run = rr_Contents row
      in if run_Version run \<noteq> ''v1'' \<or> run_Name run \<noteq> rr_Name row
         then Inl (Text (''workflow run '' @ rr_Name row @ '' has an invalid durable definition''))
         else Inr (run\<lparr>run_Revision := rr_Version row\<rparr>))"

definition decodePublication :: "PublicationRow \<Rightarrow> err + PublishRecord" where
  "decodePublication row =
     (let r = pb_Contents row
      in if pub_Session r \<noteq> pb_SessionName row
         then Inl (Text (''publication for session '' @ pb_SessionName row @ '' has an invalid durable identity''))
         else Inr (r\<lparr>pub_Revision := pb_Version row\<rparr>))"

definition lift :: "err + 'a \<Rightarrow> ('w, 'a) op" where
  "lift r = (case r of Inl e \<Rightarrow> throw e | Inr a \<Rightarrow> ret a)"

section \<open>Sessions\<close>

definition sessions_Create :: "('e \<Rightarrow> Fault \<times> 'e) \<Rightarrow> Record \<Rightarrow> Task \<Rightarrow> ('e world, unit) op" where
  "sessions_Create driver rec t =
     transaction driver
       (errorf (''begin session '' @ rec_Name rec @ '' creation''))
       (errorf (''commit session '' @ rec_Name rec @ '' creation''))
       (handle (exec driver (CreateSession (sessionParams rec)))
          (\<lambda>e. throw (errorf (''create session '' @ rec_Name rec) e))
          (\<lambda>created.
             if created = 0 then throw (Sentinel SessionErrConflict)
             else handle (exec driver (CreateSessionTask (sessionTaskParams (rec_Name rec) t)))
               (\<lambda>e. throw (errorf (''create session '' @ rec_Name rec @ '' initial task'') e)) ret))"

definition sessions_Get :: "('e \<Rightarrow> Fault \<times> 'e) \<Rightarrow> string \<Rightarrow> ('e world, Record) op" where
  "sessions_Get driver name =
     handle (exec driver (GetSession name))
       (\<lambda>e. if errors_is e ErrNoRows then throw (Sentinel SessionErrNotFound)
            else throw (errorf (''get session '' @ name) e))
       (\<lambda>row. ret (decodeSession row))"

definition sessions_AddTask :: "('e \<Rightarrow> Fault \<times> 'e) \<Rightarrow> string \<Rightarrow> Task \<Rightarrow> ('e world, unit) op" where
  "sessions_AddTask driver name t =
     handle (exec driver (CountActiveSessionTasks name))
       (\<lambda>e. throw (errorf (''check session '' @ name @ '' active tasks'') e))
       (\<lambda>active.
          if active > 0 then throw (Sentinel SessionErrActiveTask)
          else handle (exec driver (GetSession name))
            (\<lambda>e. if errors_is e ErrNoRows then throw (Sentinel SessionErrNotFound)
                 else throw (errorf (''get session '' @ name @ '' before adding task'') e))
            (\<lambda>_. handle (exec driver (CreateSessionTask (sessionTaskParams name t)))
               (\<lambda>e. handle (exec driver (CountActiveSessionTasks name))
                  (\<lambda>_. throw (errorf (''create session '' @ name @ '' task '' @ task_ID t) e))
                  (\<lambda>active. if active > 0 then throw (Sentinel SessionErrActiveTask)
                            else throw (errorf (''create session '' @ name @ '' task '' @ task_ID t) e)))
               ret))"

definition sessions_LatestTask :: "('e \<Rightarrow> Fault \<times> 'e) \<Rightarrow> string \<Rightarrow> ('e world, Task) op" where
  "sessions_LatestTask driver name =
     handle (exec driver (GetLatestSessionTask name))
       (\<lambda>e. if errors_is e ErrNoRows then throw (Sentinel SessionErrNotFound)
            else throw (errorf (''get session '' @ name @ '' latest task'') e))
       (\<lambda>row. ret (decodeSessionTask row))"

text \<open>Statements that have to affect a row: \<open>session.ErrNotFound\<close> when they affect none.\<close>

definition require_row :: "('w, int) op \<Rightarrow> (err \<Rightarrow> err) \<Rightarrow> sentinel \<Rightarrow> ('w, unit) op" where
  "require_row m wrap missing =
     handle m (\<lambda>e. throw (wrap e)) (\<lambda>n. if n = 0 then throw (Sentinel missing) else ret ())"

definition sessions_UpdateTask :: "('e \<Rightarrow> Fault \<times> 'e) \<Rightarrow> string \<Rightarrow> Task \<Rightarrow> ('e world, unit) op" where
  "sessions_UpdateTask driver name t =
     require_row (exec driver (UpdateSessionTask (sessionTaskParams name t)))
       (errorf (''update session '' @ name @ '' task '' @ task_ID t)) SessionErrNotFound"

definition sessions_BeginDeletion :: "('e \<Rightarrow> Fault \<times> 'e) \<Rightarrow> string \<Rightarrow> bool \<Rightarrow> ('e world, unit) op" where
  "sessions_BeginDeletion driver name storage =
     handle (exec driver (SetSessionDeletion name storage))
       (\<lambda>e. throw (errorf (''record session '' @ name @ '' deletion'') e))
       (\<lambda>updated.
          if updated > 0 then ret ()
          else handle (sessions_Get driver name)
            (\<lambda>e. if errors_is e SessionErrNotFound then throw (Sentinel SessionErrNotFound) else throw e)
            (\<lambda>rec. case rec_Deletion rec of
                None \<Rightarrow> ret ()
              | Some del \<Rightarrow>
                  if del_Storage del \<noteq> storage then throw (Sentinel SessionErrConflict) else ret ()))"

definition sessions_FinishDeletion :: "('e \<Rightarrow> Fault \<times> 'e) \<Rightarrow> string \<Rightarrow> bool \<Rightarrow> ('e world, unit) op" where
  "sessions_FinishDeletion driver name removeRecord =
     require_row
       (exec driver (if removeRecord then DeleteSession name else ClearSessionDeletion name))
       (errorf (''finish session '' @ name @ '' deletion'')) SessionErrNotFound"

definition sessions_Deleting :: "('e \<Rightarrow> Fault \<times> 'e) \<Rightarrow> ('e world, Record list) op" where
  "sessions_Deleting driver =
     handle (exec driver ListDeletingSessions)
       (\<lambda>e. throw (errorf ''list deleting sessions'' e))
       (\<lambda>rows. ret (map decodeSession rows))"

definition sessionRepository :: "('e \<Rightarrow> Fault \<times> 'e) \<Rightarrow> 'e world SessionRepository" where
  "sessionRepository driver =
     \<lparr>sr_Create = sessions_Create driver, sr_Get = sessions_Get driver,
      sr_AddTask = sessions_AddTask driver, sr_LatestTask = sessions_LatestTask driver,
      sr_UpdateTask = sessions_UpdateTask driver, sr_BeginDeletion = sessions_BeginDeletion driver,
      sr_FinishDeletion = sessions_FinishDeletion driver, sr_Deleting = sessions_Deleting driver\<rparr>"

section \<open>Workflow runs\<close>

definition createSnapshot ::
  "('e \<Rightarrow> Fault \<times> 'e) \<Rightarrow> string \<Rightarrow> (string \<times> Definition) list \<Rightarrow> string \<Rightarrow> unit \<Rightarrow> ('e world, unit) op" where
  "createSnapshot driver run ds name u =
     (case map_of ds name of
        None \<Rightarrow> ret ()
      | Some d \<Rightarrow>
          handle (exec driver (CreateAgentSnapshot
              \<lparr>as_RunName = run, as_AgentName = name, as_Contents = encodeSessionDefinition d\<rparr>))
            (\<lambda>e. throw (errorf (''create workflow run '' @ run @ '' agent '' @ name @ '' snapshot'') e)) ret)"

definition runs_Create ::
  "('e \<Rightarrow> Fault \<times> 'e) \<Rightarrow> Run \<Rightarrow> (string \<times> Definition) list \<Rightarrow> ('e world, Run) op" where
  "runs_Create driver run ds =
     (case encodeRun run of
        Inl e \<Rightarrow> throw e
      | Inr contents \<Rightarrow>
          transaction driver (errorf ''begin workflow run creation'')
            (errorf (''commit workflow run '' @ run_Name run @ '' creation''))
            (handle (exec driver (CreateRun (run_Name run) contents))
               (\<lambda>e. throw (errorf (''create workflow run '' @ run_Name run) e))
               (\<lambda>row. andThen (for_each (createSnapshot driver (run_Name run) ds) (sorted_keys ds) ())
                  (\<lambda>_. ret (run\<lparr>run_Revision := rr_Version row\<rparr>)))))"

definition runs_Update :: "('e \<Rightarrow> Fault \<times> 'e) \<Rightarrow> Run \<Rightarrow> ('e world, Run) op" where
  "runs_Update driver run =
     (case encodeRun run of
        Inl e \<Rightarrow> throw e
      | Inr contents \<Rightarrow>
          handle (exec driver (UpdateRun (run_Name run) contents (run_Revision run)))
            (\<lambda>e. if errors_is e ErrNoRows then throw (Sentinel ErrConcurrentUpdate)
                 else throw (errorf (''update workflow run '' @ run_Name run) e))
            (\<lambda>row. ret (run\<lparr>run_Revision := rr_Version row\<rparr>)))"

definition runs_Run :: "('e \<Rightarrow> Fault \<times> 'e) \<Rightarrow> string \<Rightarrow> ('e world, Run) op" where
  "runs_Run driver name =
     handle (exec driver (GetRun name))
       (\<lambda>e. if errors_is e ErrNoRows then throw (Sentinel ErrRunNotFound)
            else throw (errorf (''get workflow run '' @ name) e))
       (\<lambda>row. lift (decodeRun row))"

fun decodeRuns :: "RunRow list \<Rightarrow> err + Run list" where
  "decodeRuns [] = Inr []"
| "decodeRuns (row # rows) =
     (case decodeRun row of
        Inl e \<Rightarrow> Inl e
      | Inr run \<Rightarrow> map_sum id (\<lambda>runs. run # runs) (decodeRuns rows))"

definition runs_Runs :: "('e \<Rightarrow> Fault \<times> 'e) \<Rightarrow> ('e world, Run list) op" where
  "runs_Runs driver =
     handle (exec driver ListRuns)
       (\<lambda>e. throw (errorf ''list workflow runs'' e))
       (\<lambda>rows. lift (decodeRuns rows))"

definition runs_SessionDefinition ::
  "('e \<Rightarrow> Fault \<times> 'e) \<Rightarrow> string \<Rightarrow> string \<Rightarrow> ('e world, Definition) op" where
  "runs_SessionDefinition driver run agent =
     handle (exec driver (GetAgentSnapshot run agent))
       (\<lambda>e. if errors_is e ErrNoRows then throw (Sentinel ErrRunNotFound)
            else throw (errorf (''get workflow run '' @ run @ '' agent '' @ agent @ '' snapshot'') e))
       (\<lambda>contents.
          let d = decodeSessionDefinition contents
          in if def_Agent d \<noteq> agent
             then throw (Text (''workflow run '' @ run @ '' agent '' @ agent @ '' snapshot has an invalid name''))
             else ret d)"

definition runs_Delete :: "('e \<Rightarrow> Fault \<times> 'e) \<Rightarrow> string \<Rightarrow> ('e world, unit) op" where
  "runs_Delete driver name =
     require_row (exec driver (DeleteRun name)) (errorf (''delete workflow run '' @ name)) ErrRunNotFound"

definition runRepository :: "('e \<Rightarrow> Fault \<times> 'e) \<Rightarrow> 'e world RunRepository" where
  "runRepository driver =
     \<lparr>wr_Create = runs_Create driver, wr_Update = runs_Update driver, wr_Run = runs_Run driver,
      wr_Runs = runs_Runs driver, wr_SessionDefinition = runs_SessionDefinition driver,
      wr_Delete = runs_Delete driver\<rparr>"

section \<open>Publications\<close>

definition publications_Create :: "('e \<Rightarrow> Fault \<times> 'e) \<Rightarrow> PublishRecord \<Rightarrow> ('e world, PublishRecord) op" where
  "publications_Create driver r =
     handle (exec driver (CreatePublication (pub_Session r) r))
       (\<lambda>e. handle (exec driver (GetPublication (pub_Session r)))
          (\<lambda>_. throw (errorf (''create publication for session '' @ pub_Session r) e))
          (\<lambda>_. throw (Sentinel PublishErrConflict)))
       (\<lambda>row. lift (decodePublication row))"

definition publications_Get :: "('e \<Rightarrow> Fault \<times> 'e) \<Rightarrow> string \<Rightarrow> ('e world, PublishRecord) op" where
  "publications_Get driver name =
     handle (exec driver (GetPublication name))
       (\<lambda>e. if errors_is e ErrNoRows then throw (Sentinel PublishErrNotFound)
            else throw (errorf (''get publication for session '' @ name) e))
       (\<lambda>row. lift (decodePublication row))"

definition publications_Update :: "('e \<Rightarrow> Fault \<times> 'e) \<Rightarrow> PublishRecord \<Rightarrow> ('e world, PublishRecord) op" where
  "publications_Update driver r =
     handle (exec driver (UpdatePublication (pub_Session r) r (pub_Revision r)))
       (\<lambda>e. if errors_is e ErrNoRows then throw (Sentinel PublishErrConflict)
            else throw (errorf (''update publication for session '' @ pub_Session r) e))
       (\<lambda>row. lift (decodePublication row))"

definition publishRepository :: "('e \<Rightarrow> Fault \<times> 'e) \<Rightarrow> 'e world PublishRepository" where
  "publishRepository driver =
     \<lparr>bp_Create = publications_Create driver, bp_Get = publications_Get driver,
      bp_Update = publications_Update driver\<rparr>"

end
