(* ===== verification/Storage_Facts.thy ===== *)
theory Storage_Facts
  imports Storage
begin

text \<open>
  What the repositories guarantee: the constraints of the schema hold after every statement, a
  statement changes only its own tables, and the rows that a repository reads and writes are the
  values its client gave it.
\<close>

section \<open>Operations on the database only\<close>

lemma exec_ensures:
  fixes driver :: "'e \<Rightarrow> Fault \<times> 'e"
  assumes "\<And>db. P db \<Longrightarrow> P (snd (s db))" and "\<And>db a. P db \<Longrightarrow> fst (s db) = Inr a \<Longrightarrow> Q a"
  shows "ensures (\<lambda>w. P (w_db w)) (exec driver s) Q"
  unfolding ensures_def
proof (intro allI impI)
  fix w :: "'e world" assume "P (w_db w)"
  then show "P (w_db (snd (exec driver s w))) \<and> (\<forall>a. fst (exec driver s w) = Inr a \<longrightarrow> Q a)"
    using assms(1) [of "w_db w"] assms(2) [of "w_db w"]
    by (auto simp: exec_def split: prod.splits Fault.splits)
qed

lemma transaction_ensures:
  fixes driver :: "'e \<Rightarrow> Fault \<times> 'e"
  assumes "ensures (\<lambda>w. P (w_db w)) body Q"
  shows "ensures (\<lambda>w. P (w_db w)) (transaction driver be ce body) Q"
  unfolding ensures_def
proof (intro allI impI)
  fix w :: "'e world" assume P: "P (w_db w)"
  have body: "P (w_db w') \<and> (\<forall>a. r = Inr a \<longrightarrow> Q a)" if "body (w\<lparr>w_env := env\<rparr>) = (r, w')" for env r w'
    using assms P that by (auto simp: ensures_def dest!: spec [of _ "w\<lparr>w_env := env\<rparr>"])
  show "P (w_db (snd (transaction driver be ce body w))) \<and>
      (\<forall>a. fst (transaction driver be ce body w) = Inr a \<longrightarrow> Q a)"
    using P by (auto simp: transaction_def split: prod.splits Fault.splits sum.splits dest: body)
qed

lemma lift_env_ensures: "ensures (\<lambda>w. P (w_db w)) (lift_env m) (\<lambda>_. True)"
  by (auto simp: ensures_def lift_env_def split: prod.splits)

lemma lift_ensures: "(\<And>a. r = Inr a \<Longrightarrow> Q a) \<Longrightarrow> ensures I (lift r) Q"
  by (cases r) (auto simp: lift_def intro: ensures_ret ensures_throw)

lemma require_row_ensures: "ensures I m (\<lambda>_. True) \<Longrightarrow> ensures I (require_row m wrap s) (\<lambda>_. True)"
  unfolding require_row_def
  by (erule ensures_handle) (auto intro: ensures_throw ensures_ret)

section \<open>Round trips\<close>

lemma decode_encode_definition [simp]: "decodeSessionDefinition (encodeSessionDefinition d) = d"
  by (simp add: decodeSessionDefinition_def encodeSessionDefinition_def)

lemma decode_session_params [simp]: "decodeSession (sessionParams r) = r\<lparr>rec_Deletion := None\<rparr>"
  by (simp add: decodeSession_def sessionParams_def)

lemma decode_task_params [simp]: "decodeSessionTask (sessionTaskParams name t) = t"
  by (simp add: decodeSessionTask_def sessionTaskParams_def)

lemma decode_progress:
  "decodeSessionTask (progressOf (sessionTaskParams name t) row) =
     (decodeSessionTask row)\<lparr>task_State := task_State t, task_Artifacts := task_Artifacts t,
       task_Failure := task_Failure t, task_FinishedAt := task_FinishedAt t\<rparr>"
  by (simp add: decodeSessionTask_def sessionTaskParams_def progressOf_def)

section \<open>Rows\<close>

lemma one_row_Inr: "one_row P rows = Inr r \<Longrightarrow> r \<in> set rows \<and> P r"
  by (auto simp: one_row_def find_Some_iff split: option.splits)

lemma one_row_Inl: "one_row P rows = Inl e \<Longrightarrow> e = Sentinel ErrNoRows \<and> (\<forall>r \<in> set rows. \<not> P r)"
  by (auto simp: one_row_def find_None_iff split: option.splits)

lemma set_update_rows: "set (update_rows P f rows) = {r \<in> set rows. \<not> P r} \<union> f ` {r \<in> set rows. P r}"
  by (auto simp: update_rows_def)

lemma map_update_rows:
  "(\<And>r. P r \<Longrightarrow> g (f r) = g r) \<Longrightarrow> map g (update_rows P f rows) = map g rows"
  by (auto simp: update_rows_def)

lemma newestTask_Some: "newestTask ts = Some t \<Longrightarrow> t \<in> set ts"
  by (induction ts arbitrary: t) (auto split: option.splits if_splits)

lemma newestTask_None [simp]: "newestTask ts = None \<longleftrightarrow> ts = []"
  by (cases ts) (auto split: option.splits)

text \<open>The latest task: no task of the session was created after it.\<close>

lemma newerTask_irrefl: "\<not> newerTask a a"
  by (simp add: newerTask_def)

lemma newerTask_asym: "newerTask a b \<Longrightarrow> \<not> newerTask b a"
  using less_not_sym [of "tk_TaskID b" "tk_TaskID a"] by (auto simp: newerTask_def)

lemma newerTask_negtrans: "\<not> newerTask a b \<Longrightarrow> \<not> newerTask b c \<Longrightarrow> \<not> newerTask a c"
  using less_trans [of "tk_TaskID c" "tk_TaskID a" "tk_TaskID b"]
    order_trans [of "tk_TaskID a" "tk_TaskID b" "tk_TaskID c"]
  by (auto simp: newerTask_def not_less)

lemma newestTask_max: "newestTask ts = Some t \<Longrightarrow> u \<in> set ts \<Longrightarrow> \<not> newerTask u t"
proof (induction ts arbitrary: t u)
  case Nil
  then show ?case by simp
next
  case (Cons x xs)
  show ?case
  proof (cases "newestTask xs")
    case None
    with Cons.prems show ?thesis by (simp add: newerTask_irrefl)
  next
    case (Some y)
    have y: "\<not> newerTask u y" if "u \<in> set xs" using Cons.IH [OF Some that] .
    show ?thesis
    proof (cases "newerTask y x")
      case True
      with Cons.prems Some have "t = y" by simp
      with True Cons.prems(2) y newerTask_asym show ?thesis by auto
    next
      case False
      with Cons.prems Some have "t = x" by simp
      with False Cons.prems(2) y newerTask_negtrans newerTask_irrefl show ?thesis by auto
    qed
  qed
qed

section \<open>The constraints of the schema\<close>

definition task_key :: "TaskRow \<Rightarrow> string \<times> string" where
  "task_key t = (tk_SessionName t, tk_TaskID t)"

definition snapshot_key :: "SnapshotRow \<Rightarrow> string \<times> string" where
  "snapshot_key s = (as_RunName s, as_AgentName s)"

definition database_ok :: "Database \<Rightarrow> bool" where
  "database_ok db \<longleftrightarrow>
     distinct (map sn_Name (db_sessions db)) \<and> distinct (map task_key (db_tasks db))
     \<and> distinct (map rr_Name (db_runs db)) \<and> distinct (map snapshot_key (db_snapshots db))
     \<and> distinct (map pb_SessionName (db_publications db))
     \<and> (\<forall>t \<in> set (db_tasks db). sessionExists db (tk_SessionName t))
     \<and> (\<forall>p \<in> set (db_publications db). sessionExists db (pb_SessionName p))
     \<and> (\<forall>s \<in> set (db_snapshots db). runExists db (as_RunName s))
     \<and> (\<forall>name. affected (activeTask name) (db_tasks db) \<le> 1)
     \<and> (\<forall>r \<in> set (db_runs db). 0 < rr_Version r) \<and> (\<forall>p \<in> set (db_publications db). 0 < pb_Version p)"

lemma sessionExists_iff: "sessionExists db name \<longleftrightarrow> name \<in> sn_Name ` set (db_sessions db)"
  by (auto simp: sessionExists_def list_ex_iff)

lemma runExists_iff: "runExists db name \<longleftrightarrow> name \<in> rr_Name ` set (db_runs db)"
  by (auto simp: runExists_def list_ex_iff)

lemma affected_append: "affected P (xs @ ys) = affected P xs + affected P ys"
  by (simp add: affected_def)

lemma affected_filter_le: "affected P (filter Q xs) \<le> affected P xs"
  unfolding affected_def by (induction xs) auto

lemma affected_zero: "affected P xs = 0 \<longleftrightarrow> (\<forall>x \<in> set xs. \<not> P x)"
  by (auto simp: affected_def filter_empty_conv)

lemma affected_other:
  assumes "\<And>r. P r \<Longrightarrow> g (f r) = g r"
  shows "affected g (update_rows P f rows) = affected g rows"
  using assms unfolding affected_def update_rows_def by (induction rows) auto

lemma sessions_keys_update:
  assumes "map sn_Name ss' = map sn_Name (db_sessions db)"
  shows "database_ok (db\<lparr>db_sessions := ss'\<rparr>) \<longleftrightarrow> database_ok db"
proof -
  have "sn_Name ` set ss' = sn_Name ` set (db_sessions db)"
    using assms by (metis list.set_map)
  with assms show ?thesis by (simp add: database_ok_def sessionExists_iff runExists_iff)
qed

lemma CreateSession_ok: "database_ok db \<Longrightarrow> database_ok (snd (CreateSession row db))"
  by (auto simp: CreateSession_def database_ok_def sessionExists_iff runExists_iff)

lemma GetSession_db [simp]: "snd (GetSession name db) = db"
  by (simp add: GetSession_def)

lemma ListDeletingSessions_db [simp]: "snd (ListDeletingSessions db) = db"
  by (simp add: ListDeletingSessions_def)

lemma SetSessionDeletion_ok: "database_ok db \<Longrightarrow> database_ok (snd (SetSessionDeletion name storage db))"
  unfolding SetSessionDeletion_def Let_def snd_conv
  by (subst sessions_keys_update) (auto intro: map_update_rows)

lemma ClearSessionDeletion_ok: "database_ok db \<Longrightarrow> database_ok (snd (ClearSessionDeletion name db))"
  unfolding ClearSessionDeletion_def Let_def snd_conv
  by (subst sessions_keys_update) (auto intro: map_update_rows)

lemma DeleteSession_ok:
  assumes "database_ok db"
  shows "database_ok (snd (DeleteSession name db))"
proof -
  have "affected (activeTask n) (filter (\<lambda>t. tk_SessionName t \<noteq> name) (db_tasks db)) \<le> 1" for n
    using assms affected_filter_le [of "activeTask n" "\<lambda>t. tk_SessionName t \<noteq> name" "db_tasks db"]
    by (force simp: database_ok_def intro: order_trans)
  with assms show ?thesis
    by (auto simp: DeleteSession_def database_ok_def sessionExists_iff runExists_iff
        intro: distinct_map_filter)
qed

lemma CreateSessionTask_ok:
  assumes "database_ok db"
  shows "database_ok (snd (CreateSessionTask row db))"
proof -
  have "affected (activeTask n) (db_tasks db @ [row]) \<le> 1"
    if "\<not> (activeTask (tk_SessionName row) row \<and> list_ex (activeTask (tk_SessionName row)) (db_tasks db))" for n
  proof (cases "activeTask n row")
    case True
    then have "n = tk_SessionName row" by (simp add: activeTask_def)
    with True that have "affected (activeTask n) (db_tasks db) = 0"
      by (auto simp: affected_zero list_ex_iff)
    then show ?thesis by (simp add: affected_append) (simp add: affected_def)
  next
    case False
    with assms show ?thesis by (simp add: affected_append database_ok_def) (simp add: affected_def)
  qed
  with assms show ?thesis
    by (auto simp: CreateSessionTask_def database_ok_def sessionExists_iff runExists_iff task_key_def
        list_ex_iff split: if_splits)
qed

lemma GetLatestSessionTask_db [simp]: "snd (GetLatestSessionTask name db) = db"
  by (simp add: GetLatestSessionTask_def)

lemma CountActiveSessionTasks_db [simp]: "snd (CountActiveSessionTasks name db) = db"
  by (simp add: CountActiveSessionTasks_def)

lemma tasks_update:
  assumes ok: "database_ok db" and keys: "map task_key ts = map task_key (db_tasks db)"
    and one: "\<And>n. affected (activeTask n) ts \<le> 1"
  shows "database_ok (db\<lparr>db_tasks := ts\<rparr>)"
proof -
  have "sessionExists db (tk_SessionName t)" if t: "t \<in> set ts" for t
  proof -
    have "task_key t \<in> task_key ` set (db_tasks db)"
      using t keys by (metis imageI list.set_map)
    then obtain u where "u \<in> set (db_tasks db)" "tk_SessionName u = tk_SessionName t"
      by (auto simp: task_key_def)
    with ok show ?thesis by (auto simp: database_ok_def)
  qed
  with ok keys one show ?thesis
    by (simp add: database_ok_def sessionExists_iff runExists_iff)
qed

lemma UpdateSessionTask_ok:
  assumes ok: "database_ok db"
  shows "database_ok (snd (UpdateSessionTask p db))"
proof -
  let ?P = "\<lambda>t. tk_SessionName t = tk_SessionName p \<and> tk_TaskID t = tk_TaskID p"
  let ?tasks = "update_rows ?P (progressOf p) (db_tasks db)"
  show ?thesis
  proof (cases "affected (activeTask (tk_SessionName p)) ?tasks > 1")
    case True
    with ok show ?thesis by (simp add: UpdateSessionTask_def Let_def)
  next
    case False
    have "map task_key ?tasks = map task_key (db_tasks db)"
      by (rule map_update_rows) (auto simp: task_key_def progressOf_def)
    moreover have "affected (activeTask n) ?tasks \<le> 1" for n
    proof (cases "n = tk_SessionName p")
      case other: False
      then have "affected (activeTask n) ?tasks = affected (activeTask n) (db_tasks db)"
        by (intro affected_other) (auto simp: activeTask_def progressOf_def)
      with ok show ?thesis by (simp add: database_ok_def)
    qed (use False in simp)
    ultimately have "database_ok (db\<lparr>db_tasks := ?tasks\<rparr>)" by (rule tasks_update [OF ok])
    with False show ?thesis by (simp add: UpdateSessionTask_def Let_def)
  qed
qed

lemma CreateRun_ok: "database_ok db \<Longrightarrow> database_ok (snd (CreateRun name contents db))"
  by (auto simp: CreateRun_def Let_def database_ok_def sessionExists_iff runExists_iff)

lemma GetRun_db [simp]: "snd (GetRun name db) = db"
  by (simp add: GetRun_def)

lemma ListRuns_db [simp]: "snd (ListRuns db) = db"
  by (simp add: ListRuns_def)

lemma GetAgentSnapshot_db [simp]: "snd (GetAgentSnapshot run agent db) = db"
  by (simp add: GetAgentSnapshot_def)

lemma UpdateRun_ok:
  assumes "database_ok db"
  shows "database_ok (snd (UpdateRun name contents version db))"
proof -
  let ?runs = "update_rows (\<lambda>r. rr_Name r = name \<and> rr_Version r = version)
      (\<lambda>r. r\<lparr>rr_Contents := contents, rr_Version := rr_Version r + 1\<rparr>) (db_runs db)"
  have names: "map rr_Name ?runs = map rr_Name (db_runs db)"
    by (rule map_update_rows) auto
  then have names': "rr_Name ` set ?runs = rr_Name ` set (db_runs db)"
    by (metis list.set_map)
  have "0 < rr_Version r" if "r \<in> set ?runs" for r
    using that assms by (fastforce simp: set_update_rows database_ok_def)
  with assms names names' show ?thesis
    by (simp add: UpdateRun_def Let_def database_ok_def sessionExists_iff runExists_iff)
qed

lemma CreateAgentSnapshot_ok: "database_ok db \<Longrightarrow> database_ok (snd (CreateAgentSnapshot row db))"
  by (auto simp: CreateAgentSnapshot_def database_ok_def sessionExists_iff runExists_iff
      snapshot_key_def list_ex_iff)

lemma DeleteRun_ok: "database_ok db \<Longrightarrow> database_ok (snd (DeleteRun name db))"
  by (auto simp: DeleteRun_def database_ok_def sessionExists_iff runExists_iff intro: distinct_map_filter)

lemma CreatePublication_ok: "database_ok db \<Longrightarrow> database_ok (snd (CreatePublication name contents db))"
  by (auto simp: CreatePublication_def Let_def database_ok_def sessionExists_iff runExists_iff list_ex_iff)

lemma GetPublication_db [simp]: "snd (GetPublication name db) = db"
  by (simp add: GetPublication_def)

lemma UpdatePublication_ok:
  assumes "database_ok db"
  shows "database_ok (snd (UpdatePublication name contents version db))"
proof -
  let ?pubs = "update_rows (\<lambda>p. pb_SessionName p = name \<and> pb_Version p = version)
      (\<lambda>p. p\<lparr>pb_Contents := contents, pb_Version := pb_Version p + 1\<rparr>) (db_publications db)"
  have names: "map pb_SessionName ?pubs = map pb_SessionName (db_publications db)"
    by (rule map_update_rows) auto
  then have names': "pb_SessionName ` set ?pubs = pb_SessionName ` set (db_publications db)"
    by (metis list.set_map)
  have "0 < pb_Version p" if "p \<in> set ?pubs" for p
    using that assms by (fastforce simp: set_update_rows database_ok_def)
  moreover have "sessionExists db (pb_SessionName p)" if "p \<in> set ?pubs" for p
  proof -
    have "pb_SessionName p \<in> pb_SessionName ` set (db_publications db)"
      using that names' by blast
    with assms show ?thesis by (auto simp: database_ok_def)
  qed
  ultimately show ?thesis
    using assms names by (auto simp: UpdatePublication_def Let_def database_ok_def sessionExists_iff runExists_iff)
qed

lemmas statement_ok =
  CreateSession_ok SetSessionDeletion_ok ClearSessionDeletion_ok DeleteSession_ok CreateSessionTask_ok
  UpdateSessionTask_ok CreateRun_ok UpdateRun_ok CreateAgentSnapshot_ok DeleteRun_ok
  CreatePublication_ok UpdatePublication_ok

end
