(* ===== verification/Session_Control.thy ===== *)
theory Session_Control
  imports Session_Types
begin

text \<open>
  Session control (\<open>internal/session/control.go\<close>): one definition per function of the file, over a
  record \<open>SessionControl\<close> of its dependencies.  Each public operation runs under the lock of its
  session (\<open>Control.lock\<close>, modelled in \<open>Session_Locks\<close>), so it is one atomic operation here.
\<close>

section \<open>Errors and validation\<close>

definition sessionError :: "error_kind \<Rightarrow> string \<Rightarrow> err option \<Rightarrow> err" where
  "sessionError k m cause = OpError PkgSession k m cause"

definition unavailable :: "string \<Rightarrow> err \<Rightarrow> err" where
  "unavailable m e = sessionError ErrorUnavailable m (Some e)"

definition taskTerminal :: "TaskState \<Rightarrow> bool" where
  "taskTerminal s \<longleftrightarrow> s = TaskCompleted \<or> s = TaskBlocked \<or> s = TaskFailed \<or> s = TaskCanceled"

lemma taskTerminal_simps [simp]:
  "\<not> taskTerminal TaskPending" "\<not> taskTerminal TaskRunning" "taskTerminal TaskCompleted"
  "taskTerminal TaskBlocked" "taskTerminal TaskFailed" "taskTerminal TaskCanceled"
  by (simp_all add: taskTerminal_def)

definition maxAgentConfigBytes :: nat where
  "maxAgentConfigBytes = 900 * 1024"

definition validateDNSLabel :: "string \<Rightarrow> string \<Rightarrow> nat \<Rightarrow> err option" where
  "validateDNSLabel field value maxLength =
     (if \<not> dns_label value \<or> length value > maxLength
      then Some (Text (field @ '' must be a lowercase DNS label no longer than ''
                       @ itoa (int maxLength) @ '' characters''))
      else None)"

definition validateChangeArtifact :: "ChangeArtifact \<Rightarrow> err option" where
  "validateChangeArtifact a =
     (if \<not> hex_of_length 64 (ca_SHA256 a)
      then Some (Text ''sha256 must contain 64 lowercase hexadecimal characters'')
      else if ca_Bytes a \<le> 0 then Some (Text ''bytes must be greater than zero'')
      else None)"

fun validateSkills :: "string list \<Rightarrow> Skill list \<Rightarrow> err option" where
  "validateSkills names [] = None"
| "validateSkills names (s # ss) =
     (case validateDNSLabel ''skill name'' (sk_Name s) 63 of
        Some e \<Rightarrow> Some e
      | None \<Rightarrow>
          if blank (sk_Contents s)
          then Some (Text (''skill '' @ sk_Name s @ '' contents are required''))
          else if sk_Name s \<in> set names
          then Some (Text (''skill '' @ sk_Name s @ '' is duplicated''))
          else validateSkills (sk_Name s # names) ss)"

definition agentConfigSize :: "string \<Rightarrow> Skill list \<Rightarrow> nat" where
  "agentConfigSize instructions skills =
     length instructions + sum_list (map (\<lambda>s. length (sk_Name s) + length (sk_Contents s)) skills)"

definition validateStorage :: "Storage \<Rightarrow> err option" where
  "validateStorage s =
     (case s of
        StorageEphemeral \<Rightarrow> None
      | StoragePersistent \<Rightarrow> None
      | StorageOther t \<Rightarrow> Some (Text (''unsupported storage '' @ quoted t)))"

definition validateDefinition :: "Definition \<Rightarrow> err option" where
  "validateDefinition d =
     (if def_Agent d = [] then
        if def_Instructions d \<noteq> [] \<or> def_Skills d \<noteq> []
        then Some (Text ''agent name is required for instructions and skills'')
        else validateStorage (def_Storage d)
      else
        case validateDNSLabel ''agent name'' (def_Agent d) 63 of
          Some e \<Rightarrow> Some e
        | None \<Rightarrow>
            if blank (def_Instructions d) then Some (Text ''agent instructions are required'')
            else
              case validateSkills [] (def_Skills d) of
                Some e \<Rightarrow> Some e
              | None \<Rightarrow>
                  if agentConfigSize (def_Instructions d) (def_Skills d) > maxAgentConfigBytes
                  then Some (Text (''instructions and skills exceed ''
                                   @ itoa (int maxAgentConfigBytes) @ '' bytes''))
                  else validateStorage (def_Storage d))"

text \<open>The three guards of \<open>validateStart\<close> on the workflow fields, in their order.\<close>

definition validateWorkflowOwner :: "StartRequest \<Rightarrow> err option" where
  "validateWorkflowOwner r =
     (if (req_WorkflowRun r = []) \<noteq> (req_WorkflowStep r = [])
      then Some (Text ''workflow run and step must be provided together'')
      else if req_WorkflowRun r \<noteq> [] then
        (case validateDNSLabel ''workflow run'' (req_WorkflowRun r) 40 of
           Some e \<Rightarrow> Some e
         | None \<Rightarrow> validateDNSLabel ''workflow step'' (req_WorkflowStep r) 63)
      else None)"

definition validateChangeInput :: "StartRequest \<Rightarrow> err option" where
  "validateChangeInput r =
     (case req_ChangeInput r of
        None \<Rightarrow> None
      | Some input \<Rightarrow>
          if req_WorkflowRun r = []
          then Some (Text ''change input requires a workflow-owned session'')
          else
            case validateDNSLabel ''change input session'' (ci_Session input) 40 of
              Some e \<Rightarrow> Some e
            | None \<Rightarrow>
                if ci_Session input = req_Name r
                then Some (Text ''change input session must differ from the target session'')
                else map_option (errorf ''change input'') (validateChangeArtifact (ci_Artifact input)))"

definition validateResultKind :: "Definition \<Rightarrow> StartRequest \<Rightarrow> err option" where
  "validateResultKind d r =
     (case req_ResultKind r of
        ResultKindPullRequest \<Rightarrow> None
      | ResultKindWorkflowOutput \<Rightarrow> None
      | ResultKindWorkflowChange \<Rightarrow>
          if req_WorkflowRun r = []
          then Some (Text ''workflow change result requires a workflow-owned session'')
          else if def_Storage d \<noteq> StoragePersistent
          then Some (Text ''workflow change result requires persistent storage'')
          else None
      | ResultKindOther k \<Rightarrow> Some (Text (''unsupported result kind '' @ quoted k)))"

definition validateSessionStart :: "Definition \<Rightarrow> StartRequest \<Rightarrow> err option" where
  "validateSessionStart d r = first_error
     [validateDNSLabel ''name'' (req_Name r) 40,
      validateWorkflowOwner r,
      validateChangeInput r,
      check (blank (req_Repository r)) ''repository is required'',
      check (req_InitialRef r = []) ''ref is required'',
      check (def_StorageSize d = []) ''storage size is required'',
      check (def_CloneDepth d < 0) ''clone depth cannot be negative'',
      check (req_Timeout r \<le> 0) ''timeout must be greater than zero'',
      check (blank (req_Prompt r)) ''prompt is required'',
      validateDefinition d,
      validateResultKind d r]"

definition validateName :: "string \<Rightarrow> err option" where
  "validateName name =
     (if blank name then Some (sessionError ErrorInvalid ''session name is required'' None) else None)"

section \<open>Intents and runtime requests\<close>

definition taskIntentID :: "'w SessionControl \<Rightarrow> Definition \<Rightarrow> StartRequest \<Rightarrow> string" where
  "taskIntentID c d r =
     hex_encode (sc_sha256 c (sc_marshalIntent c d r (rt_Scope (sc_runtime c)) (sc_image c)))"

definition initialIntent :: "'w SessionControl \<Rightarrow> Definition \<Rightarrow> StartRequest \<Rightarrow> 'w \<Rightarrow> (Record \<times> Task) \<times> 'w" where
  "initialIntent c d r w =
     (case sc_now c w of (now, w') \<Rightarrow>
       ((\<lparr>rec_Name = req_Name r, rec_IntentID = taskIntentID c d r,
          rec_RuntimeScope = rt_Scope (sc_runtime c), rec_Image = sc_image c, rec_Definition = d,
          rec_Repository = req_Repository r, rec_InitialRef = req_InitialRef r,
          rec_WorkflowRun = req_WorkflowRun r, rec_WorkflowStep = req_WorkflowStep r,
          rec_Deletion = None, rec_CreatedAt = now\<rparr>,
         \<lparr>task_ID = req_Name r, task_Prompt = req_Prompt r, task_Timeout = req_Timeout r,
          task_ResultKind = req_ResultKind r, task_ChangeInput = req_ChangeInput r,
          task_State = TaskPending, task_Artifacts = no_artifacts, task_Failure = [],
          task_CreatedAt = now, task_FinishedAt = None\<rparr>), w'))"

definition taskRequest :: "Record \<Rightarrow> Task \<Rightarrow> bool \<Rightarrow> string \<Rightarrow> TaskRequest" where
  "taskRequest rec t resume credential =
     \<lparr>tq_SessionName = rec_Name rec, tq_TaskName = task_ID t, tq_Image = rec_Image rec,
      tq_Storage = def_Storage (rec_Definition rec), tq_Repository = rec_Repository rec,
      tq_InitialRef = rec_InitialRef rec, tq_SetupCommand = def_SetupCommand (rec_Definition rec),
      tq_Prompt = task_Prompt t, tq_AgentName = def_Agent (rec_Definition rec),
      tq_Instructions = def_Instructions (rec_Definition rec),
      tq_Skills = def_Skills (rec_Definition rec),
      tq_CloneDepth = def_CloneDepth (rec_Definition rec),
      tq_StorageSize = def_StorageSize (rec_Definition rec), tq_Timeout = task_Timeout t,
      tq_ResultKind = task_ResultKind t, tq_WorkflowRun = rec_WorkflowRun rec,
      tq_WorkflowStep = rec_WorkflowStep rec, tq_ChangeInput = task_ChangeInput t,
      tq_Resume = resume, tq_RepositoryCredential = credential\<rparr>"

definition taskArtifacts :: "TaskArtifacts \<Rightarrow> Artifacts" where
  "taskArtifacts a =
     \<lparr>art_Outcome = ta_Outcome a, art_PullRequest = ta_PullRequest a,
      art_WorkflowOutput = ta_WorkflowOutput a, art_Change = ta_Change a\<rparr>"

definition repositoryCredential :: "'w SessionControl \<Rightarrow> ('w, string) op" where
  "repositoryCredential c =
     (case sc_repositoryAuth c of None \<Rightarrow> ret [] | Some token \<Rightarrow> token)"

section \<open>Observation\<close>

text \<open>
  The checks of \<open>applyObservation\<close> on what a completed task of each kind must report.
\<close>

definition requiredArtifacts :: "ResultKind \<Rightarrow> Storage \<Rightarrow> TaskArtifacts \<Rightarrow> err option" where
  "requiredArtifacts kind storage a =
     (case kind of
        ResultKindPullRequest \<Rightarrow>
          if raw_empty (ta_PullRequest a)
          then Some (Text ''completed task did not report pull request metadata'')
          else (case ta_Change a of
                  Some ch \<Rightarrow>
                    if storage = StoragePersistent
                    then map_option (errorf ''validate retained change metadata'')
                           (validateChangeArtifact ch)
                    else None
                | None \<Rightarrow> None)
      | ResultKindWorkflowOutput \<Rightarrow>
          check (raw_empty (ta_WorkflowOutput a)) ''completed task did not report workflow output''
      | ResultKindWorkflowChange \<Rightarrow>
          if raw_empty (ta_WorkflowOutput a)
          then Some (Text ''completed workflow change task did not report workflow output'')
          else (case ta_Change a of
                  None \<Rightarrow>
                    Some (Text ''completed workflow change task did not report retained change metadata'')
                | Some ch \<Rightarrow>
                    map_option (errorf ''validate retained change metadata'')
                      (validateChangeArtifact ch))
      | ResultKindOther k \<Rightarrow> None)"

text \<open>
  \<open>applyObservation\<close> writes through a pointer, so it returns the task as it left it together with
  its error, if any.
\<close>

definition applyOutcome :: "Task \<Rightarrow> TaskObservation \<Rightarrow> Storage \<Rightarrow> int \<Rightarrow> Task \<times> err option" where
  "applyOutcome t obs storage now =
     (case decode_strings [''status''] (ta_Outcome (obs_Artifacts obs)) of
        Inl e \<Rightarrow> (t, Some (errorf ''decode outcome artifact'' e))
      | Inr outcome \<Rightarrow>
          let status = outcome ''status'';
              finish = (\<lambda>t'. t'\<lparr>task_Artifacts := taskArtifacts (obs_Artifacts obs),
                              task_Failure := obs_Failure obs, task_FinishedAt := Some now\<rparr>)
          in if status = ''completed'' then
               (let t' = t\<lparr>task_State := TaskCompleted\<rparr>
                in case requiredArtifacts (task_ResultKind t) storage (obs_Artifacts obs) of
                     Some e \<Rightarrow> (t', Some e)
                   | None \<Rightarrow> (finish t', None))
             else if status = ''blocked'' then (finish (t\<lparr>task_State := TaskBlocked\<rparr>), None)
             else if status = ''failed'' then (finish (t\<lparr>task_State := TaskFailed\<rparr>), None)
             else (t, Some (Text (''unsupported outcome status '' @ quoted status))))"

definition applyObservation :: "Task \<Rightarrow> TaskObservation \<Rightarrow> Storage \<Rightarrow> int \<Rightarrow> Task \<times> err option" where
  "applyObservation t obs storage now =
     (case obs_Phase obs of
        PhasePending \<Rightarrow> (t\<lparr>task_State := TaskPending, task_Failure := obs_Failure obs\<rparr>, None)
      | PhaseRunning \<Rightarrow> (t\<lparr>task_State := TaskRunning, task_Failure := obs_Failure obs\<rparr>, None)
      | PhaseFailed \<Rightarrow>
          (t\<lparr>task_State := TaskFailed, task_Artifacts := taskArtifacts (obs_Artifacts obs),
             task_Failure := obs_Failure obs, task_FinishedAt := Some now\<rparr>, None)
      | PhaseSucceeded \<Rightarrow> applyOutcome t obs storage now
      | PhaseOther p \<Rightarrow>
          (t, Some (Text (''runtime returned unsupported task phase '' @ quoted p))))"

definition session_lookup :: "'w SessionControl \<Rightarrow> string \<Rightarrow> ('w, Record) op" where
  "session_lookup c name =
     handle (sr_Get (sc_repository c) name)
       (\<lambda>e. if errors_is e SessionErrNotFound
            then throw (sessionError ErrorNotFound (''session '' @ name @ '' does not exist'') (Some e))
            else throw (unavailable ''read session failed'' e))
       (\<lambda>rec. if rec_RuntimeScope rec \<noteq> rt_Scope (sc_runtime c)
              then throw (sessionError ErrorConflict ''session belongs to a different runtime scope'' None)
              else ret rec)"

definition failTask :: "Task \<Rightarrow> err \<Rightarrow> int \<Rightarrow> Task" where
  "failTask t e now =
     t\<lparr>task_State := TaskFailed, task_Failure := error_text e, task_FinishedAt := Some now\<rparr>"

text \<open>The task that \<open>synchronizeLatestTask\<close> stores for an observation.\<close>

definition observedTask :: "'w SessionControl \<Rightarrow> Record \<Rightarrow> Task \<Rightarrow> TaskObservation \<Rightarrow> 'w \<Rightarrow> Task \<times> 'w" where
  "observedTask c rec t obs w =
     (case sc_now c w of (now, w1) \<Rightarrow>
        case applyObservation t obs (def_Storage (rec_Definition rec)) now of
          (t', None) \<Rightarrow> (t', w1)
        | (t', Some e) \<Rightarrow> (case sc_now c w1 of (now', w2) \<Rightarrow> (failTask t' e now', w2)))"

definition synchronizeLatestTask :: "'w SessionControl \<Rightarrow> Record \<Rightarrow> ('w, Task) op" where
  "synchronizeLatestTask c rec =
     handle (sr_LatestTask (sc_repository c) (rec_Name rec))
       (\<lambda>e. throw (unavailable ''read session task failed'' e))
       (\<lambda>t. if taskTerminal (task_State t) then ret t
            else handle (rt_Observe (sc_runtime c) (rec_Name rec) (task_ID t))
              (\<lambda>e. throw (unavailable ''observe session task failed'' e))
              (\<lambda>obs. andThen (total (observedTask c rec t obs))
                 (\<lambda>t'. handle (sr_UpdateTask (sc_repository c) (rec_Name rec) t')
                    (\<lambda>e. throw (unavailable ''record session task observation failed'' e))
                    (\<lambda>_. ret t'))))"

section \<open>Start\<close>

text \<open>The defaults that \<open>Start\<close> fills in before it validates the request.\<close>

definition startDefaults :: "Definition \<Rightarrow> StartRequest \<Rightarrow> StartRequest" where
  "startDefaults d r =
     r\<lparr>req_InitialRef := (if req_InitialRef r = [] then ''main'' else req_InitialRef r),
       req_Timeout := (if req_Timeout r = 0 then def_Timeout d else req_Timeout r),
       req_ResultKind := (if req_ResultKind r = ResultKindOther [] then ResultKindPullRequest
                          else req_ResultKind r)\<rparr>"

text \<open>
  \<open>Start\<close> up to its runtime call: record the intent, or take over the session that already owns the
  name when it has the same intent.
\<close>

definition recordIntent ::
  "'w SessionControl \<Rightarrow> Definition \<Rightarrow> StartRequest \<Rightarrow> Record \<Rightarrow> Task \<Rightarrow> ('w, bool \<times> Record \<times> Task) op" where
  "recordIntent c d r rec t =
     handle (sr_Create (sc_repository c) rec t)
       (\<lambda>e. if \<not> errors_is e SessionErrConflict
            then throw (unavailable ''record session intent failed'' e)
            else handle (sr_Get (sc_repository c) (req_Name r))
              (\<lambda>e. throw (unavailable ''read existing session failed'' e))
              (\<lambda>existing.
                 if rec_IntentID existing \<noteq> taskIntentID c d r
                 then throw (sessionError ErrorConflict
                        (''session '' @ req_Name r @ '' already exists with different inputs'')
                        (Some (Sentinel SessionErrConflict)))
                 else handle (sr_LatestTask (sc_repository c) (req_Name r))
                   (\<lambda>e. throw (unavailable ''read existing session task failed'' e))
                   (\<lambda>latest. ret (False, existing, latest))))
       (\<lambda>_. ret (True, rec, t))"

definition ensureExecution :: "'w SessionControl \<Rightarrow> bool \<times> Record \<times> Task \<Rightarrow> ('w, unit) op" where
  "ensureExecution c p =
     (case p of (created, rec, t) \<Rightarrow>
        if created \<or> \<not> taskTerminal (task_State t) then
          handle (repositoryCredential c)
            (\<lambda>e. throw (unavailable ''prepare repository credential failed'' e))
            (\<lambda>credential. handle (rt_Start (sc_runtime c) (taskRequest rec t False credential))
               (\<lambda>e. throw (unavailable ''start session execution failed'' e))
               (\<lambda>_. ret ()))
        else ret ())"

definition session_Start :: "'w SessionControl \<Rightarrow> Definition \<Rightarrow> StartRequest \<Rightarrow> ('w, StartResult) op" where
  "session_Start c d r0 =
     (let r = startDefaults d r0
      in require (validateSessionStart d r) (\<lambda>e. sessionError ErrorInvalid (error_text e) (Some e))
           (andThen (total (initialIntent c d r))
              (\<lambda>(rec, t). andThen (recordIntent c d r rec t)
                 (\<lambda>p. andThen (ensureExecution c p)
                    (\<lambda>_. ret \<lparr>res_Agent = def_Agent d, res_Name = req_Name r,
                              res_TaskID = task_ID (snd (snd p))\<rparr>)))))"

section \<open>Continue\<close>

definition continuationTask :: "ContinueRequest \<Rightarrow> int \<Rightarrow> string \<Rightarrow> int \<Rightarrow> Task" where
  "continuationTask r timeout taskID now =
     \<lparr>task_ID = cont_Name r @ ''-'' @ taskID, task_Prompt = cont_Prompt r, task_Timeout = timeout,
      task_ResultKind = ResultKindPullRequest, task_ChangeInput = None, task_State = TaskPending,
      task_Artifacts = no_artifacts, task_Failure = [], task_CreatedAt = now, task_FinishedAt = None\<rparr>"

definition validateContinue :: "ContinueRequest \<Rightarrow> int \<Rightarrow> err option" where
  "validateContinue r timeout =
     (if blank (cont_Name r) then Some (sessionError ErrorInvalid ''session name is required'' None)
      else if blank (cont_Prompt r) then Some (sessionError ErrorInvalid ''prompt is required'' None)
      else if timeout \<le> 0
      then Some (sessionError ErrorInvalid ''timeout must be greater than zero'' None)
      else None)"

definition addContinuation ::
  "'w SessionControl \<Rightarrow> ContinueRequest \<Rightarrow> int \<Rightarrow> Record \<Rightarrow> string \<Rightarrow> ('w, TaskResult) op" where
  "addContinuation c r timeout rec taskID =
     andThen (total (sc_now c)) (\<lambda>now.
       let t = continuationTask r timeout taskID now
       in handle (sr_AddTask (sc_repository c) (cont_Name r) t)
            (\<lambda>e. if errors_is e SessionErrActiveTask
                 then throw (sessionError ErrorConflict ''session already has an active task'' (Some e))
                 else throw (unavailable ''record session task failed'' e))
            (\<lambda>_. handle (rt_Start (sc_runtime c) (taskRequest rec t True []))
               (\<lambda>e. throw (unavailable ''start session task failed'' e))
               (\<lambda>_. ret \<lparr>tr_Name = cont_Name r, tr_TaskID = taskID\<rparr>)))"

definition session_Continue :: "'w SessionControl \<Rightarrow> ContinueRequest \<Rightarrow> ('w, TaskResult) op" where
  "session_Continue c r =
     (let timeout = (if cont_Timeout r = 0 then sc_taskTimeout c else cont_Timeout r)
      in require (validateContinue r timeout) (\<lambda>e. e)
           (andThen (session_lookup c (cont_Name r)) (\<lambda>rec.
              if def_Storage (rec_Definition rec) \<noteq> StoragePersistent
              then throw (sessionError ErrorInvalid ''ephemeral sessions cannot continue'' None)
              else if rec_Deletion rec \<noteq> None
              then throw (sessionError ErrorConflict ''session deletion is in progress'' None)
              else andThen (synchronizeLatestTask c rec) (\<lambda>_.
                handle (sc_newTaskID c)
                  (\<lambda>e. throw (unavailable ''create task identity failed'' e))
                  (addContinuation c r timeout rec)))))"

section \<open>Status, artifacts and logs\<close>

definition session_Status :: "'w SessionControl \<Rightarrow> string \<Rightarrow> ('w, Status) op" where
  "session_Status c name =
     require (validateName name) (\<lambda>e. e)
       (andThen (session_lookup c name) (\<lambda>rec.
          andThen (synchronizeLatestTask c rec) (\<lambda>t.
            ret \<lparr>st_Name = name, st_TaskID = task_ID t, st_State = task_State t\<rparr>)))"

definition session_Artifacts :: "'w SessionControl \<Rightarrow> string \<Rightarrow> ('w, Artifacts) op" where
  "session_Artifacts c name =
     require (validateName name) (\<lambda>e. e)
       (andThen (session_lookup c name) (\<lambda>rec.
          andThen (synchronizeLatestTask c rec) (\<lambda>t.
            if \<not> taskTerminal (task_State t)
            then throw (sessionError ErrorConflict ''session task has not finished'' None)
            else if raw_empty (art_Outcome (task_Artifacts t))
            then throw (sessionError ErrorUnavailable ''session task has no outcome artifact'' None)
            else ret (task_Artifacts t))))"

definition session_WriteLogs :: "'w SessionControl \<Rightarrow> string \<Rightarrow> bool \<Rightarrow> ('w, unit) op" where
  "session_WriteLogs c name follow =
     require (validateName name) (\<lambda>e. e)
       (handle (sr_LatestTask (sc_repository c) name)
          (\<lambda>e. if errors_is e SessionErrNotFound
               then throw (sessionError ErrorNotFound (''session '' @ name @ '' does not exist'') (Some e))
               else throw (unavailable ''read session task failed'' e))
          (\<lambda>t. handle (rt_WriteLogs (sc_runtime c) name (task_ID t) follow)
             (\<lambda>e. throw (unavailable ''stream session logs failed'' e))
             (\<lambda>_. ret ())))"

section \<open>Deletion\<close>

definition cancelTask :: "Task \<Rightarrow> int \<Rightarrow> Task" where
  "cancelTask t now = t\<lparr>task_State := TaskCanceled, task_FinishedAt := Some now\<rparr>"

text \<open>The first half of \<open>finishDeletion\<close>: leave no unfinished task behind.\<close>

definition settleLatestTask :: "'w SessionControl \<Rightarrow> Record \<Rightarrow> ('w, unit) op" where
  "settleLatestTask c rec =
     handle
       (andThen (sr_LatestTask (sc_repository c) (rec_Name rec))
          (\<lambda>t. if taskTerminal (task_State t) then ret t else synchronizeLatestTask c rec))
       (\<lambda>e. if errors_is e SessionErrNotFound then ret () else throw e)
       (\<lambda>t. if taskTerminal (task_State t) then ret ()
            else andThen (total (sc_now c))
              (\<lambda>now. sr_UpdateTask (sc_repository c) (rec_Name rec) (cancelTask t now)))"

definition removesRecord :: "Record \<Rightarrow> bool \<Rightarrow> bool" where
  "removesRecord rec deleteStorage \<longleftrightarrow>
     deleteStorage \<or> def_Storage (rec_Definition rec) = StorageEphemeral"

definition finishDeletion :: "'w SessionControl \<Rightarrow> Record \<Rightarrow> bool \<Rightarrow> ('w, unit) op" where
  "finishDeletion c rec deleteStorage =
     (if rec_RuntimeScope rec \<noteq> rt_Scope (sc_runtime c)
      then throw (Text (''session runtime scope is '' @ quoted (rec_RuntimeScope rec)
                        @ '', server runtime scope is '' @ quoted (rt_Scope (sc_runtime c))))
      else andThen (settleLatestTask c rec) (\<lambda>_.
        andThen (rt_Delete (sc_runtime c) (rec_Name rec) deleteStorage) (\<lambda>_.
          sr_FinishDeletion (sc_repository c) (rec_Name rec) (removesRecord rec deleteStorage))))"

definition session_delete :: "'w SessionControl \<Rightarrow> string \<Rightarrow> bool \<Rightarrow> ('w, unit) op" where
  "session_delete c name deleteStorage =
     require (validateName name) (\<lambda>e. e)
       (handle (sr_Get (sc_repository c) name)
          (\<lambda>e. if errors_is e SessionErrNotFound then ret ()
               else throw (unavailable ''read session before deletion failed'' e))
          (\<lambda>rec. handle (sr_BeginDeletion (sc_repository c) name deleteStorage)
             (\<lambda>e. throw (sessionError
                    (if errors_is e SessionErrConflict then ErrorConflict else ErrorUnavailable)
                    ''record session deletion failed'' (Some e)))
             (\<lambda>_. handle (finishDeletion c rec deleteStorage)
                (\<lambda>e. throw (unavailable
                       (if deleteStorage then ''destroy session failed'' else ''delete session failed'') e))
                (\<lambda>_. ret ()))))"

definition session_Delete :: "'w SessionControl \<Rightarrow> string \<Rightarrow> ('w, unit) op" where
  "session_Delete c name = session_delete c name False"

definition session_Destroy :: "'w SessionControl \<Rightarrow> string \<Rightarrow> ('w, unit) op" where
  "session_Destroy c name = session_delete c name True"

text \<open>
  The body of the loop of \<open>ReconcileDeletions\<close>.  The records come from \<open>Deleting\<close>, whose rows have a
  deletion; without one the code would stop at a nil pointer, written here as an error.
\<close>

definition resumeDeletion :: "'w SessionControl \<Rightarrow> Record \<Rightarrow> ('w, unit) op" where
  "resumeDeletion c rec =
     (case rec_Deletion rec of
        None \<Rightarrow> throw (Text ''invalid memory address or nil pointer dereference'')
      | Some del \<Rightarrow>
          handle (finishDeletion c rec (del_Storage del))
            (\<lambda>e. throw (errorf (''finish session '' @ rec_Name rec @ '' deletion'') e)) ret)"

definition session_ReconcileDeletions :: "'w SessionControl \<Rightarrow> ('w, unit) op" where
  "session_ReconcileDeletions c =
     handle (sr_Deleting (sc_repository c))
       (\<lambda>e. throw (errorf ''read session deletion intents'' e))
       (\<lambda>records. andThen (total (collect_errors (resumeDeletion c) records)) join_errors)"

section \<open>Publication\<close>

definition session_PreparePublication :: "'w SessionControl \<Rightarrow> string \<Rightarrow> ('w, PublicationSource) op" where
  "session_PreparePublication c name =
     require (validateName name) (\<lambda>e. e)
       (andThen (session_lookup c name) (\<lambda>rec.
          if rec_Deletion rec \<noteq> None
          then throw (sessionError ErrorConflict ''session deletion is in progress'' None)
          else andThen (synchronizeLatestTask c rec) (\<lambda>t.
            if task_State t \<noteq> TaskCompleted
            then throw (sessionError ErrorInvalid
                   ''latest session task must complete successfully before publishing'' None)
            else if def_Storage (rec_Definition rec) \<noteq> StoragePersistent
            then throw (sessionError ErrorInvalid ''ephemeral sessions cannot be published'' None)
            else if raw_empty (art_PullRequest (task_Artifacts t))
            then throw (sessionError ErrorUnavailable ''session task has no pull request artifact'' None)
            else ret \<lparr>src_Repository = rec_Repository rec, src_InitialRef = rec_InitialRef rec,
                       src_Image = rec_Image rec, src_PullRequest = art_PullRequest (task_Artifacts t),
                       src_Change = art_Change (task_Artifacts t)\<rparr>)))"

end
