(* ===== verification/Session_Refinement.thy ===== *)
theory Session_Refinement
  imports Session_Control
begin

text \<open>
  The state machine of a session task, and the proof that session control only moves tasks along it,
  for any repository and any runtime.
\<close>

section \<open>The moves of a task\<close>

text \<open>The part of a task that is fixed when it is created.\<close>

definition static_task :: "Task \<Rightarrow> string \<times> string \<times> int \<times> ResultKind \<times> ChangeInput option \<times> int" where
  "static_task t = (task_ID t, task_Prompt t, task_Timeout t, task_ResultKind t, task_ChangeInput t,
                    task_CreatedAt t)"

text \<open>What a completed task of each kind has reported.\<close>

definition reported :: "ResultKind \<Rightarrow> Artifacts \<Rightarrow> bool" where
  "reported kind a \<longleftrightarrow>
     (case kind of
        ResultKindPullRequest \<Rightarrow> \<not> raw_empty (art_PullRequest a)
      | ResultKindWorkflowOutput \<Rightarrow> \<not> raw_empty (art_WorkflowOutput a)
      | ResultKindWorkflowChange \<Rightarrow>
          \<not> raw_empty (art_WorkflowOutput a)
          \<and> (\<exists>ch. art_Change a = Some ch \<and> validateChangeArtifact ch = None)
      | ResultKindOther k \<Rightarrow> True)"

inductive task_move :: "Task \<Rightarrow> Task \<Rightarrow> bool" where
  observe: "\<not> taskTerminal (task_State t) \<Longrightarrow> \<not> taskTerminal s \<Longrightarrow>
     task_move t (t\<lparr>task_State := s, task_Failure := f\<rparr>)"
| settle: "\<not> taskTerminal (task_State t) \<Longrightarrow> static_task t' = static_task t \<Longrightarrow>
     taskTerminal (task_State t') \<Longrightarrow> task_FinishedAt t' \<noteq> None \<Longrightarrow>
     task_State t' = TaskCompleted \<Longrightarrow> reported (task_ResultKind t) (task_Artifacts t') \<Longrightarrow>
     task_move t t'"
| stop: "\<not> taskTerminal (task_State t) \<Longrightarrow> static_task t' = static_task t \<Longrightarrow>
     taskTerminal (task_State t') \<Longrightarrow> task_FinishedAt t' \<noteq> None \<Longrightarrow>
     task_State t' \<noteq> TaskCompleted \<Longrightarrow> task_move t t'"

inductive_cases task_moveE: "task_move t t'"

lemma task_move_static: "task_move t t' \<Longrightarrow> static_task t' = static_task t"
  by (induction rule: task_move.induct) (auto simp: static_task_def)

lemma task_move_terminal: "task_move t t' \<Longrightarrow> \<not> taskTerminal (task_State t)"
  by (induction rule: task_move.induct) auto

text \<open>
  The invariant of a stored task: it is finished exactly when it has a time of finishing, and a
  completed one carries what its kind promises.
\<close>

definition task_sound :: "Task \<Rightarrow> bool" where
  "task_sound t \<longleftrightarrow>
     (taskTerminal (task_State t) \<longleftrightarrow> task_FinishedAt t \<noteq> None)
     \<and> (task_State t = TaskCompleted \<longrightarrow> reported (task_ResultKind t) (task_Artifacts t))"

lemma task_move_sound: "task_move t t' \<Longrightarrow> task_sound t \<Longrightarrow> task_sound t'"
  by (induction rule: task_move.induct) (auto simp: task_sound_def static_task_def)

section \<open>Observations are moves\<close>

lemma requiredArtifacts_reported:
  "requiredArtifacts kind storage a = None \<Longrightarrow> reported kind (taskArtifacts a)"
  by (cases kind)
    (auto simp: requiredArtifacts_def reported_def taskArtifacts_def check_def split: if_splits option.splits)

lemma applyOutcome_static: "applyOutcome t obs storage now = (t', e) \<Longrightarrow> static_task t' = static_task t"
  by (auto simp: applyOutcome_def Let_def static_task_def split: sum.splits if_splits option.splits)

lemma applyOutcome_move:
  assumes "applyOutcome t obs storage now = (t', None)" and open_task: "\<not> taskTerminal (task_State t)"
  shows "task_move t t'"
proof (cases "decode_strings [''status''] (ta_Outcome (obs_Artifacts obs))")
  case (Inl e)
  with assms show ?thesis by (simp add: applyOutcome_def)
next
  case (Inr v)
  show ?thesis
  proof (cases "v ''status'' = ''completed''")
    case True
    with Inr assms
    have req: "requiredArtifacts (task_ResultKind t) storage (obs_Artifacts obs) = None"
      and t': "t' = t\<lparr>task_State := TaskCompleted, task_Artifacts := taskArtifacts (obs_Artifacts obs),
                     task_Failure := obs_Failure obs, task_FinishedAt := Some now\<rparr>"
      by (auto simp: applyOutcome_def Let_def split: option.splits)
    show ?thesis
      by (rule task_move.settle [OF open_task])
        (simp_all add: t' static_task_def requiredArtifacts_reported [OF req])
  next
    case False
    with Inr assms have "task_State t' = TaskBlocked \<or> task_State t' = TaskFailed"
      and "task_FinishedAt t' \<noteq> None" and "static_task t' = static_task t"
      by (auto simp: applyOutcome_def Let_def static_task_def split: if_splits)
    then show ?thesis by (intro task_move.stop [OF open_task]) auto
  qed
qed

lemma applyObservation_static:
  "applyObservation t obs storage now = (t', e) \<Longrightarrow> static_task t' = static_task t"
  by (cases "obs_Phase obs")
    (auto simp: applyObservation_def static_task_def dest: applyOutcome_static [unfolded static_task_def])

lemma applyObservation_move:
  assumes "applyObservation t obs storage now = (t', None)" and open_task: "\<not> taskTerminal (task_State t)"
  shows "task_move t t'"
proof (cases "obs_Phase obs")
  case PhasePending
  with assms task_move.observe [OF open_task, of TaskPending "obs_Failure obs"] show ?thesis
    by (auto simp: applyObservation_def)
next
  case PhaseRunning
  with assms task_move.observe [OF open_task, of TaskRunning "obs_Failure obs"] show ?thesis
    by (auto simp: applyObservation_def)
next
  case PhaseSucceeded
  with assms show ?thesis by (auto simp: applyObservation_def intro: applyOutcome_move)
next
  case PhaseFailed
  with assms show ?thesis
    by (auto simp: applyObservation_def static_task_def intro!: task_move.stop [OF open_task])
next
  case (PhaseOther p)
  with assms show ?thesis by (simp add: applyObservation_def)
qed

lemma failTask_move:
  assumes "static_task t' = static_task t" and open_task: "\<not> taskTerminal (task_State t)"
  shows "task_move t (failTask t' e now)"
  by (rule task_move.stop [OF open_task]) (use assms in \<open>auto simp: failTask_def static_task_def\<close>)

lemma cancelTask_move: "\<not> taskTerminal (task_State t) \<Longrightarrow> task_move t (cancelTask t now)"
  by (rule task_move.stop) (auto simp: cancelTask_def static_task_def)

lemma observedTask_move:
  assumes "\<not> taskTerminal (task_State t)"
  shows "task_move t (fst (observedTask c rec t obs w))"
proof -
  obtain now w1 where now: "sc_now c w = (now, w1)" by fastforce
  obtain t' e where t': "applyObservation t obs (def_Storage (rec_Definition rec)) now = (t', e)" by fastforce
  show ?thesis
  proof (cases e)
    case None
    with now t' applyObservation_move [OF _ assms] show ?thesis by (auto simp: observedTask_def)
  next
    case (Some err)
    with now t' failTask_move [OF applyObservation_static [OF t'] assms] show ?thesis
      by (auto simp: observedTask_def split: prod.splits)
  qed
qed

section \<open>The operations\<close>

text \<open>
  The interface between session control, its repository and its runtime, for a discipline: an
  invariant \<open>I\<close> of the world, and a property \<open>Q\<close> of a task that was read from a session, in the
  world it was read from, which is closed under moves.  The repository returns only tasks with \<open>Q\<close>,
  and may be given any task with \<open>Q\<close> as the new state of an existing one.  An operation of the
  environment keeps \<open>I\<close> and does not invalidate what was read.
\<close>

definition undisturbed :: "('w \<Rightarrow> bool) \<Rightarrow> (string \<Rightarrow> Task \<Rightarrow> 'w \<Rightarrow> bool) \<Rightarrow> ('w, 'a) op \<Rightarrow> bool" where
  "undisturbed I Q m \<longleftrightarrow>
     ensures I m (\<lambda>_. True) \<and> (\<forall>n t. triple I (\<lambda>w. I w \<and> Q n t w) m (\<lambda>_ w. I w \<and> Q n t w))"

lemma undisturbed_ensures: "undisturbed I Q m \<Longrightarrow> ensures I m (\<lambda>_. True)"
  by (simp add: undisturbed_def)

lemma undisturbed_triple:
  "undisturbed I Q m \<Longrightarrow> triple I (\<lambda>w. I w \<and> Q n t w) m (\<lambda>_ w. I w \<and> Q n t w)"
  by (simp add: undisturbed_def)

locale session_discipline =
  fixes c :: "'w SessionControl" and I :: "'w \<Rightarrow> bool" and Q :: "string \<Rightarrow> Task \<Rightarrow> 'w \<Rightarrow> bool"
  assumes now_keeps: "undisturbed I Q (total (sc_now c))"
    and runtime_observe_keeps: "undisturbed I Q (rt_Observe (sc_runtime c) name tid)"
    and runtime_logs_keeps: "ensures I (rt_WriteLogs (sc_runtime c) name tid follow) (\<lambda>_. True)"
    and get_keeps: "ensures I (sr_Get (sc_repository c) name) (\<lambda>rec. rec_Name rec = name)"
    and latest_keeps: "triple I I (sr_LatestTask (sc_repository c) name) (\<lambda>t w. I w \<and> Q name t w)"
    and update_keeps: "triple I (\<lambda>w. I w \<and> Q name t w) (sr_UpdateTask (sc_repository c) name t)
                         (\<lambda>_ w. I w \<and> Q name t w)"
    and closed: "I w \<Longrightarrow> Q name t w \<Longrightarrow> task_move t t' \<Longrightarrow> Q name t' w"
begin

lemma get_triple: "triple I I (sr_Get (sc_repository c) name) (\<lambda>rec w. I w \<and> rec_Name rec = name)"
  by (simp add: triple_ensures get_keeps)

lemma lookup_triple: "triple I I (session_lookup c name) (\<lambda>rec w. I w \<and> rec_Name rec = name)"
  unfolding session_lookup_def
  by (rule triple_handle [OF get_triple]) (auto intro: triple_throw triple_ret)

lemma observedTask_eq:
  "total (observedTask c rec t obs) =
     andThen (total (sc_now c)) (\<lambda>now.
       case applyObservation t obs (def_Storage (rec_Definition rec)) now of
         (t', None) \<Rightarrow> ret t'
       | (t', Some e) \<Rightarrow> andThen (total (sc_now c)) (\<lambda>now'. ret (failTask t' e now')))"
  by (rule ext)
    (auto simp: observedTask_def total_def op_run split: prod.splits option.splits)

lemma observed_triple:
  assumes "\<not> taskTerminal (task_State t)"
  shows "triple I (\<lambda>w. I w \<and> Q name t w) (total (observedTask c rec t obs)) (\<lambda>t' w. I w \<and> Q name t' w)"
  unfolding observedTask_eq
proof (rule triple_andThen [OF undisturbed_triple [OF now_keeps]])
  fix now
  obtain t' e where a: "applyObservation t obs (def_Storage (rec_Definition rec)) now = (t', e)" by fastforce
  show "triple I (\<lambda>w. I w \<and> Q name t w)
      (case applyObservation t obs (def_Storage (rec_Definition rec)) now of
         (t', None) \<Rightarrow> ret t'
       | (t', Some e) \<Rightarrow> andThen (total (sc_now c)) (\<lambda>now'. ret (failTask t' e now')))
      (\<lambda>t' w. I w \<and> Q name t' w)"
  proof (cases e)
    case None
    with a have "task_move t t'" using applyObservation_move [OF _ assms] by simp
    then have "triple I (\<lambda>w. I w \<and> Q name t w) (ret t') (\<lambda>t' w. I w \<and> Q name t' w)"
      by (intro triple_ret) (auto intro: closed)
    with a None show ?thesis by simp
  next
    case (Some err)
    have move: "task_move t (failTask t' err now')" for now'
      using failTask_move [OF applyObservation_static [OF a] assms] .
    have "triple I (\<lambda>w. I w \<and> Q name t w) (ret (failTask t' err now')) (\<lambda>t' w. I w \<and> Q name t' w)" for now'
      by (intro triple_ret) (auto intro: closed [OF _ _ move])
    with undisturbed_triple [OF now_keeps]
    have "triple I (\<lambda>w. I w \<and> Q name t w)
        (andThen (total (sc_now c)) (\<lambda>now'. ret (failTask t' err now'))) (\<lambda>t' w. I w \<and> Q name t' w)"
      by (rule triple_andThen)
    with a Some show ?thesis by simp
  qed
qed

lemma update_return_triple:
  "triple I (\<lambda>w. I w \<and> Q name t w)
     (handle (sr_UpdateTask (sc_repository c) name t) (\<lambda>e. throw (f e)) (\<lambda>_. ret t)) (\<lambda>t' w. I w \<and> Q name t' w)"
  by (rule triple_handle [OF update_keeps]) (auto intro: triple_throw triple_ret)

lemma synchronize_triple:
  "triple I I (synchronizeLatestTask c rec) (\<lambda>t w. I w \<and> Q (rec_Name rec) t w)"
proof -
  let ?n = "rec_Name rec"
  have go_on: "triple I (\<lambda>w. I w \<and> Q ?n t w)
      (andThen (total (observedTask c rec t obs))
         (\<lambda>t'. handle (sr_UpdateTask (sc_repository c) ?n t')
                    (\<lambda>e. throw (unavailable ''record session task observation failed'' e))
                    (\<lambda>_. ret t'))) (\<lambda>t w. I w \<and> Q ?n t w)"
    if "\<not> taskTerminal (task_State t)" for t obs
    by (rule triple_andThen [OF observed_triple [OF that]]) (rule update_return_triple)
  have observe: "triple I (\<lambda>w. I w \<and> Q ?n t w)
      (if taskTerminal (task_State t) then ret t
       else handle (rt_Observe (sc_runtime c) ?n (task_ID t))
              (\<lambda>e. throw (unavailable ''observe session task failed'' e))
              (\<lambda>obs. andThen (total (observedTask c rec t obs))
                 (\<lambda>t'. handle (sr_UpdateTask (sc_repository c) ?n t')
                    (\<lambda>e. throw (unavailable ''record session task observation failed'' e))
                    (\<lambda>_. ret t')))) (\<lambda>t w. I w \<and> Q ?n t w)" for t
    by (auto intro!: triple_if triple_ret triple_throw go_on
        triple_handle [OF undisturbed_triple [OF runtime_observe_keeps]])
  show ?thesis
    unfolding synchronizeLatestTask_def
    by (rule triple_handle [OF latest_keeps], rule triple_throw, assumption, rule observe)
qed

lemma synchronize_named:
  "triple I (\<lambda>w. I w \<and> rec_Name rec = name) (synchronizeLatestTask c rec) (\<lambda>t w. I w \<and> Q name t w)"
  using synchronize_triple [of rec] by (auto simp: triple_def)

lemma synchronize_ensures: "ensures I (synchronizeLatestTask c rec) (\<lambda>_. True)"
  using triple_weak [OF synchronize_triple] by (simp add: triple_ensures [symmetric])

lemma lookup_ensures: "ensures I (session_lookup c name) (\<lambda>rec. rec_Name rec = name)"
  using lookup_triple by (simp add: triple_ensures)

lemma latest_ensures: "ensures I (sr_LatestTask (sc_repository c) name) (\<lambda>_. True)"
  using triple_weak [OF latest_keeps] by (simp add: triple_ensures [symmetric])

lemma status_ensures: "ensures I (session_Status c name) (\<lambda>_. True)"
  unfolding session_Status_def require_def
  by (auto intro!: ensures_throw ensures_ret ensures_andThen [OF lookup_ensures]
      ensures_andThen [OF synchronize_ensures] split: option.split)

lemma artifacts_triple: "triple I I (session_Artifacts c name)
    (\<lambda>a w. \<exists>t. Q name t w \<and> taskTerminal (task_State t) \<and> a = task_Artifacts t)"
  unfolding session_Artifacts_def require_def
  by (auto intro!: triple_throw triple_andThen [OF lookup_triple]
      triple_andThen [OF synchronize_named] triple_if triple_ret split: option.split)

lemma logs_ensures: "ensures I (session_WriteLogs c name follow) (\<lambda>_. True)"
  unfolding session_WriteLogs_def require_def
  by (auto intro!: ensures_throw ensures_ret ensures_handle [OF latest_ensures]
      ensures_handle [OF runtime_logs_keeps] split: option.split)

lemma publication_triple: "triple I I (session_PreparePublication c name)
   (\<lambda>src w. \<exists>t. Q name t w \<and> task_State t = TaskCompleted
      \<and> src_PullRequest src = art_PullRequest (task_Artifacts t)
      \<and> src_Change src = art_Change (task_Artifacts t) \<and> \<not> raw_empty (src_PullRequest src))"
  unfolding session_PreparePublication_def require_def
  by (auto intro!: triple_throw triple_andThen [OF lookup_triple]
      triple_andThen [OF synchronize_named] triple_if triple_ret split: option.split)

lemma settle_ensures: "ensures I (settleLatestTask c rec) (\<lambda>_. True)"
proof -
  let ?n = "rec_Name rec"
  have read: "triple I I (andThen (sr_LatestTask (sc_repository c) ?n)
      (\<lambda>t. if taskTerminal (task_State t) then ret t else synchronizeLatestTask c rec))
      (\<lambda>t w. I w \<and> Q ?n t w)"
    by (rule triple_andThen [OF latest_keeps])
      (auto intro!: triple_if triple_ret intro: triple_pre [OF synchronize_triple])
  have update: "triple I (\<lambda>w. I w \<and> Q ?n t w) (sr_UpdateTask (sc_repository c) ?n (cancelTask t now)) (\<lambda>_. I)"
    if "\<not> taskTerminal (task_State t)" for t now
    by (rule triple_pre [OF triple_weak [OF update_keeps]]) (auto intro: closed [OF _ _ cancelTask_move [OF that]])
  have "triple I I (settleLatestTask c rec) (\<lambda>_. I)"
    unfolding settleLatestTask_def
    by (rule triple_handle [OF read])
      (auto intro!: triple_if triple_ret triple_throw
        triple_andThen [OF undisturbed_triple [OF now_keeps]] update)
  then show ?thesis by (simp add: triple_ensures [symmetric])
qed

end

text \<open>The discipline for the operations that create tasks.\<close>

locale session_creation = session_discipline +
  assumes task_id_keeps: "ensures I (sc_newTaskID c) (\<lambda>_. True)"
    and auth_keeps: "sc_repositoryAuth c = Some token \<Longrightarrow> ensures I token (\<lambda>_. True)"
    and runtime_start_keeps: "ensures I (rt_Start (sc_runtime c) tq) (\<lambda>_. True)"
    and add_keeps: "ensures I (sr_AddTask (sc_repository c) (cont_Name cr) (continuationTask cr timeout tid now))
                      (\<lambda>_. True)"
    and create_keeps: "validateSessionStart d r = None \<Longrightarrow> fst (initialIntent c d r w) = (rec, t) \<Longrightarrow>
                      ensures I (sr_Create (sc_repository c) rec t) (\<lambda>_. True)"
begin

lemma now_ensures: "ensures I (total (sc_now c)) (\<lambda>_. True)"
  by (rule undisturbed_ensures [OF now_keeps])

lemma credential_ensures: "ensures I (repositoryCredential c) (\<lambda>_. True)"
  by (cases "sc_repositoryAuth c") (auto simp: repositoryCredential_def intro: ensures_ret auth_keeps)

lemma intent_ensures:
  "ensures I (total (initialIntent c d r)) (\<lambda>p. \<exists>w. fst (initialIntent c d r w) = p)"
proof (rule ensures_total)
  fix w assume "I w"
  with now_ensures have "I (snd (sc_now c w))"
    by (cases "sc_now c w") (auto simp: ensures_def total_def dest!: spec [of _ w])
  then have "I (snd (initialIntent c d r w))"
    by (auto simp: initialIntent_def split: prod.splits)
  then show "I (snd (initialIntent c d r w)) \<and> (\<exists>v. fst (initialIntent c d r v) = fst (initialIntent c d r w))"
    by blast
qed

lemma recordIntent_ensures:
  assumes "validateSessionStart d r = None" and "fst (initialIntent c d r w) = (rec, t)"
  shows "ensures I (recordIntent c d r rec t) (\<lambda>_. True)"
  unfolding recordIntent_def
  by (rule ensures_handle [OF create_keeps [OF assms]])
    (auto intro!: ensures_throw ensures_ret ensures_if ensures_handle [OF get_keeps]
      ensures_handle [OF latest_ensures])

lemma execution_ensures: "ensures I (ensureExecution c p) (\<lambda>_. True)"
  unfolding ensureExecution_def
  by (auto intro!: ensures_throw ensures_ret ensures_if ensures_handle [OF credential_ensures]
      ensures_handle [OF runtime_start_keeps] split: prod.splits)

lemma start_ensures: "ensures I (session_Start c d r) (\<lambda>_. True)"
proof (cases "validateSessionStart d (startDefaults d r)")
  case None
  show ?thesis
    unfolding session_Start_def Let_def None require_def option.case
    by (rule ensures_andThen [OF intent_ensures])
      (auto intro!: ensures_andThen [OF recordIntent_ensures [OF None]]
        ensures_andThen [OF execution_ensures] ensures_ret split: prod.splits)
next
  case (Some e)
  then show ?thesis by (simp add: session_Start_def require_def Let_def ensures_throw)
qed

lemma continue_ensures: "ensures I (session_Continue c r) (\<lambda>_. True)"
proof -
  have add: "ensures I (addContinuation c r timeout rec tid) (\<lambda>_. True)" for timeout rec tid
    unfolding addContinuation_def Let_def
    by (rule ensures_andThen [OF now_ensures])
      (auto intro!: ensures_handle [OF add_keeps] ensures_handle [OF runtime_start_keeps]
        ensures_throw ensures_ret)
  show ?thesis
    unfolding session_Continue_def Let_def require_def
    by (auto intro!: ensures_throw ensures_if ensures_andThen [OF lookup_ensures]
        ensures_andThen [OF synchronize_ensures] ensures_handle [OF task_id_keeps] add
        split: option.split)
qed

end

text \<open>The discipline for the operations that remove a session and its tasks.\<close>

locale session_removal = session_discipline +
  assumes runtime_delete_keeps: "ensures I (rt_Delete (sc_runtime c) name storage) (\<lambda>_. True)"
    and begin_keeps: "ensures I (sr_BeginDeletion (sc_repository c) name storage) (\<lambda>_. True)"
    and finish_keeps: "ensures I (sr_FinishDeletion (sc_repository c) name remove) (\<lambda>_. True)"
    and deleting_keeps: "ensures I (sr_Deleting (sc_repository c)) (\<lambda>_. True)"
begin

lemma finishDeletion_ensures: "ensures I (finishDeletion c rec storage) (\<lambda>_. True)"
  unfolding finishDeletion_def
  by (auto intro!: ensures_throw ensures_if ensures_andThen [OF settle_ensures]
      ensures_andThen [OF runtime_delete_keeps] finish_keeps)

lemma delete_ensures: "ensures I (session_delete c name storage) (\<lambda>_. True)"
  unfolding session_delete_def require_def
  by (auto intro!: ensures_throw ensures_ret ensures_handle [OF get_keeps] ensures_handle [OF begin_keeps]
      ensures_handle [OF finishDeletion_ensures] split: option.split)

lemma resume_ensures: "ensures I (resumeDeletion c rec) (\<lambda>_. True)"
  unfolding resumeDeletion_def
  by (auto intro!: ensures_throw ensures_ret ensures_handle [OF finishDeletion_ensures] split: option.split)

lemma reconcileDeletions_ensures: "ensures I (session_ReconcileDeletions c) (\<lambda>_. True)"
proof -
  have collect: "ensures I (total (collect_errors (resumeDeletion c) records)) (\<lambda>_. True)" for records
    using keeps.collect_errors_obeys [of I "resumeDeletion c"] resume_ensures
    by (intro ensures_total) (force simp: keeps_def ensures_keeps [symmetric])
  show ?thesis
    unfolding session_ReconcileDeletions_def
    by (auto intro!: ensures_throw ensures_ret ensures_handle [OF deleting_keeps]
        ensures_andThen [OF collect] simp: join_errors_def)
qed

end

end
