(* ===== verification/Workflow_Schedule.thy ===== *)
theory Workflow_Schedule
  imports Workflow_Types
begin

text \<open>
  The decisions of the workflow scheduler that do not touch the outside world
  (\<open>internal/workflow/control.go\<close>): which steps become ready or skipped, the state of a run from the
  states of its steps, and what a step keeps of a finished session's artifacts.
\<close>

section \<open>Step states\<close>

definition step_active :: "Step \<Rightarrow> bool" where
  "step_active s \<longleftrightarrow> step_State s = StepStarting \<or> step_State s = StepRunning"

definition step_unfinished :: "Step \<Rightarrow> bool" where
  "step_unfinished s \<longleftrightarrow> step_State s = StepPending \<or> step_active s"

definition terminal :: "State \<Rightarrow> bool" where
  "terminal s \<longleftrightarrow> s = StateCompleted \<or> s = StateBlocked \<or> s = StateFailed \<or> s = StateCanceled"

definition put_step :: "string \<Rightarrow> Step \<Rightarrow> Run \<Rightarrow> Run" where
  "put_step name s run = run\<lparr>run_Steps := AList.update name s (run_Steps run)\<rparr>"

definition get_step :: "Run \<Rightarrow> string \<Rightarrow> Step option" where
  "get_step run name = map_of (run_Steps run) name"

definition sortedStepNames :: "Run \<Rightarrow> string list" where
  "sortedStepNames run = sorted_keys (run_Steps run)"

section \<open>Scheduling\<close>

text \<open>
  The loop over a step's dependencies: whether all are completed, and whether one ended otherwise.
  A name that is no step reads as Go's zero value and makes the step not ready.
\<close>

fun dependencyStatus :: "Run \<Rightarrow> string list \<Rightarrow> bool \<times> bool \<Rightarrow> bool \<times> bool" where
  "dependencyStatus run [] acc = acc"
| "dependencyStatus run (d # ds) (ready, failed) =
     dependencyStatus run ds
       (case map_option step_State (get_step run d) of
          Some StepCompleted \<Rightarrow> (ready, failed)
        | Some StepBlocked \<Rightarrow> (ready, True)
        | Some StepFailed \<Rightarrow> (ready, True)
        | Some StepCanceled \<Rightarrow> (ready, True)
        | Some StepSkipped \<Rightarrow> (ready, True)
        | _ \<Rightarrow> (False, failed))"

text \<open>One iteration of the scheduling loop; the accumulator is the run, \<open>active\<close> and \<open>changed\<close>.\<close>

definition scheduleStep :: "int \<Rightarrow> string \<Rightarrow> Run \<times> int \<times> bool \<Rightarrow> Run \<times> int \<times> bool" where
  "scheduleStep now name acc =
     (case acc of (run, active, changed) \<Rightarrow>
        case get_step run name of
          None \<Rightarrow> acc
        | Some s \<Rightarrow>
            if step_State s \<noteq> StepPending then acc
            else case dependencyStatus run (step_After s) (True, False) of (ready, failedDependency) \<Rightarrow>
              if failedDependency then
                (put_step name (s\<lparr>step_State := StepSkipped, step_FinishedAt := Some now\<rparr>) run,
                 active, True)
              else if \<not> ready \<or> active \<ge> run_MaxParallelism run then acc
              else
                (put_step name (s\<lparr>step_State := StepStarting, step_StartedAt := Some now\<rparr>) run,
                 active + 1, True))"

definition activeSteps :: "Run \<Rightarrow> int" where
  "activeSteps run = int (count_entries step_active (run_Steps run))"

definition scheduleReadySteps :: "Run \<Rightarrow> int \<Rightarrow> Run \<times> bool" where
  "scheduleReadySteps run now =
     (case fold (scheduleStep now) (sortedStepNames run) (run, activeSteps run, False) of
        (run', active, changed) \<Rightarrow> (run', changed))"

section \<open>The state of a run\<close>

fun deriveFrom :: "State \<Rightarrow> (string \<times> Step) list \<Rightarrow> State" where
  "deriveFrom acc [] = acc"
| "deriveFrom acc (e # es) =
     (case step_State (snd e) of
        StepPending \<Rightarrow> StateRunning
      | StepStarting \<Rightarrow> StateRunning
      | StepRunning \<Rightarrow> StateRunning
      | StepFailed \<Rightarrow> deriveFrom StateFailed es
      | StepBlocked \<Rightarrow> deriveFrom (if acc \<noteq> StateFailed then StateBlocked else acc) es
      | StepCanceled \<Rightarrow>
          deriveFrom (if acc \<noteq> StateFailed \<and> acc \<noteq> StateBlocked then StateCanceled else acc) es
      | _ \<Rightarrow> deriveFrom acc es)"

definition deriveRunState :: "Run \<Rightarrow> Run" where
  "deriveRunState run = run\<lparr>run_State := deriveFrom StateCompleted (run_Steps run)\<rparr>"

section \<open>Artifacts of a finished step\<close>

definition producesChange :: "Run \<Rightarrow> string \<Rightarrow> bool" where
  "producesChange run name \<longleftrightarrow> list_ex (\<lambda>e. step_ChangeFrom (snd e) = name) (run_Steps run)"

text \<open>
  \<open>applyStepArtifacts\<close> writes through a pointer, so it returns the step as it left it together with
  its error, if any.
\<close>

definition applyCompleted :: "Step \<Rightarrow> Artifacts \<Rightarrow> bool \<Rightarrow> Step \<times> err option" where
  "applyCompleted s a requiresChange =
     (let keep = (\<lambda>s. if requiresChange then
                        (case art_Change a of
                           None \<Rightarrow> (s, Some (Text
                             ''completed workflow change step did not report retained change metadata''))
                         | Some ch \<Rightarrow>
                             (s\<lparr>step_Change := Some ch, step_State := StepCompleted\<rparr>, None))
                      else (s\<lparr>step_State := StepCompleted\<rparr>, None))
      in if step_Publishable s then
           if raw_empty (art_PullRequest a)
           then (s, Some (Text ''completed publishable step did not report pull request metadata''))
           else keep s
         else if raw_empty (art_WorkflowOutput a)
         then (s, Some (Text ''completed workflow step did not report workflow output''))
         else keep (s\<lparr>step_Output := art_WorkflowOutput a\<rparr>))"

definition applyStepArtifacts :: "Step \<Rightarrow> Artifacts \<Rightarrow> bool \<Rightarrow> Step \<times> err option" where
  "applyStepArtifacts s a requiresChange =
     (case decode_strings [''status'', ''summary'', ''blocker''] (art_Outcome a) of
        Inl e \<Rightarrow> (s, Some (errorf ''decode outcome'' e))
      | Inr outcome \<Rightarrow>
          let s' = s\<lparr>step_Summary := outcome ''summary'', step_Blocker := outcome ''blocker''\<rparr>;
              status = outcome ''status''
          in if status = ''blocked'' then (s'\<lparr>step_State := StepBlocked\<rparr>, None)
             else if status = ''failed'' then (s'\<lparr>step_State := StepFailed\<rparr>, None)
             else if status = ''completed'' then applyCompleted s' a requiresChange
             else (s', Some (Text (''unsupported outcome status '' @ quoted status))))"

definition needsCleanup :: "Run \<Rightarrow> bool" where
  "needsCleanup run \<longleftrightarrow>
     list_ex (\<lambda>e. \<not> step_Publishable (snd e) \<and> step_State (snd e) = StepCompleted
                   \<and> \<not> step_Cleaned (snd e)) (run_Steps run)"

end
