(* ===== verification/Workflow_Control.thy ===== *)
theory Workflow_Control
  imports Workflow_Schedule
begin

text \<open>
  Workflow control (\<open>internal/workflow/control.go\<close>): one definition per function of the file, over a
  record \<open>WorkflowControl\<close> of its dependencies.  Every public operation that changes a run holds
  \<open>Control.mutex\<close> for its whole body, so it is one atomic operation here.
\<close>

definition workflowError :: "error_kind \<Rightarrow> string \<Rightarrow> err option \<Rightarrow> err" where
  "workflowError k m cause = OpError PkgWorkflow k m cause"

section \<open>Naming and intents\<close>

definition workflowSessionName :: "(string \<Rightarrow> string) \<Rightarrow> string \<Rightarrow> string \<Rightarrow> string" where
  "workflowSessionName sha256 run step = run @ ''-'' @ hex_encode (take 4 (sha256 step))"

definition intentStep :: "WorkflowDefinition \<Rightarrow> string \<Rightarrow> IntentStep option" where
  "intentStep d name = map_option (\<lambda>s.
     \<lparr>is_Name = name, is_Agent = sd_Agent s, is_Prompt = sd_Prompt s, is_After = sd_After s,
      is_ChangeFrom = sd_ChangeFrom s, is_Publishable = sd_Publishable s\<rparr>) (map_of (wd_Steps d) name)"

definition workflowIntent :: "'w WorkflowControl \<Rightarrow> WorkflowRequest \<Rightarrow> WorkflowDefinition \<Rightarrow> string" where
  "workflowIntent c q d =
     hex_encode (wc_sha256 c (wc_marshalIntent c
       \<lparr>wi_Request = q, wi_Description = wd_Description d, wi_MaxParallelism = wd_MaxParallelism d,
        wi_Steps = List.map_filter (intentStep d) (sorted_keys (wd_Steps d))\<rparr>))"

definition stepOutput :: "Run \<Rightarrow> string \<Rightarrow> raw" where
  "stepOutput run name = (case get_step run name of None \<Rightarrow> RawEmpty | Some s \<Rightarrow> step_Output s)"

definition workflowStepPrompt :: "'w WorkflowControl \<Rightarrow> Run \<Rightarrow> Step \<Rightarrow> string" where
  "workflowStepPrompt c run s =
     (let outputs = fold (\<lambda>d m. AList.update d (stepOutput run d) m) (step_After s) []
      in ''Workflow goal:'' @ [CHR 0x0A] @ run_Prompt run @ [CHR 0x0A, CHR 0x0A]
         @ ''Step task:'' @ [CHR 0x0A] @ step_Prompt s @ [CHR 0x0A, CHR 0x0A]
         @ ''Direct dependency outputs (JSON):'' @ [CHR 0x0A] @ wc_marshalOutputs c outputs)"

section \<open>Start\<close>

definition validateRunStart :: "'w WorkflowControl \<Rightarrow> WorkflowRequest \<Rightarrow> err + WorkflowDefinition" where
  "validateRunStart c q =
     (case wc_catalog c of
        None \<Rightarrow> Inl (workflowError ErrorNotFound ''no workflows are configured'' None)
      | Some cat \<Rightarrow>
          case cat_Find cat (wq_Workflow q) of
            None \<Rightarrow> Inl (workflowError ErrorNotFound
                      (''workflow '' @ wq_Workflow q @ '' is not configured'') None)
          | Some d \<Rightarrow>
              if \<not> dns_label (wq_Name q) \<or> length (wq_Name q) > 31
              then Inl (workflowError ErrorInvalid
                     ''workflow run name must be a lowercase DNS label no longer than 31 characters'' None)
              else if blank (wq_Repository q)
              then Inl (workflowError ErrorInvalid ''repository is required'' None)
              else if blank (wq_Prompt q)
              then Inl (workflowError ErrorInvalid ''prompt is required'' None)
              else Inr d)"

definition resolvedSessions :: "WorkflowDefinition \<Rightarrow> (string \<times> Definition) list" where
  "resolvedSessions d =
     fold (\<lambda>e m. AList.update (sd_Agent (snd e)) (sd_SessionDefinition (snd e)) m) (wd_Steps d) []"

definition newStep :: "'w WorkflowControl \<Rightarrow> string \<Rightarrow> string \<Rightarrow> StepDefinition \<Rightarrow> Step" where
  "newStep c run name s =
     \<lparr>step_Name = name, step_Agent = sd_Agent s, step_Prompt = sd_Prompt s, step_After = sd_After s,
      step_ChangeFrom = sd_ChangeFrom s, step_Publishable = sd_Publishable s,
      step_Session = workflowSessionName (wc_sha256 c) run name, step_State = StepPending,
      step_Summary = [], step_Blocker = [], step_Output = RawEmpty, step_Change = None,
      step_Cleaned = False, step_StartedAt = None, step_FinishedAt = None\<rparr>"

definition newRun :: "'w WorkflowControl \<Rightarrow> WorkflowRequest \<Rightarrow> WorkflowDefinition \<Rightarrow> string \<Rightarrow> int \<Rightarrow> Run" where
  "newRun c q d intent now =
     \<lparr>run_Version = ''v1'', run_Name = wq_Name q, run_Workflow = wd_Name d,
      run_Description = wd_Description d, run_Repository = wq_Repository q, run_Ref = wq_Ref q,
      run_Prompt = wq_Prompt q, run_Intent = intent, run_MaxParallelism = wd_MaxParallelism d,
      run_State = StatePending, run_CancelRequested = False,
      run_Steps = map (\<lambda>(name, s). (name, newStep c (wq_Name q) name s)) (wd_Steps d),
      run_CreatedAt = now, run_UpdatedAt = now, run_Revision = 0\<rparr>"

definition differentInputs :: "string \<Rightarrow> err" where
  "differentInputs name =
     workflowError ErrorConflict (''workflow run '' @ name @ '' already exists with different inputs'') None"

definition startDefaultRef :: "WorkflowRequest \<Rightarrow> WorkflowRequest" where
  "startDefaultRef q = (if wq_Ref q = [] then q\<lparr>wq_Ref := ''main''\<rparr> else q)"

text \<open>Create the run; if that fails, a run that appeared meanwhile with the same intent is returned.\<close>

definition createRun :: "'w WorkflowControl \<Rightarrow> WorkflowRequest \<Rightarrow> WorkflowDefinition \<Rightarrow> string \<Rightarrow> ('w, Run) op" where
  "createRun c q d intent =
     andThen (total (wc_now c)) (\<lambda>now.
       handle (wr_Create (wc_repository c) (newRun c q d intent now) (resolvedSessions d))
         (\<lambda>e. handle (wr_Run (wc_repository c) (wq_Name q))
            (\<lambda>_. throw (workflowError ErrorUnavailable ''create workflow run failed'' (Some e)))
            (\<lambda>existing. if run_Intent existing = intent then ret existing
                        else throw (differentInputs (wq_Name q))))
         ret)"

definition workflow_Start :: "'w WorkflowControl \<Rightarrow> WorkflowRequest \<Rightarrow> ('w, Run) op" where
  "workflow_Start c q0 =
     (case validateRunStart c q0 of
        Inl e \<Rightarrow> throw e
      | Inr d \<Rightarrow>
          let q = startDefaultRef q0; intent = workflowIntent c q d
          in handle (wr_Run (wc_repository c) (wq_Name q))
               (\<lambda>e. if errors_is e ErrRunNotFound then createRun c q d intent
                    else throw (workflowError ErrorUnavailable
                           ''read existing workflow run failed'' (Some e)))
               (\<lambda>existing. if run_Intent existing \<noteq> intent then throw (differentInputs (wq_Name q))
                           else ret existing))"

section \<open>Loading and saving\<close>

definition load_run :: "'w WorkflowControl \<Rightarrow> string \<Rightarrow> ('w, Run) op" where
  "load_run c name =
     handle (wr_Run (wc_repository c) name)
       (\<lambda>e. if errors_is e ErrRunNotFound
            then throw (workflowError ErrorNotFound
                   (''workflow run '' @ name @ '' does not exist'') (Some e))
            else throw (workflowError ErrorUnavailable ''read workflow run failed'' (Some e)))
       ret"

definition save_run :: "'w WorkflowControl \<Rightarrow> Run \<Rightarrow> ('w, Run) op" where
  "save_run c run =
     handle (wr_Update (wc_repository c) run)
       (\<lambda>e. throw (workflowError ErrorUnavailable ''update workflow run failed'' (Some e))) ret"

text \<open>\<open>run.UpdatedAt = c.now().UTC()\<close> followed by \<open>c.save\<close>\<close>

definition stamp_and_save :: "'w WorkflowControl \<Rightarrow> Run \<Rightarrow> ('w, Run) op" where
  "stamp_and_save c run =
     andThen (total (wc_now c)) (\<lambda>now. save_run c (run\<lparr>run_UpdatedAt := now\<rparr>))"

definition workflow_Get :: "'w WorkflowControl \<Rightarrow> string \<Rightarrow> ('w, Run) op" where
  "workflow_Get c name = load_run c name"

definition runArtifacts :: "string \<Rightarrow> Run \<Rightarrow> RunArtifacts" where
  "runArtifacts name run =
     fold (\<lambda>(n, s) r.
         let r1 = (if \<not> raw_empty (step_Output s)
                   then r\<lparr>ra_Outputs := AList.update n (step_Output s) (ra_Outputs r)\<rparr> else r);
             r2 = (if step_Publishable s then r1\<lparr>ra_PublishableSession := step_Session s\<rparr> else r1)
         in (case step_Change s of
               None \<Rightarrow> r2
             | Some ch \<Rightarrow> r2\<lparr>ra_Changes := AList.update n ch (ra_Changes r2)\<rparr>))
       (run_Steps run)
       \<lparr>ra_Name = name, ra_Outputs = [], ra_Changes = [], ra_PublishableSession = []\<rparr>"

definition workflow_Artifacts :: "'w WorkflowControl \<Rightarrow> string \<Rightarrow> ('w, RunArtifacts) op" where
  "workflow_Artifacts c name =
     andThen (workflow_Get c name) (\<lambda>run. ret (runArtifacts name run))"

section \<open>Cancel and delete\<close>

definition workflow_Cancel :: "'w WorkflowControl \<Rightarrow> string \<Rightarrow> ('w, unit) op" where
  "workflow_Cancel c name =
     andThen (load_run c name) (\<lambda>run.
       if terminal (run_State run) then ret ()
       else andThen (stamp_and_save c (run\<lparr>run_CancelRequested := True\<rparr>)) (\<lambda>_. ret ()))"

definition sortedSteps :: "Run \<Rightarrow> Step list" where
  "sortedSteps run = List.map_filter (get_step run) (sortedStepNames run)"

definition destroySteps :: "'w WorkflowControl \<Rightarrow> string \<Rightarrow> Run \<Rightarrow> ('w, unit) op" where
  "destroySteps c name run =
     for_each (\<lambda>s _. handle (so_Destroy (wc_sessions c) (step_Session s))
         (\<lambda>e. throw (errorf (''destroy workflow run '' @ name @ '' session '' @ step_Session s) e)) ret)
       (sortedSteps run) ()"

definition workflow_Delete :: "'w WorkflowControl \<Rightarrow> string \<Rightarrow> ('w, unit) op" where
  "workflow_Delete c name =
     andThen (load_run c name) (\<lambda>run.
       if \<not> terminal (run_State run) \<and> run_State run \<noteq> StateDeleting
       then throw (workflowError ErrorConflict
              (''workflow run '' @ name @ '' must be terminal before deletion'') None)
       else
         andThen (if run_State run \<noteq> StateDeleting
                  then stamp_and_save c (run\<lparr>run_State := StateDeleting\<rparr>) else ret run)
           (\<lambda>run. andThen (destroySteps c name run)
              (\<lambda>_. handle (wr_Delete (wc_repository c) name)
                 (\<lambda>e. throw (errorf (''delete workflow run '' @ name @ '' state'') e)) ret)))"

section \<open>Reconciliation\<close>

text \<open>The result kind and the change input that \<open>startPersistedSteps\<close> computes for a step.\<close>

definition stepResultKind :: "Run \<Rightarrow> Step \<Rightarrow> ResultKind" where
  "stepResultKind run s =
     (if step_Publishable s then ResultKindPullRequest
      else if producesChange run (step_Name s) then ResultKindWorkflowChange
      else ResultKindWorkflowOutput)"

definition stepChangeInput :: "Run \<Rightarrow> Step \<Rightarrow> err + ChangeInput option" where
  "stepChangeInput run s =
     (if step_ChangeFrom s = [] then Inr None
      else case get_step run (step_ChangeFrom s) of
        None \<Rightarrow> Inl (Text (''start workflow run '' @ run_Name run @ '' step '' @ step_Name s
                  @ '': source step  did not retain change metadata''))
      | Some source \<Rightarrow>
          (case step_Change source of
             None \<Rightarrow> Inl (Text (''start workflow run '' @ run_Name run @ '' step '' @ step_Name s
                       @ '': source step '' @ step_Name source @ '' did not retain change metadata''))
           | Some ch \<Rightarrow> Inr (Some \<lparr>ci_Session = step_Session source, ci_Artifact = ch\<rparr>)))"

definition stepStartRequest :: "'w WorkflowControl \<Rightarrow> Run \<Rightarrow> Step \<Rightarrow> ChangeInput option \<Rightarrow> StartRequest" where
  "stepStartRequest c run s input =
     \<lparr>req_Name = step_Session s, req_Repository = run_Repository run, req_InitialRef = run_Ref run,
      req_Prompt = workflowStepPrompt c run s, req_Timeout = 0, req_ResultKind = stepResultKind run s,
      req_WorkflowRun = run_Name run, req_WorkflowStep = step_Name s, req_ChangeInput = input\<rparr>"

definition startPersistedStep ::
  "'w WorkflowControl \<Rightarrow> string \<Rightarrow> Run \<times> string list \<Rightarrow> ('w, Run \<times> string list) op" where
  "startPersistedStep c name acc =
     (case acc of (run, started) \<Rightarrow>
        case get_step run name of
          None \<Rightarrow> ret acc
        | Some s \<Rightarrow>
            if step_State s \<noteq> StepStarting then ret acc
            else handle (wr_SessionDefinition (wc_repository c) (run_Name run) (step_Agent s))
              (\<lambda>e. throw (errorf (''read workflow run '' @ run_Name run @ '' agent '' @ step_Agent s
                           @ '' snapshot'') e))
              (\<lambda>d. case stepChangeInput run s of
                 Inl e \<Rightarrow> throw e
               | Inr input \<Rightarrow>
                   handle (so_Start (wc_sessions c) d (stepStartRequest c run s input))
                     (\<lambda>e. throw (errorf (''start workflow run '' @ run_Name run @ '' step '' @ step_Name s) e))
                     (\<lambda>_. ret (put_step name (s\<lparr>step_State := StepRunning\<rparr>) run,
                               started @ [step_Session s]))))"

definition startPersistedSteps :: "'w WorkflowControl \<Rightarrow> Run \<Rightarrow> ('w, Run \<times> string list) op" where
  "startPersistedSteps c run = for_each (startPersistedStep c) (sortedStepNames run) (run, [])"

definition cleanupCanceledStarts :: "'w WorkflowControl \<Rightarrow> string \<Rightarrow> string list \<Rightarrow> ('w, unit) op" where
  "cleanupCanceledStarts c runName sessions =
     (if sessions = [] then ret ()
      else handle (wr_Run (wc_repository c) runName)
        (\<lambda>e. throw (errorf ''read workflow run after conflicting start'' e))
        (\<lambda>value. if \<not> run_CancelRequested value then ret ()
          else andThen (total (collect_errors (\<lambda>s. handle (so_Delete (wc_sessions c) s)
                  (\<lambda>e. throw (errorf (''delete canceled session '' @ s) e)) ret) sessions))
            join_errors))"

definition finishFailedStep :: "Step \<Rightarrow> int \<Rightarrow> Step" where
  "finishFailedStep s now =
     s\<lparr>step_FinishedAt := Some now, step_State := StepFailed, step_Summary := ''agent session failed''\<rparr>"

definition finishStep :: "Step \<Rightarrow> int \<Rightarrow> Artifacts \<Rightarrow> bool \<Rightarrow> Step" where
  "finishStep s now a requiresChange =
     (case applyStepArtifacts (s\<lparr>step_FinishedAt := Some now\<rparr>) a requiresChange of
        (s', None) \<Rightarrow> s'
      | (s', Some e) \<Rightarrow> s'\<lparr>step_State := StepFailed, step_Summary := error_text e\<rparr>)"

definition observeRunningStep ::
  "'w WorkflowControl \<Rightarrow> string \<Rightarrow> Run \<times> bool \<Rightarrow> ('w, Run \<times> bool) op" where
  "observeRunningStep c name acc =
     (case acc of (run, changed) \<Rightarrow>
        case get_step run name of
          None \<Rightarrow> ret acc
        | Some s \<Rightarrow>
            if step_State s \<noteq> StepRunning then ret acc
            else handle (so_Status (wc_sessions c) (step_Session s))
              (\<lambda>e. throw (errorf (''read workflow run '' @ run_Name run @ '' step '' @ step_Name s @ '' status'') e))
              (\<lambda>status.
                 if st_State status = TaskPending \<or> st_State status = TaskRunning then ret acc
                 else andThen (total (wc_now c)) (\<lambda>now.
                   if st_State status = TaskFailed \<or> st_State status = TaskCanceled
                   then ret (put_step name (finishFailedStep s now) run, True)
                   else handle (so_Artifacts (wc_sessions c) (step_Session s))
                     (\<lambda>e. throw (errorf (''read workflow run '' @ run_Name run @ '' step '' @ step_Name s
                                  @ '' artifacts'') e))
                     (\<lambda>a. ret (put_step name (finishStep s now a (producesChange run (step_Name s))) run,
                               True)))))"

definition observeRunningSteps :: "'w WorkflowControl \<Rightarrow> Run \<Rightarrow> ('w, Run \<times> bool) op" where
  "observeRunningSteps c run = for_each (observeRunningStep c) (sortedStepNames run) (run, False)"

text \<open>The loops over all steps that stop sessions; the step's map entry is written back each time.\<close>

definition cancelStep :: "'w WorkflowControl \<Rightarrow> int \<Rightarrow> string \<Rightarrow> Run \<Rightarrow> ('w, Run) op" where
  "cancelStep c now name run =
     (case get_step run name of
        None \<Rightarrow> ret run
      | Some s \<Rightarrow>
          let canceled = s\<lparr>step_State := StepCanceled, step_FinishedAt := Some now\<rparr>
          in if step_active s then
               handle (so_Delete (wc_sessions c) (step_Session s))
                 (\<lambda>e. throw (errorf (''cancel workflow run '' @ run_Name run @ '' step '' @ step_Name s) e))
                 (\<lambda>_. ret (put_step name canceled run))
             else if step_State s = StepPending then ret (put_step name canceled run)
             else ret (put_step name s run))"

definition reconcileCancellation :: "'w WorkflowControl \<Rightarrow> Run \<Rightarrow> ('w, unit) op" where
  "reconcileCancellation c run =
     andThen (total (wc_now c)) (\<lambda>now.
       andThen (for_each (cancelStep c now) (map fst (run_Steps run)) run) (\<lambda>run.
         andThen (save_run c (run\<lparr>run_State := StateCanceled, run_UpdatedAt := now\<rparr>)) (\<lambda>_. ret ())))"

definition cleanupStep :: "'w WorkflowControl \<Rightarrow> string \<Rightarrow> Run \<times> bool \<Rightarrow> ('w, Run \<times> bool) op" where
  "cleanupStep c name acc =
     (case acc of (run, changed) \<Rightarrow>
        case get_step run name of
          None \<Rightarrow> ret acc
        | Some s \<Rightarrow>
            if step_Publishable s \<or> step_State s \<noteq> StepCompleted \<or> step_Cleaned s then ret acc
            else handle (so_Delete (wc_sessions c) (step_Session s))
              (\<lambda>e. throw (errorf (''clean up workflow run '' @ run_Name run @ '' step '' @ step_Name s) e))
              (\<lambda>_. ret (put_step name (s\<lparr>step_Cleaned := True\<rparr>) run, True)))"

definition cleanupCompletedSteps :: "'w WorkflowControl \<Rightarrow> Run \<Rightarrow> ('w, unit) op" where
  "cleanupCompletedSteps c run =
     andThen (for_each (cleanupStep c) (map fst (run_Steps run)) (run, False)) (\<lambda>(run, changed).
       if \<not> changed then ret ()
       else andThen (stamp_and_save c run) (\<lambda>_. ret ()))"

text \<open>The part of \<open>Reconcile\<close> that advances a run that is neither finished nor being stopped.\<close>

definition advanceRun :: "'w WorkflowControl \<Rightarrow> Run \<Rightarrow> ('w, unit) op" where
  "advanceRun c run =
     andThen (startPersistedSteps c run) (\<lambda>(run, started).
       andThen (observeRunningSteps c run) (\<lambda>(run, observed).
         andThen (total (wc_now c)) (\<lambda>now.
           case scheduleReadySteps run now of (run, scheduled) \<Rightarrow>
             let run = deriveRunState run
             in if started = [] \<and> \<not> observed \<and> \<not> scheduled then ret ()
                else handle (stamp_and_save c run)
                  (\<lambda>e. if errors_is e ErrConcurrentUpdate
                       then handle (cleanupCanceledStarts c (run_Name run) started)
                              (\<lambda>e'. throw (Join [e, e'])) (\<lambda>_. throw (Join [e]))
                       else throw e)
                  (cleanupCompletedSteps c))))"

definition workflow_Reconcile :: "'w WorkflowControl \<Rightarrow> string \<Rightarrow> ('w, unit) op" where
  "workflow_Reconcile c name =
     andThen (load_run c name) (\<lambda>run.
       if terminal (run_State run) then cleanupCompletedSteps c run
       else if run_State run = StateDeleting then ret ()
       else if run_CancelRequested run then reconcileCancellation c run
       else advanceRun c run)"

definition workflow_ReconcileAll :: "'w WorkflowControl \<Rightarrow> ('w, unit) op" where
  "workflow_ReconcileAll c =
     handle (wr_Runs (wc_repository c))
       (\<lambda>e. throw (errorf ''list workflow runs'' e))
       (\<lambda>records.
          andThen (total (collect_errors (\<lambda>run.
              if terminal (run_State run) \<and> \<not> needsCleanup run \<or> run_State run = StateDeleting
              then ret () else workflow_Reconcile c (run_Name run)) records))
            join_errors)"

definition workflow_Workflows :: "'w WorkflowControl \<Rightarrow> WorkflowSummary list" where
  "workflow_Workflows c = (case wc_catalog c of None \<Rightarrow> [] | Some cat \<Rightarrow> cat_List cat)"

end
