(* ===== verification/Workflow_Steps.thy ===== *)
theory Workflow_Steps
  imports Workflow_Schedule
begin

text \<open>
  The state machine of a workflow run, as a step relation over the record \<open>Run\<close>, and its invariant.
  It is the specification that the functions of workflow control are shown to implement: every
  change that \<open>scheduleReadySteps\<close>, the start, observation, cancellation and cleanup loops make to
  a run is a sequence of moves of this relation.
\<close>

section \<open>Reading and writing steps\<close>

lemma get_put_step [simp]: "get_step (put_step n s run) m = (if m = n then Some s else get_step run m)"
  by (simp add: get_step_def put_step_def map_of_update)

lemma put_step_fields [simp]:
  "run_Version (put_step n s run) = run_Version run" "run_Name (put_step n s run) = run_Name run"
  "run_Workflow (put_step n s run) = run_Workflow run"
  "run_Description (put_step n s run) = run_Description run"
  "run_Repository (put_step n s run) = run_Repository run" "run_Ref (put_step n s run) = run_Ref run"
  "run_Prompt (put_step n s run) = run_Prompt run" "run_Intent (put_step n s run) = run_Intent run"
  "run_MaxParallelism (put_step n s run) = run_MaxParallelism run"
  "run_State (put_step n s run) = run_State run"
  "run_CancelRequested (put_step n s run) = run_CancelRequested run"
  "run_CreatedAt (put_step n s run) = run_CreatedAt run"
  "run_UpdatedAt (put_step n s run) = run_UpdatedAt run"
  "run_Revision (put_step n s run) = run_Revision run"
  by (simp_all add: put_step_def)

lemma get_step_None: "get_step run n = None \<longleftrightarrow> n \<notin> fst ` set (run_Steps run)"
  by (simp add: get_step_def map_of_eq_None_iff)

lemma get_step_key: "get_step run n = Some s \<Longrightarrow> n \<in> fst ` set (run_Steps run)"
  using get_step_None [of run n] by auto

lemma put_step_keys:
  "get_step run n = Some s \<Longrightarrow> map fst (run_Steps (put_step n s' run)) = map fst (run_Steps run)"
  by (simp add: put_step_def map_fst_update_key get_step_key)

lemma step_in_run:
  "distinct (map fst (run_Steps run)) \<Longrightarrow> (n, s) \<in> set (run_Steps run) \<longleftrightarrow> get_step run n = Some s"
  by (simp add: get_step_def map_of_eq_Some_iff)

lemma put_step_same: "get_step run n = Some s \<Longrightarrow> put_step n s run = run"
  by (simp add: put_step_def get_step_def update_triv)

section \<open>What never changes\<close>

text \<open>The part of a step, and of a run, that is fixed when the run is created.\<close>

definition static_step :: "Step \<Rightarrow> string \<times> string \<times> string \<times> string list \<times> string \<times> bool \<times> string" where
  "static_step s = (step_Name s, step_Agent s, step_Prompt s, step_After s, step_ChangeFrom s,
                    step_Publishable s, step_Session s)"

definition static_run :: "Run \<Rightarrow> string list \<times> int \<times> (string \<times> string
    \<times> string \<times> string \<times> string list \<times> string \<times> bool \<times> string) list" where
  "static_run run = ([run_Version run, run_Name run, run_Workflow run, run_Description run,
       run_Repository run, run_Ref run, run_Prompt run, run_Intent run], run_MaxParallelism run,
     map (\<lambda>(n, s). (n, static_step s)) (run_Steps run))"

lemma static_put_step:
  "get_step run n = Some s \<Longrightarrow> static_step s' = static_step s \<Longrightarrow>
     static_run (put_step n s' run) = static_run run"
proof -
  have "map_of m n = Some s \<Longrightarrow> static_step s' = static_step s \<Longrightarrow>
      map (\<lambda>(n, s). (n, static_step s)) (AList.update n s' m) = map (\<lambda>(n, s). (n, static_step s)) m" for m
    by (induction m) (auto split: if_splits)
  then show "get_step run n = Some s \<Longrightarrow> static_step s' = static_step s \<Longrightarrow>
     static_run (put_step n s' run) = static_run run"
    by (simp add: static_run_def get_step_def) (simp add: put_step_def)
qed

lemma static_run_keys:
  assumes "static_run run' = static_run run"
  shows "map fst (run_Steps run') = map fst (run_Steps run)"
proof -
  have "map fst (map (\<lambda>(n, s). (n, static_step s)) (run_Steps run')) =
        map fst (map (\<lambda>(n, s). (n, static_step s)) (run_Steps run))"
    using assms by (simp add: static_run_def)
  then show ?thesis by (simp add: comp_def case_prod_beta')
qed

lemma static_run_get:
  assumes "static_run run' = static_run run"
  shows "map_option static_step (get_step run' n) = map_option static_step (get_step run n)"
proof -
  have "map_of (map (\<lambda>(n, s). (n, static_step s)) m) n = map_option static_step (map_of m n)" for m
    by (induction m) auto
  with assms show ?thesis by (simp add: get_step_def static_run_def) metis
qed

lemma static_run_producesChange:
  assumes "static_run run' = static_run run"
  shows "producesChange run' n = producesChange run n"
proof -
  have "list_ex (\<lambda>e. step_ChangeFrom (snd e) = n) m \<longleftrightarrow>
      list_ex (\<lambda>(k, a, b, c, d, from, e). from = n) (map (\<lambda>(n, s). (n, static_step s)) m)" for m
    by (induction m) (auto simp: static_step_def)
  moreover have "map (\<lambda>(n, s). (n, static_step s)) (run_Steps run') =
      map (\<lambda>(n, s). (n, static_step s)) (run_Steps run)"
    using assms by (simp add: static_run_def)
  ultimately show ?thesis unfolding producesChange_def by metis
qed

section \<open>The moves of a run\<close>

definition dep_state :: "(StepState \<Rightarrow> bool) \<Rightarrow> Run \<Rightarrow> string \<Rightarrow> bool" where
  "dep_state P run d \<longleftrightarrow> (case get_step run d of None \<Rightarrow> False | Some s \<Rightarrow> P (step_State s))"

abbreviation dep_completed :: "Run \<Rightarrow> string \<Rightarrow> bool" where
  "dep_completed \<equiv> dep_state (\<lambda>st. st = StepCompleted)"

abbreviation dep_failed :: "Run \<Rightarrow> string \<Rightarrow> bool" where
  "dep_failed \<equiv> dep_state (\<lambda>st. st \<in> {StepBlocked, StepFailed, StepCanceled, StepSkipped})"

text \<open>What a step has to have kept when it counts as completed.\<close>

definition retained :: "Run \<Rightarrow> Step \<Rightarrow> bool" where
  "retained run s \<longleftrightarrow>
     (step_Publishable s \<or> \<not> raw_empty (step_Output s))
     \<and> (producesChange run (step_Name s) \<longrightarrow> step_Change s \<noteq> None)"

inductive run_move :: "Run \<Rightarrow> Run \<Rightarrow> bool" where
  skip: "get_step run n = Some s \<Longrightarrow> step_State s = StepPending \<Longrightarrow>
     list_ex (dep_failed run) (step_After s) \<Longrightarrow>
     run_move run (put_step n (s\<lparr>step_State := StepSkipped, step_FinishedAt := Some t\<rparr>) run)"
| start: "get_step run n = Some s \<Longrightarrow> step_State s = StepPending \<Longrightarrow>
     list_all (dep_completed run) (step_After s) \<Longrightarrow> activeSteps run < run_MaxParallelism run \<Longrightarrow>
     run_move run (put_step n (s\<lparr>step_State := StepStarting, step_StartedAt := Some t\<rparr>) run)"
| launch: "get_step run n = Some s \<Longrightarrow> step_State s = StepStarting \<Longrightarrow>
     run_move run (put_step n (s\<lparr>step_State := StepRunning\<rparr>) run)"
| settle: "get_step run n = Some s \<Longrightarrow> step_State s = StepRunning \<Longrightarrow>
     static_step s' = static_step s \<Longrightarrow>
     step_State s' = StepBlocked \<or> step_State s' = StepFailed
       \<or> step_State s' = StepCompleted \<and> retained run s' \<Longrightarrow>
     run_move run (put_step n s' run)"
| cancel: "get_step run n = Some s \<Longrightarrow> step_unfinished s \<Longrightarrow>
     run_move run (put_step n (s\<lparr>step_State := StepCanceled, step_FinishedAt := Some t\<rparr>) run)"
| clean: "get_step run n = Some s \<Longrightarrow> step_State s = StepCompleted \<Longrightarrow> \<not> step_Publishable s \<Longrightarrow>
     run_move run (put_step n (s\<lparr>step_Cleaned := True\<rparr>) run)"
| mark: "run_move run (run\<lparr>run_State := st, run_CancelRequested := cancel, run_UpdatedAt := t,
                           run_Revision := revision\<rparr>)"

inductive_cases run_moveE: "run_move run run'"

abbreviation run_moves :: "Run \<Rightarrow> Run \<Rightarrow> bool" where
  "run_moves \<equiv> run_move\<^sup>*\<^sup>*"

lemma static_mark [simp]:
  "static_run (run\<lparr>run_State := st, run_CancelRequested := cancel, run_UpdatedAt := t, run_Revision := revision\<rparr>)
   = static_run run"
  by (simp add: static_run_def)

lemma get_step_mark [simp]:
  "get_step (run\<lparr>run_State := st, run_CancelRequested := cancel, run_UpdatedAt := t, run_Revision := revision\<rparr>) n
   = get_step run n"
  by (simp add: get_step_def)

lemma run_move_static: "run_move run run' \<Longrightarrow> static_run run' = static_run run"
  by (induction rule: run_move.induct) (auto intro!: static_put_step simp: static_step_def)

lemma run_moves_static: "run_moves run run' \<Longrightarrow> static_run run' = static_run run"
  by (induction rule: rtranclp_induct) (auto dest: run_move_static)

section \<open>The life of a step\<close>

text \<open>A settled step stays as it is: no move takes it out of its state.\<close>

definition settled :: "StepState \<Rightarrow> bool" where
  "settled st \<longleftrightarrow> st \<in> {StepCompleted, StepBlocked, StepFailed, StepCanceled, StepSkipped}"

definition kept :: "Step \<Rightarrow> Step \<Rightarrow> bool" where
  "kept s s' \<longleftrightarrow> step_State s' = step_State s \<and> static_step s' = static_step s
     \<and> step_Output s' = step_Output s \<and> step_Change s' = step_Change s
     \<and> step_Summary s' = step_Summary s \<and> step_Blocker s' = step_Blocker s"

lemma kept_refl [simp]: "kept s s"
  by (simp add: kept_def)

lemma kept_trans: "kept s t \<Longrightarrow> kept t u \<Longrightarrow> kept s u"
  by (simp add: kept_def)

lemma run_move_settled:
  assumes "run_move run run'" and s: "get_step run n = Some s" and settled: "settled (step_State s)"
  shows "\<exists>s'. get_step run' n = Some s' \<and> kept s s'"
  using assms(1)
proof (cases rule: run_move.cases)
  case (clean m t)
  then show ?thesis using s by (auto simp: kept_def static_step_def)
qed (use s settled in \<open>auto simp: settled_def step_unfinished_def step_active_def\<close>)

lemma run_moves_settled:
  assumes "run_moves run run'" and "get_step run n = Some s" and "settled (step_State s)"
  shows "\<exists>s'. get_step run' n = Some s' \<and> kept s s'"
  using assms(1)
proof (induction rule: rtranclp_induct)
  case base
  show ?case using assms(2) by simp
next
  case (step run1 run2)
  then obtain s1 where s1: "get_step run1 n = Some s1" "kept s s1" by blast
  with assms(3) have "settled (step_State s1)" by (simp add: kept_def)
  with step(2) s1 show ?case by (meson kept_trans run_move_settled)
qed

lemma dep_state_move:
  assumes "run_move run run'" and "dep_state P run d" and "\<And>st. P st \<Longrightarrow> settled st"
  shows "dep_state P run' d"
proof -
  from assms(2) obtain s where s: "get_step run d = Some s" "P (step_State s)"
    by (auto simp: dep_state_def split: option.splits)
  then obtain s' where "get_step run' d = Some s'" "kept s s'"
    using run_move_settled [OF assms(1) s(1)] assms(3) by auto
  with s show ?thesis by (simp add: dep_state_def kept_def)
qed

lemma dep_completed_move: "run_move run run' \<Longrightarrow> dep_completed run d \<Longrightarrow> dep_completed run' d"
  by (erule dep_state_move) (auto simp: settled_def)

lemma dep_failed_move: "run_move run run' \<Longrightarrow> dep_failed run d \<Longrightarrow> dep_failed run' d"
  by (erule dep_state_move) (auto simp: settled_def)

text \<open>Every move but \<open>clean\<close> and \<open>mark\<close> brings one step forward, so a run can only make finitely
  many of them.\<close>

fun step_rank :: "StepState \<Rightarrow> nat" where
  "step_rank StepPending = 3"
| "step_rank StepStarting = 2"
| "step_rank StepRunning = 1"
| "step_rank st = 0"

definition run_rank :: "Run \<Rightarrow> nat" where
  "run_rank run = sum_list (map (\<lambda>e. step_rank (step_State (snd e))) (run_Steps run))"

lemma run_rank_put:
  assumes "get_step run n = Some s"
  shows "run_rank (put_step n s' run) + step_rank (step_State s) = run_rank run + step_rank (step_State s')"
proof -
  have "map_of m n = Some s \<Longrightarrow>
      sum_list (map (\<lambda>e. step_rank (step_State (snd e))) (AList.update n s' m)) + step_rank (step_State s)
      = sum_list (map (\<lambda>e. step_rank (step_State (snd e))) m) + step_rank (step_State s')" for m
    by (induction m) (auto split: if_splits)
  with assms show ?thesis by (simp add: run_rank_def put_step_def get_step_def)
qed

section \<open>The invariant of a run\<close>

text \<open>The part that only depends on how the run was created: its graph and its limits.\<close>

definition run_depends :: "Run \<Rightarrow> (string \<times> string) set" where
  "run_depends run = {(n, d). \<exists>s. get_step run n = Some s \<and> d \<in> set (step_After s)}"

definition run_graph_ok :: "Run \<Rightarrow> bool" where
  "run_graph_ok run \<longleftrightarrow>
     distinct (map fst (run_Steps run)) \<and> 1 \<le> run_MaxParallelism run \<and> acyclic (run_depends run)
     \<and> (\<forall>n s. get_step run n = Some s \<longrightarrow>
          step_Name s = n \<and> set (step_After s) \<subseteq> fst ` set (run_Steps run)
          \<and> (step_ChangeFrom s \<noteq> [] \<longrightarrow> step_ChangeFrom s \<in> set (step_After s)))"

lemma static_run_depends:
  assumes "static_run run' = static_run run"
  shows "run_depends run' = run_depends run"
proof -
  have "map_option step_After (get_step run' n) = map_option step_After (get_step run n)" for n
    using static_run_get [OF assms, of n]
    by (cases "get_step run n"; cases "get_step run' n") (auto simp: static_step_def)
  then have "(\<exists>s. get_step run' n = Some s \<and> d \<in> set (step_After s)) \<longleftrightarrow>
      (\<exists>s. get_step run n = Some s \<and> d \<in> set (step_After s))" for n d
    by (metis (no_types, lifting) map_option_eq_Some)
  then show ?thesis by (simp add: run_depends_def)
qed

lemma run_graph_ok_static:
  assumes eq: "static_run run' = static_run run" and ok: "run_graph_ok run"
  shows "run_graph_ok run'"
proof -
  have "step_Name s' = n \<and> set (step_After s') \<subseteq> fst ` set (run_Steps run')
        \<and> (step_ChangeFrom s' \<noteq> [] \<longrightarrow> step_ChangeFrom s' \<in> set (step_After s'))"
    if s': "get_step run' n = Some s'" for n s'
  proof -
    obtain s where s: "get_step run n = Some s" "static_step s = static_step s'"
      using static_run_get [OF eq, of n] s' by (cases "get_step run n") auto
    moreover have "fst ` set (run_Steps run') = fst ` set (run_Steps run)"
      using static_run_keys [OF eq] by (metis list.set_map)
    moreover have "step_Name s = n \<and> set (step_After s) \<subseteq> fst ` set (run_Steps run)
        \<and> (step_ChangeFrom s \<noteq> [] \<longrightarrow> step_ChangeFrom s \<in> set (step_After s))"
      using ok s(1) unfolding run_graph_ok_def by blast
    ultimately show ?thesis by (simp add: static_step_def)
  qed
  moreover have "run_MaxParallelism run' = run_MaxParallelism run"
    using eq by (simp add: static_run_def)
  ultimately show ?thesis
    using ok static_run_keys [OF eq] static_run_depends [OF eq] by (simp add: run_graph_ok_def)
qed

text \<open>
  The part that changes.  A step that was started has only completed dependencies; a skipped one
  has a dependency that ended otherwise; a completed one has kept what it promised; and no more
  steps are active than the workflow allows.
\<close>

definition step_sound :: "Run \<Rightarrow> Step \<Rightarrow> bool" where
  "step_sound run s \<longleftrightarrow>
     (step_State s \<in> {StepStarting, StepRunning, StepCompleted, StepBlocked, StepFailed} \<longrightarrow>
        list_all (dep_completed run) (step_After s))
     \<and> (step_State s = StepSkipped \<longrightarrow> list_ex (dep_failed run) (step_After s))
     \<and> (step_State s = StepCompleted \<longrightarrow> retained run s)"

definition run_ok :: "Run \<Rightarrow> bool" where
  "run_ok run \<longleftrightarrow> run_graph_ok run \<and> (\<forall>n s. get_step run n = Some s \<longrightarrow> step_sound run s)
     \<and> activeSteps run \<le> run_MaxParallelism run"

lemma retained_static:
  "static_run run' = static_run run \<Longrightarrow> retained run' s = retained run s"
  by (drule static_run_producesChange [of run' run "step_Name s"]) (simp add: retained_def)

lemma retained_kept: "kept s s' \<Longrightarrow> retained run s' = retained run s"
  by (simp add: retained_def kept_def static_step_def)

lemma step_sound_mono:
  assumes move: "run_move run run'" and sound: "step_sound run s"
    and same: "step_State s' = step_State s \<and> step_After s' = step_After s"
    and keep: "retained run s \<Longrightarrow> retained run s'"
  shows "step_sound run' s'"
proof -
  have "list_all (dep_completed run') ds" if "list_all (dep_completed run) ds" for ds
    using that dep_completed_move [OF move] by (auto simp: list_all_iff)
  moreover have "list_ex (dep_failed run') ds" if "list_ex (dep_failed run) ds" for ds
    using that dep_failed_move [OF move] by (auto simp: list_ex_iff)
  ultimately show ?thesis
    using sound same keep retained_static [OF run_move_static [OF move]] by (simp add: step_sound_def)
qed

text \<open>The number of active steps under an update.\<close>

lemma activeSteps_put:
  assumes "get_step run n = Some s"
  shows "activeSteps (put_step n s' run) =
    activeSteps run - (if step_active s then 1 else 0) + (if step_active s' then 1 else 0)"
  using count_entries_update [of "run_Steps run" n s step_active s'] assms
  by (simp add: activeSteps_def put_step_def get_step_def split: if_splits)

lemma activeSteps_mark [simp]:
  "activeSteps (run\<lparr>run_State := st, run_CancelRequested := cancel, run_UpdatedAt := t,
                    run_Revision := revision\<rparr>) = activeSteps run"
  by (simp add: activeSteps_def)

lemma run_move_active:
  assumes "run_move run run'" and "activeSteps run \<le> run_MaxParallelism run"
  shows "activeSteps run' \<le> run_MaxParallelism run'"
  using assms
  by (cases rule: run_move.cases) (auto simp: activeSteps_put step_active_def)

text \<open>What one move does to one step.\<close>

lemma run_move_step:
  assumes move: "run_move run run'" and ok: "run_ok run" and s': "get_step run' n = Some s'"
  shows "step_sound run' s'"
proof -
  have sound: "step_sound run s" if "get_step run m = Some s" for m s
    using ok that by (auto simp: run_ok_def)
  have other: "step_sound run' s'" if "get_step run n = Some s'"
    by (rule step_sound_mono [OF move sound [OF that]]) auto
  have completed: "list_all (dep_completed run') ds" if "list_all (dep_completed run) ds" for ds
    using that dep_completed_move [OF move] by (auto simp: list_all_iff)
  have failed: "list_ex (dep_failed run') ds" if "list_ex (dep_failed run) ds" for ds
    using that dep_failed_move [OF move] by (auto simp: list_ex_iff)
  from move show ?thesis
  proof (cases rule: run_move.cases)
    case (skip m s t)
    then show ?thesis using s' other failed by (cases "n = m") (auto simp: step_sound_def)
  next
    case (start m s t)
    then show ?thesis using s' other completed by (cases "n = m") (auto simp: step_sound_def)
  next
    case (launch m s)
    then show ?thesis using s' other completed sound [OF launch(2)]
      by (cases "n = m") (auto simp: step_sound_def)
  next
    case (settle m s t)
    show ?thesis
    proof (cases "n = m")
      case True
      with settle s' have "s' = t" by simp
      moreover have "step_After t = step_After s" using settle(4) by (simp add: static_step_def)
      moreover have "retained run' t = retained run t"
        by (rule retained_static [OF run_move_static [OF move]])
      moreover have "list_all (dep_completed run') (step_After s)"
        using completed sound [OF settle(2)] settle(3) by (simp add: step_sound_def)
      ultimately show ?thesis using settle(5) by (auto simp: step_sound_def)
    qed (use settle s' other in simp)
  next
  case (cancel m s t)
    then show ?thesis using s' other by (cases "n = m") (auto simp: step_sound_def)
  next
    case (clean m s)
    show ?thesis
    proof (cases "n = m")
      case True
      with clean s' have "s' = s\<lparr>step_Cleaned := True\<rparr>" by simp
      then show ?thesis
        using step_sound_mono [OF move sound [OF clean(2)], of s'] by (simp add: retained_def)
    qed (use clean s' other in simp)
  next
    case (mark st c t k)
    then show ?thesis using s' other by simp
  qed
qed

lemma run_move_ok:
  assumes move: "run_move run run'" and ok: "run_ok run"
  shows "run_ok run'"
proof -
  have "run_graph_ok run'"
    using run_graph_ok_static [OF run_move_static [OF move]] ok by (simp add: run_ok_def)
  moreover have "activeSteps run' \<le> run_MaxParallelism run'"
    using run_move_active [OF move] ok by (simp add: run_ok_def)
  ultimately show ?thesis
    using run_move_step [OF move ok] by (simp add: run_ok_def)
qed

lemma run_moves_ok: "run_moves run run' \<Longrightarrow> run_ok run \<Longrightarrow> run_ok run'"
  by (induction rule: rtranclp_induct) (auto dest: run_move_ok)

end
