(* ===== verification/Workflow_Refinement.thy ===== *)
theory Workflow_Refinement
  imports Workflow_Control Workflow_Steps
begin

text \<open>
  The functions of workflow control implement the step relation of \<open>Workflow_Steps\<close>: the scheduler,
  the loops that start, observe, cancel and clean up steps, and the whole of \<open>Reconcile\<close>, for any
  repository and any session control.
\<close>

section \<open>The scheduler\<close>

lemma dependencyStatus_eq:
  "dependencyStatus run ds (ready, failed) =
     (ready \<and> list_all (dep_state settled run) ds, failed \<or> list_ex (dep_failed run) ds)"
proof (induction ds arbitrary: ready failed)
  case Nil
  show ?case by simp
next
  case (Cons d ds)
  show ?case
    by (cases "get_step run d"; cases "step_State (the (get_step run d))")
      (auto simp: Cons.IH dep_state_def settled_def)
qed

lemma settled_not_failed:
  "list_all (dep_state settled run) ds \<Longrightarrow> \<not> list_ex (dep_failed run) ds \<Longrightarrow>
     list_all (dep_completed run) ds"
  by (induction ds) (auto simp: dep_state_def settled_def split: option.splits)

lemma scheduleStep_moves:
  assumes "scheduleStep now n (run, activeSteps run, changed) = (run', active', changed')"
  shows "run_moves run run' \<and> active' = activeSteps run' \<and> (changed \<longrightarrow> changed')
    \<and> (\<not> changed' \<longrightarrow> run' = run)"
proof (cases "get_step run n")
  case None
  with assms show ?thesis by (auto simp: scheduleStep_def)
next
  case (Some s)
  show ?thesis
  proof (cases "step_State s = StepPending")
    case False
    with Some assms show ?thesis by (auto simp: scheduleStep_def)
  next
    case pending: True
    let ?skipped = "s\<lparr>step_State := StepSkipped, step_FinishedAt := Some now\<rparr>"
    let ?started = "s\<lparr>step_State := StepStarting, step_StartedAt := Some now\<rparr>"
    consider (skip) "list_ex (dep_failed run) (step_After s)"
      | (wait) "\<not> list_ex (dep_failed run) (step_After s)"
          "\<not> list_all (dep_state settled run) (step_After s) \<or> activeSteps run \<ge> run_MaxParallelism run"
      | (start) "\<not> list_ex (dep_failed run) (step_After s)"
          "list_all (dep_state settled run) (step_After s)" "activeSteps run < run_MaxParallelism run"
      by force
    then show ?thesis
    proof cases
      case skip
      with Some pending assms
      have "run' = put_step n ?skipped run" "active' = activeSteps run" "changed'"
        by (simp_all add: scheduleStep_def dependencyStatus_eq)
      moreover have "run_move run (put_step n ?skipped run)"
        using Some pending skip by (rule run_move.skip)
      ultimately show ?thesis
        using Some pending by (simp add: activeSteps_put step_active_def r_into_rtranclp)
    next
      case wait
      with Some pending assms show ?thesis
        by (auto simp: scheduleStep_def dependencyStatus_eq split: if_splits)
    next
      case start
      with Some pending assms
      have "run' = put_step n ?started run" "active' = activeSteps run + 1" "changed'"
        by (simp_all add: scheduleStep_def dependencyStatus_eq)
      moreover have "run_move run (put_step n ?started run)"
        using Some pending settled_not_failed [OF start(2,1)] start(3) by (rule run_move.start)
      ultimately show ?thesis
        using Some pending by (simp add: activeSteps_put step_active_def r_into_rtranclp)
    qed
  qed
qed

lemma schedule_fold:
  "fold (scheduleStep now) ns (run, activeSteps run, changed) = (run', active', changed') \<Longrightarrow>
     run_moves run run' \<and> active' = activeSteps run' \<and> (changed \<longrightarrow> changed')
     \<and> (\<not> changed' \<longrightarrow> run' = run \<and>
          (\<forall>n \<in> set ns. scheduleStep now n (run, activeSteps run, False) = (run, activeSteps run, False)))"
proof (induction ns arbitrary: run changed)
  case Nil
  then show ?case by auto
next
  case (Cons n ns)
  obtain run1 active1 changed1 where
    one: "scheduleStep now n (run, activeSteps run, changed) = (run1, active1, changed1)"
    by (cases "scheduleStep now n (run, activeSteps run, changed)")
  note m = scheduleStep_moves [OF one]
  from Cons.prems one m have
    "fold (scheduleStep now) ns (run1, activeSteps run1, changed1) = (run', active', changed')" by simp
  from Cons.IH [OF this] m one show ?case by (auto intro: rtranclp_trans)
qed

lemma scheduleReadySteps_moves: "run_moves run (fst (scheduleReadySteps run now))"
proof -
  obtain run' active' changed' where
    "fold (scheduleStep now) (sortedStepNames run) (run, activeSteps run, False) = (run', active', changed')"
    by (cases "fold (scheduleStep now) (sortedStepNames run) (run, activeSteps run, False)")
  with schedule_fold [OF this] show ?thesis by (simp add: scheduleReadySteps_def)
qed

text \<open>When the scheduler changes nothing, every pending step waits for a dependency or for a slot.\<close>

lemma scheduleReadySteps_stuck:
  assumes "\<not> snd (scheduleReadySteps run now)" and "get_step run n = Some s"
    and "step_State s = StepPending"
  shows "\<not> list_ex (dep_failed run) (step_After s)"
    and "activeSteps run < run_MaxParallelism run \<Longrightarrow> \<not> list_all (dep_state settled run) (step_After s)"
proof -
  obtain run' active' changed' where
    f: "fold (scheduleStep now) (sortedStepNames run) (run, activeSteps run, False) = (run', active', changed')"
    by (cases "fold (scheduleStep now) (sortedStepNames run) (run, activeSteps run, False)")
  with assms(1) have "\<not> changed'" by (simp add: scheduleReadySteps_def)
  moreover have "n \<in> set (sortedStepNames run)"
    using get_step_key [OF assms(2)] by (simp add: sortedStepNames_def)
  ultimately have "scheduleStep now n (run, activeSteps run, False) = (run, activeSteps run, False)"
    using schedule_fold [OF f] by blast
  then show "\<not> list_ex (dep_failed run) (step_After s)"
    and "activeSteps run < run_MaxParallelism run \<Longrightarrow> \<not> list_all (dep_state settled run) (step_After s)"
    using assms(2,3) by (auto simp: scheduleStep_def dependencyStatus_eq split: if_splits)
qed

text \<open>
  Progress: in an acyclic graph with no step active, the scheduler moves some step as long as one
  is pending.
\<close>

lemma scheduleReadySteps_progress:
  assumes graph: "run_graph_ok run" and idle: "activeSteps run = 0"
    and pending: "get_step run n = Some s" "step_State s = StepPending"
  shows "snd (scheduleReadySteps run now)"
proof (rule ccontr)
  assume stuck: "\<not> snd (scheduleReadySteps run now)"
  let ?P = "{n. \<exists>s. get_step run n = Some s \<and> step_State s = StepPending}"
  have fin: "finite (run_depends run)"
  proof (rule finite_subset)
    show "run_depends run \<subseteq> fst ` set (run_Steps run) \<times> fst ` set (run_Steps run)"
      using graph by (fastforce simp: run_depends_def run_graph_ok_def dest: get_step_key)
  qed simp
  have "wf ((run_depends run)\<inverse>)"
    using fin graph by (simp add: run_graph_ok_def finite_acyclic_wf_converse)
  moreover have "n \<in> ?P" using pending by blast
  ultimately obtain m where m: "m \<in> ?P" and least: "\<And>d. (m, d) \<in> run_depends run \<Longrightarrow> d \<notin> ?P"
    by (meson converse_iff wfE_min)
  then obtain t where t: "get_step run m = Some t" "step_State t = StepPending" by auto
  have "dep_state settled run d" if d: "d \<in> set (step_After t)" for d
  proof -
    have "(m, d) \<in> run_depends run" using t d by (auto simp: run_depends_def)
    moreover have "d \<in> fst ` set (run_Steps run)"
      using graph t d by (auto simp: run_graph_ok_def)
    then obtain u where u: "get_step run d = Some u"
      by (metis get_step_None not_None_eq)
    ultimately have "step_State u \<noteq> StepPending" using least by blast
    moreover have "\<not> step_active u"
    proof -
      have "(d, u) \<in> set (run_Steps run)" using u by (simp add: get_step_def map_of_SomeD)
      with idle show ?thesis
        by (force simp: activeSteps_def count_entries_def filter_empty_conv)
    qed
    ultimately show ?thesis
      using u by (cases "step_State u") (auto simp: dep_state_def settled_def step_active_def)
  qed
  moreover have "activeSteps run < run_MaxParallelism run"
    using idle graph by (simp add: run_graph_ok_def)
  ultimately show False
    using scheduleReadySteps_stuck(2) [OF stuck t] by (simp add: list_all_iff)
qed

section \<open>The state of a run\<close>

definition any_step :: "(StepState \<Rightarrow> bool) \<Rightarrow> (string \<times> Step) list \<Rightarrow> bool" where
  "any_step P es \<longleftrightarrow> (\<exists>e \<in> set es. P (step_State (snd e)))"

lemma any_step_simps [simp]:
  "any_step P [] = False" "any_step P (e # es) = (P (step_State (snd e)) \<or> any_step P es)"
  by (auto simp: any_step_def)

definition runStateOf :: "State \<Rightarrow> (string \<times> Step) list \<Rightarrow> State" where
  "runStateOf acc es =
     (if any_step (\<lambda>st. st \<in> {StepPending, StepStarting, StepRunning}) es then StateRunning
      else if any_step (\<lambda>st. st = StepFailed) es \<or> acc = StateFailed then StateFailed
      else if any_step (\<lambda>st. st = StepBlocked) es \<or> acc = StateBlocked then StateBlocked
      else if any_step (\<lambda>st. st = StepCanceled) es \<or> acc = StateCanceled then StateCanceled
      else acc)"

lemma deriveFrom_eq: "deriveFrom acc es = runStateOf acc es"
proof (induction es arbitrary: acc)
  case Nil
  show ?case by (simp add: runStateOf_def)
next
  case (Cons e es)
  show ?case
    by (cases "step_State (snd e)") (auto simp: Cons.IH runStateOf_def)
qed

lemma deriveRunState_move: "run_move run (deriveRunState run)"
  using run_move.mark [where run = run and st = "deriveFrom StateCompleted (run_Steps run)"
      and cancel = "run_CancelRequested run" and t = "run_UpdatedAt run" and revision = "run_Revision run"]
  by (simp add: deriveRunState_def)

section \<open>Artifacts\<close>

lemma applyCompleted_static: "applyCompleted s a r = (s', e) \<Longrightarrow> static_step s' = static_step s"
  by (auto simp: applyCompleted_def Let_def static_step_def split: if_splits option.splits)

lemma applyCompleted_None:
  assumes "applyCompleted s a r = (s', None)"
  shows "step_State s' = StepCompleted" and "step_Publishable s \<or> \<not> raw_empty (step_Output s')"
    and "r \<Longrightarrow> step_Change s' \<noteq> None"
  using assms by (auto simp: applyCompleted_def Let_def split: if_splits option.splits)

lemma applyStepArtifacts_static:
  "applyStepArtifacts s a r = (s', e) \<Longrightarrow> static_step s' = static_step s"
  by (auto simp: applyStepArtifacts_def Let_def static_step_def
      split: if_splits sum.splits dest!: applyCompleted_static)

lemma applyStepArtifacts_None:
  assumes "applyStepArtifacts s a r = (s', None)"
  shows "step_State s' = StepBlocked \<or> step_State s' = StepFailed \<or>
    step_State s' = StepCompleted \<and> (step_Publishable s \<or> \<not> raw_empty (step_Output s'))
      \<and> (r \<longrightarrow> step_Change s' \<noteq> None)"
proof (cases "decode_strings [''status'', ''summary'', ''blocker''] (art_Outcome a)")
  case (Inl e)
  with assms show ?thesis by (simp add: applyStepArtifacts_def)
next
  case (Inr v)
  let ?s = "s\<lparr>step_Summary := v ''summary'', step_Blocker := v ''blocker''\<rparr>"
  show ?thesis
  proof (cases "v ''status'' = ''completed''")
    case True
    with Inr assms have "applyCompleted ?s a r = (s', None)"
      by (simp add: applyStepArtifacts_def Let_def)
    from applyCompleted_None [OF this] show ?thesis by simp
  next
    case False
    with Inr assms show ?thesis by (auto simp: applyStepArtifacts_def Let_def split: if_splits)
  qed
qed

lemma finishStep_static: "static_step (finishStep s now a r) = static_step s"
proof -
  obtain s' e where "applyStepArtifacts (s\<lparr>step_FinishedAt := Some now\<rparr>) a r = (s', e)" by fastforce
  with applyStepArtifacts_static [OF this] show ?thesis
    by (cases e) (auto simp: finishStep_def static_step_def)
qed

lemma finishStep_state:
  "step_State (finishStep s now a r) = StepBlocked \<or> step_State (finishStep s now a r) = StepFailed \<or>
   step_State (finishStep s now a r) = StepCompleted
     \<and> (step_Publishable s \<or> \<not> raw_empty (step_Output (finishStep s now a r)))
     \<and> (r \<longrightarrow> step_Change (finishStep s now a r) \<noteq> None)"
proof -
  obtain s' e where a: "applyStepArtifacts (s\<lparr>step_FinishedAt := Some now\<rparr>) a r = (s', e)" by fastforce
  show ?thesis
    using applyStepArtifacts_None [of "s\<lparr>step_FinishedAt := Some now\<rparr>" a r s'] a
    by (cases e) (auto simp: finishStep_def)
qed

lemma finishStep_move:
  assumes "get_step run n = Some s" and "step_State s = StepRunning"
  shows "run_move run (put_step n (finishStep s now a (producesChange run (step_Name s))) run)"
proof (rule run_move.settle [OF assms])
  let ?s = "finishStep s now a (producesChange run (step_Name s))"
  show static: "static_step ?s = static_step s" by (rule finishStep_static)
  then have "step_Publishable ?s = step_Publishable s" "step_Name ?s = step_Name s"
    by (simp_all add: static_step_def)
  then show "step_State ?s = StepBlocked \<or> step_State ?s = StepFailed
      \<or> step_State ?s = StepCompleted \<and> retained run ?s"
    using finishStep_state [of s now a "producesChange run (step_Name s)"]
    by (auto simp: retained_def)
qed

lemma finishFailedStep_move:
  "get_step run n = Some s \<Longrightarrow> step_State s = StepRunning \<Longrightarrow>
     run_move run (put_step n (finishFailedStep s now) run)"
  by (rule run_move.settle) (auto simp: finishFailedStep_def static_step_def)

section \<open>The operations\<close>

text \<open>
  The interface between workflow control and its repository and session control, for a discipline:
  an invariant \<open>I\<close> of the world and a property \<open>Q\<close> of runs that is closed under the moves of a run.
  The repository returns only runs with \<open>Q\<close> and may be given any run with \<open>Q\<close>; everything else
  keeps the invariant.
\<close>

locale run_discipline =
  fixes c :: "'w WorkflowControl" and I :: "'w \<Rightarrow> bool" and Q :: "Run \<Rightarrow> bool"
  assumes now_keeps: "I w \<Longrightarrow> I (snd (wc_now c w))"
    and load_keeps: "ensures I (wr_Run (wc_repository c) name) Q"
    and runs_keeps: "ensures I (wr_Runs (wc_repository c)) (\<lambda>_. True)"
    and update_keeps: "Q run \<Longrightarrow> ensures I (wr_Update (wc_repository c) run) Q"
    and definition_keeps: "ensures I (wr_SessionDefinition (wc_repository c) name agent) (\<lambda>_. True)"
    and delete_keeps: "ensures I (wr_Delete (wc_repository c) name) (\<lambda>_. True)"
    and session_start_keeps: "ensures I (so_Start (wc_sessions c) d q) (\<lambda>_. True)"
    and session_status_keeps: "ensures I (so_Status (wc_sessions c) name) (\<lambda>_. True)"
    and session_artifacts_keeps: "ensures I (so_Artifacts (wc_sessions c) name) (\<lambda>_. True)"
    and session_delete_keeps: "ensures I (so_Delete (wc_sessions c) name) (\<lambda>_. True)"
    and session_destroy_keeps: "ensures I (so_Destroy (wc_sessions c) name) (\<lambda>_. True)"
    and closed: "Q run \<Longrightarrow> run_move run run' \<Longrightarrow> Q run'"
begin

lemma now_total: "ensures I (total (wc_now c)) (\<lambda>_. True)"
  by (rule ensures_total) (simp add: now_keeps)

lemma marked: "Q run \<Longrightarrow> Q (run\<lparr>run_State := st, run_CancelRequested := cancel, run_UpdatedAt := t,
                               run_Revision := revision\<rparr>)"
  by (rule closed [OF _ run_move.mark])

lemma stamped: "Q run \<Longrightarrow> Q (run\<lparr>run_UpdatedAt := t\<rparr>)"
  using marked [of run "run_Revision run" t "run_CancelRequested run" "run_State run"] by simp

lemma moves_closed: "run_moves run run' \<Longrightarrow> Q run \<Longrightarrow> Q run'"
  by (induction rule: rtranclp_induct) (auto intro: closed)

lemma load_ensures: "ensures I (load_run c name) Q"
  unfolding load_run_def
  by (rule ensures_handle [OF load_keeps]) (auto intro: ensures_throw ensures_ret)

lemma save_ensures: "Q run \<Longrightarrow> ensures I (save_run c run) Q"
  unfolding save_run_def
  by (rule ensures_handle [OF update_keeps]) (auto intro: ensures_throw ensures_ret)

lemma stamp_ensures: "Q run \<Longrightarrow> ensures I (stamp_and_save c run) Q"
  unfolding stamp_and_save_def
  by (rule ensures_andThen [OF now_total]) (auto intro: save_ensures stamped)

lemma get_ensures: "ensures I (workflow_Get c name) Q"
  unfolding workflow_Get_def by (rule load_ensures)

lemma cancel_ensures: "ensures I (workflow_Cancel c name) (\<lambda>_. True)"
  unfolding workflow_Cancel_def
proof (rule ensures_andThen [OF load_ensures], rule ensures_if)
  fix run assume "Q run"
  from marked [OF this, of "run_Revision run" "run_UpdatedAt run" True "run_State run"]
  have "Q (run\<lparr>run_CancelRequested := True\<rparr>)" by simp
  then show "ensures I (andThen (stamp_and_save c (run\<lparr>run_CancelRequested := True\<rparr>)) (\<lambda>_. ret ()))
      (\<lambda>_. True)"
    by (auto intro: ensures_andThen stamp_ensures ensures_ret)
qed (auto intro: ensures_ret)

lemma destroySteps_ensures: "ensures I (destroySteps c name run) (\<lambda>_. True)"
  unfolding destroySteps_def
  by (rule ensures_for_each)
    (auto intro: ensures_handle [OF session_destroy_keeps] ensures_throw ensures_ret)

lemma delete_ensures: "ensures I (workflow_Delete c name) (\<lambda>_. True)"
  unfolding workflow_Delete_def
proof (rule ensures_andThen [OF load_ensures], rule ensures_if)
  fix run assume Q: "Q run"
  from marked [OF this, of "run_Revision run" "run_UpdatedAt run" "run_CancelRequested run" StateDeleting]
  have "Q (run\<lparr>run_State := StateDeleting\<rparr>)" by simp
  then have first: "ensures I (if run_State run \<noteq> StateDeleting
      then stamp_and_save c (run\<lparr>run_State := StateDeleting\<rparr>) else ret run) Q"
    by (auto intro: stamp_ensures ensures_ret Q)
  show "ensures I (andThen (if run_State run \<noteq> StateDeleting
      then stamp_and_save c (run\<lparr>run_State := StateDeleting\<rparr>) else ret run)
           (\<lambda>run. andThen (destroySteps c name run)
              (\<lambda>_. handle (wr_Delete (wc_repository c) name)
                 (\<lambda>e. throw (errorf (''delete workflow run '' @ name @ '' state'') e)) ret)))
      (\<lambda>_. True)"
    by (rule ensures_andThen [OF first], rule ensures_andThen [OF destroySteps_ensures])
      (auto intro: ensures_handle [OF delete_keeps] ensures_throw ensures_ret)
qed (auto intro: ensures_throw)

lemma startPersistedStep_ensures:
  assumes "Q (fst acc)"
  shows "ensures I (startPersistedStep c n acc) (\<lambda>acc'. Q (fst acc'))"
proof (cases acc)
  case (Pair run started)
  have "Q (put_step n (s\<lparr>step_State := StepRunning\<rparr>) run)"
    if "get_step run n = Some s" "step_State s = StepStarting" for s
    using closed [OF _ run_move.launch [OF that]] assms Pair by simp
  with Pair assms show ?thesis
    by (auto simp: startPersistedStep_def split: option.split sum.split
        intro!: ensures_ret ensures_throw ensures_handle [OF definition_keeps]
          ensures_handle [OF session_start_keeps])
qed

lemma startPersistedSteps_ensures:
  "Q run \<Longrightarrow> ensures I (startPersistedSteps c run) (\<lambda>acc. Q (fst acc))"
  unfolding startPersistedSteps_def
  by (rule ensures_for_each) (auto intro: startPersistedStep_ensures)

lemma observeRunningStep_ensures:
  assumes "Q (fst acc)"
  shows "ensures I (observeRunningStep c n acc) (\<lambda>acc'. Q (fst acc'))"
proof (cases acc)
  case (Pair run changed)
  have "Q (put_step n (finishFailedStep s t) run)"
      "Q (put_step n (finishStep s t a (producesChange run (step_Name s))) run)"
    if "get_step run n = Some s" "step_State s = StepRunning" for s t a
    using closed [OF _ finishFailedStep_move [OF that]] closed [OF _ finishStep_move [OF that]]
      assms Pair by simp_all
  with Pair assms show ?thesis
    by (auto simp: observeRunningStep_def split: option.split
        intro!: ensures_ret ensures_throw ensures_handle [OF session_status_keeps]
          ensures_andThen [OF now_total] ensures_handle [OF session_artifacts_keeps])
qed

lemma observeRunningSteps_ensures:
  "Q run \<Longrightarrow> ensures I (observeRunningSteps c run) (\<lambda>acc. Q (fst acc))"
  unfolding observeRunningSteps_def
  by (rule ensures_for_each) (auto intro: observeRunningStep_ensures)

lemma cancelStep_ensures:
  assumes "Q run"
  shows "ensures I (cancelStep c t n run) Q"
proof -
  have "Q (put_step n (s\<lparr>step_State := StepCanceled, step_FinishedAt := Some t\<rparr>) run)"
    if "get_step run n = Some s" "step_unfinished s" for s
    using closed [OF assms run_move.cancel [OF that]] .
  then show ?thesis
    using assms
    by (auto simp: cancelStep_def Let_def step_unfinished_def put_step_same split: option.split
        intro!: ensures_ret ensures_throw ensures_handle [OF session_delete_keeps])
qed

lemma reconcileCancellation_ensures:
  assumes "Q run"
  shows "ensures I (reconcileCancellation c run) (\<lambda>_. True)"
  unfolding reconcileCancellation_def
proof (rule ensures_andThen [OF now_total], rule ensures_andThen)
  fix now
  show "ensures I (for_each (cancelStep c now) (map fst (run_Steps run)) run) Q"
    by (rule ensures_for_each) (auto intro: cancelStep_ensures assms)
next
  fix now run' assume "Q run'"
  from marked [OF this, of "run_Revision run'" now "run_CancelRequested run'" StateCanceled]
  have "Q (run'\<lparr>run_State := StateCanceled, run_UpdatedAt := now\<rparr>)" by simp
  then show "ensures I (andThen (save_run c (run'\<lparr>run_State := StateCanceled, run_UpdatedAt := now\<rparr>))
      (\<lambda>_. ret ())) (\<lambda>_. True)"
    by (auto intro: ensures_andThen save_ensures ensures_ret)
qed

lemma cleanupStep_ensures:
  assumes "Q (fst acc)"
  shows "ensures I (cleanupStep c n acc) (\<lambda>acc'. Q (fst acc'))"
proof (cases acc)
  case (Pair run changed)
  have "Q (put_step n (s\<lparr>step_Cleaned := True\<rparr>) run)"
    if "get_step run n = Some s" "step_State s = StepCompleted" "\<not> step_Publishable s" for s
    using closed [OF _ run_move.clean [OF that]] assms Pair by simp
  with Pair assms show ?thesis
    by (auto simp: cleanupStep_def split: option.split
        intro!: ensures_ret ensures_throw ensures_handle [OF session_delete_keeps])
qed

lemma cleanupCompletedSteps_ensures:
  assumes "Q run"
  shows "ensures I (cleanupCompletedSteps c run) (\<lambda>_. True)"
proof -
  have loop: "ensures I (for_each (cleanupStep c) (map fst (run_Steps run)) (run, False)) (\<lambda>acc. Q (fst acc))"
    by (rule ensures_for_each) (auto intro: cleanupStep_ensures assms)
  show ?thesis
    unfolding cleanupCompletedSteps_def
    by (rule ensures_andThen [OF loop])
      (auto intro!: ensures_ret ensures_andThen stamp_ensures split: prod.splits)
qed

lemma cleanupCanceledStarts_ensures: "ensures I (cleanupCanceledStarts c name sessions) (\<lambda>_. True)"
proof -
  have one: "ensures I (handle (so_Delete (wc_sessions c) s) (\<lambda>e. throw (f s e)) ret) (\<lambda>_. True)" for s f
    by (rule ensures_handle [OF session_delete_keeps]) (auto intro: ensures_throw ensures_ret)
  have collect: "ensures I (total (collect_errors (\<lambda>s. handle (so_Delete (wc_sessions c) s)
      (\<lambda>e. throw (f s e)) ret) ss)) (\<lambda>_. True)" for ss f
    using keeps.collect_errors_obeys [of I] one
    by (intro ensures_total) (force simp: keeps_def ensures_keeps [symmetric])
  show ?thesis
    unfolding cleanupCanceledStarts_def
    by (auto intro!: ensures_if ensures_ret ensures_throw ensures_handle [OF load_keeps]
        ensures_andThen [OF collect] simp: join_errors_def)
qed

lemma advanceRun_ensures:
  assumes "Q run"
  shows "ensures I (advanceRun c run) (\<lambda>_. True)"
proof -
  have derived: "Q (deriveRunState r')" if "scheduleReadySteps r t = (r', b)" "Q r" for r t r' b
    using closed [OF _ deriveRunState_move] moves_closed [OF scheduleReadySteps_moves [of r t]] that
    by simp
  have failed: "ensures I (if errors_is e ErrConcurrentUpdate
        then handle (cleanupCanceledStarts c n started)
               (\<lambda>e'. throw (Join [e, e'])) (\<lambda>_. throw (Join [e]))
        else throw e) (\<lambda>_. True)" for e n started
    by (auto intro: ensures_handle [OF cleanupCanceledStarts_ensures] ensures_throw)
  show ?thesis
    unfolding advanceRun_def
    by (rule ensures_andThen [OF startPersistedSteps_ensures [OF assms]])
      (auto intro!: ensures_andThen [OF observeRunningSteps_ensures] ensures_andThen [OF now_total]
        ensures_if ensures_ret ensures_handle [OF stamp_ensures] failed
        cleanupCompletedSteps_ensures simp: Let_def split: prod.splits
        intro: derived)
qed

lemma reconcile_ensures: "ensures I (workflow_Reconcile c name) (\<lambda>_. True)"
  unfolding workflow_Reconcile_def
  by (rule ensures_andThen [OF load_ensures])
    (auto intro: ensures_ret cleanupCompletedSteps_ensures reconcileCancellation_ensures
      advanceRun_ensures)

lemma reconcileAll_ensures: "ensures I (workflow_ReconcileAll c) (\<lambda>_. True)"
proof -
  have collect: "ensures I (total (collect_errors (\<lambda>run.
      if terminal (run_State run) \<and> \<not> needsCleanup run \<or> run_State run = StateDeleting
      then ret () else workflow_Reconcile c (run_Name run)) records)) (\<lambda>_. True)" for records
  proof (rule ensures_total)
    fix w assume "I w"
    then show "I (snd (collect_errors (\<lambda>run.
      if terminal (run_State run) \<and> \<not> needsCleanup run \<or> run_State run = StateDeleting
      then ret () else workflow_Reconcile c (run_Name run)) records w)) \<and> True"
      using keeps.collect_errors_obeys [of I "\<lambda>run.
        if terminal (run_State run) \<and> \<not> needsCleanup run \<or> run_State run = StateDeleting
        then ret () else workflow_Reconcile c (run_Name run)" w records]
      by (simp add: ensures_keeps ensures_ret reconcile_ensures keeps_def)
  qed
  show ?thesis
    unfolding workflow_ReconcileAll_def
    by (auto intro!: ensures_handle [OF runs_keeps] ensures_andThen [OF collect] ensures_throw ensures_ret
        simp: join_errors_def)
qed

end

text \<open>The discipline together with the creation of runs.\<close>

locale run_creation = run_discipline +
  assumes create_keeps: "Q run \<Longrightarrow> ensures I (wr_Create (wc_repository c) run ds) Q"
    and fresh: "validateRunStart c q = Inr d \<Longrightarrow> Q (newRun c (startDefaultRef q) d intent t)"
begin

lemma start_ensures: "ensures I (workflow_Start c q) Q"
proof (cases "validateRunStart c q")
  case (Inl e)
  then show ?thesis by (simp add: workflow_Start_def ensures_throw)
next
  case (Inr d)
  have create: "ensures I (createRun c (startDefaultRef q) d intent) Q" for intent
    unfolding createRun_def
    by (rule ensures_andThen [OF now_total])
      (auto intro!: ensures_handle [OF create_keeps [OF fresh [OF Inr]]] ensures_handle [OF load_keeps]
        ensures_throw ensures_ret)
  show ?thesis
    unfolding workflow_Start_def Inr
    by (auto simp: Let_def intro!: ensures_handle [OF load_keeps] create ensures_throw ensures_ret)
qed

end

end
