(* ===== verification/Workflow_Graph.thy ===== *)
theory Workflow_Graph
  imports Workflow_Types "HOL-Library.Word"
begin

text \<open>
  The graph checks of the workflow catalog (\<open>validateGraph\<close> in
  \<open>internal/catalog/workflows.go\<close>): a depth-first search with the colours 0 (not seen), 1 (on the
  stack) and 2 (done).  It is proved to accept exactly the graphs whose dependencies are known
  and acyclic.
\<close>

type_synonym steps = "(string \<times> StepDefinition) list"

section \<open>The search\<close>

definition stepAfter :: "steps \<Rightarrow> string \<Rightarrow> string list" where
  "stepAfter steps name = (case map_of steps name of None \<Rightarrow> [] | Some s \<Rightarrow> sd_After s)"

definition cycleError :: "string \<Rightarrow> err" where
  "cycleError name = Text (''workflow contains a cycle through step '' @ name)"

function visit :: "steps \<Rightarrow> string \<Rightarrow> (string \<Rightarrow> 8 word) \<Rightarrow> err option \<times> (string \<Rightarrow> 8 word)"
  and visits :: "steps \<Rightarrow> string list \<Rightarrow> (string \<Rightarrow> 8 word) \<Rightarrow> err option \<times> (string \<Rightarrow> 8 word)" where
  "visit steps name states =
     (if states name = 1 then (Some (cycleError name), states)
      else if states name = 2 then (None, states)
      else case visits steps (stepAfter steps name) (states(name := 1)) of
             (Some e, states') \<Rightarrow> (Some e, states')
           | (None, states') \<Rightarrow> (None, states'(name := 2)))"
| "visits steps [] states = (None, states)"
| "visits steps (d # ds) states =
     (case visit steps d states of
        (Some e, states') \<Rightarrow> (Some e, states')
      | (None, states') \<Rightarrow> visits steps ds states')"
  by pat_completeness auto

text \<open>
  The steps the search has coloured, and the number of those it has not: what a call of \<open>visit\<close>
  uses up.
\<close>

definition seen :: "(string \<Rightarrow> 8 word) \<Rightarrow> string set" where
  "seen states = {k. states k = 1 \<or> states k = 2}"

definition unseen :: "steps \<Rightarrow> (string \<Rightarrow> 8 word) \<Rightarrow> nat" where
  "unseen steps states = card (fst ` set steps - seen states)"

lemma seen_mark: "seen (states(name := 1)) = insert name (seen states)"
  "seen (states(name := 2)) = insert name (seen states)"
  by (auto simp: seen_def)

lemma unseen_mono: "seen states \<subseteq> seen states' \<Longrightarrow> unseen steps states' \<le> unseen steps states"
  unfolding unseen_def by (rule card_mono) auto

lemma unseen_mark:
  assumes "name \<in> fst ` set steps" and "states name \<noteq> 1" and "states name \<noteq> 2"
  shows "unseen steps (states(name := 1)) < unseen steps states"
  unfolding unseen_def seen_mark by (rule psubset_card_mono) (use assms in \<open>auto simp: seen_def\<close>)

lemma visit_keeps_seen:
  "visit_visits_dom (Inl (steps, name, states)) \<Longrightarrow> seen states \<subseteq> seen (snd (visit steps name states))"
  "visit_visits_dom (Inr (steps, ds, states)) \<Longrightarrow> seen states \<subseteq> seen (snd (visits steps ds states))"
proof (induction rule: visit_visits.pinduct)
  case (1 steps name states)
  show ?case
  proof (cases "states name = 1 \<or> states name = 2")
    case True
    with 1(1) show ?thesis by (auto simp: visit.psimps)
  next
    case False
    with 1(2) have "seen states \<subseteq> seen (snd (visits steps (stepAfter steps name) (states(name := 1))))"
      by (simp add: seen_mark del: fun_upd_apply)
    with False 1(1) show ?thesis
      by (auto simp: visit.psimps seen_mark simp del: fun_upd_apply split: prod.splits option.splits)
  qed
next
  case (2 steps states)
  then show ?case by (simp add: visits.psimps)
next
  case (3 steps d ds states)
  then show ?case
    by (auto simp: visits.psimps split: prod.splits option.splits) (meson subsetD)
qed

termination visit
proof (relation "measures
    [\<lambda>x. case x of Inl (steps, name, states) \<Rightarrow> unseen steps states
                  | Inr (steps, ds, states) \<Rightarrow> unseen steps states,
     \<lambda>x. case x of Inl (steps, name, states) \<Rightarrow> 1
                  | Inr (steps, ds, states) \<Rightarrow> (if ds = [] then 0 else length ds + 1)]",
    goal_cases)
  case 1
  show ?case by simp
next
  case (2 steps name states)
  show ?case
  proof (cases "name \<in> fst ` set steps")
    case True
    with 2 show ?thesis by (simp add: unseen_mark)
  next
    case False
    then have "map_of steps name = None" by (simp add: map_of_eq_None_iff)
    then have "stepAfter steps name = []" by (simp add: stepAfter_def)
    moreover have "unseen steps (states(name := 1)) \<le> unseen steps states"
      by (rule unseen_mono) (auto simp: seen_mark)
    ultimately show ?thesis by auto
  qed
next
  case (3 steps d ds states)
  show ?case by simp
next
  case 4
  then show ?case
    by (simp add: le_less [symmetric]) (metis snd_conv unseen_mono visit_keeps_seen(1))
qed

declare visit.simps [simp del]

text \<open>The loop \<open>for name := range steps\<close> and the checks before it.\<close>

fun checkDependencies :: "steps \<Rightarrow> string \<Rightarrow> string list \<Rightarrow> err option" where
  "checkDependencies steps name [] = None"
| "checkDependencies steps name (d # ds) =
     (if d = name then Some (Text (''step '' @ name @ '' cannot depend on itself''))
      else if d \<notin> fst ` set steps
      then Some (Text (''step '' @ name @ '' depends on unknown step '' @ d))
      else checkDependencies steps name ds)"

fun checkSteps :: "steps \<Rightarrow> steps \<Rightarrow> err option" where
  "checkSteps steps [] = None"
| "checkSteps steps ((name, s) # es) =
     (case checkDependencies steps name (sd_After s) of
        Some e \<Rightarrow> Some e
      | None \<Rightarrow> checkSteps steps es)"

definition validateGraph :: "steps \<Rightarrow> err option" where
  "validateGraph steps =
     (case checkSteps steps steps of
        Some e \<Rightarrow> Some e
      | None \<Rightarrow> fst (visits steps (map fst steps) (\<lambda>_. 0)))"

section \<open>What the search finds\<close>

definition depends :: "steps \<Rightarrow> (string \<times> string) set" where
  "depends steps = {(n, d). d \<in> set (stepAfter steps n)}"

lemma depends_iff [simp]: "(n, d) \<in> depends steps \<longleftrightarrow> d \<in> set (stepAfter steps n)"
  by (simp add: depends_def)

definition black :: "(string \<Rightarrow> 8 word) \<Rightarrow> string set" where
  "black states = {n. states n = 2}"

definition gray :: "(string \<Rightarrow> 8 word) \<Rightarrow> string set" where
  "gray states = {n. states n = 1}"

text \<open>
  The invariant of the search: done steps only depend on done steps, and no done step depends on
  itself through others.
\<close>

definition done_inv :: "steps \<Rightarrow> string set \<Rightarrow> bool" where
  "done_inv steps B \<longleftrightarrow>
     (\<forall>n \<in> B. set (stepAfter steps n) \<subseteq> B) \<and> (\<forall>n \<in> B. (n, n) \<notin> (depends steps)\<^sup>+)"

lemma done_inv_closed:
  assumes "done_inv steps B" and "(m, n) \<in> (depends steps)\<^sup>+" and "m \<in> B"
  shows "n \<in> B"
  using assms(2,3)
proof (induction rule: trancl_induct)
  case (base y)
  then show ?case using assms(1) by (auto simp: done_inv_def)
next
  case (step y z)
  then show ?case using assms(1) by (auto simp: done_inv_def)
qed

lemma done_inv_insert:
  assumes inv: "done_inv steps B" and after: "set (stepAfter steps n) \<subseteq> B" and new: "n \<notin> B"
  shows "done_inv steps (insert n B)"
proof -
  have "(n, n) \<notin> (depends steps)\<^sup>+"
  proof
    assume "(n, n) \<in> (depends steps)\<^sup>+"
    then obtain d where "d \<in> set (stepAfter steps n)" and path: "(d, n) \<in> (depends steps)\<^sup>*"
      by (meson depends_iff tranclD)
    with after have "d \<in> B" by auto
    with path inv have "n \<in> B"
      by (metis done_inv_closed rtranclD)
    with new show False by simp
  qed
  with inv after show ?thesis by (auto simp: done_inv_def)
qed

text \<open>A search without an error keeps the stack.\<close>

lemma visit_gray:
  "fst (visit steps name states) = None \<Longrightarrow> gray (snd (visit steps name states)) = gray states"
  "fst (visits steps ds states) = None \<Longrightarrow> gray (snd (visits steps ds states)) = gray states"
proof (induction steps name states and steps ds states rule: visit_visits.induct)
  case (1 steps name states)
  show ?case
  proof (cases "states name = 1 \<or> states name = 2")
    case True
    with 1 show ?thesis by (auto simp: visit.simps [of steps name states])
  next
    case False
    obtain r st where rec: "visits steps (stepAfter steps name) (states(name := 1)) = (r, st)"
      by (cases "visits steps (stepAfter steps name) (states(name := 1))")
    with 1(2) False have "r = None"
      by (auto simp: visit.simps [of steps name states] split: option.splits)
    with 1(1) False rec have "gray st = gray (states(name := 1))"
      by (auto simp del: fun_upd_apply)
    then have "gray (st(name := 2)) = gray states"
      using False by (auto simp: gray_def set_eq_iff split: if_splits)
    with False rec \<open>r = None\<close> show ?thesis
      by (simp add: visit.simps [of steps name states] del: fun_upd_apply)
  qed
next
  case (2 steps states)
  then show ?case by simp
next
  case (3 steps d ds states)
  then show ?case by (auto split: prod.splits option.splits)
qed

text \<open>A search without an error marks everything it was asked for as done.\<close>

lemma visit_sound:
  "visit steps name states = (None, states') \<Longrightarrow> done_inv steps (black states) \<Longrightarrow>
     insert name (black states) \<subseteq> black states' \<and> done_inv steps (black states')"
  "visits steps ds states = (None, states') \<Longrightarrow> done_inv steps (black states) \<Longrightarrow>
     set ds \<union> black states \<subseteq> black states' \<and> done_inv steps (black states')"
proof (induction steps name states and steps ds states arbitrary: states' and states'
    rule: visit_visits.induct)
  case (1 steps name states)
  show ?case
  proof (cases "states name = 1 \<or> states name = 2")
    case True
    with 1(2,3) show ?thesis
      by (auto simp: visit.simps [of steps name states] black_def split: if_splits)
  next
    case False
    with 1(2) obtain st where rec: "visits steps (stepAfter steps name) (states(name := 1)) = (None, st)"
      and st': "states' = st(name := 2)"
      by (auto simp: visit.simps [of steps name states] split: prod.splits option.splits)
    have bl: "black (states(name := 1)) = black states"
      using False by (auto simp: black_def)
    have "set (stepAfter steps name) \<union> black (states(name := 1)) \<subseteq> black st \<and> done_inv steps (black st)"
      by (rule 1(1)) (use False rec bl 1(3) in \<open>simp_all del: fun_upd_apply\<close>)
    then have IH: "set (stepAfter steps name) \<union> black states \<subseteq> black st" "done_inv steps (black st)"
      unfolding bl by simp_all
    have "gray st = gray (states(name := 1))"
      using visit_gray(2) [of steps "stepAfter steps name" "states(name := 1)"] rec
      by (simp del: fun_upd_apply)
    moreover have "name \<in> gray (states(name := 1))" by (simp add: gray_def)
    ultimately have "name \<in> gray st" by (simp only:)
    then have "st name = 1" by (simp add: gray_def)
    then have "black states' = insert name (black st)" and "name \<notin> black st"
      by (auto simp: st' black_def)
    with IH show ?thesis by (auto intro: done_inv_insert)
  qed
next
  case (2 steps states)
  then show ?case by simp
next
  case (3 steps d ds states)
  from 3(3) obtain st where v: "visit steps d states = (None, st)"
    and vs: "visits steps ds st = (None, states')"
    by (auto split: prod.splits option.splits)
  from 3(1) [OF v 3(4)] have d: "insert d (black states) \<subseteq> black st" "done_inv steps (black st)"
    by auto
  from 3(2) [OF v [symmetric] refl vs d(2)] d show ?case by auto
qed

text \<open>An error of the search names a step that depends on itself.\<close>

lemma visit_complete:
  "visit steps name states = (Some e, states') \<Longrightarrow>
     (\<forall>g \<in> gray states. (g, name) \<in> (depends steps)\<^sup>+) \<Longrightarrow> \<exists>n. (n, n) \<in> (depends steps)\<^sup>+"
  "visits steps ds states = (Some e, states') \<Longrightarrow>
     (\<forall>d \<in> set ds. \<forall>g \<in> gray states. (g, d) \<in> (depends steps)\<^sup>+) \<Longrightarrow>
     \<exists>n. (n, n) \<in> (depends steps)\<^sup>+"
proof (induction steps name states and steps ds states arbitrary: states' and states'
    rule: visit_visits.induct)
  case (1 steps name states)
  show ?case
  proof (cases "states name = 1 \<or> states name = 2")
    case True
    with 1 show ?thesis by (auto simp: visit.simps [of steps name states] gray_def split: if_splits)
  next
    case False
    with 1 obtain st where rec: "visits steps (stepAfter steps name) (states(name := 1)) = (Some e, st)"
      by (auto simp: visit.simps [of steps name states] split: prod.splits option.splits)
    have "(g, d) \<in> (depends steps)\<^sup>+"
      if "d \<in> set (stepAfter steps name)" and g: "g \<in> gray (states(name := 1))" for d g
    proof -
      from that have "(name, d) \<in> depends steps" by simp
      moreover have "g = name \<or> (g, name) \<in> (depends steps)\<^sup>+"
        using g 1(3) by (auto simp: gray_def split: if_splits)
      ultimately show ?thesis by (auto intro: trancl_into_trancl)
    qed
    with 1(1) False rec show ?thesis by blast
  qed
next
  case (2 steps states)
  then show ?case by simp
next
  case (3 steps d ds states)
  obtain r st where v: "visit steps d states = (r, st)" by (cases "visit steps d states")
  show ?case
  proof (cases r)
    case None
    with v have "gray st = gray states"
      using visit_gray(1) [of steps d states] by simp
    with None 3(2) [OF v [symmetric] None] 3(3,4) v show ?thesis by auto
  next
    case (Some e')
    with 3(1,3,4) v show ?thesis by auto
  qed
qed

section \<open>What the checks accept\<close>

lemma checkDependencies_None:
  "checkDependencies steps name ds = None \<longleftrightarrow> name \<notin> set ds \<and> set ds \<subseteq> fst ` set steps"
  by (induction ds) auto

lemma checkSteps_None:
  "checkSteps steps es = None \<longleftrightarrow>
     (\<forall>(name, s) \<in> set es. name \<notin> set (sd_After s) \<and> set (sd_After s) \<subseteq> fst ` set steps)"
proof (induction steps es rule: checkSteps.induct)
  case (1 steps)
  then show ?case by simp
next
  case (2 steps name s es)
  then show ?case
    using checkDependencies_None [of steps name "sd_After s"]
    by (cases "checkDependencies steps name (sd_After s)") auto
qed

text \<open>A dependency graph is well formed when its edges stay inside it and it has no cycle.\<close>

definition graph_ok :: "steps \<Rightarrow> bool" where
  "graph_ok steps \<longleftrightarrow>
     (\<forall>(name, s) \<in> set steps. set (sd_After s) \<subseteq> fst ` set steps) \<and> acyclic (depends steps)"

lemma validateGraph_search:
  "fst (visits steps (map fst steps) (\<lambda>_. 0)) = None \<longleftrightarrow> acyclic (depends steps)"
proof
  assume "fst (visits steps (map fst steps) (\<lambda>_. 0)) = None"
  then obtain st where "visits steps (map fst steps) (\<lambda>_. 0) = (None, st)"
    by (metis prod.collapse)
  moreover have "black (\<lambda>_. 0) = {}" by (auto simp: black_def)
  ultimately have B: "fst ` set steps \<subseteq> black st" "done_inv steps (black st)"
    using visit_sound(2) [of steps "map fst steps" "\<lambda>_. 0" st] by (auto simp: done_inv_def)
  show "acyclic (depends steps)"
    unfolding acyclic_def
  proof (intro allI notI)
    fix n assume n: "(n, n) \<in> (depends steps)\<^sup>+"
    then obtain d where "d \<in> set (stepAfter steps n)" by (meson depends_iff tranclD)
    then have "n \<in> fst ` set steps"
      by (cases "map_of steps n") (auto simp: stepAfter_def dest: map_of_SomeD intro: rev_image_eqI)
    with B n show False by (auto simp: done_inv_def)
  qed
next
  assume "acyclic (depends steps)"
  moreover have "gray (\<lambda>_. 0) = {}" by (auto simp: gray_def)
  ultimately show "fst (visits steps (map fst steps) (\<lambda>_. 0)) = None"
    using visit_complete(2) [of steps "map fst steps" "\<lambda>_. 0"]
    by (cases "visits steps (map fst steps) (\<lambda>_. 0)"; cases "fst (visits steps (map fst steps) (\<lambda>_. 0))")
      (auto simp: acyclic_def)
qed

lemma validateGraph_None:
  assumes "distinct (map fst steps)"
  shows "validateGraph steps = None \<longleftrightarrow> graph_ok steps"
proof -
  have self: "name \<notin> set (sd_After s)" if "acyclic (depends steps)" "(name, s) \<in> set steps" for name s
  proof
    assume "name \<in> set (sd_After s)"
    then have "(name, name) \<in> depends steps"
      using that(2) assms by (simp add: stepAfter_def)
    with that(1) show False by (meson acyclic_def r_into_trancl')
  qed
  then have "checkSteps steps steps = None" if "graph_ok steps"
    using that by (fastforce simp: graph_ok_def checkSteps_None)
  moreover have "(\<forall>(name, s) \<in> set steps. set (sd_After s) \<subseteq> fst ` set steps)"
    if "checkSteps steps steps = None"
    using that by (auto simp: checkSteps_None)
  ultimately show ?thesis
    by (auto simp: validateGraph_def graph_ok_def validateGraph_search split: option.splits)
qed

end
