(* ===== verification/Agents.thy ===== *)
theory Agents
  imports Session_Types
begin

text \<open>
  The package agent (\<open>internal/agent\<close>): configured agents, the session definition an agent stands
  for, and the control that turns a request for an agent into a session start.
\<close>

record AgentDefinition =
  ad_Name :: string
  ad_Description :: string
  ad_Storage :: Storage
  ad_Instructions :: string
  ad_Skills :: "Skill list"
  ad_SetupCommand :: string
  ad_CloneDepth :: int
  ad_StorageSize :: string
  ad_Timeout :: int

record AgentSummary =
  as_Name :: string
  as_Description :: string
  as_Storage :: Storage
  as_Skills :: "string list"

record AgentCatalog =
  ac_List :: "AgentSummary list"
  ac_Find :: "string \<Rightarrow> AgentDefinition option"

record AgentStartRequest =
  ar_Agent :: string
  ar_Name :: string
  ar_Repository :: string
  ar_InitialRef :: string
  ar_Prompt :: string
  ar_Timeout :: int
  ar_ResultKind :: ResultKind
  ar_WorkflowRun :: string
  ar_WorkflowStep :: string

text \<open>The interface \<open>sessionStarter\<close> and the catalog, which may be absent.\<close>

record 'w AgentControl =
  agc_start :: "Definition \<Rightarrow> StartRequest \<Rightarrow> ('w, StartResult) op"
  agc_catalog :: "AgentCatalog option"

definition SessionDefinition :: "AgentDefinition \<Rightarrow> Definition" where
  "SessionDefinition a =
     \<lparr>def_Agent = ad_Name a, def_Storage = ad_Storage a, def_Instructions = ad_Instructions a,
      def_Skills = ad_Skills a, def_SetupCommand = ad_SetupCommand a,
      def_CloneDepth = ad_CloneDepth a, def_StorageSize = ad_StorageSize a, def_Timeout = ad_Timeout a\<rparr>"

definition findAgent :: "'w AgentControl \<Rightarrow> string \<Rightarrow> AgentDefinition option" where
  "findAgent c name = (case agc_catalog c of None \<Rightarrow> None | Some cat \<Rightarrow> ac_Find cat name)"

definition agent_Agents :: "'w AgentControl \<Rightarrow> AgentSummary list" where
  "agent_Agents c = (case agc_catalog c of None \<Rightarrow> [] | Some cat \<Rightarrow> ac_List cat)"

text \<open>The classification of a session error for the clients of agent control.\<close>

definition agentError :: "err \<Rightarrow> err" where
  "agentError e =
     (if ErrorKindOf PkgSession e = Some ErrorInvalid
      then OpError PkgAgent ErrorInvalid (error_text e) (Some e)
      else if ErrorKindOf PkgSession e = Some ErrorConflict \<or> errors_is e SessionErrConflict
      then OpError PkgAgent ErrorConflict (error_text e) (Some e)
      else OpError PkgAgent ErrorUnavailable ''start session failed'' (Some e))"

definition agentSessionRequest :: "AgentStartRequest \<Rightarrow> StartRequest" where
  "agentSessionRequest r =
     \<lparr>req_Name = ar_Name r, req_Repository = ar_Repository r, req_InitialRef = ar_InitialRef r,
      req_Prompt = ar_Prompt r, req_Timeout = ar_Timeout r, req_ResultKind = ar_ResultKind r,
      req_WorkflowRun = ar_WorkflowRun r, req_WorkflowStep = ar_WorkflowStep r,
      req_ChangeInput = None\<rparr>"

definition agent_Start :: "'w AgentControl \<Rightarrow> AgentStartRequest \<Rightarrow> ('w, StartResult) op" where
  "agent_Start c r =
     (case findAgent c (ar_Agent r) of
        None \<Rightarrow> throw (OpError PkgAgent ErrorNotFound
                  (''agent '' @ ar_Agent r @ '' is not configured'') None)
      | Some a \<Rightarrow>
          handle (agc_start c (SessionDefinition a) (agentSessionRequest r))
            (\<lambda>e. throw (agentError e)) ret)"

end
