(* ===== verification/Workflow_Catalog.thy ===== *)
theory Workflow_Catalog
  imports Workflow_Graph Agents
begin

text \<open>
  The workflow catalog (\<open>internal/catalog/workflows.go\<close>): from the decoded file to the validated
  definitions that workflow control runs.  The YAML decoder (\<open>yaml.UnmarshalStrict\<close>) and the DNS label
  check of the Kubernetes libraries are not part of the repository; they are the parameters \<open>decode\<close>
  and \<open>isDNS1123Label\<close>.  A map of the file is an association list in the order in which the code
  happens to range over it.
\<close>

record StepFile =
  sf_Agent :: string
  sf_Prompt :: string
  sf_After :: "string list"
  sf_ChangeFrom :: string
  sf_Publishable :: bool

record DefinitionFile =
  df_Description :: string
  df_MaxParallelism :: int
  df_Steps :: "(string \<times> StepFile) list"

record WorkflowCatalogFile =
  wcf_Version :: string
  wcf_Workflows :: "(string \<times> DefinitionFile) list"

definition maxWorkflowConfigBytes :: int where "maxWorkflowConfigBytes = 900 * 1024"
definition maxWorkflowSteps :: int where "maxWorkflowSteps = 16"
definition maxParallelism :: int where "maxParallelism = 8"

section \<open>Steps\<close>

fun join_with :: "string \<Rightarrow> string list \<Rightarrow> string" where
  "join_with sep [] = []"
| "join_with sep [s] = s"
| "join_with sep (s # ss) = s @ sep @ join_with sep ss"

fun duplicatedDependency :: "string list \<Rightarrow> string list \<Rightarrow> string option" where
  "duplicatedDependency seen_before [] = None"
| "duplicatedDependency seen_before (d # ds) =
     (if d \<in> set seen_before then Some d else duplicatedDependency (d # seen_before) ds)"

definition labelError :: "string list \<Rightarrow> err" where
  "labelError messages = Text (''name must be a lowercase DNS label: '' @ join_with '', '' messages)"

definition loadWorkflowStep ::
  "(string \<Rightarrow> string list) \<Rightarrow> AgentCatalog option \<Rightarrow> string \<Rightarrow> StepFile \<Rightarrow> err + StepDefinition" where
  "loadWorkflowStep isDNS1123Label agents name f =
     (if isDNS1123Label name \<noteq> [] then Inl (labelError (isDNS1123Label name))
      else if blank (sf_Prompt f) then Inl (Text ''prompt is required'')
      else case agents of
        None \<Rightarrow> Inl (Text (''agent '' @ sf_Agent f @ '' is not configured''))
      | Some cat \<Rightarrow>
          (case ac_Find cat (sf_Agent f) of
             None \<Rightarrow> Inl (Text (''agent '' @ sf_Agent f @ '' is not configured''))
           | Some a \<Rightarrow>
               (case duplicatedDependency [] (sf_After f) of
                  Some d \<Rightarrow> Inl (Text (''dependency '' @ d @ '' is duplicated''))
                | None \<Rightarrow>
                    Inr \<lparr>sd_Name = name, sd_Agent = sf_Agent f, sd_Prompt = sf_Prompt f,
                         sd_After = sf_After f, sd_ChangeFrom = sf_ChangeFrom f,
                         sd_Publishable = sf_Publishable f,
                         sd_SessionDefinition = SessionDefinition a\<rparr>)))"

text \<open>
  The loop over \<open>raw.Steps\<close>: the accumulator is the map built so far and the name of the publishable
  step, empty for none.
\<close>

fun loadSteps ::
  "(string \<Rightarrow> string list) \<Rightarrow> AgentCatalog option \<Rightarrow> (string \<times> StepFile) list \<Rightarrow> steps \<Rightarrow> string
   \<Rightarrow> err + steps \<times> string" where
  "loadSteps isDNS1123Label agents [] steps publishable = Inr (steps, publishable)"
| "loadSteps isDNS1123Label agents ((name, f) # fs) steps publishable =
     (case loadWorkflowStep isDNS1123Label agents name f of
        Inl e \<Rightarrow> Inl (errorf (''step '' @ name) e)
      | Inr s \<Rightarrow>
          if sd_Publishable s \<and> publishable \<noteq> [] then Inl (Text ''only one step may be publishable'')
          else loadSteps isDNS1123Label agents fs (AList.update name s steps)
                 (if sd_Publishable s then name else publishable))"

section \<open>Change handoffs, storage and leaves\<close>

fun validateChangeHandoffs :: "steps \<Rightarrow> string list \<Rightarrow> err + string list" where
  "validateChangeHandoffs [] producers = Inr producers"
| "validateChangeHandoffs ((name, s) # es) producers =
     (if sd_ChangeFrom s = [] then validateChangeHandoffs es producers
      else if sd_ChangeFrom s \<notin> set (sd_After s)
      then Inl (Text (''step '' @ name @ '' change_from '' @ sd_ChangeFrom s
             @ '' must be a direct dependency''))
      else validateChangeHandoffs es (sd_ChangeFrom s # producers))"

fun checkStorage :: "string list \<Rightarrow> steps \<Rightarrow> err option" where
  "checkStorage producers [] = None"
| "checkStorage producers ((name, s) # es) =
     (if sd_Publishable s \<or> name \<in> set producers then
        (if def_Storage (sd_SessionDefinition s) \<noteq> StoragePersistent
         then Some (Text (''step '' @ name @ '' requires a persistent agent''))
         else checkStorage producers es)
      else if def_Storage (sd_SessionDefinition s) \<noteq> StorageEphemeral
      then Some (Text (''step '' @ name @ '': non-publishable step requires an ephemeral agent''))
      else checkStorage producers es)"

definition checkLeaf :: "steps \<Rightarrow> string \<Rightarrow> err option" where
  "checkLeaf steps publishable =
     (if publishable \<noteq> [] \<and> list_ex (\<lambda>e. publishable \<in> set (sd_After (snd e))) steps
      then Some (Text (''publishable step '' @ publishable @ '' must be a leaf'')) else None)"

section \<open>Definitions and catalogs\<close>

definition loadWorkflowDefinition ::
  "(string \<Rightarrow> string list) \<Rightarrow> AgentCatalog option \<Rightarrow> string \<Rightarrow> DefinitionFile \<Rightarrow> err + WorkflowDefinition" where
  "loadWorkflowDefinition isDNS1123Label agents name f =
     (if isDNS1123Label name \<noteq> [] then Inl (labelError (isDNS1123Label name))
      else if blank (df_Description f) then Inl (Text ''description is required'')
      else
        let parallelism = (if df_MaxParallelism f = 0 then 1 else df_MaxParallelism f) in
        if parallelism < 1 \<or> parallelism > maxParallelism
        then Inl (Text (''max_parallelism must be between 1 and '' @ itoa maxParallelism))
        else if df_Steps f = [] \<or> int (length (df_Steps f)) > maxWorkflowSteps
        then Inl (Text (''steps must contain between 1 and '' @ itoa maxWorkflowSteps @ '' entries''))
        else case loadSteps isDNS1123Label agents (df_Steps f) [] [] of
          Inl e \<Rightarrow> Inl e
        | Inr (steps, publishable) \<Rightarrow>
            (case validateGraph steps of
               Some e \<Rightarrow> Inl e
             | None \<Rightarrow>
                 (case validateChangeHandoffs steps [] of
                    Inl e \<Rightarrow> Inl e
                  | Inr producers \<Rightarrow>
                      (case checkStorage producers steps of
                         Some e \<Rightarrow> Inl e
                       | None \<Rightarrow>
                           (case checkLeaf steps publishable of
                              Some e \<Rightarrow> Inl e
                            | None \<Rightarrow>
                                Inr \<lparr>wd_Name = name, wd_Description = df_Description f,
                                     wd_MaxParallelism = parallelism, wd_Steps = steps\<rparr>)))))"

fun loadDefinitions ::
  "(string \<Rightarrow> string list) \<Rightarrow> AgentCatalog option \<Rightarrow> (string \<times> DefinitionFile) list
   \<Rightarrow> (string \<times> WorkflowDefinition) list \<Rightarrow> err + (string \<times> WorkflowDefinition) list" where
  "loadDefinitions isDNS1123Label agents [] acc = Inr acc"
| "loadDefinitions isDNS1123Label agents ((name, f) # fs) acc =
     (case loadWorkflowDefinition isDNS1123Label agents name f of
        Inl e \<Rightarrow> Inl (errorf (''workflow '' @ name) e)
      | Inr d \<Rightarrow> loadDefinitions isDNS1123Label agents fs (AList.update name d acc))"

definition loadWorkflowCatalog ::
  "(string \<Rightarrow> err + WorkflowCatalogFile) \<Rightarrow> (string \<Rightarrow> string list) \<Rightarrow> AgentCatalog option \<Rightarrow> string
   \<Rightarrow> err + (string \<times> WorkflowDefinition) list" where
  "loadWorkflowCatalog decode isDNS1123Label agents contents =
     (case decode contents of
        Inl e \<Rightarrow> Inl (errorf ''decode workflows file'' e)
      | Inr file \<Rightarrow>
          if wcf_Version file \<noteq> ''v1''
          then Inl (Text (''unsupported workflows file version '' @ quoted (wcf_Version file)))
          else if wcf_Workflows file = []
          then Inl (Text ''workflows file must define at least one workflow'')
          else loadDefinitions isDNS1123Label agents (wcf_Workflows file) [])"

text \<open>\<open>LoadWorkflows\<close>, given what \<open>os.ReadFile\<close> returned.\<close>

definition LoadWorkflows ::
  "(string \<Rightarrow> err + WorkflowCatalogFile) \<Rightarrow> (string \<Rightarrow> string list) \<Rightarrow> AgentCatalog option \<Rightarrow> err + string
   \<Rightarrow> err + (string \<times> WorkflowDefinition) list" where
  "LoadWorkflows decode isDNS1123Label agents contents =
     (case contents of
        Inl e \<Rightarrow> Inl (errorf ''read workflows file'' e)
      | Inr text \<Rightarrow>
          if int (length text) > maxWorkflowConfigBytes
          then Inl (Text (''workflows file exceeds '' @ itoa maxWorkflowConfigBytes @ '' bytes''))
          else loadWorkflowCatalog decode isDNS1123Label agents text)"

definition workflows_List :: "(string \<times> WorkflowDefinition) list option \<Rightarrow> WorkflowSummary list" where
  "workflows_List c =
     (case c of
        None \<Rightarrow> []
      | Some ds \<Rightarrow> sort_key ws_Name (map (\<lambda>(_, d).
          \<lparr>ws_Name = wd_Name d, ws_Description = wd_Description d,
           ws_MaxParallelism = wd_MaxParallelism d, ws_Steps = length (wd_Steps d)\<rparr>) ds))"

definition workflows_Find ::
  "(string \<times> WorkflowDefinition) list option \<Rightarrow> string \<Rightarrow> WorkflowDefinition option" where
  "workflows_Find c name = (case c of None \<Rightarrow> None | Some ds \<Rightarrow> map_of ds name)"

text \<open>A loaded catalog as the interface \<open>workflow.Catalog\<close>.\<close>

definition catalogOf :: "(string \<times> WorkflowDefinition) list option \<Rightarrow> WorkflowCatalog" where
  "catalogOf c = \<lparr>cat_List = workflows_List c, cat_Find = workflows_Find c\<rparr>"

section \<open>What a loaded definition satisfies\<close>

text \<open>The contract that workflow control relies on.\<close>

definition step_ok :: "steps \<Rightarrow> string \<Rightarrow> StepDefinition \<Rightarrow> bool" where
  "step_ok steps name s \<longleftrightarrow>
     name \<noteq> [] \<and> sd_Name s = name \<and> \<not> blank (sd_Prompt s) \<and> distinct (sd_After s)
     \<and> (sd_ChangeFrom s \<noteq> [] \<longrightarrow> sd_ChangeFrom s \<in> set (sd_After s))
     \<and> (def_Storage (sd_SessionDefinition s) = StoragePersistent \<longleftrightarrow>
          sd_Publishable s \<or> (\<exists>(n, c) \<in> set steps. sd_ChangeFrom c = name))"

definition definition_ok :: "WorkflowDefinition \<Rightarrow> bool" where
  "definition_ok d \<longleftrightarrow>
     distinct (map fst (wd_Steps d)) \<and> wd_Steps d \<noteq> []
     \<and> int (length (wd_Steps d)) \<le> maxWorkflowSteps
     \<and> 1 \<le> wd_MaxParallelism d \<and> wd_MaxParallelism d \<le> maxParallelism
     \<and> graph_ok (wd_Steps d)
     \<and> (\<forall>(name, s) \<in> set (wd_Steps d). step_ok (wd_Steps d) name s)
     \<and> (\<forall>(n, s) \<in> set (wd_Steps d). \<forall>(m, t) \<in> set (wd_Steps d).
          sd_Publishable s \<longrightarrow> (sd_Publishable t \<longrightarrow> n = m) \<and> n \<notin> set (sd_After t))"

lemma duplicatedDependency_None:
  "duplicatedDependency seen_before ds = None \<longleftrightarrow> distinct ds \<and> set ds \<inter> set seen_before = {}"
  by (induction ds arbitrary: seen_before) auto

lemma loadWorkflowStep_Inr:
  assumes "loadWorkflowStep isDNS1123Label agents name f = Inr s"
  shows "isDNS1123Label name = []" and "sd_Name s = name" and "\<not> blank (sd_Prompt s)"
    and "distinct (sd_After s)" and "sd_Publishable s = sf_Publishable f"
    and "\<exists>cat a. agents = Some cat \<and> ac_Find cat (sd_Agent s) = Some a
           \<and> sd_SessionDefinition s = SessionDefinition a"
  using assms
  by (auto simp: loadWorkflowStep_def duplicatedDependency_None split: if_splits option.splits)

text \<open>The map that the loop builds from distinct names, with at most one publishable step.\<close>

definition step_loaded :: "(string \<Rightarrow> string list) \<Rightarrow> string \<Rightarrow> string \<Rightarrow> StepDefinition \<Rightarrow> bool" where
  "step_loaded isDNS1123Label publishable name s \<longleftrightarrow>
     isDNS1123Label name = [] \<and> sd_Name s = name \<and> \<not> blank (sd_Prompt s) \<and> distinct (sd_After s)
     \<and> (sd_Publishable s \<longleftrightarrow> name = publishable)"

definition loaded_steps :: "(string \<Rightarrow> string list) \<Rightarrow> steps \<Rightarrow> string \<Rightarrow> bool" where
  "loaded_steps isDNS1123Label steps publishable \<longleftrightarrow>
     distinct (map fst steps)
     \<and> (\<forall>(name, s) \<in> set steps. step_loaded isDNS1123Label publishable name s)
     \<and> (publishable \<noteq> [] \<longrightarrow> publishable \<in> fst ` set steps)"

lemma update_new: "k \<notin> fst ` set m \<Longrightarrow> AList.update k v m = m @ [(k, v)]"
  by (induction m) auto

lemma loaded_stepsD: "loaded_steps L steps p \<Longrightarrow> (n, t) \<in> set steps \<Longrightarrow> step_loaded L p n t"
  by (auto simp: loaded_steps_def)

lemma loaded_steps_snocI:
  assumes "distinct (map fst steps)" and "name \<notin> fst ` set steps"
    and "\<And>n t. (n, t) \<in> set steps \<Longrightarrow> step_loaded L p n t" and "step_loaded L p name s"
    and "p \<noteq> [] \<Longrightarrow> p \<in> insert name (fst ` set steps)"
  shows "loaded_steps L (steps @ [(name, s)]) p"
  unfolding loaded_steps_def using assms by simp blast

lemma loaded_steps_snoc:
  assumes loaded: "loaded_steps L steps p" and new: "name \<notin> fst ` set steps" and L: "L [] \<noteq> []"
    and s: "step_loaded L (if sd_Publishable s then name else []) name s"
    and one: "sd_Publishable s \<longrightarrow> p = []"
  shows "loaded_steps L (steps @ [(name, s)]) (if sd_Publishable s then name else p)"
proof -
  have d: "distinct (map fst steps)" and p: "p \<noteq> [] \<longrightarrow> p \<in> fst ` set steps"
    using loaded by (simp_all add: loaded_steps_def)
  show ?thesis
  proof (cases "sd_Publishable s")
    case True
    have "step_loaded L name n t" if n: "(n, t) \<in> set steps" for n t
    proof -
      have "n \<noteq> name" using n new by force
      moreover have "step_loaded L [] n t" using loaded_stepsD [OF loaded n] True one by simp
      moreover from this have "n \<noteq> []" using L by (auto simp: step_loaded_def)
      ultimately show ?thesis by (simp add: step_loaded_def)
    qed
    moreover have "step_loaded L name name s" using s True by simp
    ultimately show ?thesis unfolding if_P [OF True] by (intro loaded_steps_snocI d new) auto
  next
    case False
    have "name \<noteq> []" using s L by (auto simp: step_loaded_def)
    with p new have "name \<noteq> p" by auto
    with s False have "step_loaded L p name s" by (simp add: step_loaded_def)
    with p show ?thesis
      unfolding if_not_P [OF False]
      using loaded_steps_snocI [OF d new loaded_stepsD [OF loaded]] by blast
  qed
qed

lemma loadSteps_Inr:
  assumes "loadSteps L agents fs steps p = Inr (steps', p')"
    and "L [] \<noteq> []"
    and "distinct (map fst fs)" and "fst ` set fs \<inter> fst ` set steps = {}"
    and "loaded_steps L steps p"
  shows "loaded_steps L steps' p' \<and> map fst steps' = map fst steps @ map fst fs"
  using assms
proof (induction L agents fs steps p rule: loadSteps.induct)
  case (1 L agents steps p)
  then show ?case by simp
next
  case (2 L agents name f fs steps p)
  from 2(2) obtain s where s: "loadWorkflowStep L agents name f = Inr s"
    and one: "\<not> (sd_Publishable s \<and> p \<noteq> [])"
    and rest: "loadSteps L agents fs (AList.update name s steps)
        (if sd_Publishable s then name else p) = Inr (steps', p')"
    by (auto split: sum.splits if_splits)
  have new: "name \<notin> fst ` set steps" using 2(5) by auto
  have "step_loaded L (if sd_Publishable s then name else []) name s"
    using loadWorkflowStep_Inr(1-4) [OF s] 2(3) by (auto simp: step_loaded_def)
  then have loaded: "loaded_steps L (AList.update name s steps) (if sd_Publishable s then name else p)"
    using loaded_steps_snoc [OF 2(6) new 2(3)] one unfolding update_new [OF new] by blast
  have "fst ` set fs \<inter> fst ` set (AList.update name s steps) = {}"
    using 2(4,5) by (auto simp: update_new [OF new])
  with 2(1) [OF s one rest 2(3)] loaded 2(4) show ?case by (simp add: update_new [OF new])
qed

lemma validateChangeHandoffs_Inr:
  "validateChangeHandoffs es producers = Inr ps \<Longrightarrow>
     (\<forall>(n, s) \<in> set es. sd_ChangeFrom s \<noteq> [] \<longrightarrow> sd_ChangeFrom s \<in> set (sd_After s))
     \<and> set ps = set producers \<union> {sd_ChangeFrom s | n s. (n, s) \<in> set es \<and> sd_ChangeFrom s \<noteq> []}"
  by (induction es producers rule: validateChangeHandoffs.induct) (auto split: if_splits)

lemma checkStorage_None:
  "checkStorage producers es = None \<longleftrightarrow>
     (\<forall>(name, s) \<in> set es. def_Storage (sd_SessionDefinition s) =
        (if sd_Publishable s \<or> name \<in> set producers then StoragePersistent else StorageEphemeral))"
  by (induction producers es rule: checkStorage.induct) auto

text \<open>Every definition that the catalog accepts satisfies the contract.\<close>

lemma loadWorkflowDefinition_Inr:
  assumes load: "loadWorkflowDefinition L agents name f = Inr d"
    and L: "L [] \<noteq> []" and dist: "distinct (map fst (df_Steps f))"
  shows "definition_ok d" and "wd_Name d = name" and "map fst (wd_Steps d) = map fst (df_Steps f)"
proof -
  from load obtain steps p ps where
      steps: "loadSteps L agents (df_Steps f) [] [] = Inr (steps, p)"
    and graph: "validateGraph steps = None"
    and handoffs: "validateChangeHandoffs steps [] = Inr ps"
    and storage: "checkStorage ps steps = None" and leaf: "checkLeaf steps p = None"
    and d: "d = \<lparr>wd_Name = name, wd_Description = df_Description f,
        wd_MaxParallelism = (if df_MaxParallelism f = 0 then 1 else df_MaxParallelism f),
        wd_Steps = steps\<rparr>"
    and par: "1 \<le> wd_MaxParallelism d" "wd_MaxParallelism d \<le> maxParallelism"
    and size: "df_Steps f \<noteq> []" "int (length (df_Steps f)) \<le> maxWorkflowSteps"
    by (auto simp: loadWorkflowDefinition_def Let_def split: if_splits sum.splits option.splits)
  have keys: "map fst steps = map fst (df_Steps f)" and loaded: "loaded_steps L steps p"
    using loadSteps_Inr [OF steps L dist] by (auto simp: loaded_steps_def)
  then have distinct: "distinct (map fst steps)" using dist by simp
  have len: "length steps = length (df_Steps f)"
    using keys by (metis length_map)
  have graph_ok: "graph_ok steps" using graph validateGraph_None [OF distinct] by simp
  have per_step: "step_ok steps name s"
    if ns: "(name, s) \<in> set steps" for name s
  proof -
    have sl: "step_loaded L p name s" using loaded ns by (rule loaded_stepsD)
    then have "name \<noteq> []" using L by (auto simp: step_loaded_def)
    then have "name \<in> set ps \<longleftrightarrow> (\<exists>(n, c) \<in> set steps. sd_ChangeFrom c = name)"
      using validateChangeHandoffs_Inr [OF handoffs] by auto
    moreover have "def_Storage (sd_SessionDefinition s) =
        (if sd_Publishable s \<or> name \<in> set ps then StoragePersistent else StorageEphemeral)"
      using storage ns by (auto simp: checkStorage_None)
    moreover have "sd_ChangeFrom s \<noteq> [] \<longrightarrow> sd_ChangeFrom s \<in> set (sd_After s)"
      using validateChangeHandoffs_Inr [OF handoffs] ns by auto
    ultimately show ?thesis
      using sl \<open>name \<noteq> []\<close> by (auto simp: step_loaded_def step_ok_def)
  qed
  have leaf': "(sd_Publishable t \<longrightarrow> n = m) \<and> n \<notin> set (sd_After t)"
    if "(n, s) \<in> set steps" "(m, t) \<in> set steps" "sd_Publishable s" for n m s t
  proof -
    have "n = p" "sd_Publishable t \<longrightarrow> m = p"
      using loaded_stepsD [OF loaded that(1)] loaded_stepsD [OF loaded that(2)] that(3)
      by (auto simp: step_loaded_def)
    moreover have "p \<noteq> []"
      using loaded_stepsD [OF loaded that(1)] \<open>n = p\<close> L by (auto simp: step_loaded_def)
    ultimately show ?thesis
      using leaf that(2) by (auto simp: checkLeaf_def list_ex_iff split: if_splits)
  qed
  show "definition_ok d"
    unfolding definition_ok_def
  proof (intro conjI)
    show "wd_Steps d \<noteq> []" using len size(1) by (auto simp: d)
    show "\<forall>(name, s) \<in> set (wd_Steps d). step_ok (wd_Steps d) name s"
      using per_step by (auto simp: d)
    show "\<forall>(n, s) \<in> set (wd_Steps d). \<forall>(m, t) \<in> set (wd_Steps d).
          sd_Publishable s \<longrightarrow> (sd_Publishable t \<longrightarrow> n = m) \<and> n \<notin> set (sd_After t)"
      using leaf' by (fastforce simp: d)
  qed (use distinct len size par graph_ok in \<open>simp_all add: d\<close>)
  show "wd_Name d = name" and "map fst (wd_Steps d) = map fst (df_Steps f)"
    by (simp_all add: d keys)
qed

end
