(* ===== verification/GitHub_Client.thy ===== *)
theory GitHub_Client
  imports Publish_Types
begin

text \<open>
  The GitHub operations of publishing (\<open>internal/github/client.go\<close>) over the API client, a third-party
  package, which is the record \<open>GitHubAPI\<close>: its requests either succeed, fail with status 404 or fail
  otherwise.  \<open>url.Parse\<close> is the parameter of \<open>ParseRepository\<close>.
\<close>

datatype 'a response = ApiOk 'a | ApiNotFound err | ApiFailed err

text \<open>
  \<open>api_tick\<close> is the \<open>select\<close> of the polling loops: \<open>True\<close> when the ticker fired first, \<open>False\<close> when
  the deadline passed.
\<close>

record 'w GitHubAPI =
  api_GetRef :: "GitHubRepository \<Rightarrow> string \<Rightarrow> 'w \<Rightarrow> string response \<times> 'w"
  api_ListOpenPulls :: "GitHubRepository \<Rightarrow> string \<Rightarrow> string \<Rightarrow> 'w \<Rightarrow> PullRequest list response \<times> 'w"
  api_CreatePull :: "GitHubRepository \<Rightarrow> string \<Rightarrow> string \<Rightarrow> string \<Rightarrow> string \<Rightarrow> bool
                       \<Rightarrow> 'w \<Rightarrow> PullRequest option response \<times> 'w"
  api_tick :: "'w \<Rightarrow> bool \<times> 'w"
  api_contextError :: err

section \<open>Repositories\<close>

text \<open>The fields of \<open>url.URL\<close> that are read.\<close>

record URL =
  url_Scheme :: string
  url_Hostname :: string
  url_HasUser :: bool
  url_RawQuery :: string
  url_Fragment :: string
  url_Path :: string

definition ascii_fold :: "char \<Rightarrow> char" where
  "ascii_fold c = (if 65 \<le> (of_char c :: nat) \<and> (of_char c :: nat) \<le> 90
     then char_of (of_char c + (32 :: nat)) else c)"

text \<open>\<open>strings.Split(s, "/")\<close>, \<open>strings.Trim(s, "/")\<close> and \<open>strings.TrimSuffix\<close>\<close>

fun split_slash :: "string \<Rightarrow> string \<Rightarrow> string list" where
  "split_slash part [] = [rev part]"
| "split_slash part (c # cs) =
     (if c = CHR ''/'' then rev part # split_slash [] cs else split_slash (c # part) cs)"

definition trim_slash :: "string \<Rightarrow> string" where
  "trim_slash s =
     rev (dropWhile (\<lambda>c. c = CHR ''/'') (rev (dropWhile (\<lambda>c. c = CHR ''/'') s)))"

definition trim_suffix :: "string \<Rightarrow> string \<Rightarrow> string" where
  "trim_suffix suffix s =
     (if is_prefix_of (rev suffix) (rev s) then take (length s - length suffix) s else s)"

definition ParseRepository :: "(string \<Rightarrow> err + URL) \<Rightarrow> string \<Rightarrow> err + GitHubRepository" where
  "ParseRepository parseURL rawURL =
     (case parseURL rawURL of
        Inl e \<Rightarrow> Inl (errorf ''parse repository URL'' e)
      | Inr u \<Rightarrow>
          if url_Scheme u \<noteq> ''https'' \<or> map ascii_fold (url_Hostname u) \<noteq> ''github.com'' \<or> url_HasUser u
             \<or> url_RawQuery u \<noteq> [] \<or> url_Fragment u \<noteq> []
          then Inl (Text ''publishing requires an HTTPS github.com repository URL'')
          else (case split_slash [] (trim_slash (url_Path u)) of
                  [owner, repo] \<Rightarrow>
                    if owner = [] \<or> repo = []
                    then Inl (Text ''repository URL must contain one owner and repository name'')
                    else let name = trim_suffix ''.git'' repo
                         in if name = [] then Inl (Text ''repository URL has an empty repository name'')
                            else Inr \<lparr>repo_owner = owner, repo_name = name\<rparr>
                | _ \<Rightarrow> Inl (Text ''repository URL must contain one owner and repository name'')))"

definition CommitAuthor :: "string \<times> string" where
  "CommitAuthor = (''dyne'', ''dyne@localhost'')"

section \<open>Branches\<close>

definition BranchCommitSHA ::
  "'w GitHubAPI \<Rightarrow> GitHubRepository \<Rightarrow> string \<Rightarrow> ('w, string \<times> bool) op" where
  "BranchCommitSHA api repo branch w =
     (case api_GetRef api repo (''heads/'' @ branch) w of
        (ApiNotFound e, w') \<Rightarrow> ret ([], False) w'
      | (ApiFailed e, w') \<Rightarrow> throw (errorf (''get GitHub branch '' @ branch) e) w'
      | (ApiOk commit, w') \<Rightarrow>
          (if commit = [] then throw (Text (''GitHub branch '' @ branch @ '' has no commit''))
           else ret (commit, True)) w')"

text \<open>
  The polling loops.  The number bounds the ticks: a ticker of two seconds fires at most fifteen
  times within thirty seconds and five times within ten.
\<close>

fun waitForBranchCommit ::
  "'w GitHubAPI \<Rightarrow> GitHubRepository \<Rightarrow> string \<Rightarrow> string \<Rightarrow> nat \<Rightarrow> ('w, unit) op" where
  "waitForBranchCommit api repo branch expected ticks =
     andThen (BranchCommitSHA api repo branch) (\<lambda>(actual, exists).
       if exists then
         (if actual \<noteq> expected
          then throw (Text (''GitHub branch '' @ branch @ '' points to '' @ actual @ '' instead of '' @ expected))
          else ret ())
       else andThen (total (api_tick api)) (\<lambda>tick.
         case ticks of
           0 \<Rightarrow> throw (errorf (''wait for GitHub branch '' @ branch) (api_contextError api))
         | Suc n \<Rightarrow>
             if tick then waitForBranchCommit api repo branch expected n
             else throw (errorf (''wait for GitHub branch '' @ branch) (api_contextError api))))"

declare waitForBranchCommit.simps [simp del]

definition pollInterval :: nat where "pollInterval = 2"

definition WaitForBranchCommit ::
  "'w GitHubAPI \<Rightarrow> GitHubRepository \<Rightarrow> string \<Rightarrow> string \<Rightarrow> nat \<Rightarrow> ('w, unit) op" where
  "WaitForBranchCommit api repo branch expected seconds =
     waitForBranchCommit api repo branch expected (seconds div pollInterval)"

section \<open>Pull requests\<close>

definition pullRequestFromAPI :: "PullRequest option \<Rightarrow> err + PullRequest" where
  "pullRequestFromAPI result =
     (case result of
        None \<Rightarrow> Inl (Text ''GitHub returned a pull request without a number or URL'')
      | Some p \<Rightarrow>
          if pull_Number p \<le> 0 \<or> pull_URL p = []
          then Inl (Text ''GitHub returned a pull request without a number or URL'')
          else Inr p)"

definition FindOpenPullRequest ::
  "'w GitHubAPI \<Rightarrow> GitHubRepository \<Rightarrow> string \<Rightarrow> string \<Rightarrow> ('w, PullRequest option) op" where
  "FindOpenPullRequest api repo baseBranch branch w =
     (case api_ListOpenPulls api repo baseBranch branch w of
        (ApiNotFound e, w') \<Rightarrow> throw (errorf ''find existing GitHub pull request'' e) w'
      | (ApiFailed e, w') \<Rightarrow> throw (errorf ''find existing GitHub pull request'' e) w'
      | (ApiOk pulls, w') \<Rightarrow>
          (case pulls of
             [] \<Rightarrow> ret None
           | [p] \<Rightarrow> (case pullRequestFromAPI (Some p) of Inl e \<Rightarrow> throw e | Inr q \<Rightarrow> ret (Some q))
           | _ \<Rightarrow> throw (Text ''more than one open pull request uses the publish branch and base'')) w')"

fun waitForOpenPullRequest ::
  "'w GitHubAPI \<Rightarrow> GitHubRepository \<Rightarrow> string \<Rightarrow> string \<Rightarrow> nat \<Rightarrow> ('w, PullRequest option) op" where
  "waitForOpenPullRequest api repo baseBranch branch ticks =
     andThen (FindOpenPullRequest api repo baseBranch branch) (\<lambda>pull.
       case pull of
         Some p \<Rightarrow> ret (Some p)
       | None \<Rightarrow> andThen (total (api_tick api)) (\<lambda>tick.
           case ticks of
             0 \<Rightarrow> ret None
           | Suc n \<Rightarrow> if tick then waitForOpenPullRequest api repo baseBranch branch n else ret None))"

declare waitForOpenPullRequest.simps [simp del]

definition WaitForOpenPullRequest ::
  "'w GitHubAPI \<Rightarrow> GitHubRepository \<Rightarrow> string \<Rightarrow> string \<Rightarrow> nat \<Rightarrow> ('w, PullRequest option) op" where
  "WaitForOpenPullRequest api repo baseBranch branch seconds =
     waitForOpenPullRequest api repo baseBranch branch (seconds div pollInterval)"

definition CreatePullRequest ::
  "'w GitHubAPI \<Rightarrow> GitHubRepository \<Rightarrow> string \<Rightarrow> string \<Rightarrow> string \<Rightarrow> string \<Rightarrow> bool \<Rightarrow> ('w, PullRequest) op" where
  "CreatePullRequest api repo baseBranch branch title body draft w =
     (case api_CreatePull api repo baseBranch branch title body draft w of
        (ApiNotFound e, w') \<Rightarrow> throw (errorf ''create GitHub pull request'' e) w'
      | (ApiFailed e, w') \<Rightarrow> throw (errorf ''create GitHub pull request'' e) w'
      | (ApiOk result, w') \<Rightarrow>
          (case pullRequestFromAPI result of Inl e \<Rightarrow> throw e | Inr p \<Rightarrow> ret p) w')"

text \<open>The client as publishing sees it: the interface \<open>githubClient\<close>.\<close>

record 'w GitHubClient =
  gh_BranchCommitSHA :: "GitHubRepository \<Rightarrow> string \<Rightarrow> ('w, string \<times> bool) op"
  gh_WaitForBranchCommit :: "GitHubRepository \<Rightarrow> string \<Rightarrow> string \<Rightarrow> nat \<Rightarrow> ('w, unit) op"
  gh_FindOpenPullRequest :: "GitHubRepository \<Rightarrow> string \<Rightarrow> string \<Rightarrow> ('w, PullRequest option) op"
  gh_WaitForOpenPullRequest :: "GitHubRepository \<Rightarrow> string \<Rightarrow> string \<Rightarrow> nat \<Rightarrow> ('w, PullRequest option) op"
  gh_CreatePullRequest ::
    "GitHubRepository \<Rightarrow> string \<Rightarrow> string \<Rightarrow> string \<Rightarrow> string \<Rightarrow> bool \<Rightarrow> ('w, PullRequest) op"

definition newClient :: "(string \<Rightarrow> 'w GitHubAPI) \<Rightarrow> string \<Rightarrow> err + 'w GitHubClient" where
  "newClient connect token =
     (if blank token then Inl (Text ''GitHub token is required'')
      else let api = connect token
           in Inr \<lparr>gh_BranchCommitSHA = BranchCommitSHA api,
                   gh_WaitForBranchCommit = WaitForBranchCommit api,
                   gh_FindOpenPullRequest = FindOpenPullRequest api,
                   gh_WaitForOpenPullRequest = WaitForOpenPullRequest api,
                   gh_CreatePullRequest = CreatePullRequest api\<rparr>)"

end
