(* ===== verification/Publish_Control.thy ===== *)
theory Publish_Control
  imports GitHub_Client
begin

text \<open>
  Publish control (\<open>internal/publish/publish.go\<close>): one definition per function of the file, over a
  record \<open>PublishControl\<close> of its dependencies.  The publication that \<open>PreparePublication\<close> returns holds
  the lock of the session until \<open>publish\<close> returns, so a publish operation is atomic with respect to
  the other operations on its session.
\<close>

text \<open>\<open>RunPublisher\<close> may report a result together with an error.\<close>

record 'w PublishControl =
  pc_PreparePublication :: "string \<Rightarrow> ('w, PublicationSource) op"
  pc_repository :: "'w PublishRepository"
  pc_scope :: string
  pc_RunPublisher :: "PublisherRequest \<Rightarrow> 'w \<Rightarrow> (PublisherResult \<times> err option) \<times> 'w"
  pc_DeletePublisher :: "string \<Rightarrow> ('w, unit) op"
  pc_token :: "('w, string) op"
  pc_newGitHubClient :: "string \<Rightarrow> err + 'w GitHubClient"
  pc_now :: "'w \<Rightarrow> int \<times> 'w"
  pc_parseURL :: "string \<Rightarrow> err + URL"
  pc_sha256 :: "string \<Rightarrow> string"
  pc_marshalIntent :: "string \<Rightarrow> string \<Rightarrow> PublishRequest \<Rightarrow> string"

section \<open>Requests and records\<close>

definition second :: int where "second = 1000000000"

definition validatePublish :: "PublishRequest \<Rightarrow> err option" where
  "validatePublish q =
     (if blank (pq_Session q) \<or> blank (pq_Branch q) \<or> blank (pq_CommitMessage q)
      then Some (Text ''session name, branch, and commit message are required'')
      else if pq_Branch q \<noteq> TrimSpace (pq_Branch q)
      then Some (Text ''branch must not start or end with whitespace'')
      else if pq_Timeout q < second
      then Some (Text ''timeout must be at least one second'')
      else None)"

definition pullRequestMetadata :: "raw \<Rightarrow> err + string \<times> string" where
  "pullRequestMetadata contents =
     (case decode_strings [''title'', ''body''] contents of
        Inl e \<Rightarrow> Inl (errorf ''decode pull request artifact'' e)
      | Inr m \<Rightarrow>
          if blank (m ''title'') \<or> blank (m ''body'')
          then Inl (Text ''pull request artifact requires a title and body'')
          else Inr (m ''title'', m ''body''))"

definition publishIntentID :: "'w PublishControl \<Rightarrow> PublishRequest \<Rightarrow> string \<Rightarrow> string" where
  "publishIntentID c q repository =
     hex_encode (pc_sha256 c (pc_marshalIntent c (pc_scope c) repository q))"

definition recordResult :: "PublishRecord \<Rightarrow> PublishResult" where
  "recordResult r =
     \<lparr>pr_PullRequestNumber = pub_PullRequestNumber r, pr_PullRequestURL = pub_PullRequestURL r,
      pr_Branch = pq_Branch (pub_Request r), pr_CommitSHA = pub_CommitSHA r\<rparr>"

definition newPublishRecord ::
  "'w PublishControl \<Rightarrow> PublishRequest \<Rightarrow> PublicationSource \<Rightarrow> string \<times> string \<Rightarrow> int \<Rightarrow> PublishRecord" where
  "newPublishRecord c q src meta now =
     \<lparr>pub_Session = pq_Session q, pub_IntentID = publishIntentID c q (src_Repository src),
      pub_Request = q, pub_Repository = src_Repository src, pub_Image = src_Image src,
      pub_Title = fst meta, pub_Body = snd meta, pub_Change = src_Change src,
      pub_State = PublishPending, pub_CommitSHA = [], pub_PullRequestNumber = 0,
      pub_PullRequestURL = [], pub_Failure = [], pub_CreatedAt = now, pub_UpdatedAt = now,
      pub_Revision = 0\<rparr>"

definition conflictError :: "string \<Rightarrow> err" where
  "conflictError failure = Wrapped (''publication conflict: '' @ failure) (Sentinel PublishErrConflict)"

section \<open>Steps\<close>

definition save_publication :: "'w PublishControl \<Rightarrow> PublishRecord \<Rightarrow> ('w, PublishRecord) op" where
  "save_publication c r =
     andThen (total (pc_now c)) (\<lambda>now. bp_Update (pc_repository c) (r\<lparr>pub_UpdatedAt := now\<rparr>))"

definition createOrLoad :: "'w PublishControl \<Rightarrow> PublishRecord \<Rightarrow> ('w, PublishRecord) op" where
  "createOrLoad c r =
     handle (bp_Create (pc_repository c) r)
       (\<lambda>e. if \<not> errors_is e PublishErrConflict then throw e
            else andThen (bp_Get (pc_repository c) (pub_Session r)) (\<lambda>existing.
              if pub_IntentID existing \<noteq> pub_IntentID r
              then throw (conflictError ''session already has a different publish intent'')
              else ret existing))
       ret"

definition ownershipFailure :: "PublishRecord \<Rightarrow> string" where
  "ownershipFailure r =
     ''remote branch '' @ pq_Branch (pub_Request r)
     @ '' or its pull request existed before publish ownership was established''"

definition establishOwnership ::
  "'w PublishControl \<Rightarrow> PublishRecord \<Rightarrow> GitHubRepository \<Rightarrow> 'w GitHubClient \<Rightarrow> ('w, PublishRecord) op" where
  "establishOwnership c r repo client =
     andThen (gh_FindOpenPullRequest client repo (pq_BaseBranch (pub_Request r)) (pq_Branch (pub_Request r)))
       (\<lambda>pull. andThen (gh_BranchCommitSHA client repo (pq_Branch (pub_Request r)))
         (\<lambda>(_, branchExists).
           if pull \<noteq> None \<or> branchExists then
             (let r' = r\<lparr>pub_State := PublishConflicted, pub_Failure := ownershipFailure r\<rparr>
              in andThen (save_publication c r') (\<lambda>_. throw (conflictError (pub_Failure r'))))
           else save_publication c (r\<lparr>pub_State := PublishReady\<rparr>)))"

definition changedFailure :: "PublishRecord \<Rightarrow> string" where
  "changedFailure r =
     ''remote branch '' @ pq_Branch (pub_Request r) @ '' changed while the publisher execution was running''"

definition validResult :: "PublishRecord \<Rightarrow> PublisherResult \<Rightarrow> bool" where
  "validResult r result \<longleftrightarrow>
     po_Branch result = pq_Branch (pub_Request r) \<and> hex_of_length 40 (po_CommitSHA result)"

definition branchPublished :: "PublishRecord \<Rightarrow> PublisherResult \<Rightarrow> PublishRecord" where
  "branchPublished r result =
     r\<lparr>pub_CommitSHA := po_CommitSHA result, pub_State := PublishBranchPublished\<rparr>"

definition recoverFailedPublisher ::
  "'w PublishControl \<Rightarrow> PublishRecord \<Rightarrow> GitHubRepository \<Rightarrow> 'w GitHubClient \<Rightarrow> PublisherResult \<Rightarrow> err
   \<Rightarrow> ('w, PublishRecord) op" where
  "recoverFailedPublisher c r repo client result failure =
     handle (gh_BranchCommitSHA client repo (pq_Branch (pub_Request r)))
       (\<lambda>e. throw (Join [failure, errorf ''check branch after failed publisher execution'' e]))
       (\<lambda>(remoteCommit, exists).
          if \<not> exists then
            handle (pc_DeletePublisher c (pub_Session r))
              (\<lambda>e. throw (Join [failure, errorf ''clean failed publisher execution'' e]))
              (\<lambda>_. throw failure)
          else if validResult r result \<and> remoteCommit = po_CommitSHA result then
            handle (save_publication c (branchPublished r result))
              (\<lambda>e. throw (Join [failure, e])) ret
          else
            (let r' = r\<lparr>pub_State := PublishConflicted, pub_Failure := changedFailure r\<rparr>;
                 conflict = conflictError (pub_Failure r')
             in handle (save_publication c r')
                  (\<lambda>e. throw (Join [failure, e]))
                  (\<lambda>_. handle (pc_DeletePublisher c (pub_Session r'))
                     (\<lambda>e. throw (Join [conflict, errorf ''clean conflicted publisher execution'' e]))
                     (\<lambda>_. throw conflict))))"

definition publisherRequest :: "PublishRecord \<Rightarrow> string \<Rightarrow> PublisherRequest" where
  "publisherRequest r token =
     \<lparr>pe_Session = pub_Session r, pe_IntentID = pub_IntentID r, pe_Image = pub_Image r,
      pe_Repository = pub_Repository r, pe_RepositoryCredential = token,
      pe_BaseRef = pq_BaseBranch (pub_Request r), pe_Branch = pq_Branch (pub_Request r),
      pe_CommitMessage = pq_CommitMessage (pub_Request r), pe_AuthorName = fst CommitAuthor,
      pe_AuthorEmail = snd CommitAuthor, pe_Change = pub_Change r,
      pe_Timeout = pq_Timeout (pub_Request r)\<rparr>"

definition publishBranch ::
  "'w PublishControl \<Rightarrow> PublishRecord \<Rightarrow> string \<Rightarrow> GitHubRepository \<Rightarrow> 'w GitHubClient
   \<Rightarrow> ('w, PublishRecord) op" where
  "publishBranch c r token repo client =
     andThen (total (pc_RunPublisher c (publisherRequest r token))) (\<lambda>(result, failure).
       case failure of
         Some e \<Rightarrow>
           if errors_is e ErrExecutionFailed then recoverFailedPublisher c r repo client result e
           else throw e
       | None \<Rightarrow>
           if \<not> validResult r result
           then throw (Text ''publisher reported an invalid branch or commit'')
           else save_publication c (branchPublished r result))"

definition finish_publication :: "'w PublishControl \<Rightarrow> PublishRecord \<Rightarrow> ('w, PublishResult) op" where
  "finish_publication c r =
     handle (pc_DeletePublisher c (pub_Session r))
       (\<lambda>e. throw (errorf (''pull request created at '' @ pub_PullRequestURL r
                     @ ''; clean publisher execution'') e))
       (\<lambda>_. andThen (save_publication c (r\<lparr>pub_State := PublishCompleted\<rparr>))
          (\<lambda>r'. ret (recordResult r')))"

text \<open>Record the pull request and clean up: the end of both paths of \<open>publish\<close>.\<close>

definition recordPull :: "'w PublishControl \<Rightarrow> PublishRecord \<Rightarrow> PullRequest \<Rightarrow> ('w, PublishResult) op" where
  "recordPull c r pull =
     andThen (save_publication c (r\<lparr>pub_PullRequestNumber := pull_Number pull,
         pub_PullRequestURL := pull_URL pull, pub_State := PublishPullRequestCreated\<rparr>))
       (finish_publication c)"

definition createPull ::
  "'w PublishControl \<Rightarrow> PublishRequest \<Rightarrow> PublishRecord \<Rightarrow> GitHubRepository \<Rightarrow> 'w GitHubClient
   \<Rightarrow> ('w, PullRequest) op" where
  "createPull c q r repo client =
     handle (gh_CreatePullRequest client repo (pq_BaseBranch q) (pq_Branch q) (pub_Title r) (pub_Body r)
               (pq_Draft q))
       (\<lambda>e. handle (gh_WaitForOpenPullRequest client repo (pq_BaseBranch q) (pq_Branch q) 10)
          (\<lambda>findErr. throw (Join [e, findErr]))
          (\<lambda>existing. case existing of None \<Rightarrow> throw e | Some p \<Rightarrow> ret p))
       ret"

text \<open>From the point where the record is owned: branch, pull request, cleanup.\<close>

definition publishOwned ::
  "'w PublishControl \<Rightarrow> PublishRequest \<Rightarrow> string \<Rightarrow> GitHubRepository \<Rightarrow> 'w GitHubClient \<Rightarrow> PublishRecord
   \<Rightarrow> ('w, PublishResult) op" where
  "publishOwned c q token repo client r =
     andThen (gh_FindOpenPullRequest client repo (pq_BaseBranch q) (pq_Branch q)) (\<lambda>pull.
       case pull of
         Some p \<Rightarrow> recordPull c r p
       | None \<Rightarrow>
           andThen (if pub_State r = PublishReady then publishBranch c r token repo client else ret r)
             (\<lambda>r. andThen (gh_WaitForBranchCommit client repo (pq_Branch q) (pub_CommitSHA r) 30)
                (\<lambda>_. andThen (createPull c q r repo client) (recordPull c r))))"

definition resumePublication ::
  "'w PublishControl \<Rightarrow> PublishRequest \<Rightarrow> GitHubRepository \<Rightarrow> PublishRecord \<Rightarrow> ('w, PublishResult) op" where
  "resumePublication c q repo r =
     (if pub_State r = PublishCompleted then ret (recordResult r)
      else if pub_State r = PublishConflicted then
        handle (pc_DeletePublisher c (pub_Session r))
          (\<lambda>e. throw (errorf ''clean conflicted publisher execution'' e))
          (\<lambda>_. throw (conflictError (pub_Failure r)))
      else andThen (pc_token c) (\<lambda>token.
        case pc_newGitHubClient c token of
          Inl e \<Rightarrow> throw e
        | Inr client \<Rightarrow>
            andThen (if pub_State r = PublishPending then establishOwnership c r repo client else ret r)
              (publishOwned c q token repo client)))"

definition publish :: "'w PublishControl \<Rightarrow> PublishRequest \<Rightarrow> ('w, PublishResult) op" where
  "publish c q0 =
     andThen (pc_PreparePublication c (pq_Session q0)) (\<lambda>src.
       let q = (if pq_BaseBranch q0 = [] then q0\<lparr>pq_BaseBranch := src_InitialRef src\<rparr> else q0)
       in case ParseRepository (pc_parseURL c) (src_Repository src) of
            Inl e \<Rightarrow> throw e
          | Inr repo \<Rightarrow>
              (case pullRequestMetadata (src_PullRequest src) of
                 Inl e \<Rightarrow> throw e
               | Inr meta \<Rightarrow>
                   andThen (total (pc_now c)) (\<lambda>now.
                     andThen (createOrLoad c (newPublishRecord c q src meta now))
                       (resumePublication c q repo))))"

definition Publish :: "'w PublishControl \<Rightarrow> PublishRequest \<Rightarrow> ('w, PublishResult) op" where
  "Publish c q =
     (case validatePublish q of
        Some e \<Rightarrow> throw (OpError PkgPublish ErrorInvalid (error_text e) (Some e))
      | None \<Rightarrow>
          handle (publish c q)
            (\<lambda>e. throw (OpError PkgPublish
                   (if errors_is e PublishErrConflict then ErrorConflict else ErrorUnavailable)
                   ''publish session failed'' (Some e)))
            ret)"

end
