(* ===== verification/Publish_Refinement.thy ===== *)
theory Publish_Refinement
  imports Publish_Control
begin

text \<open>
  The state machine of a publication, and the proof that publish control only moves records along
  it, for any repository, any runtime and any GitHub API.
\<close>

section \<open>The moves of a publication\<close>

definition static_publication :: "PublishRecord \<Rightarrow> string list \<times> PublishRequest \<times> ChangeArtifact option \<times> int" where
  "static_publication r = ([pub_Session r, pub_IntentID r, pub_Repository r, pub_Image r, pub_Title r,
     pub_Body r], pub_Request r, pub_Change r, pub_CreatedAt r)"

definition publication_final :: "PublishState \<Rightarrow> bool" where
  "publication_final s \<longleftrightarrow> s = PublishCompleted \<or> s = PublishConflicted"

inductive publish_move :: "PublishRecord \<Rightarrow> PublishRecord \<Rightarrow> bool" where
  own: "pub_State r = PublishPending \<Longrightarrow> publish_move r (r\<lparr>pub_State := PublishReady\<rparr>)"
| lose: "pub_State r = PublishPending \<or> pub_State r = PublishReady \<Longrightarrow>
     publish_move r (r\<lparr>pub_State := PublishConflicted, pub_Failure := f\<rparr>)"
| branch: "pub_State r = PublishReady \<Longrightarrow> validResult r result \<Longrightarrow> publish_move r (branchPublished r result)"
| pull: "pub_State r \<noteq> PublishPending \<Longrightarrow> \<not> publication_final (pub_State r) \<Longrightarrow>
     0 < number \<Longrightarrow> url \<noteq> [] \<Longrightarrow>
     publish_move r (r\<lparr>pub_PullRequestNumber := number, pub_PullRequestURL := url,
                       pub_State := PublishPullRequestCreated\<rparr>)"
| complete: "pub_State r = PublishPullRequestCreated \<Longrightarrow>
     publish_move r (r\<lparr>pub_State := PublishCompleted\<rparr>)"
| stamp: "publish_move r (r\<lparr>pub_UpdatedAt := t, pub_Revision := k\<rparr>)"

inductive_cases publish_moveE: "publish_move r r'"

abbreviation publish_moves :: "PublishRecord \<Rightarrow> PublishRecord \<Rightarrow> bool" where
  "publish_moves \<equiv> publish_move\<^sup>*\<^sup>*"

lemma publish_move_static: "publish_move r r' \<Longrightarrow> static_publication r' = static_publication r"
  by (induction rule: publish_move.induct) (auto simp: static_publication_def branchPublished_def)

lemma publish_moves_static: "publish_moves r r' \<Longrightarrow> static_publication r' = static_publication r"
  by (induction rule: rtranclp_induct) (auto dest: publish_move_static)

text \<open>A final record keeps its state and its result.\<close>

definition publication_result :: "PublishRecord \<Rightarrow> PublishState \<times> PublishResult \<times> string" where
  "publication_result r = (pub_State r, recordResult r, pub_Failure r)"

lemma publish_move_final:
  "publish_move r r' \<Longrightarrow> publication_final (pub_State r) \<Longrightarrow> publication_result r' = publication_result r"
  by (induction rule: publish_move.induct)
    (auto simp: publication_final_def publication_result_def recordResult_def)

lemma publish_moves_final:
  "publish_moves r r' \<Longrightarrow> publication_final (pub_State r) \<Longrightarrow> publication_result r' = publication_result r"
proof (induction rule: rtranclp_induct)
  case (step r1 r2)
  then have "publication_final (pub_State r1)" by (simp add: publication_result_def)
  with step publish_move_final show ?case by auto
qed simp

text \<open>
  The invariant of a stored publication: once the branch is published its commit is known, and a
  pull request has a number and a URL.
\<close>

definition publication_ok :: "PublishRecord \<Rightarrow> bool" where
  "publication_ok r \<longleftrightarrow>
     (pub_State r = PublishBranchPublished \<longrightarrow> hex_of_length 40 (pub_CommitSHA r))
     \<and> (pub_State r = PublishPullRequestCreated \<or> pub_State r = PublishCompleted \<longrightarrow>
          0 < pub_PullRequestNumber r \<and> pub_PullRequestURL r \<noteq> [])
     \<and> (pub_CommitSHA r \<noteq> [] \<longrightarrow> hex_of_length 40 (pub_CommitSHA r))"

lemma publish_move_ok: "publish_move r r' \<Longrightarrow> publication_ok r \<Longrightarrow> publication_ok r'"
  by (induction rule: publish_move.induct)
    (auto simp: publication_ok_def branchPublished_def validResult_def)

section \<open>The GitHub client\<close>

lemma pullRequestFromAPI_Inr: "pullRequestFromAPI p = Inr q \<Longrightarrow> 0 < pull_Number q \<and> pull_URL q \<noteq> []"
  by (auto simp: pullRequestFromAPI_def split: option.splits if_splits)

definition valid_pull :: "PullRequest \<Rightarrow> bool" where
  "valid_pull p \<longleftrightarrow> 0 < pull_Number p \<and> pull_URL p \<noteq> []"

text \<open>An API whose requests keep an invariant.\<close>

definition api_keeps :: "('w \<Rightarrow> bool) \<Rightarrow> 'w GitHubAPI \<Rightarrow> bool" where
  "api_keeps I api \<longleftrightarrow>
     (\<forall>w. I w \<longrightarrow>
        (\<forall>repo ref. I (snd (api_GetRef api repo ref w)))
        \<and> (\<forall>repo b h. I (snd (api_ListOpenPulls api repo b h w)))
        \<and> (\<forall>repo b h t x d. I (snd (api_CreatePull api repo b h t x d w)))
        \<and> I (snd (api_tick api w)))"

lemma BranchCommitSHA_ensures: "api_keeps I api \<Longrightarrow> ensures I (BranchCommitSHA api repo branch) (\<lambda>_. True)"
  unfolding ensures_def
proof (intro allI impI conjI TrueI)
  fix w assume "api_keeps I api" "I w"
  then have "I (snd (api_GetRef api repo (''heads/'' @ branch) w))" by (simp add: api_keeps_def)
  then show "I (snd (BranchCommitSHA api repo branch w))"
    by (auto simp: BranchCommitSHA_def split: prod.splits response.splits)
qed

lemma tick_ensures: "api_keeps I api \<Longrightarrow> ensures I (total (api_tick api)) (\<lambda>_. True)"
  by (rule ensures_total) (simp add: api_keeps_def)

lemma FindOpen_ensures:
  "api_keeps I api \<Longrightarrow> ensures I (FindOpenPullRequest api repo b h) (\<lambda>p. \<forall>q. p = Some q \<longrightarrow> valid_pull q)"
  unfolding ensures_def
proof (intro allI impI)
  fix w assume "api_keeps I api" "I w"
  then have "I (snd (api_ListOpenPulls api repo b h w))" by (simp add: api_keeps_def)
  then show "I (snd (FindOpenPullRequest api repo b h w)) \<and>
      (\<forall>p. fst (FindOpenPullRequest api repo b h w) = Inr p \<longrightarrow> (\<forall>q. p = Some q \<longrightarrow> valid_pull q))"
    by (auto simp: FindOpenPullRequest_def valid_pull_def
        split: prod.splits response.splits list.splits sum.splits dest!: pullRequestFromAPI_Inr)
qed

lemma Create_ensures:
  "api_keeps I api \<Longrightarrow> ensures I (CreatePullRequest api repo b h t x d) valid_pull"
  unfolding ensures_def
proof (intro allI impI)
  fix w assume "api_keeps I api" "I w"
  then have "I (snd (api_CreatePull api repo b h t x d w))" by (simp add: api_keeps_def)
  then show "I (snd (CreatePullRequest api repo b h t x d w)) \<and>
      (\<forall>p. fst (CreatePullRequest api repo b h t x d w) = Inr p \<longrightarrow> valid_pull p)"
    by (auto simp: CreatePullRequest_def valid_pull_def
        split: prod.splits response.splits sum.splits dest!: pullRequestFromAPI_Inr)
qed

lemma waitBranch_ensures:
  assumes "api_keeps I api"
  shows "ensures I (waitForBranchCommit api repo branch expected n) (\<lambda>_. True)"
proof (induction n)
  case 0
  show ?case
    unfolding waitForBranchCommit.simps [of _ _ _ _ 0]
    by (auto intro!: ensures_andThen [OF BranchCommitSHA_ensures [OF assms]]
        ensures_andThen [OF tick_ensures [OF assms]] ensures_throw ensures_ret split: prod.splits)
next
  case (Suc n)
  show ?case
    unfolding waitForBranchCommit.simps [of _ _ _ _ "Suc n"]
    by (auto intro!: ensures_andThen [OF BranchCommitSHA_ensures [OF assms]]
        ensures_andThen [OF tick_ensures [OF assms]] ensures_throw ensures_ret Suc split: prod.splits)
qed

lemma waitPull_ensures:
  assumes "api_keeps I api"
  shows "ensures I (waitForOpenPullRequest api repo b h n) (\<lambda>p. \<forall>q. p = Some q \<longrightarrow> valid_pull q)"
proof (induction n)
  case 0
  show ?case
    unfolding waitForOpenPullRequest.simps [of _ _ _ _ 0]
    by (auto intro!: ensures_andThen [OF FindOpen_ensures [OF assms]]
        ensures_andThen [OF tick_ensures [OF assms]] ensures_throw ensures_ret split: option.splits)
next
  case (Suc n)
  show ?case
    unfolding waitForOpenPullRequest.simps [of _ _ _ _ "Suc n"]
    by (auto intro!: ensures_andThen [OF FindOpen_ensures [OF assms]]
        ensures_andThen [OF tick_ensures [OF assms]] ensures_throw ensures_ret Suc split: option.splits)
qed

text \<open>What publish control needs of its client.\<close>

definition client_sound :: "('w \<Rightarrow> bool) \<Rightarrow> 'w GitHubClient \<Rightarrow> bool" where
  "client_sound I client \<longleftrightarrow>
     (\<forall>repo b. ensures I (gh_BranchCommitSHA client repo b) (\<lambda>_. True))
     \<and> (\<forall>repo b e t. ensures I (gh_WaitForBranchCommit client repo b e t) (\<lambda>_. True))
     \<and> (\<forall>repo b h. ensures I (gh_FindOpenPullRequest client repo b h) (\<lambda>p. \<forall>q. p = Some q \<longrightarrow> valid_pull q))
     \<and> (\<forall>repo b h t. ensures I (gh_WaitForOpenPullRequest client repo b h t)
           (\<lambda>p. \<forall>q. p = Some q \<longrightarrow> valid_pull q))
     \<and> (\<forall>repo b h t x d. ensures I (gh_CreatePullRequest client repo b h t x d) valid_pull)"

lemma newClient_sound:
  assumes "newClient connect token = Inr client" and "api_keeps I (connect token)"
  shows "client_sound I client"
  using assms
  by (auto simp: newClient_def client_sound_def Let_def WaitForBranchCommit_def WaitForOpenPullRequest_def
      BranchCommitSHA_ensures FindOpen_ensures Create_ensures waitBranch_ensures waitPull_ensures
      split: if_splits)

section \<open>The operations\<close>

text \<open>
  The interface of publish control for a discipline: an invariant \<open>I\<close> of the world and a property
  \<open>Q\<close> of records that is closed under moves.
\<close>

locale publish_discipline =
  fixes c :: "'w PublishControl" and I :: "'w \<Rightarrow> bool" and Q :: "PublishRecord \<Rightarrow> bool"
  assumes now_keeps: "ensures I (total (pc_now c)) (\<lambda>_. True)"
    and prepare_keeps: "ensures I (pc_PreparePublication c name) (\<lambda>_. True)"
    and token_keeps: "ensures I (pc_token c) (\<lambda>_. True)"
    and runner_keeps: "ensures I (total (pc_RunPublisher c request)) (\<lambda>_. True)"
    and cleaner_keeps: "ensures I (pc_DeletePublisher c name) (\<lambda>_. True)"
    and client_keeps: "pc_newGitHubClient c token = Inr client \<Longrightarrow> client_sound I client"
    and create_keeps: "Q r \<Longrightarrow> ensures I (bp_Create (pc_repository c) r) Q"
    and get_keeps: "ensures I (bp_Get (pc_repository c) name) Q"
    and update_keeps: "Q r \<Longrightarrow> ensures I (bp_Update (pc_repository c) r)
      (\<lambda>r'. Q r' \<and> pub_State r' = pub_State r)"
    and closed: "Q r \<Longrightarrow> publish_move r r' \<Longrightarrow> Q r'"
    and fresh: "Q (newPublishRecord c q src meta now)"
begin

lemma save_ensures: "Q r \<Longrightarrow> ensures I (save_publication c r) (\<lambda>r'. Q r' \<and> pub_State r' = pub_State r)"
proof -
  assume Q: "Q r"
  have "Q (r\<lparr>pub_UpdatedAt := t\<rparr>)" for t
    using closed [OF Q publish_move.stamp, of "pub_Revision r" t] by simp
  from update_keeps [OF this]
  have "ensures I (bp_Update (pc_repository c) (r\<lparr>pub_UpdatedAt := t\<rparr>))
      (\<lambda>r'. Q r' \<and> pub_State r' = pub_State r)" for t by simp
  then show ?thesis
    unfolding save_publication_def by (rule ensures_andThen [OF now_keeps])
qed

lemma save_moved: "Q r \<Longrightarrow> publish_move r r' \<Longrightarrow>
    ensures I (save_publication c r') (\<lambda>s. Q s \<and> pub_State s = pub_State r')"
  by (rule save_ensures) (rule closed)

lemma createOrLoad_ensures: "Q r \<Longrightarrow> ensures I (createOrLoad c r) Q"
  unfolding createOrLoad_def
  by (rule ensures_handle [OF create_keeps])
    (auto intro!: ensures_if ensures_andThen [OF get_keeps] ensures_throw ensures_ret)

lemma establish_ensures:
  assumes client: "client_sound I client" and Q: "Q r" and pending: "pub_State r = PublishPending"
  shows "ensures I (establishOwnership c r repo client) (\<lambda>r'. Q r' \<and> pub_State r' = PublishReady)"
proof -
  have find: "ensures I (gh_FindOpenPullRequest client repo b h) (\<lambda>_. True)" for b h
    using client unfolding client_sound_def by (blast intro: ensures_mono)
  have branch: "ensures I (gh_BranchCommitSHA client repo b) (\<lambda>_. True)" for b
    using client by (simp add: client_sound_def)
  have ready: "ensures I (save_publication c (r\<lparr>pub_State := PublishReady\<rparr>))
      (\<lambda>r'. Q r' \<and> pub_State r' = PublishReady)"
    using save_moved [OF Q publish_move.own [OF pending]] by simp
  have lost: "ensures I (andThen (save_publication c (r\<lparr>pub_State := PublishConflicted, pub_Failure := f\<rparr>))
      (\<lambda>_. throw e)) (\<lambda>r'. Q r' \<and> pub_State r' = PublishReady)" for f e
    using publish_move.lose [of r f] pending
    by (auto intro!: ensures_andThen [OF save_moved [OF Q]] ensures_throw)
  show ?thesis
    unfolding establishOwnership_def
    by (auto intro!: ensures_andThen [OF find] ensures_andThen [OF branch] ready lost
        simp: Let_def split: prod.splits)
qed

lemma recover_ensures:
  assumes client: "client_sound I client" and Q: "Q r" and ready: "pub_State r = PublishReady"
  shows "ensures I (recoverFailedPublisher c r repo client result failure)
    (\<lambda>r'. Q r' \<and> pub_State r' = PublishBranchPublished)"
proof -
  have branch: "ensures I (gh_BranchCommitSHA client repo b) (\<lambda>_. True)" for b
    using client by (simp add: client_sound_def)
  have published: "ensures I (save_publication c (branchPublished r result))
      (\<lambda>r'. Q r' \<and> pub_State r' = PublishBranchPublished)" if "validResult r result"
    using save_moved [OF Q publish_move.branch [OF ready that]] by (simp add: branchPublished_def)
  have lost: "ensures I (save_publication c (r\<lparr>pub_State := PublishConflicted, pub_Failure := f\<rparr>))
      (\<lambda>_. True)" for f
    using save_moved [OF Q publish_move.lose [of r f]] ready by (auto intro: ensures_mono)
  show ?thesis
    unfolding recoverFailedPublisher_def Let_def
    by (auto intro!: ensures_handle [OF branch] ensures_throw ensures_handle [OF cleaner_keeps]
        ensures_handle [OF published] ensures_handle [OF lost] ensures_ret ensures_if
        split: prod.splits)
qed

lemma publishBranch_ensures:
  assumes client: "client_sound I client" and Q: "Q r" and ready: "pub_State r = PublishReady"
  shows "ensures I (publishBranch c r token repo client) (\<lambda>r'. Q r' \<and> pub_State r' = PublishBranchPublished)"
proof -
  have published: "ensures I (save_publication c (branchPublished r result))
      (\<lambda>r'. Q r' \<and> pub_State r' = PublishBranchPublished)" if "validResult r result" for result
    using save_moved [OF Q publish_move.branch [OF ready that]] by (simp add: branchPublished_def)
  show ?thesis
    unfolding publishBranch_def
    by (rule ensures_andThen [OF runner_keeps])
      (auto intro!: published recover_ensures [OF client Q ready] ensures_throw ensures_if
        split: prod.splits option.splits)
qed

lemma finish_ensures:
  assumes Q: "Q r" and "pub_State r = PublishPullRequestCreated"
  shows "ensures I (finish_publication c r)
    (\<lambda>result. \<exists>r'. Q r' \<and> pub_State r' = PublishCompleted \<and> result = recordResult r')"
  unfolding finish_publication_def
  using save_moved [OF Q publish_move.complete [OF assms(2)]]
  by (auto intro!: ensures_handle [OF cleaner_keeps] ensures_throw ensures_ret elim!: ensures_andThen)

lemma recordPull_ensures:
  assumes Q: "Q r" and "valid_pull p" and "pub_State r \<noteq> PublishPending" "\<not> publication_final (pub_State r)"
  shows "ensures I (recordPull c r p)
    (\<lambda>result. \<exists>r'. Q r' \<and> pub_State r' = PublishCompleted \<and> result = recordResult r')"
proof -
  have "ensures I (save_publication c (r\<lparr>pub_PullRequestNumber := pull_Number p,
         pub_PullRequestURL := pull_URL p, pub_State := PublishPullRequestCreated\<rparr>))
      (\<lambda>r'. Q r' \<and> pub_State r' = PublishPullRequestCreated)"
    using save_moved [OF Q publish_move.pull [OF assms(3,4)]] assms(2) by (simp add: valid_pull_def)
  then show ?thesis
    unfolding recordPull_def by (rule ensures_andThen) (auto intro: finish_ensures)
qed

lemma createPull_ensures:
  assumes client: "client_sound I client"
  shows "ensures I (createPull c q r repo client) valid_pull"
proof -
  have create: "ensures I (gh_CreatePullRequest client repo b h t x d) valid_pull" for b h t x d
    using client by (simp add: client_sound_def)
  have wait: "ensures I (gh_WaitForOpenPullRequest client repo b h t) (\<lambda>p. \<forall>q. p = Some q \<longrightarrow> valid_pull q)"
    for b h t using client by (simp add: client_sound_def)
  show ?thesis
    unfolding createPull_def
    by (auto intro!: ensures_handle [OF create] ensures_handle [OF wait] ensures_throw ensures_ret
        split: option.splits)
qed

lemma publishOwned_ensures:
  assumes client: "client_sound I client" and Q: "Q r" and "pub_State r \<noteq> PublishPending"
    and "\<not> publication_final (pub_State r)"
  shows "ensures I (publishOwned c q token repo client r)
    (\<lambda>result. \<exists>r'. Q r' \<and> pub_State r' = PublishCompleted \<and> result = recordResult r')"
proof -
  have find: "ensures I (gh_FindOpenPullRequest client repo b h) (\<lambda>p. \<forall>q. p = Some q \<longrightarrow> valid_pull q)" for b h
    using client by (simp add: client_sound_def)
  have wait: "ensures I (gh_WaitForBranchCommit client repo b e t) (\<lambda>_. True)" for b e t
    using client by (simp add: client_sound_def)
  have branch: "ensures I (if pub_State r = PublishReady then publishBranch c r token repo client else ret r)
      (\<lambda>r'. Q r' \<and> pub_State r' \<noteq> PublishPending \<and> \<not> publication_final (pub_State r'))"
    using assms
    by (auto intro!: ensures_if ensures_ret ensures_mono [OF publishBranch_ensures [OF client Q]]
        simp: publication_final_def)
  have rest: "ensures I (andThen (if pub_State r = PublishReady then publishBranch c r token repo client
      else ret r) (\<lambda>r. andThen (gh_WaitForBranchCommit client repo (pq_Branch q) (pub_CommitSHA r) 30)
        (\<lambda>_. andThen (createPull c q r repo client) (recordPull c r))))
      (\<lambda>result. \<exists>r'. Q r' \<and> pub_State r' = PublishCompleted \<and> result = recordResult r')"
    by (rule ensures_andThen [OF branch])
      (auto intro!: ensures_andThen [OF wait] ensures_andThen [OF createPull_ensures [OF client]]
        recordPull_ensures)
  show ?thesis
    unfolding publishOwned_def
    by (rule ensures_andThen [OF find])
      (auto intro!: rest recordPull_ensures assms split: option.splits split del: if_split)
qed

lemma resume_ensures:
  assumes Q: "Q r"
  shows "ensures I (resumePublication c q repo r)
    (\<lambda>result. \<exists>r'. Q r' \<and> pub_State r' = PublishCompleted \<and> result = recordResult r')"
proof -
  have owned: "ensures I (andThen (if pub_State r = PublishPending then establishOwnership c r repo client
      else ret r) (publishOwned c q token repo client))
    (\<lambda>result. \<exists>r'. Q r' \<and> pub_State r' = PublishCompleted \<and> result = recordResult r')"
    if "pub_State r \<noteq> PublishCompleted" "pub_State r \<noteq> PublishConflicted" "client_sound I client"
    for client token
  proof (rule ensures_andThen)
    show "ensures I (if pub_State r = PublishPending then establishOwnership c r repo client else ret r)
        (\<lambda>r'. Q r' \<and> pub_State r' \<noteq> PublishPending \<and> \<not> publication_final (pub_State r'))"
      using that Q
      by (auto intro!: ensures_if ensures_ret ensures_mono [OF establish_ensures [OF that(3) Q]]
          simp: publication_final_def)
  qed (auto intro: publishOwned_ensures that)
  show ?thesis
    unfolding resumePublication_def
    using Q
    by (auto intro!: ensures_if ensures_ret ensures_throw ensures_handle [OF cleaner_keeps]
        ensures_andThen [OF token_keeps] owned client_keeps split: sum.splits split del: if_split)
qed

lemma publish_ensures:
  "ensures I (publish c q) (\<lambda>result. \<exists>r'. Q r' \<and> pub_State r' = PublishCompleted \<and> result = recordResult r')"
  unfolding publish_def Let_def
  by (rule ensures_andThen [OF prepare_keeps])
    (auto intro!: ensures_throw ensures_andThen [OF now_keeps]
      ensures_andThen [OF createOrLoad_ensures [OF fresh]] resume_ensures split: sum.splits)

lemma Publish_ensures:
  "ensures I (Publish c q) (\<lambda>result. \<exists>r'. Q r' \<and> pub_State r' = PublishCompleted \<and> result = recordResult r')"
  unfolding Publish_def
  by (auto intro!: ensures_throw ensures_ret ensures_handle [OF publish_ensures] split: option.split)

end

end
