(* ===== verification/Server.thy ===== *)
theory Server
  imports Storage_Facts Session_Refinement Workflow_Refinement Workflow_Catalog Publish_Refinement
begin

text \<open>
  The server (\<open>serve\<close> in \<open>cmd/dyne/main.go\<close>): session control and workflow control over the
  repositories of one database and the environment.  The record \<open>Environment\<close> holds everything
  outside the repository: the database driver, the clock, the random source, the credential provider,
  the Kubernetes runtime, the hash and the JSON texts.
\<close>

record 'e Environment =
  env_driver :: "'e \<Rightarrow> Fault \<times> 'e"
  env_now :: "'e \<Rightarrow> int \<times> 'e"
  env_random :: "nat \<Rightarrow> ('e, string) op"
  env_auth :: "('e, string) op option"
  env_scope :: string
  env_start :: "TaskRequest \<Rightarrow> ('e, unit) op"
  env_observe :: "string \<Rightarrow> string \<Rightarrow> ('e, TaskObservation) op"
  env_logs :: "string \<Rightarrow> string \<Rightarrow> bool \<Rightarrow> ('e, unit) op"
  env_delete :: "string \<Rightarrow> bool \<Rightarrow> ('e, unit) op"
  env_image :: string
  env_taskTimeout :: int
  env_sha256 :: "string \<Rightarrow> string"
  env_marshalTask :: "Definition \<Rightarrow> StartRequest \<Rightarrow> string \<Rightarrow> string \<Rightarrow> string"
  env_marshalIntent :: "WorkflowIntent \<Rightarrow> string"
  env_marshalOutputs :: "(string \<times> raw) list \<Rightarrow> string"
  env_catalog :: "WorkflowCatalog option"
  env_runPublisher :: "PublisherRequest \<Rightarrow> 'e \<Rightarrow> (PublisherResult \<times> err option) \<times> 'e"
  env_deletePublisher :: "string \<Rightarrow> ('e, unit) op"
  env_github :: "string \<Rightarrow> 'e GitHubAPI"
  env_parseURL :: "string \<Rightarrow> err + URL"
  env_marshalPublish :: "string \<Rightarrow> string \<Rightarrow> PublishRequest \<Rightarrow> string"

text \<open>A function of the environment as a function of the world.\<close>

definition lift_fun :: "('e \<Rightarrow> 'a \<times> 'e) \<Rightarrow> 'e world \<Rightarrow> 'a \<times> 'e world" where
  "lift_fun f w = (case f (w_env w) of (a, env) \<Rightarrow> (a, w\<lparr>w_env := env\<rparr>))"

text \<open>\<open>randomTaskID\<close> in \<open>session/control.go\<close>\<close>

definition randomTaskID :: "(nat \<Rightarrow> ('e, string) op) \<Rightarrow> ('e world, string) op" where
  "randomTaskID random = handle (lift_env (random 6)) throw (\<lambda>contents. ret (hex_encode contents))"

definition serverRuntime :: "'e Environment \<Rightarrow> 'e world SessionRuntime" where
  "serverRuntime E =
     \<lparr>rt_Scope = env_scope E, rt_Start = (\<lambda>q. lift_env (env_start E q)),
      rt_Observe = (\<lambda>n t. lift_env (env_observe E n t)),
      rt_WriteLogs = (\<lambda>n t f. lift_env (env_logs E n t f)),
      rt_Delete = (\<lambda>n s. lift_env (env_delete E n s))\<rparr>"

definition serverSessions :: "'e Environment \<Rightarrow> 'e world SessionControl" where
  "serverSessions E =
     \<lparr>sc_repository = sessionRepository (env_driver E), sc_runtime = serverRuntime E,
      sc_repositoryAuth = map_option lift_env (env_auth E), sc_image = env_image E,
      sc_taskTimeout = env_taskTimeout E, sc_newTaskID = randomTaskID (env_random E),
      sc_now = lift_fun (env_now E), sc_sha256 = env_sha256 E, sc_marshalIntent = env_marshalTask E\<rparr>"

definition serverOperations :: "'e Environment \<Rightarrow> 'e world SessionOperations" where
  "serverOperations E =
     \<lparr>so_Start = session_Start (serverSessions E), so_Status = session_Status (serverSessions E),
      so_Artifacts = session_Artifacts (serverSessions E), so_Delete = session_Delete (serverSessions E),
      so_Destroy = session_Destroy (serverSessions E)\<rparr>"

definition serverWorkflows :: "'e Environment \<Rightarrow> 'e world WorkflowControl" where
  "serverWorkflows E =
     \<lparr>wc_repository = runRepository (env_driver E), wc_sessions = serverOperations E,
      wc_catalog = env_catalog E, wc_now = lift_fun (env_now E), wc_sha256 = env_sha256 E,
      wc_marshalIntent = env_marshalIntent E, wc_marshalOutputs = env_marshalOutputs E\<rparr>"

definition lift_api :: "'e GitHubAPI \<Rightarrow> 'e world GitHubAPI" where
  "lift_api api =
     \<lparr>api_GetRef = (\<lambda>repo ref. lift_fun (api_GetRef api repo ref)),
      api_ListOpenPulls = (\<lambda>repo b h. lift_fun (api_ListOpenPulls api repo b h)),
      api_CreatePull = (\<lambda>repo b h t x d. lift_fun (api_CreatePull api repo b h t x d)),
      api_tick = lift_fun (api_tick api), api_contextError = api_contextError api\<rparr>"

definition serverPublish :: "'e Environment \<Rightarrow> 'e world PublishControl" where
  "serverPublish E =
     \<lparr>pc_PreparePublication = session_PreparePublication (serverSessions E),
      pc_repository = publishRepository (env_driver E), pc_scope = env_scope E,
      pc_RunPublisher = (\<lambda>q. lift_fun (env_runPublisher E q)),
      pc_DeletePublisher = (\<lambda>name. lift_env (env_deletePublisher E name)),
      pc_token = (case env_auth E of
          None \<Rightarrow> throw (Text ''repository credential provider is required'')
        | Some token \<Rightarrow> lift_env token),
      pc_newGitHubClient = newClient (\<lambda>token. lift_api (env_github E token)),
      pc_now = lift_fun (env_now E), pc_parseURL = env_parseURL E, pc_sha256 = env_sha256 E,
      pc_marshalIntent = env_marshalPublish E\<rparr>"

lemma lift_fun_db [simp]: "w_db (snd (lift_fun f w)) = w_db w"
  by (simp add: lift_fun_def split: prod.splits)

lemma lift_fun_ensures: "ensures (\<lambda>w. P (w_db w)) (total (lift_fun f)) (\<lambda>_. True)"
  by (rule ensures_total) simp

section \<open>Session control on the database\<close>

text \<open>
  The interface between the tables and session control: an invariant \<open>P\<close> of the database that the
  statements of the session repository keep, and what \<open>Q\<close> says of a task that was read.
\<close>

locale session_tables =
  fixes P :: "Database \<Rightarrow> bool" and Q :: "string \<Rightarrow> Task \<Rightarrow> Database \<Rightarrow> bool"
  assumes latest_task: "P db \<Longrightarrow> fst (GetLatestSessionTask name db) = Inr row \<Longrightarrow>
      Q name (decodeSessionTask row) db"
    and update_task: "P db \<Longrightarrow> Q name t db \<Longrightarrow>
      P (snd (UpdateSessionTask (sessionTaskParams name t) db))
      \<and> Q name t (snd (UpdateSessionTask (sessionTaskParams name t) db))"
    and move_closed: "P db \<Longrightarrow> Q name t db \<Longrightarrow> task_move t t' \<Longrightarrow> Q name t' db"
begin

abbreviation "holds \<equiv> (\<lambda>w. P (w_db w))"
abbreviation "read \<equiv> (\<lambda>name t w. Q name t (w_db w))"

lemma lift_env_undisturbed: "undisturbed holds read (lift_env m)"
  unfolding undisturbed_def
  by (auto simp: lift_env_ensures triple_def lift_env_def split: prod.splits)

lemma clock_undisturbed: "undisturbed holds read (total (lift_fun now))"
  unfolding undisturbed_def
  by (auto simp: ensures_def triple_def total_def lift_fun_def split: prod.splits)

lemma Get_holds: "ensures holds (sessions_Get driver name) (\<lambda>rec. rec_Name rec = name)"
proof -
  have "ensures holds (exec driver (GetSession name)) (\<lambda>row. sn_Name row = name)"
    by (rule exec_ensures) (auto simp: GetSession_def dest: one_row_Inr)
  then show ?thesis
    unfolding sessions_Get_def
    by (rule ensures_handle) (auto intro: ensures_throw ensures_ret simp: decodeSession_def)
qed

lemma LatestTask_holds: "triple holds holds (sessions_LatestTask driver name) (\<lambda>t w. holds w \<and> read name t w)"
proof -
  have "triple holds holds (exec driver (GetLatestSessionTask name))
      (\<lambda>row w. holds w \<and> read name (decodeSessionTask row) w)"
    by (auto simp: triple_def exec_def GetLatestSessionTask_def split: prod.splits Fault.splits
        intro!: latest_task)
  then show ?thesis
    unfolding sessions_LatestTask_def
    by (rule triple_handle) (auto intro: triple_throw triple_ret)
qed

lemma UpdateTask_holds:
  "triple holds (\<lambda>w. holds w \<and> read name t w) (sessions_UpdateTask driver name t)
     (\<lambda>_ w. holds w \<and> read name t w)"
proof -
  have "triple holds (\<lambda>w. holds w \<and> read name t w)
      (exec driver (UpdateSessionTask (sessionTaskParams name t))) (\<lambda>_ w. holds w \<and> read name t w)"
    unfolding triple_def
  proof (intro allI impI)
    fix w :: "'a world" assume "holds w \<and> read name t w"
    with update_task [of "w_db w" name t]
    show "holds (snd (exec driver (UpdateSessionTask (sessionTaskParams name t)) w)) \<and>
        (\<forall>a. fst (exec driver (UpdateSessionTask (sessionTaskParams name t)) w) = Inr a \<longrightarrow>
          holds (snd (exec driver (UpdateSessionTask (sessionTaskParams name t)) w)) \<and>
          read name t (snd (exec driver (UpdateSessionTask (sessionTaskParams name t)) w)))"
      by (auto simp: exec_def split: prod.splits Fault.splits)
  qed
  then show ?thesis
    unfolding sessions_UpdateTask_def require_row_def
    by (rule triple_handle) (auto intro!: triple_throw triple_ret triple_if)
qed

end

sublocale session_tables \<subseteq> sessions: session_discipline "serverSessions E" holds read for E
  by unfold_locales
    (auto simp: serverSessions_def serverRuntime_def sessionRepository_def
      intro: lift_env_undisturbed clock_undisturbed lift_env_ensures Get_holds LatestTask_holds
        UpdateTask_holds move_closed)

text \<open>The same for the statements that create sessions and tasks.\<close>

locale session_tables_creation = session_tables +
  assumes create_session: "P db \<Longrightarrow> P (snd (CreateSession row db))"
    and create_task: "P db \<Longrightarrow> task_State t = TaskPending \<Longrightarrow> task_FinishedAt t = None \<Longrightarrow>
      P (snd (CreateSessionTask (sessionTaskParams name t) db))"
begin

lemma Create_holds:
  assumes "task_State t = TaskPending" and "task_FinishedAt t = None"
  shows "ensures holds (sessions_Create driver rec t) (\<lambda>_. True)"
proof -
  have session: "ensures holds (exec driver (CreateSession row)) (\<lambda>_. True)" for row
    by (rule exec_ensures) (auto intro: create_session)
  have task: "ensures holds (exec driver (CreateSessionTask (sessionTaskParams name t))) (\<lambda>_. True)" for name
    by (rule exec_ensures) (auto intro: create_task assms)
  show ?thesis
    unfolding sessions_Create_def
    by (rule transaction_ensures)
      (auto intro!: ensures_handle [OF session] ensures_handle [OF task] ensures_throw ensures_ret)
qed

lemma Count_holds: "ensures holds (exec driver (CountActiveSessionTasks name)) (\<lambda>_. True)"
  by (rule exec_ensures) auto

lemma AddTask_holds:
  assumes "task_State t = TaskPending" and "task_FinishedAt t = None"
  shows "ensures holds (sessions_AddTask driver name t) (\<lambda>_. True)"
proof -
  have task: "ensures holds (exec driver (CreateSessionTask (sessionTaskParams name t))) (\<lambda>_. True)"
    by (rule exec_ensures) (auto intro: create_task assms)
  have get: "ensures holds (exec driver (GetSession name)) (\<lambda>_. True)"
    by (rule exec_ensures) auto
  show ?thesis
    unfolding sessions_AddTask_def
    by (auto intro!: ensures_handle [OF Count_holds] ensures_handle [OF task] ensures_handle [OF get]
        ensures_throw ensures_ret ensures_if)
qed

lemma randomTaskID_holds: "ensures holds (randomTaskID random) (\<lambda>_. True)"
  unfolding randomTaskID_def
  by (rule ensures_handle [OF lift_env_ensures]) (auto intro: ensures_throw ensures_ret)

end

sublocale session_tables_creation \<subseteq> creation: session_creation "serverSessions E" holds read for E
proof unfold_locales
  show "ensures holds (sc_newTaskID (serverSessions E)) (\<lambda>_. True)"
    by (simp add: serverSessions_def randomTaskID_holds)
next
  fix token assume "sc_repositoryAuth (serverSessions E) = Some token"
  then show "ensures holds token (\<lambda>_. True)"
    by (auto simp: serverSessions_def intro: lift_env_ensures)
next
  fix d r w rec t
  assume "fst (initialIntent (serverSessions E) d r w) = (rec, t)"
  then have "task_State t = TaskPending" "task_FinishedAt t = None"
    by (auto simp: initialIntent_def split: prod.splits)
  then show "ensures holds (sr_Create (sc_repository (serverSessions E)) rec t) (\<lambda>_. True)"
    by (simp add: serverSessions_def sessionRepository_def Create_holds)
next
  fix cr timeout tid now
  show "ensures holds (sr_AddTask (sc_repository (serverSessions E)) (cont_Name cr)
      (continuationTask cr timeout tid now)) (\<lambda>_. True)"
    by (simp add: serverSessions_def sessionRepository_def AddTask_holds continuationTask_def)
qed (auto simp: serverSessions_def serverRuntime_def intro: lift_env_ensures)

text \<open>The same for the statements of a deletion.\<close>

locale session_tables_removal = session_tables +
  assumes set_deletion: "P db \<Longrightarrow> P (snd (SetSessionDeletion name storage db))"
    and clear_deletion: "P db \<Longrightarrow> P (snd (ClearSessionDeletion name db))"
    and delete_session: "P db \<Longrightarrow> P (snd (DeleteSession name db))"
begin

lemma BeginDeletion_holds: "ensures holds (sessions_BeginDeletion driver name storage) (\<lambda>_. True)"
proof -
  have "ensures holds (exec driver (SetSessionDeletion name storage)) (\<lambda>_. True)"
    by (rule exec_ensures) (auto intro: set_deletion)
  then show ?thesis
    unfolding sessions_BeginDeletion_def
    by (rule ensures_handle)
      (auto intro!: ensures_throw ensures_ret ensures_if ensures_handle [OF Get_holds] split: option.split)
qed

lemma Deleting_holds: "ensures holds (sessions_Deleting driver) (\<lambda>_. True)"
proof -
  have "ensures holds (exec driver ListDeletingSessions) (\<lambda>_. True)"
    by (rule exec_ensures) auto
  then show ?thesis
    unfolding sessions_Deleting_def
    by (rule ensures_handle) (auto intro: ensures_throw ensures_ret)
qed

lemma FinishDeletion_holds: "ensures holds (sessions_FinishDeletion driver name remove) (\<lambda>_. True)"
  unfolding sessions_FinishDeletion_def
  by (rule require_row_ensures, rule exec_ensures) (auto intro: clear_deletion delete_session)

end

sublocale session_tables_removal \<subseteq> removal: session_removal "serverSessions E" holds read for E
  by unfold_locales
    (auto simp: serverSessions_def serverRuntime_def sessionRepository_def
      intro: lift_env_ensures BeginDeletion_holds FinishDeletion_holds Deleting_holds)

section \<open>The invariants of the session tables\<close>

text \<open>The constraints of the schema.\<close>

interpretation schema: session_tables database_ok "\<lambda>_ _ _. True"
  by unfold_locales (auto intro: statement_ok)

interpretation schema: session_tables_creation database_ok "\<lambda>_ _ _. True"
  by unfold_locales (auto intro: statement_ok)

interpretation schema: session_tables_removal database_ok "\<lambda>_ _ _. True"
  by unfold_locales (auto intro: statement_ok)

text \<open>The session operations leave the workflow tables alone.\<close>

interpretation frame: session_tables "\<lambda>db. (db_runs db, db_snapshots db) = x" "\<lambda>_ _ _. True" for x
  by unfold_locales (auto simp: UpdateSessionTask_def Let_def)

interpretation frame: session_tables_creation "\<lambda>db. (db_runs db, db_snapshots db) = x" "\<lambda>_ _ _. True" for x
  by unfold_locales (auto simp: CreateSession_def CreateSessionTask_def)

interpretation frame: session_tables_removal "\<lambda>db. (db_runs db, db_snapshots db) = x" "\<lambda>_ _ _. True" for x
  by unfold_locales
    (auto simp: SetSessionDeletion_def ClearSessionDeletion_def DeleteSession_def Let_def)

text \<open>What a statement does to the row of a task.\<close>

lemma task_row_unique:
  "database_ok db \<Longrightarrow> r \<in> set (db_tasks db) \<Longrightarrow> u \<in> set (db_tasks db) \<Longrightarrow> task_key r = task_key u \<Longrightarrow> r = u"
  by (simp add: database_ok_def) (metis inj_on_def distinct_map)

lemma latest_row:
  "fst (GetLatestSessionTask name db) = Inr row \<Longrightarrow> row \<in> set (db_tasks db) \<and> tk_SessionName row = name"
  by (auto simp: GetLatestSessionTask_def split: option.splits dest!: newestTask_Some)

text \<open>The rows after an update: the others as they were, and the addressed one with its progress.\<close>

lemma updated_rows:
  assumes "row \<in> set (db_tasks (snd (UpdateSessionTask (sessionTaskParams name t) db)))"
  obtains (other) "row \<in> set (db_tasks db)"
    | (progress) u where "u \<in> set (db_tasks db)" and "task_key u = (name, task_ID t)"
        and "row = progressOf (sessionTaskParams name t) u"
  using assms
  by (auto simp: UpdateSessionTask_def Let_def set_update_rows sessionTaskParams_def task_key_def
      split: if_splits)

lemma progress_is_task:
  assumes "static_task (decodeSessionTask u) = static_task t"
  shows "decodeSessionTask (progressOf (sessionTaskParams name t) u) = t"
  using assms by (simp add: decode_progress static_task_def)

lemma progress_key [simp]: "task_key (progressOf p u) = task_key u"
  by (simp add: task_key_def progressOf_def)

text \<open>Every stored task is sound.\<close>

definition tasks_sound :: "Database \<Rightarrow> bool" where
  "tasks_sound db \<longleftrightarrow> (\<forall>r \<in> set (db_tasks db). task_sound (decodeSessionTask r))"

text \<open>The contents of a row of the run table bear its name.\<close>

definition runs_named :: "Database \<Rightarrow> bool" where
  "runs_named db \<longleftrightarrow> (\<forall>r \<in> set (db_runs db). run_Name (rr_Contents r) = rr_Name r)"

definition tables_sound :: "Database \<Rightarrow> bool" where
  "tables_sound db \<longleftrightarrow> database_ok db \<and> tasks_sound db \<and> runs_named db"

definition read_sound :: "string \<Rightarrow> Task \<Rightarrow> Database \<Rightarrow> bool" where
  "read_sound name t db \<longleftrightarrow> task_sound t \<and>
     (\<forall>r \<in> set (db_tasks db). task_key r = (name, task_ID t) \<longrightarrow>
        static_task (decodeSessionTask r) = static_task t)"

lemma latest_sound:
  assumes "tables_sound db" and "fst (GetLatestSessionTask name db) = Inr row"
  shows "read_sound name (decodeSessionTask row) db"
proof -
  have row: "row \<in> set (db_tasks db)" "tk_SessionName row = name"
    using latest_row [OF assms(2)] by auto
  have "r = row" if "r \<in> set (db_tasks db)" "task_key r = (name, task_ID (decodeSessionTask row))" for r
    using task_row_unique [of db r row] assms(1) that row
    by (simp add: tables_sound_def task_key_def decodeSessionTask_def)
  with row assms(1) show ?thesis
    by (auto simp: read_sound_def tables_sound_def tasks_sound_def)
qed

lemma update_sound:
  assumes ok: "tables_sound db" and read: "read_sound name t db"
  shows "tables_sound (snd (UpdateSessionTask (sessionTaskParams name t) db))
       \<and> read_sound name t (snd (UpdateSessionTask (sessionTaskParams name t) db))"
proof -
  let ?db = "snd (UpdateSessionTask (sessionTaskParams name t) db)"
  have "task_sound (decodeSessionTask row) \<and>
      (task_key row = (name, task_ID t) \<longrightarrow> static_task (decodeSessionTask row) = static_task t)"
    if "row \<in> set (db_tasks ?db)" for row
    using that
  proof (cases rule: updated_rows)
    case other
    with ok read show ?thesis by (auto simp: tables_sound_def tasks_sound_def read_sound_def)
  next
    case (progress u)
    with read have "decodeSessionTask row = t"
      by (simp add: progress_is_task read_sound_def)
    with read show ?thesis by (simp add: read_sound_def)
  qed
  moreover have "runs_named ?db"
    using ok by (simp add: tables_sound_def runs_named_def UpdateSessionTask_def Let_def)
  ultimately show ?thesis
    using ok read by (auto simp: tables_sound_def tasks_sound_def read_sound_def UpdateSessionTask_ok)
qed

lemma read_sound_move:
  "read_sound name t db \<Longrightarrow> task_move t t' \<Longrightarrow> read_sound name t' db"
  using task_move_static [of t t'] task_move_sound [of t t']
  by (simp add: read_sound_def static_task_def)

interpretation sound: session_tables tables_sound read_sound
  by unfold_locales (auto intro: latest_sound update_sound read_sound_move dest: update_sound)

interpretation sound: session_tables_creation tables_sound read_sound
  by unfold_locales
    (auto simp: tables_sound_def tasks_sound_def runs_named_def CreateSession_def CreateSessionTask_def task_sound_def
      dest: CreateSession_ok CreateSessionTask_ok split: if_splits)

interpretation sound: session_tables_removal tables_sound read_sound
  by unfold_locales
    (auto simp: tables_sound_def tasks_sound_def runs_named_def SetSessionDeletion_def ClearSessionDeletion_def
      DeleteSession_def Let_def dest: SetSessionDeletion_ok ClearSessionDeletion_ok DeleteSession_ok)

end
