(* ===== verification/Workflow_Creation.thy ===== *)
theory Workflow_Creation
  imports Workflow_Refinement Workflow_Catalog
begin

text \<open>
  A run created from a definition that the catalog accepted satisfies the invariant of runs, and the
  names of its sessions are valid and distinct.
\<close>

definition catalog_ok :: "WorkflowCatalog option \<Rightarrow> bool" where
  "catalog_ok c \<longleftrightarrow>
     (case c of None \<Rightarrow> True | Some cat \<Rightarrow> \<forall>name d. cat_Find cat name = Some d \<longrightarrow> definition_ok d)"

lemma validateRunStart_ok:
  "validateRunStart c q = Inr d \<Longrightarrow> catalog_ok (wc_catalog c) \<Longrightarrow> definition_ok d"
  by (auto simp: validateRunStart_def catalog_ok_def split: option.splits if_splits)

lemma validateRunStart_name:
  "validateRunStart c q = Inr d \<Longrightarrow> dns_label (wq_Name q) \<and> length (wq_Name q) \<le> 31"
  by (auto simp: validateRunStart_def split: option.splits if_splits)

section \<open>New runs\<close>

lemma newRun_get_step:
  "get_step (newRun c q d intent t) n = map_option (newStep c (wq_Name q) n) (map_of (wd_Steps d) n)"
proof -
  have "map_of (map (\<lambda>(name, s). (name, newStep c run name s)) m) n
      = map_option (newStep c run n) (map_of m n)" for run m
    by (induction m) auto
  then show ?thesis by (simp add: get_step_def newRun_def)
qed

lemma step_After_newStep [simp]: "step_After (newStep c run n s) = sd_After s"
  by (simp add: newStep_def)

lemma newRun_depends: "run_depends (newRun c q d intent t) = depends (wd_Steps d)"
proof -
  have "(\<exists>s. get_step (newRun c q d intent t) n = Some s \<and> m \<in> set (step_After s)) \<longleftrightarrow>
      m \<in> set (stepAfter (wd_Steps d) n)" for n m
    by (cases "map_of (wd_Steps d) n") (auto simp: newRun_get_step stepAfter_def)
  then show ?thesis by (simp add: run_depends_def depends_def)
qed

lemma newRun_keys: "map fst (run_Steps (newRun c q d intent t)) = map fst (wd_Steps d)"
  by (simp add: newRun_def case_prod_beta')

lemma newRun_graph_ok:
  assumes ok: "definition_ok d"
  shows "run_graph_ok (newRun c q d intent t)"
proof -
  have keys: "fst ` set (run_Steps (newRun c q d intent t)) = fst ` set (wd_Steps d)"
    using newRun_keys [of c q d intent t] by (metis list.set_map)
  have "step_Name s = n \<and> set (step_After s) \<subseteq> fst ` set (run_Steps (newRun c q d intent t))
      \<and> (step_ChangeFrom s \<noteq> [] \<longrightarrow> step_ChangeFrom s \<in> set (step_After s))"
    if s: "get_step (newRun c q d intent t) n = Some s" for n s
  proof -
    obtain sd where sd: "map_of (wd_Steps d) n = Some sd" "s = newStep c (wq_Name q) n sd"
      using s by (auto simp: newRun_get_step)
    then have mem: "(n, sd) \<in> set (wd_Steps d)" by (simp add: map_of_SomeD)
    with ok have "step_ok (wd_Steps d) n sd" and "set (sd_After sd) \<subseteq> fst ` set (wd_Steps d)"
      by (auto simp: definition_ok_def graph_ok_def)
    with sd(2) keys show ?thesis by (simp add: step_ok_def newStep_def)
  qed
  moreover have "run_MaxParallelism (newRun c q d intent t) = wd_MaxParallelism d"
    by (simp add: newRun_def)
  ultimately show ?thesis
    using ok newRun_keys [of c q d intent t] newRun_depends [of c q d intent t]
    by (simp add: run_graph_ok_def definition_ok_def graph_ok_def)
qed

lemma newRun_pending: "get_step (newRun c q d intent t) n = Some s \<Longrightarrow> step_State s = StepPending"
  by (auto simp: newRun_get_step newStep_def)

lemma newRun_ok:
  assumes ok: "definition_ok d"
  shows "run_ok (newRun c q d intent t)"
proof -
  have "activeSteps (newRun c q d intent t) = 0"
    by (auto simp: activeSteps_def count_entries_def newRun_def newStep_def step_active_def
        filter_empty_conv)
  with ok have "activeSteps (newRun c q d intent t) \<le> run_MaxParallelism (newRun c q d intent t)"
    by (simp add: newRun_def definition_ok_def)
  moreover have "step_sound (newRun c q d intent t) s"
    if "get_step (newRun c q d intent t) n = Some s" for n s
    using newRun_pending [OF that] by (simp add: step_sound_def)
  ultimately show ?thesis
    using newRun_graph_ok [OF ok] by (simp add: run_ok_def)
qed

text \<open>A catalog that was loaded satisfies the contract, whatever the decoder returned.\<close>

lemma loadDefinitions_ok:
  assumes "loadDefinitions L agents fs acc = Inr ds" and "L [] \<noteq> []"
    and "\<forall>f \<in> snd ` set fs. distinct (map fst (df_Steps f))"
    and "\<forall>(n, d) \<in> set acc. definition_ok d"
  shows "\<forall>(n, d) \<in> set ds. definition_ok d"
  using assms
proof (induction L agents fs acc rule: loadDefinitions.induct)
  case (1 L agents acc)
  then show ?case by simp
next
  case (2 L agents name f fs acc)
  from 2(2) obtain d where d: "loadWorkflowDefinition L agents name f = Inr d"
    and rest: "loadDefinitions L agents fs (AList.update name d acc) = Inr ds"
    by (auto split: sum.splits)
  have "definition_ok d"
    using loadWorkflowDefinition_Inr(1) [OF d 2(3)] 2(4) by simp
  moreover have "set (AList.update name d acc) \<subseteq> insert (name, d) (set acc)"
    by (induction acc) auto
  ultimately have "\<forall>(n, d) \<in> set (AList.update name d acc). definition_ok d"
    using 2(5) by fastforce
  with 2(1) [OF d rest 2(3)] 2(4) show ?case by simp
qed

lemma loadWorkflowCatalog_ok:
  assumes load: "loadWorkflowCatalog decode L agents contents = Inr ds" and L: "L [] \<noteq> []"
    and dist: "\<And>file. decode contents = Inr file \<Longrightarrow>
      \<forall>f \<in> snd ` set (wcf_Workflows file). distinct (map fst (df_Steps f))"
  shows "catalog_ok (Some (catalogOf (Some ds)))"
proof -
  from load obtain f where f: "decode contents = Inr f"
    and ds: "loadDefinitions L agents (wcf_Workflows f) [] = Inr ds"
    by (auto simp: loadWorkflowCatalog_def split: sum.splits if_splits)
  have "\<forall>(n, d) \<in> set ds. definition_ok d"
    using loadDefinitions_ok [OF ds L dist [OF f]] by simp
  then show ?thesis
    by (fastforce simp: catalog_ok_def catalogOf_def workflows_Find_def dest: map_of_SomeD)
qed

section \<open>Session names\<close>

lemma workflowSessionName_label:
  assumes "dns_label run" and "length (sha256 step) \<ge> 4"
  shows "dns_label (workflowSessionName sha256 run step)"
    and "length (workflowSessionName sha256 run step) = length run + 9"
proof -
  have "hex_encode (take 4 (sha256 step)) \<noteq> []"
    using assms(2) length_hex_encode [of "take 4 (sha256 step)"] by (cases "hex_encode (take 4 (sha256 step))") auto
  then show "dns_label (workflowSessionName sha256 run step)"
    unfolding workflowSessionName_def using dns_label_append_hex [OF assms(1) hex_encode_lower] by simp
  show "length (workflowSessionName sha256 run step) = length run + 9"
    using assms(2) by (simp add: workflowSessionName_def)
qed

lemma hex_digit_inj:
  assumes "hex_digit d = hex_digit e" and "d < 16" and "e < 16"
  shows "d = e"
proof -
  have "distinct ''0123456789abcdef''" by simp
  moreover have "d < length ''0123456789abcdef''" "e < length ''0123456789abcdef''"
    using assms(2,3) by simp_all
  ultimately show ?thesis
    using assms nth_eq_iff_index_eq [of "''0123456789abcdef''" d e] unfolding hex_digit_def by simp
qed

lemma hex_byte_inj:
  assumes "hex_byte b = hex_byte c"
  shows "b = c"
proof -
  let ?m = "of_char b :: nat" and ?n = "of_char c :: nat"
  have lt: "?m < 256" "?n < 256" by (rule nat_of_char_less_256)+
  have "?m div 16 < 16" "?n div 16 < 16" using lt by (simp_all add: div_less_iff_less_mult)
  then have "?m div 16 = ?n div 16"
    using assms by (intro hex_digit_inj) (auto simp: hex_byte_def)
  moreover have "?m mod 16 = ?n mod 16"
    using assms by (intro hex_digit_inj) (auto simp: hex_byte_def)
  ultimately have "?m = ?n" by (metis div_mult_mod_eq)
  then show ?thesis by simp
qed

lemma hex_encode_inj:
  assumes "hex_encode xs = hex_encode ys"
  shows "xs = ys"
proof -
  have "2 * length xs = 2 * length ys" using assms by (metis length_hex_encode)
  then have "length xs = length ys" by simp
  then show ?thesis
    using assms
  proof (induction xs ys rule: list_induct2)
    case (Cons x xs y ys)
    then have "hex_byte x = hex_byte y" "hex_encode xs = hex_encode ys"
      by (auto simp: hex_encode_def hex_byte_def)
    with Cons hex_byte_inj show ?case by simp
  qed simp
qed

text \<open>Two sessions have the same name only for the same run and the same four bytes of the hash.\<close>

lemma workflowSessionName_inj:
  assumes len: "length (sha256 s1) \<ge> 4" "length (sha256 s2) \<ge> 4"
  shows "workflowSessionName sha256 r1 s1 = workflowSessionName sha256 r2 s2 \<longleftrightarrow>
    r1 = r2 \<and> take 4 (sha256 s1) = take 4 (sha256 s2)"
proof
  assume eq: "workflowSessionName sha256 r1 s1 = workflowSessionName sha256 r2 s2"
  have "length (''-'' @ hex_encode (take 4 (sha256 s1))) = length (''-'' @ hex_encode (take 4 (sha256 s2)))"
    using len by simp
  with eq have "r1 = r2" "hex_encode (take 4 (sha256 s1)) = hex_encode (take 4 (sha256 s2))"
    by (auto simp: workflowSessionName_def)
  then show "r1 = r2 \<and> take 4 (sha256 s1) = take 4 (sha256 s2)" using hex_encode_inj by blast
qed (simp add: workflowSessionName_def)

end
