(* ===== verification/Server_Invariants.thy ===== *)
theory Server_Invariants
  imports Server Workflow_Creation
begin

text \<open>
  The invariants of the running server: how one task and one workflow run evolve under the
  operations, and what every database that the server can reach satisfies.
\<close>

section \<open>The evolution of one task\<close>

abbreviation task_moves :: "Task \<Rightarrow> Task \<Rightarrow> bool" where
  "task_moves \<equiv> task_move\<^sup>*\<^sup>*"

lemma task_moves_static: "task_moves t t' \<Longrightarrow> static_task t' = static_task t"
  by (induction rule: rtranclp_induct) (auto dest: task_move_static)

lemma task_moves_terminal: "task_moves t t' \<Longrightarrow> taskTerminal (task_State t) \<Longrightarrow> t' = t"
  by (induction rule: rtranclp_induct) (auto dest: task_move_terminal)

lemma task_moves_sound: "task_moves t t' \<Longrightarrow> task_sound t \<Longrightarrow> task_sound t'"
  by (induction rule: rtranclp_induct) (auto dest: task_move_sound)

text \<open>The stored task of a session with an identity, if it exists.\<close>

definition storedTask :: "Database \<Rightarrow> string \<Rightarrow> string \<Rightarrow> Task option" where
  "storedTask db name tid =
     map_option decodeSessionTask (find (\<lambda>r. task_key r = (name, tid)) (db_tasks db))"

definition follows :: "string \<Rightarrow> string \<Rightarrow> Task \<Rightarrow> Database \<Rightarrow> bool" where
  "follows name tid t0 db \<longleftrightarrow> database_ok db \<and>
     (\<exists>r \<in> set (db_tasks db). task_key r = (name, tid) \<and> task_moves t0 (decodeSessionTask r))"

definition follows_if_kept :: "string \<Rightarrow> string \<Rightarrow> Task \<Rightarrow> Database \<Rightarrow> bool" where
  "follows_if_kept name tid t0 db \<longleftrightarrow> database_ok db \<and>
     (\<forall>r \<in> set (db_tasks db). task_key r = (name, tid) \<longrightarrow> task_moves t0 (decodeSessionTask r))"

definition read_follows :: "string \<Rightarrow> string \<Rightarrow> Task \<Rightarrow> string \<Rightarrow> Task \<Rightarrow> Database \<Rightarrow> bool" where
  "read_follows name tid t0 n t db \<longleftrightarrow> (n = name \<and> task_ID t = tid \<longrightarrow> task_moves t0 t)"

lemma storedTask_Some:
  assumes "database_ok db"
  shows "storedTask db name tid = Some t \<longleftrightarrow>
    (\<exists>r \<in> set (db_tasks db). task_key r = (name, tid) \<and> decodeSessionTask r = t)"
proof
  assume "storedTask db name tid = Some t"
  then show "\<exists>r \<in> set (db_tasks db). task_key r = (name, tid) \<and> decodeSessionTask r = t"
    by (auto simp: storedTask_def find_Some_iff)
next
  assume "\<exists>r \<in> set (db_tasks db). task_key r = (name, tid) \<and> decodeSessionTask r = t"
  then obtain r where r: "r \<in> set (db_tasks db)" "task_key r = (name, tid)" "decodeSessionTask r = t"
    by blast
  then obtain u where u: "find (\<lambda>r. task_key r = (name, tid)) (db_tasks db) = Some u"
    by (cases "find (\<lambda>r. task_key r = (name, tid)) (db_tasks db)") (auto simp: find_None_iff)
  then have "u \<in> set (db_tasks db)" "task_key u = (name, tid)"
    by (auto simp: find_Some_iff)
  with r task_row_unique [OF assms, of u r] have "u = r" by simp
  with r u show "storedTask db name tid = Some t" by (simp add: storedTask_def)
qed

lemma follows_stored:
  assumes ok: "database_ok db"
  shows "follows name tid t0 db \<longleftrightarrow> (\<exists>t. storedTask db name tid = Some t \<and> task_moves t0 t)"
proof -
  have "(\<exists>t. storedTask db name tid = Some t \<and> task_moves t0 t) \<longleftrightarrow>
      (\<exists>t. \<exists>r \<in> set (db_tasks db). task_key r = (name, tid) \<and> decodeSessionTask r = t \<and> task_moves t0 t)"
    unfolding storedTask_Some [OF ok] by blast
  then show ?thesis using ok unfolding follows_def by blast
qed

lemma follows_if_kept_stored:
  assumes ok: "database_ok db"
  shows "follows_if_kept name tid t0 db \<longleftrightarrow>
     (\<forall>t. storedTask db name tid = Some t \<longrightarrow> task_moves t0 t)"
proof -
  have "(\<forall>t. storedTask db name tid = Some t \<longrightarrow> task_moves t0 t) \<longleftrightarrow>
      (\<forall>r \<in> set (db_tasks db). task_key r = (name, tid) \<longrightarrow> task_moves t0 (decodeSessionTask r))"
    unfolding storedTask_Some [OF ok] by blast
  then show ?thesis using ok unfolding follows_if_kept_def by blast
qed

lemma decoded_key: "task_key r = (name, tid) \<Longrightarrow> task_ID (decodeSessionTask r) = tid"
  by (simp add: task_key_def decodeSessionTask_def)

lemma latest_follows:
  assumes ok: "database_ok db" and row: "fst (GetLatestSessionTask n db) = Inr row"
    and r: "r \<in> set (db_tasks db)" "task_key r = (name, tid)" "task_moves t0 (decodeSessionTask r)"
  shows "read_follows name tid t0 n (decodeSessionTask row) db"
proof -
  have "row = r" if "n = name" "task_ID (decodeSessionTask row) = tid"
    using task_row_unique [OF ok, of row r] latest_row [OF row] r that
    by (simp add: task_key_def decodeSessionTask_def)
  with r show ?thesis by (auto simp: read_follows_def)
qed

text \<open>An update rewrites the row of the task with the task itself.\<close>

lemma update_follows_row:
  assumes u: "task_key u = (n, task_ID t)" "task_key u = (name, tid)" "task_moves t0 (decodeSessionTask u)"
    and read: "read_follows name tid t0 n t db"
  shows "task_moves t0 (decodeSessionTask (progressOf (sessionTaskParams n t) u))"
proof -
  from u read have t: "task_moves t0 t" by (auto simp: read_follows_def)
  then have "static_task (decodeSessionTask u) = static_task t"
    using task_moves_static [OF t] task_moves_static [OF u(3)] by simp
  with t show ?thesis by (simp add: progress_is_task)
qed

lemma read_follows_move:
  "read_follows name tid t0 n t db \<Longrightarrow> task_move t t' \<Longrightarrow> read_follows name tid t0 n t' db"
  using task_move_static [of t t'] by (auto simp: read_follows_def static_task_def)

lemma read_follows_db: "read_follows name tid t0 n t db \<Longrightarrow> read_follows name tid t0 n t db'"
  by (simp add: read_follows_def)

lemma update_keeps_row:
  assumes "r \<in> set (db_tasks db)"
  shows "r \<in> set (db_tasks (snd (UpdateSessionTask (sessionTaskParams n t) db)))
    \<or> task_key r = (n, task_ID t)
      \<and> progressOf (sessionTaskParams n t) r \<in> set (db_tasks (snd (UpdateSessionTask (sessionTaskParams n t) db)))"
  using assms
  by (auto simp: UpdateSessionTask_def Let_def set_update_rows sessionTaskParams_def task_key_def)

lemma update_follows:
  assumes f: "follows name tid t0 db" and read: "read_follows name tid t0 n t db"
  shows "follows name tid t0 (snd (UpdateSessionTask (sessionTaskParams n t) db))"
proof -
  from f obtain r where r: "r \<in> set (db_tasks db)" "task_key r = (name, tid)"
      "task_moves t0 (decodeSessionTask r)" by (auto simp: follows_def)
  have "\<exists>r' \<in> set (db_tasks (snd (UpdateSessionTask (sessionTaskParams n t) db))).
      task_key r' = (name, tid) \<and> task_moves t0 (decodeSessionTask r')"
    using update_keeps_row [OF r(1), of n t] r(2,3) update_follows_row [OF _ r(2,3) read]
    by (metis progress_key)
  with f show ?thesis by (simp add: follows_def UpdateSessionTask_ok)
qed

lemma update_follows_if_kept:
  assumes f: "follows_if_kept name tid t0 db" and read: "read_follows name tid t0 n t db"
  shows "follows_if_kept name tid t0 (snd (UpdateSessionTask (sessionTaskParams n t) db))"
proof -
  have "task_moves t0 (decodeSessionTask row)"
    if "row \<in> set (db_tasks (snd (UpdateSessionTask (sessionTaskParams n t) db)))" "task_key row = (name, tid)"
    for row
    using that(1)
  proof (cases rule: updated_rows)
    case other
    with f that(2) show ?thesis by (simp add: follows_if_kept_def)
  next
    case (progress u)
    with f that(2) have "task_moves t0 (decodeSessionTask u)" by (simp add: follows_if_kept_def)
    with progress that(2) update_follows_row [OF _ _ _ read, of u] show ?thesis by simp
  qed
  with f show ?thesis by (simp add: follows_if_kept_def UpdateSessionTask_ok)
qed

interpretation follow: session_tables "follows name tid t0" "read_follows name tid t0" for name tid t0
proof unfold_locales
  fix db n row
  assume "follows name tid t0 db" "fst (GetLatestSessionTask n db) = Inr row"
  then show "read_follows name tid t0 n (decodeSessionTask row) db"
    using latest_follows [of db n row _ name tid t0] by (auto simp: follows_def)
qed (auto intro: update_follows read_follows_move read_follows_db)

lemma create_keeps_rows:
  "set (db_tasks db) \<subseteq> set (db_tasks (snd (CreateSession row db)))"
  "set (db_tasks db) \<subseteq> set (db_tasks (snd (CreateSessionTask trow db)))"
  by (auto simp: CreateSession_def CreateSessionTask_def)

interpretation follow: session_tables_creation "follows name tid t0" "read_follows name tid t0" for name tid t0
proof unfold_locales
  fix db row
  show "follows name tid t0 (snd (CreateSession row db))" if "follows name tid t0 db"
    using that create_keeps_rows(1) [of db row] CreateSession_ok [of db row] by (auto simp: follows_def)
next
  fix db t n
  show "follows name tid t0 (snd (CreateSessionTask (sessionTaskParams n t) db))" if "follows name tid t0 db"
    using that create_keeps_rows(2) [of db "sessionTaskParams n t"]
      CreateSessionTask_ok [of db "sessionTaskParams n t"] by (auto simp: follows_def)
qed

interpretation follow_removal: session_tables "follows_if_kept name tid t0" "read_follows name tid t0"
  for name tid t0
proof unfold_locales
  fix db n row
  assume "follows_if_kept name tid t0 db" "fst (GetLatestSessionTask n db) = Inr row"
  with latest_row [of n db row] show "read_follows name tid t0 n (decodeSessionTask row) db"
    by (auto simp: follows_if_kept_def read_follows_def task_key_def decodeSessionTask_def)
qed (auto intro: update_follows_if_kept read_follows_move read_follows_db)

interpretation follow_removal: session_tables_removal "follows_if_kept name tid t0" "read_follows name tid t0"
  for name tid t0
  by unfold_locales
    (auto simp: follows_if_kept_def SetSessionDeletion_def ClearSessionDeletion_def DeleteSession_def Let_def
      dest: SetSessionDeletion_ok ClearSessionDeletion_ok DeleteSession_ok)

section \<open>The evolution of one run\<close>

text \<open>The run that a row holds.\<close>

definition rowRun :: "RunRow \<Rightarrow> Run" where
  "rowRun row = (rr_Contents row)\<lparr>run_Revision := rr_Version row\<rparr>"

definition storedRun :: "Database \<Rightarrow> string \<Rightarrow> Run option" where
  "storedRun db name = map_option rowRun (find (\<lambda>r. rr_Name r = name) (db_runs db))"

definition runs_satisfy :: "(Run \<Rightarrow> bool) \<Rightarrow> Database \<Rightarrow> bool" where
  "runs_satisfy Q db \<longleftrightarrow> (\<forall>r \<in> set (db_runs db). Q (rowRun r))"

lemma encodeRun_Inr: "encodeRun run = Inr contents \<Longrightarrow> contents = run\<lparr>run_Revision := 0\<rparr>"
  by (auto simp: encodeRun_def split: if_splits)

lemma decodeRun_Inr: "decodeRun row = Inr run \<Longrightarrow> run = rowRun row \<and> run_Name run = rr_Name row"
  by (auto simp: decodeRun_def rowRun_def Let_def split: if_splits)

lemma serverOperations_simps [simp]:
  "so_Start (serverOperations E) = session_Start (serverSessions E)"
  "so_Status (serverOperations E) = session_Status (serverSessions E)"
  "so_Artifacts (serverOperations E) = session_Artifacts (serverSessions E)"
  "so_Delete (serverOperations E) = session_Delete (serverSessions E)"
  "so_Destroy (serverOperations E) = session_Destroy (serverSessions E)"
  by (simp_all add: serverOperations_def)

text \<open>A property of runs that every move preserves, as an invariant of the database.\<close>

locale run_property =
  fixes Q :: "Run \<Rightarrow> bool"
  assumes run_closed: "Q run \<Longrightarrow> run_move run run' \<Longrightarrow> Q run'"
begin

abbreviation "stored \<equiv> (\<lambda>w. runs_satisfy Q (w_db w))"

lemma revision_closed: "Q run \<Longrightarrow> Q (run\<lparr>run_Revision := k\<rparr>)"
  using run_closed [OF _ run_move.mark [where run = run and st = "run_State run"
      and cancel = "run_CancelRequested run" and t = "run_UpdatedAt run" and revision = k]] by simp

lemma Run_stored: "ensures stored (runs_Run driver name) Q"
proof -
  have "ensures stored (exec driver (GetRun name)) (\<lambda>row. Q (rowRun row))"
    by (rule exec_ensures) (auto simp: GetRun_def runs_satisfy_def dest: one_row_Inr)
  then show ?thesis
    unfolding runs_Run_def
    by (rule ensures_handle) (auto intro!: ensures_throw lift_ensures dest: decodeRun_Inr)
qed

lemma Runs_stored: "ensures stored (runs_Runs driver) (\<lambda>_. True)"
proof -
  have "ensures stored (exec driver ListRuns) (\<lambda>_. True)"
    by (rule exec_ensures) auto
  then show ?thesis
    unfolding runs_Runs_def
    by (rule ensures_handle) (auto intro!: ensures_throw lift_ensures)
qed

lemma Update_stored:
  assumes "Q run"
  shows "ensures stored (runs_Update driver run) Q"
proof (cases "encodeRun run")
  case (Inl e)
  then show ?thesis by (simp add: runs_Update_def ensures_throw)
next
  case (Inr contents)
  have Q: "Q (rowRun (row\<lparr>rr_Contents := contents, rr_Version := k\<rparr>))" for row k
    using encodeRun_Inr [OF Inr] revision_closed [OF assms, of k] by (simp add: rowRun_def)
  have "ensures stored (exec driver (UpdateRun (run_Name run) contents (run_Revision run))) (\<lambda>_. True)"
    by (rule exec_ensures) (auto simp: UpdateRun_def Let_def runs_satisfy_def set_update_rows intro: Q)
  then show ?thesis
    unfolding runs_Update_def Inr sum.case
    by (rule ensures_handle) (auto intro!: ensures_throw ensures_ret intro: revision_closed assms)
qed

lemma Create_stored:
  assumes "Q run"
  shows "ensures stored (runs_Create driver run ds) Q"
proof (cases "encodeRun run")
  case (Inl e)
  then show ?thesis by (simp add: runs_Create_def ensures_throw)
next
  case (Inr contents)
  have Q: "Q (rowRun \<lparr>rr_Name = n, rr_Contents = contents, rr_Version = k\<rparr>)" for n k
    using encodeRun_Inr [OF Inr] revision_closed [OF assms, of k] by (simp add: rowRun_def)
  have row: "ensures stored (exec driver (CreateRun (run_Name run) contents)) (\<lambda>_. True)"
    by (rule exec_ensures) (auto simp: CreateRun_def Let_def runs_satisfy_def intro: Q)
  have snapshot: "ensures stored (exec driver (CreateAgentSnapshot s)) (\<lambda>_. True)" for s
    by (rule exec_ensures) (auto simp: CreateAgentSnapshot_def runs_satisfy_def)
  have snapshots: "ensures stored (for_each (createSnapshot driver n ds) names ()) (\<lambda>_. True)" for n names
    by (rule ensures_for_each)
      (auto simp: createSnapshot_def split: option.split
        intro!: ensures_ret ensures_handle [OF snapshot] ensures_throw)
  show ?thesis
    unfolding runs_Create_def Inr sum.case
    by (rule transaction_ensures)
      (auto intro!: ensures_handle [OF row] ensures_andThen [OF snapshots] ensures_throw ensures_ret
        intro: revision_closed assms)
qed

lemma SessionDefinition_stored: "ensures stored (runs_SessionDefinition driver name agent) (\<lambda>_. True)"
proof -
  have "ensures stored (exec driver (GetAgentSnapshot name agent)) (\<lambda>_. True)"
    by (rule exec_ensures) auto
  then show ?thesis
    unfolding runs_SessionDefinition_def Let_def
    by (rule ensures_handle) (auto intro!: ensures_throw ensures_ret)
qed

lemma Delete_stored: "ensures stored (runs_Delete driver name) (\<lambda>_. True)"
  unfolding runs_Delete_def
  by (rule require_row_ensures, rule exec_ensures) (auto simp: DeleteRun_def runs_satisfy_def)

text \<open>Session operations do not touch the table of runs.\<close>

lemma frame_stored:
  fixes m :: "('e world, 'a) op"
  assumes "\<And>x. ensures (\<lambda>w. (db_runs (w_db w), db_snapshots (w_db w)) = x) m (\<lambda>_. True)"
  shows "ensures stored m (\<lambda>_. True)"
  unfolding ensures_def
proof (intro allI impI conjI TrueI)
  fix w :: "'e world" assume "stored w"
  moreover have "db_runs (w_db (snd (m w))) = db_runs (w_db w)"
    using ensures_inv [OF assms [of "(db_runs (w_db w), db_snapshots (w_db w))"], of w] by simp
  ultimately show "stored (snd (m w))" by (simp add: runs_satisfy_def)
qed

lemma Artifacts_stored: "ensures stored (session_Artifacts (serverSessions E) name) (\<lambda>_. True)"
  using triple_weak [OF frame.sessions.artifacts_triple]
  by (intro frame_stored) (simp add: triple_ensures [symmetric])

end

sublocale run_property \<subseteq> runs: run_discipline "serverWorkflows E" stored Q for E
proof unfold_locales
  fix d q name
  show "ensures stored (so_Start (wc_sessions (serverWorkflows E)) d q) (\<lambda>_. True)"
    by (simp add: serverWorkflows_def frame_stored frame.creation.start_ensures)
  show "ensures stored (so_Status (wc_sessions (serverWorkflows E)) name) (\<lambda>_. True)"
    by (simp add: serverWorkflows_def frame_stored frame.sessions.status_ensures)
  show "ensures stored (so_Artifacts (wc_sessions (serverWorkflows E)) name) (\<lambda>_. True)"
    by (simp add: serverWorkflows_def Artifacts_stored)
  show "ensures stored (so_Delete (wc_sessions (serverWorkflows E)) name) (\<lambda>_. True)"
    unfolding serverWorkflows_def
    by (simp add: session_Delete_def frame_stored frame.removal.delete_ensures)
  show "ensures stored (so_Destroy (wc_sessions (serverWorkflows E)) name) (\<lambda>_. True)"
    unfolding serverWorkflows_def
    by (simp add: session_Destroy_def frame_stored frame.removal.delete_ensures)
qed (auto simp: serverWorkflows_def runRepository_def intro: run_closed
    Run_stored Runs_stored Update_stored SessionDefinition_stored Delete_stored)

text \<open>The moves of a run that started as \<open>r0\<close>.\<close>

interpretation evolve: run_property "\<lambda>r. run_Name r = run_Name r0 \<longrightarrow> run_moves r0 r" for r0
proof
  fix run run'
  assume "run_Name run = run_Name r0 \<longrightarrow> run_moves r0 run" and move: "run_move run run'"
  moreover have "run_Name run' = run_Name run"
    using run_move_static [OF move] by (simp add: static_run_def)
  ultimately show "run_Name run' = run_Name r0 \<longrightarrow> run_moves r0 run'"
    by (auto intro: rtranclp.rtrancl_into_rtrancl)
qed

section \<open>Valid runs\<close>

text \<open>Every stored run satisfies its invariant, when every configured definition does.\<close>

interpretation valid: run_property "\<lambda>r. catalog_ok cat \<longrightarrow> run_ok r" for cat
  by unfold_locales (auto intro: run_move_ok)

interpretation valid: run_creation "serverWorkflows E"
    "\<lambda>w. runs_satisfy (\<lambda>r. catalog_ok (env_catalog E) \<longrightarrow> run_ok r) (w_db w)"
    "\<lambda>r. catalog_ok (env_catalog E) \<longrightarrow> run_ok r" for E
proof unfold_locales
  fix run ds
  assume "catalog_ok (env_catalog E) \<longrightarrow> run_ok run"
  then show "ensures (\<lambda>w. runs_satisfy (\<lambda>r. catalog_ok (env_catalog E) \<longrightarrow> run_ok r) (w_db w))
      (wr_Create (wc_repository (serverWorkflows E)) run ds) (\<lambda>r. catalog_ok (env_catalog E) \<longrightarrow> run_ok r)"
    by (simp add: serverWorkflows_def runRepository_def valid.Create_stored)
next
  fix q d intent t
  assume "validateRunStart (serverWorkflows E) q = Inr d"
  then show "catalog_ok (env_catalog E) \<longrightarrow> run_ok (newRun (serverWorkflows E) (startDefaultRef q) d intent t)"
    using validateRunStart_ok [of "serverWorkflows E" q d]
    by (auto simp: serverWorkflows_def intro: newRun_ok)
qed

section \<open>An invariant of the tables under workflow operations\<close>

text \<open>
  The interface between the tables and the whole server: the invariants of session control that the
  statements on runs keep as well.
\<close>

locale run_tables = session_tables_creation P R + session_tables_removal P R
  for P :: "Database \<Rightarrow> bool" and R :: "string \<Rightarrow> Task \<Rightarrow> Database \<Rightarrow> bool" +
  assumes create_run: "run_Name contents = name \<Longrightarrow> P db \<Longrightarrow> P (snd (CreateRun name contents db))"
    and update_run: "run_Name contents = name \<Longrightarrow> P db \<Longrightarrow> P (snd (UpdateRun name contents version db))"
    and create_snapshot: "P db \<Longrightarrow> P (snd (CreateAgentSnapshot srow db))"
    and delete_run: "P db \<Longrightarrow> P (snd (DeleteRun name db))"
begin

lemma runs_exec:
  "run_Name contents = name \<Longrightarrow> ensures holds (exec driver (CreateRun name contents)) (\<lambda>_. True)"
  "run_Name contents = name \<Longrightarrow> ensures holds (exec driver (UpdateRun name contents version)) (\<lambda>_. True)"
  "ensures holds (exec driver (CreateAgentSnapshot srow)) (\<lambda>_. True)"
  "ensures holds (exec driver (DeleteRun name)) (\<lambda>_. True)"
  "ensures holds (exec driver (GetRun name)) (\<lambda>_. True)"
  "ensures holds (exec driver ListRuns) (\<lambda>_. True)"
  "ensures holds (exec driver (GetAgentSnapshot name agent)) (\<lambda>_. True)"
  by (rule exec_ensures; simp add: create_run update_run create_snapshot delete_run)+

lemma runs_Create_holds: "ensures holds (runs_Create driver run ds) (\<lambda>_. True)"
proof -
  have snapshots: "ensures holds (for_each (createSnapshot driver n ds) names ()) (\<lambda>_. True)" for n names
    by (rule ensures_for_each)
      (auto simp: createSnapshot_def split: option.split
        intro!: ensures_ret ensures_handle [OF runs_exec(3)] ensures_throw)
  have "ensures holds (transaction driver be ce
      (handle (exec driver (CreateRun (run_Name run) contents))
         (\<lambda>e. throw (f e))
         (\<lambda>row. andThen (for_each (createSnapshot driver (run_Name run) ds) (sorted_keys ds) ())
            (\<lambda>_. ret (run\<lparr>run_Revision := rr_Version row\<rparr>))))) (\<lambda>_. True)"
    if "run_Name contents = run_Name run" for be ce f contents
    by (rule transaction_ensures)
      (auto intro!: ensures_handle [OF runs_exec(1) [OF that]] ensures_andThen [OF snapshots]
        ensures_throw ensures_ret)
  then show ?thesis
    by (auto simp: runs_Create_def split: sum.split intro: ensures_throw dest!: encodeRun_Inr)
qed

end

sublocale run_tables \<subseteq> runs: run_creation "serverWorkflows E" holds "\<lambda>_. True" for E
proof unfold_locales
  fix name agent run ds
  show "ensures holds (wr_Run (wc_repository (serverWorkflows E)) name) (\<lambda>_. True)"
    by (auto simp: serverWorkflows_def runRepository_def runs_Run_def
        intro!: ensures_handle [OF runs_exec(5)] ensures_throw lift_ensures)
  show "ensures holds (wr_Runs (wc_repository (serverWorkflows E))) (\<lambda>_. True)"
    by (auto simp: serverWorkflows_def runRepository_def runs_Runs_def
        intro!: ensures_handle [OF runs_exec(6)] ensures_throw lift_ensures)
  show "ensures holds (wr_Update (wc_repository (serverWorkflows E)) run) (\<lambda>_. True)"
    by (auto simp: serverWorkflows_def runRepository_def runs_Update_def split: sum.split
        dest!: encodeRun_Inr intro!: ensures_handle [OF runs_exec(2)] ensures_throw ensures_ret)
  show "ensures holds (wr_SessionDefinition (wc_repository (serverWorkflows E)) name agent) (\<lambda>_. True)"
    by (auto simp: serverWorkflows_def runRepository_def runs_SessionDefinition_def Let_def
        intro!: ensures_handle [OF runs_exec(7)] ensures_throw ensures_ret)
  show "ensures holds (wr_Delete (wc_repository (serverWorkflows E)) name) (\<lambda>_. True)"
    unfolding serverWorkflows_def runRepository_def runs_Delete_def
    by (simp add: require_row_ensures runs_exec)
  show "ensures holds (wr_Create (wc_repository (serverWorkflows E)) run ds) (\<lambda>_. True)"
    by (simp add: serverWorkflows_def runRepository_def runs_Create_holds)
next
  fix d q name
  show "ensures holds (so_Start (wc_sessions (serverWorkflows E)) d q) (\<lambda>_. True)"
    by (simp add: serverWorkflows_def creation.start_ensures)
  show "ensures holds (so_Status (wc_sessions (serverWorkflows E)) name) (\<lambda>_. True)"
    by (simp add: serverWorkflows_def sessions.status_ensures)
  show "ensures holds (so_Artifacts (wc_sessions (serverWorkflows E)) name) (\<lambda>_. True)"
    using triple_weak [OF sessions.artifacts_triple]
    by (simp add: serverWorkflows_def triple_ensures [symmetric])
  show "ensures holds (so_Delete (wc_sessions (serverWorkflows E)) name) (\<lambda>_. True)"
    by (simp add: serverWorkflows_def session_Delete_def removal.delete_ensures)
  show "ensures holds (so_Destroy (wc_sessions (serverWorkflows E)) name) (\<lambda>_. True)"
    by (simp add: serverWorkflows_def session_Destroy_def removal.delete_ensures)
qed (auto simp: serverWorkflows_def)

lemma runs_sound:
  assumes "tables_sound db"
  shows "run_Name contents = name \<Longrightarrow> tables_sound (snd (CreateRun name contents db))"
    and "run_Name contents = name \<Longrightarrow> tables_sound (snd (UpdateRun name contents version db))"
    and "tables_sound (snd (CreateAgentSnapshot row db))"
    and "tables_sound (snd (DeleteRun name db))"
  using assms CreateRun_ok [of db name contents] UpdateRun_ok [of db name contents version]
    CreateAgentSnapshot_ok [of db row] DeleteRun_ok [of db name]
  by (auto simp: tables_sound_def tasks_sound_def runs_named_def CreateRun_def UpdateRun_def
      CreateAgentSnapshot_def DeleteRun_def Let_def set_update_rows)

interpretation sound: run_tables tables_sound read_sound
  by unfold_locales (auto intro: runs_sound)

abbreviation "world_sound \<equiv> (\<lambda>w. tables_sound (w_db w))"

section \<open>Publications\<close>

text \<open>The publication that a row holds.\<close>

definition rowPublication :: "PublicationRow \<Rightarrow> PublishRecord" where
  "rowPublication row = (pb_Contents row)\<lparr>pub_Revision := pb_Version row\<rparr>"

definition storedPublication :: "Database \<Rightarrow> string \<Rightarrow> PublishRecord option" where
  "storedPublication db name =
     map_option rowPublication (find (\<lambda>p. pb_SessionName p = name) (db_publications db))"

definition publications_satisfy :: "(PublishRecord \<Rightarrow> bool) \<Rightarrow> Database \<Rightarrow> bool" where
  "publications_satisfy Q db \<longleftrightarrow> (\<forall>r \<in> set (db_publications db). Q (rowPublication r))"

lemma decodePublication_Inr: "decodePublication row = Inr r \<Longrightarrow> r = rowPublication row"
  by (auto simp: decodePublication_def rowPublication_def Let_def split: if_splits)

interpretation pubs: session_tables "publications_satisfy Q" "\<lambda>_ _ _. True" for Q
  by unfold_locales (auto simp: publications_satisfy_def UpdateSessionTask_def Let_def)

interpretation pubs: session_tables_creation "publications_satisfy Q" "\<lambda>_ _ _. True" for Q
  by unfold_locales (auto simp: publications_satisfy_def CreateSession_def CreateSessionTask_def)

interpretation pubs: session_tables_removal "publications_satisfy Q" "\<lambda>_ _ _. True" for Q
  by unfold_locales
    (auto simp: publications_satisfy_def SetSessionDeletion_def ClearSessionDeletion_def
      DeleteSession_def Let_def)

interpretation pubs: run_tables "publications_satisfy Q" "\<lambda>_ _ _. True" for Q
  by unfold_locales
    (auto simp: publications_satisfy_def CreateRun_def UpdateRun_def CreateAgentSnapshot_def
      DeleteRun_def Let_def)

lemma lift_api_keeps: "api_keeps (\<lambda>w. P (w_db w)) (lift_api api)"
  by (simp add: api_keeps_def lift_api_def)

text \<open>
  A property of publications that every move preserves, with an invariant \<open>P\<close> of the database that
  implies it and that the statements on publications keep.
\<close>

locale publication_property = session_tables P R
  for P :: "Database \<Rightarrow> bool" and R :: "string \<Rightarrow> Task \<Rightarrow> Database \<Rightarrow> bool" +
  fixes Q :: "PublishRecord \<Rightarrow> bool"
  assumes create_row: "P db \<Longrightarrow> Q r \<Longrightarrow> P (snd (CreatePublication (pub_Session r) r db))"
    and update_row: "P db \<Longrightarrow> Q r \<Longrightarrow> P (snd (UpdatePublication (pub_Session r) r version db))"
    and stored_row: "P db \<Longrightarrow> row \<in> set (db_publications db) \<Longrightarrow> Q (rowPublication row)"
    and publication_closed: "Q r \<Longrightarrow> publish_move r r' \<Longrightarrow> Q r'"
    and publication_fresh: "pub_State r = PublishPending \<Longrightarrow> pub_CommitSHA r = [] \<Longrightarrow> Q r"
begin

lemma version_closed: "Q r \<Longrightarrow> Q (r\<lparr>pub_Revision := k\<rparr>)"
  using publication_closed [OF _ publish_move.stamp [of r k "pub_UpdatedAt r"]] by simp

lemma Get_row: "ensures (\<lambda>w. P (w_db w)) (exec driver (GetPublication name)) (\<lambda>row. Q (rowPublication row))"
  by (rule exec_ensures) (auto simp: GetPublication_def dest: one_row_Inr stored_row)

lemma CreatePublication_row:
  "Q r \<Longrightarrow> fst (CreatePublication name r db) = Inr row \<Longrightarrow> Q (rowPublication row)"
  by (auto simp: CreatePublication_def Let_def rowPublication_def version_closed split: if_splits)

lemma UpdatePublication_row:
  "Q r \<Longrightarrow> fst (UpdatePublication name r version db) = Inr row \<Longrightarrow>
     Q (rowPublication row) \<and> pub_State (rowPublication row) = pub_State r"
  by (auto simp: UpdatePublication_def Let_def rowPublication_def version_closed map_sum_def split: sum.splits)

end

sublocale publication_property \<subseteq> publishing: publish_discipline "serverPublish E" "\<lambda>w. P (w_db w)" Q for E
proof unfold_locales
  fix name request
  show "ensures (\<lambda>w. P (w_db w)) (total (pc_now (serverPublish E))) (\<lambda>_. True)"
    by (simp add: serverPublish_def lift_fun_ensures)
  show "ensures (\<lambda>w. P (w_db w)) (pc_PreparePublication (serverPublish E) name) (\<lambda>_. True)"
    using triple_weak [OF sessions.publication_triple]
    by (simp add: serverPublish_def triple_ensures [symmetric])
  show "ensures (\<lambda>w. P (w_db w)) (pc_token (serverPublish E)) (\<lambda>_. True)"
    by (auto simp: serverPublish_def ensures_throw lift_env_ensures split: option.split)
  show "ensures (\<lambda>w. P (w_db w)) (total (pc_RunPublisher (serverPublish E) request)) (\<lambda>_. True)"
    by (simp add: serverPublish_def lift_fun_ensures)
  show "ensures (\<lambda>w. P (w_db w)) (pc_DeletePublisher (serverPublish E) name) (\<lambda>_. True)"
    by (simp add: serverPublish_def lift_env_ensures)
  show "ensures (\<lambda>w. P (w_db w)) (bp_Get (pc_repository (serverPublish E)) name) Q"
    by (auto simp: serverPublish_def publishRepository_def publications_Get_def
        intro!: ensures_handle [OF Get_row] ensures_throw lift_ensures dest: decodePublication_Inr)
next
  fix token client
  assume "pc_newGitHubClient (serverPublish E) token = Inr client"
  then show "client_sound (\<lambda>w. P (w_db w)) client"
    by (auto simp: serverPublish_def intro: newClient_sound lift_api_keeps)
next
  fix r assume Q: "Q r"
  have "ensures (\<lambda>w. P (w_db w)) (exec driver (CreatePublication (pub_Session r) r))
      (\<lambda>row. Q (rowPublication row))" for driver :: "'a \<Rightarrow> Fault \<times> 'a"
    by (rule exec_ensures) (auto intro: create_row Q CreatePublication_row)
  then show "ensures (\<lambda>w. P (w_db w)) (bp_Create (pc_repository (serverPublish E)) r) Q"
    unfolding serverPublish_def publishRepository_def publications_Create_def
    by (auto intro!: ensures_handle ensures_handle [OF Get_row] ensures_throw lift_ensures
        dest: decodePublication_Inr)
  have "ensures (\<lambda>w. P (w_db w)) (exec driver (UpdatePublication (pub_Session r) r (pub_Revision r)))
      (\<lambda>row. Q (rowPublication row) \<and> pub_State (rowPublication row) = pub_State r)"
    for driver :: "'a \<Rightarrow> Fault \<times> 'a"
    by (rule exec_ensures) (auto intro: update_row Q dest: UpdatePublication_row [OF Q])
  then show "ensures (\<lambda>w. P (w_db w)) (bp_Update (pc_repository (serverPublish E)) r)
      (\<lambda>r'. Q r' \<and> pub_State r' = pub_State r)"
    unfolding serverPublish_def publishRepository_def publications_Update_def
    by (auto intro!: ensures_handle ensures_throw lift_ensures dest: decodePublication_Inr)
qed (auto intro: publication_closed publication_fresh simp: newPublishRecord_def)

text \<open>The tables of sessions and of runs under publish operations.\<close>

lemma publications_sound:
  assumes "tables_sound db"
  shows "tables_sound (snd (CreatePublication name r db))"
    and "tables_sound (snd (UpdatePublication name r version db))"
  using assms CreatePublication_ok [of db name r] UpdatePublication_ok [of db name r version]
  by (auto simp: tables_sound_def tasks_sound_def runs_named_def CreatePublication_def UpdatePublication_def Let_def)

interpretation tables_pub: publication_property tables_sound read_sound "\<lambda>_. True"
  by unfold_locales (auto intro: publications_sound)

interpretation frame_pub: publication_property "\<lambda>db. (db_runs db, db_snapshots db) = x" "\<lambda>_ _ _. True"
    "\<lambda>_. True" for x
  by unfold_locales (auto simp: CreatePublication_def UpdatePublication_def Let_def)

text \<open>Every stored publication satisfies its invariant.\<close>

lemma publication_ok_version: "publication_ok r \<Longrightarrow> publication_ok (r\<lparr>pub_Revision := k\<rparr>)"
  by (simp add: publication_ok_def)

lemma rowPublication_simp [simp]:
  "rowPublication \<lparr>pb_SessionName = n, pb_Contents = r, pb_Version = k\<rparr> = r\<lparr>pub_Revision := k\<rparr>"
  "rowPublication (p\<lparr>pb_Contents := r, pb_Version := k\<rparr>) = r\<lparr>pub_Revision := k\<rparr>"
  by (simp_all add: rowPublication_def)

interpretation valid_pub: publication_property "publications_satisfy publication_ok" "\<lambda>_ _ _. True"
    publication_ok
proof unfold_locales
  fix db r
  show "publications_satisfy publication_ok (snd (CreatePublication (pub_Session r) r db))"
    if "publications_satisfy publication_ok db" "publication_ok r"
    using that by (auto simp: publications_satisfy_def CreatePublication_def Let_def publication_ok_version)
next
  fix db r version
  show "publications_satisfy publication_ok (snd (UpdatePublication (pub_Session r) r version db))"
    if "publications_satisfy publication_ok db" "publication_ok r"
    using that
    by (auto simp: publications_satisfy_def UpdatePublication_def Let_def set_update_rows publication_ok_version)
next
  fix r :: PublishRecord
  show "publication_ok r" if "pub_State r = PublishPending" "pub_CommitSHA r = []"
    using that by (simp add: publication_ok_def)
qed (auto simp: publications_satisfy_def intro: publish_move_ok)

section \<open>Reachable databases\<close>

text \<open>
  What the server does: any operation of its API with any arguments, succeeding or failing, the
  reconcilers, and any change of the environment between them.
\<close>

inductive server_step :: "'e Environment \<Rightarrow> 'e world \<Rightarrow> 'e world \<Rightarrow> bool" for E where
  environment: "server_step E w (w\<lparr>w_env := e\<rparr>)"
| start: "server_step E w (snd (session_Start (serverSessions E) d q w))"
| continue: "server_step E w (snd (session_Continue (serverSessions E) r w))"
| status: "server_step E w (snd (session_Status (serverSessions E) name w))"
| artifacts: "server_step E w (snd (session_Artifacts (serverSessions E) name w))"
| logs: "server_step E w (snd (session_WriteLogs (serverSessions E) name follow w))"
| publication: "server_step E w (snd (session_PreparePublication (serverSessions E) name w))"
| delete: "server_step E w (snd (session_Delete (serverSessions E) name w))"
| destroy: "server_step E w (snd (session_Destroy (serverSessions E) name w))"
| deletions: "server_step E w (snd (session_ReconcileDeletions (serverSessions E) w))"
| run_start: "server_step E w (snd (workflow_Start (serverWorkflows E) rq w))"
| run_get: "server_step E w (snd (workflow_Get (serverWorkflows E) name w))"
| run_cancel: "server_step E w (snd (workflow_Cancel (serverWorkflows E) name w))"
| run_delete: "server_step E w (snd (workflow_Delete (serverWorkflows E) name w))"
| reconcile: "server_step E w (snd (workflow_Reconcile (serverWorkflows E) name w))"
| publish: "server_step E w (snd (Publish (serverPublish E) pq w))"
| reconcile_all: "server_step E w (snd (workflow_ReconcileAll (serverWorkflows E) w))"

inductive server_reachable :: "'e Environment \<Rightarrow> 'e world \<Rightarrow> bool" for E where
  initial: "w_db w = emptyDatabase \<Longrightarrow> server_reachable E w"
| step: "server_reachable E w \<Longrightarrow> server_step E w w' \<Longrightarrow> server_reachable E w'"

inductive_cases server_stepE: "server_step E w w'"

lemma server_step_sound:
  assumes "server_step E w w'" and "world_sound w"
  shows "world_sound w'"
  using assms
proof (cases rule: server_step.cases)
  case (artifacts name)
  with assms(2) triple_inv [OF sound.sessions.artifacts_triple] show ?thesis by simp
next
  case (publication name)
  with assms(2) triple_inv [OF sound.sessions.publication_triple] show ?thesis by simp
qed (simp_all add: session_Delete_def session_Destroy_def
    ensures_inv [OF sound.creation.start_ensures] ensures_inv [OF sound.creation.continue_ensures]
    ensures_inv [OF sound.sessions.status_ensures] ensures_inv [OF sound.sessions.logs_ensures]
    ensures_inv [OF sound.removal.delete_ensures] ensures_inv [OF sound.removal.reconcileDeletions_ensures]
    ensures_inv [OF tables_pub.publishing.Publish_ensures]
    ensures_inv [OF sound.runs.start_ensures] ensures_inv [OF sound.runs.get_ensures]
    ensures_inv [OF sound.runs.cancel_ensures] ensures_inv [OF sound.runs.delete_ensures]
    ensures_inv [OF sound.runs.reconcile_ensures] ensures_inv [OF sound.runs.reconcileAll_ensures])

abbreviation "runs_valid E \<equiv> (\<lambda>w. runs_satisfy (\<lambda>r. catalog_ok (env_catalog E) \<longrightarrow> run_ok r) (w_db w))"

lemma publication_runs_valid:
  "ensures (runs_valid E) (session_PreparePublication (serverSessions E) name) (\<lambda>_. True)"
  using triple_weak [OF frame.sessions.publication_triple]
  by (intro valid.frame_stored) (simp add: triple_ensures [symmetric])

lemma publish_runs_valid: "ensures (runs_valid E) (Publish (serverPublish E) q) (\<lambda>_. True)"
  by (rule valid.frame_stored, rule ensures_mono [OF frame_pub.publishing.Publish_ensures]) simp

lemma server_step_runs_valid:
  assumes "server_step E w w'" and "runs_valid E w"
  shows "runs_valid E w'"
  using assms
  by (cases rule: server_step.cases)
    (simp_all add: session_Delete_def session_Destroy_def
      ensures_inv [OF valid.frame_stored [OF frame.creation.start_ensures]]
      ensures_inv [OF valid.frame_stored [OF frame.creation.continue_ensures]]
      ensures_inv [OF valid.frame_stored [OF frame.sessions.status_ensures]]
      ensures_inv [OF valid.frame_stored [OF frame.sessions.logs_ensures]]
      ensures_inv [OF valid.frame_stored [OF frame.removal.delete_ensures]]
      ensures_inv [OF valid.frame_stored [OF frame.removal.reconcileDeletions_ensures]]
      ensures_inv [OF valid.Artifacts_stored] ensures_inv [OF publication_runs_valid]
      ensures_inv [OF publish_runs_valid]
      ensures_inv [OF valid.start_ensures] ensures_inv [OF valid.runs.get_ensures]
      ensures_inv [OF valid.runs.cancel_ensures] ensures_inv [OF valid.runs.delete_ensures]
      ensures_inv [OF valid.runs.reconcile_ensures] ensures_inv [OF valid.runs.reconcileAll_ensures])

abbreviation "publications_valid \<equiv> (\<lambda>w. publications_satisfy publication_ok (w_db w))"

lemma server_step_publications_valid:
  assumes "server_step E w w'" and "publications_valid w"
  shows "publications_valid w'"
  using assms
proof (cases rule: server_step.cases)
  case (artifacts name)
  with assms(2) triple_inv [OF pubs.sessions.artifacts_triple] show ?thesis by simp
next
  case (publication name)
  with assms(2) triple_inv [OF pubs.sessions.publication_triple] show ?thesis by simp
qed (simp_all add: session_Delete_def session_Destroy_def
    ensures_inv [OF pubs.creation.start_ensures] ensures_inv [OF pubs.creation.continue_ensures]
    ensures_inv [OF pubs.sessions.status_ensures] ensures_inv [OF pubs.sessions.logs_ensures]
    ensures_inv [OF pubs.removal.delete_ensures] ensures_inv [OF pubs.removal.reconcileDeletions_ensures]
    ensures_inv [OF valid_pub.publishing.Publish_ensures]
    ensures_inv [OF pubs.runs.start_ensures] ensures_inv [OF pubs.runs.get_ensures]
    ensures_inv [OF pubs.runs.cancel_ensures] ensures_inv [OF pubs.runs.delete_ensures]
    ensures_inv [OF pubs.runs.reconcile_ensures] ensures_inv [OF pubs.runs.reconcileAll_ensures])

lemma emptyDatabase_sound: "tables_sound emptyDatabase"
  by (simp add: tables_sound_def database_ok_def tasks_sound_def runs_named_def emptyDatabase_def affected_def)

lemma reachable_sound:
  "server_reachable E w \<Longrightarrow> world_sound w \<and> runs_valid E w \<and> publications_valid w"
proof (induction rule: server_reachable.induct)
  case (initial w)
  then show ?case
    by (simp add: emptyDatabase_sound)
      (simp add: runs_satisfy_def publications_satisfy_def emptyDatabase_def)
next
  case (step w w')
  then show ?case
    using server_step_sound server_step_runs_valid server_step_publications_valid by blast
qed

end
