(* ===== verification/Workflow_Properties.thy ===== *)
theory Workflow_Properties
  imports Workflow_Creation
begin

text \<open>
  What the invariant of runs and the step relation give for the scheduler, for a finished run, for
  cancellation and for the requests that workflow control makes.
\<close>

section \<open>The scheduler's decisions\<close>

text \<open>What the scheduler may do to one step of a run.\<close>

definition scheduled :: "Run \<Rightarrow> int \<Rightarrow> Step \<Rightarrow> Step \<Rightarrow> bool" where
  "scheduled run now s s' \<longleftrightarrow>
     s' = s
     \<or> step_State s = StepPending \<and> s' = s\<lparr>step_State := StepSkipped, step_FinishedAt := Some now\<rparr>
         \<and> list_ex (dep_failed run) (step_After s)
     \<or> step_State s = StepPending \<and> s' = s\<lparr>step_State := StepStarting, step_StartedAt := Some now\<rparr>
         \<and> list_all (dep_completed run) (step_After s)"

text \<open>The two moves that the scheduler makes.\<close>

inductive schedule_move :: "int \<Rightarrow> Run \<Rightarrow> Run \<Rightarrow> bool" for now where
  skip: "get_step run n = Some s \<Longrightarrow> step_State s = StepPending \<Longrightarrow>
     list_ex (dep_failed run) (step_After s) \<Longrightarrow>
     schedule_move now run (put_step n (s\<lparr>step_State := StepSkipped, step_FinishedAt := Some now\<rparr>) run)"
| start: "get_step run n = Some s \<Longrightarrow> step_State s = StepPending \<Longrightarrow>
     list_all (dep_completed run) (step_After s) \<Longrightarrow> activeSteps run < run_MaxParallelism run \<Longrightarrow>
     schedule_move now run (put_step n (s\<lparr>step_State := StepStarting, step_StartedAt := Some now\<rparr>) run)"

lemma schedule_move_move: "schedule_move now run run' \<Longrightarrow> run_move run run'"
  by (induction rule: schedule_move.induct) (auto intro: run_move.intros)

lemma scheduleStep_schedule:
  assumes "scheduleStep now n (run, activeSteps run, changed) = (run', active', changed')"
  shows "run' = run \<or> schedule_move now run run'"
proof (cases "get_step run n")
  case None
  with assms show ?thesis by (auto simp: scheduleStep_def)
next
  case (Some s)
  then show ?thesis
    using assms schedule_move.skip [OF Some, of now] schedule_move.start [OF Some, of now]
      settled_not_failed [of run "step_After s"]
    by (auto simp: scheduleStep_def dependencyStatus_eq split: if_splits)
qed

lemma schedule_fold_moves:
  "fold (scheduleStep now) ns (run, activeSteps run, changed) = (run', active', changed') \<Longrightarrow>
     (schedule_move now)\<^sup>*\<^sup>* run run'"
proof (induction ns arbitrary: run changed)
  case Nil
  then show ?case by simp
next
  case (Cons n ns)
  obtain run1 active1 changed1 where
    one: "scheduleStep now n (run, activeSteps run, changed) = (run1, active1, changed1)"
    by (cases "scheduleStep now n (run, activeSteps run, changed)")
  with Cons.prems scheduleStep_moves [OF one]
  have "fold (scheduleStep now) ns (run1, activeSteps run1, changed1) = (run', active', changed')" by simp
  from Cons.IH [OF this] scheduleStep_schedule [OF one] show ?case
    by (auto intro: converse_rtranclp_into_rtranclp)
qed

lemma scheduleReadySteps_schedule: "(schedule_move now)\<^sup>*\<^sup>* run (fst (scheduleReadySteps run now))"
proof -
  obtain run' active' changed' where
    f: "fold (scheduleStep now) (sortedStepNames run) (run, activeSteps run, False) = (run', active', changed')"
    by (cases "fold (scheduleStep now) (sortedStepNames run) (run, activeSteps run, False)")
  from schedule_fold_moves [OF f] f show ?thesis by (simp add: scheduleReadySteps_def)
qed

lemma scheduled_mono:
  assumes "run_move run run'" and "scheduled run now s t"
  shows "scheduled run' now s t"
proof -
  have "list_all (dep_completed run') ds" if "list_all (dep_completed run) ds" for ds
    using that dep_completed_move [OF assms(1)] by (auto simp: list_all_iff)
  moreover have "list_ex (dep_failed run') ds" if "list_ex (dep_failed run) ds" for ds
    using that dep_failed_move [OF assms(1)] by (auto simp: list_ex_iff)
  ultimately show ?thesis using assms(2) by (auto simp: scheduled_def)
qed

lemma scheduled_pending: "scheduled run now s t \<Longrightarrow> step_State t = StepPending \<Longrightarrow> t = s"
  by (auto simp: scheduled_def)

lemma schedule_moves_scheduled:
  assumes "(schedule_move now)\<^sup>*\<^sup>* run run'" and "get_step run n = Some s"
  shows "\<exists>s'. get_step run' n = Some s' \<and> scheduled run' now s s'"
  using assms(1)
proof (induction rule: rtranclp_induct)
  case base
  with assms(2) show ?case by (simp add: scheduled_def)
next
  case (step run1 run2)
  then obtain s1 where s1: "get_step run1 n = Some s1" "scheduled run1 now s s1" by blast
  note move = schedule_move_move [OF step(2)]
  have kept: "scheduled run2 now s s1" by (rule scheduled_mono [OF move s1(2)])
  from step(2) show ?case
  proof (cases rule: schedule_move.cases)
    case (skip m t)
    show ?thesis
    proof (cases "n = m")
      case True
      with s1 skip have t: "t = s1" "step_State s1 = StepPending" by auto
      then have "s1 = s" using scheduled_pending [OF s1(2)] by simp
      moreover have "list_ex (dep_failed run2) (step_After t)"
        using skip(4) dep_failed_move [OF move] by (auto simp: list_ex_iff)
      ultimately show ?thesis using True skip t by (simp add: scheduled_def)
    qed (use s1 kept skip in simp)
  next
    case (start m t)
    show ?thesis
    proof (cases "n = m")
      case True
      with s1 start have t: "t = s1" "step_State s1 = StepPending" by auto
      then have "s1 = s" using scheduled_pending [OF s1(2)] by simp
      moreover have "list_all (dep_completed run2) (step_After t)"
        using start(4) dep_completed_move [OF move] by (auto simp: list_all_iff)
      ultimately show ?thesis using True start t by (simp add: scheduled_def)
    qed (use s1 kept start in simp)
  qed
qed

section \<open>Finished runs\<close>

lemma any_step_get:
  "distinct (map fst (run_Steps run)) \<Longrightarrow>
     any_step P (run_Steps run) \<longleftrightarrow> (\<exists>n s. get_step run n = Some s \<and> P (step_State s))"
  unfolding any_step_def by (metis prod.collapse snd_conv step_in_run)

lemma run_depends_wf:
  assumes graph: "run_graph_ok run"
  shows "wf ((run_depends run)\<inverse>)"
proof -
  have "run_depends run \<subseteq> fst ` set (run_Steps run) \<times> fst ` set (run_Steps run)"
  proof
    fix e assume "e \<in> run_depends run"
    then obtain n d s where e: "e = (n, d)" "get_step run n = Some s" "d \<in> set (step_After s)"
      by (auto simp: run_depends_def)
    then have "n \<in> fst ` set (run_Steps run)" "d \<in> fst ` set (run_Steps run)"
      using graph get_step_key [OF e(2)] unfolding run_graph_ok_def by blast+
    with e show "e \<in> fst ` set (run_Steps run) \<times> fst ` set (run_Steps run)" by simp
  qed
  then have "finite (run_depends run)" by (rule finite_subset) simp
  with graph show ?thesis by (simp add: run_graph_ok_def finite_acyclic_wf_converse)
qed

text \<open>A skipped step leads to a step that failed, was blocked or was canceled.\<close>

lemma skipped_cause:
  assumes ok: "run_ok run" and wf: "wf ((run_depends run)\<inverse>)"
  shows "get_step run n = Some s \<Longrightarrow> step_State s = StepSkipped \<Longrightarrow>
    \<exists>m t. (n, m) \<in> (run_depends run)\<^sup>+ \<and> get_step run m = Some t
      \<and> step_State t \<in> {StepBlocked, StepFailed, StepCanceled}"
using wf proof (induction n arbitrary: s rule: wf_induct_rule)
  case (less n)
  from ok less(2,3) have "list_ex (dep_failed run) (step_After s)"
    unfolding run_ok_def step_sound_def by blast
  then obtain d t where d: "d \<in> set (step_After s)" "get_step run d = Some t"
      "step_State t \<in> {StepBlocked, StepFailed, StepCanceled, StepSkipped}"
    by (auto simp: list_ex_iff dep_state_def split: option.splits)
  have edge: "(n, d) \<in> run_depends run" using less(2) d(1) by (auto simp: run_depends_def)
  show ?case
  proof (cases "step_State t = StepSkipped")
    case True
    with less(1) [OF _ d(2)] edge show ?thesis by (auto intro: trancl_into_trancl2)
  next
    case False
    with d edge show ?thesis by blast
  qed
qed

lemma completed_run_steps:
  assumes ok: "run_ok run" and state: "run_State (deriveRunState run) = StateCompleted"
    and s: "get_step run n = Some s"
  shows "step_State s = StepCompleted"
proof -
  have dist: "distinct (map fst (run_Steps run))" using ok by (simp add: run_ok_def run_graph_ok_def)
  have wf: "wf ((run_depends run)\<inverse>)" using ok by (simp add: run_ok_def run_depends_wf)
  have none: "\<not> any_step (\<lambda>st. st \<in> {StepPending, StepStarting, StepRunning}) (run_Steps run)"
      "\<not> any_step (\<lambda>st. st = StepFailed) (run_Steps run)"
      "\<not> any_step (\<lambda>st. st = StepBlocked) (run_Steps run)"
      "\<not> any_step (\<lambda>st. st = StepCanceled) (run_Steps run)"
    using state by (auto simp: deriveRunState_def deriveFrom_eq runStateOf_def split: if_splits)
  have free: "step_State t = StepCompleted \<or> step_State t = StepSkipped"
    if "get_step run m = Some t" for m t
    using none that unfolding any_step_get [OF dist] by (cases "step_State t") auto
  show ?thesis
  proof (rule ccontr)
    assume "step_State s \<noteq> StepCompleted"
    with free [OF s] have "step_State s = StepSkipped" by simp
    with skipped_cause [OF ok wf s] obtain m t where
      "get_step run m = Some t" "step_State t \<in> {StepBlocked, StepFailed, StepCanceled}" by blast
    with free [of m t] show False by auto
  qed
qed

section \<open>Requests to session control\<close>

lemma started_change_input:
  assumes ok: "run_ok run" and s: "get_step run n = Some s" and starting: "step_State s = StepStarting"
  shows "if step_ChangeFrom s = [] then stepChangeInput run s = Inr None
    else \<exists>t ch. get_step run (step_ChangeFrom s) = Some t \<and> step_State t = StepCompleted
      \<and> step_Change t = Some ch
      \<and> stepChangeInput run s = Inr (Some \<lparr>ci_Session = step_Session t, ci_Artifact = ch\<rparr>)"
proof (cases "step_ChangeFrom s = []")
  case True
  then show ?thesis by (simp add: stepChangeInput_def)
next
  case False
  have "step_ChangeFrom s \<in> set (step_After s)"
    using ok s False unfolding run_ok_def run_graph_ok_def by blast
  moreover have "list_all (dep_completed run) (step_After s)"
    using ok s starting unfolding run_ok_def step_sound_def by blast
  ultimately obtain t where t: "get_step run (step_ChangeFrom s) = Some t" "step_State t = StepCompleted"
    by (auto simp: list_all_iff dep_state_def split: option.splits)
  have "(n, s) \<in> set (run_Steps run)" using s by (simp add: get_step_def map_of_SomeD)
  moreover have "step_Name t = step_ChangeFrom s"
    using ok t(1) unfolding run_ok_def run_graph_ok_def by blast
  ultimately have "producesChange run (step_Name t)"
    by (force simp: producesChange_def list_ex_iff)
  moreover have "retained run t"
    using ok t unfolding run_ok_def step_sound_def by blast
  ultimately obtain ch where "step_Change t = Some ch" by (auto simp: retained_def)
  with t False show ?thesis by (simp add: stepChangeInput_def)
qed

section \<open>Progress of a run\<close>

lemma run_move_rank: "run_move run run' \<Longrightarrow> run_rank run' \<le> run_rank run"
proof (induction rule: run_move.induct)
  case (cancel run n s t)
  then show ?case
    using run_rank_put [of run n s "s\<lparr>step_State := StepCanceled, step_FinishedAt := Some t\<rparr>"] by simp
next
  case (mark run st cancel t revision)
  show ?case by (simp add: run_rank_def)
next
  case (skip run n s t)
  then show ?case
    using run_rank_put [of run n s "s\<lparr>step_State := StepSkipped, step_FinishedAt := Some t\<rparr>"] by simp
next
  case (start run n s t)
  then show ?case
    using run_rank_put [of run n s "s\<lparr>step_State := StepStarting, step_StartedAt := Some t\<rparr>"] by simp
next
  case (launch run n s)
  then show ?case
    using run_rank_put [of run n s "s\<lparr>step_State := StepRunning\<rparr>"] by simp
next
  case (settle run n s s')
  then show ?case using run_rank_put [of run n s s'] by auto
next
  case (clean run n s)
  then show ?case
    using run_rank_put [of run n s "s\<lparr>step_Cleaned := True\<rparr>"] by simp
qed

text \<open>A move that changes the state of a step uses up rank.\<close>

lemma run_move_rank_less:
  assumes "run_move run run'" and "get_step run n = Some s" and "get_step run' n = Some s'"
    and "step_State s' \<noteq> step_State s"
  shows "run_rank run' < run_rank run"
  using assms
proof (cases rule: run_move.cases)
  case (skip m t k)
  with assms run_rank_put [of run m t "t\<lparr>step_State := StepSkipped, step_FinishedAt := Some k\<rparr>"]
  show ?thesis by (simp split: if_splits)
next
  case (start m t k)
  with assms run_rank_put [of run m t "t\<lparr>step_State := StepStarting, step_StartedAt := Some k\<rparr>"]
  show ?thesis by (simp split: if_splits)
next
  case (launch m t)
  with assms run_rank_put [of run m t "t\<lparr>step_State := StepRunning\<rparr>"]
  show ?thesis by (simp split: if_splits)
next
  case (settle m t u)
  with assms run_rank_put [of run m t u] show ?thesis by (auto split: if_splits)
next
  case (cancel m t k)
  with assms run_rank_put [of run m t "t\<lparr>step_State := StepCanceled, step_FinishedAt := Some k\<rparr>"]
  show ?thesis by (auto simp: step_unfinished_def step_active_def split: if_splits)
next
  case (clean m t)
  with assms show ?thesis by (cases "n = m") auto
next
  case (mark st c t k)
  with assms show ?thesis by simp
qed

lemma run_moves_rank: "run_moves run run' \<Longrightarrow> run_rank run' \<le> run_rank run"
  by (induction rule: rtranclp_induct) (auto dest: run_move_rank)

lemma run_moves_rank_less:
  assumes "run_moves run run'" and s: "get_step run n = Some s"
    and s': "get_step run' n = Some s'" and changed: "step_State s' \<noteq> step_State s"
  shows "run_rank run' < run_rank run"
  using assms(1) s' changed
proof (induction arbitrary: s' rule: rtranclp_induct)
  case base
  with s show ?case by simp
next
  case (step run1 run2)
  obtain s1 where s1: "get_step run1 n = Some s1"
    using static_run_get [OF run_moves_static [OF step(1)], of n] s by auto
  show ?case
  proof (cases "step_State s1 = step_State s")
    case True
    with run_move_rank_less [OF step(2) s1 step(4)] step(5) run_moves_rank [OF step(1)] show ?thesis by simp
  next
    case False
    with step(3) [OF s1] run_move_rank [OF step(2)] show ?thesis by simp
  qed
qed

lemma run_rank_bound: "run_rank run \<le> 3 * length (run_Steps run)"
proof -
  have "step_rank st \<le> 3" for st by (cases st) auto
  then have "sum_list (map (\<lambda>e. step_rank (step_State (snd e))) m) \<le> 3 * length m" for m :: "(string \<times> Step) list"
    by (induction m) (auto intro: add_mono)
  then show ?thesis by (simp add: run_rank_def)
qed

section \<open>Cancellation\<close>

lemma cancelStep_settles:
  assumes "cancelStep c now n run w = (Inr run', w')"
  shows "\<And>m. (\<exists>s. get_step run m = Some s) \<longleftrightarrow> (\<exists>s. get_step run' m = Some s)"
    and "get_step run' m = Some s' \<Longrightarrow> m = n \<or> get_step run m = Some s'"
    and "get_step run' n = Some s' \<Longrightarrow> \<not> step_unfinished s'"
  using assms
  by (auto simp: cancelStep_def Let_def op_run step_unfinished_def step_active_def
      split: option.splits if_splits prod.splits sum.splits)

lemma for_each_cancel:
  "for_each (cancelStep c now) ns run w = (Inr run', w') \<Longrightarrow>
     (\<forall>m s. get_step run' m = Some s \<longrightarrow> m \<in> set ns \<longrightarrow> \<not> step_unfinished s)
     \<and> (\<forall>m s. get_step run' m = Some s \<longrightarrow> m \<notin> set ns \<longrightarrow> get_step run m = Some s)
     \<and> (\<forall>m. (\<exists>s. get_step run m = Some s) \<longleftrightarrow> (\<exists>s. get_step run' m = Some s))"
proof (induction ns arbitrary: run w)
  case Nil
  then show ?case by (simp add: ret_def)
next
  case (Cons n ns)
  then obtain run1 w1 where one: "cancelStep c now n run w = (Inr run1, w1)"
    and rest: "for_each (cancelStep c now) ns run1 w1 = (Inr run', w')"
    by (auto elim: andThen_success)
  note IH = Cons.IH [OF rest]
  note one' = cancelStep_settles [OF one]
  show ?case
  proof (intro conjI allI impI)
    fix m s assume m: "get_step run' m = Some s" "m \<in> set (n # ns)"
    show "\<not> step_unfinished s"
    proof (cases "m \<in> set ns")
      case False
      with m IH have "get_step run1 n = Some s" by auto
      then show ?thesis by (rule one'(3))
    qed (use IH m in blast)
  next
    fix m s assume m: "get_step run' m = Some s" "m \<notin> set (n # ns)"
    with IH have "get_step run1 m = Some s" by simp
    with one'(2) m show "get_step run m = Some s" by auto
  next
    fix m
    show "(\<exists>s. get_step run m = Some s) \<longleftrightarrow> (\<exists>s. get_step run' m = Some s)"
      using IH one'(1) by blast
  qed
qed

text \<open>A cancellation that succeeds leaves a canceled run without unfinished steps.\<close>

lemma cancel_all:
  assumes "for_each (cancelStep c now) (map fst (run_Steps run)) run w = (Inr run', w')"
    and "get_step run' n = Some s"
  shows "\<not> step_unfinished s"
proof -
  have "\<exists>s. get_step run n = Some s" using for_each_cancel [OF assms(1)] assms(2) by blast
  then have "n \<in> set (map fst (run_Steps run))" by (auto dest: get_step_key)
  with for_each_cancel [OF assms(1)] assms(2) show ?thesis by blast
qed

end
