(* ===== verification/Server_Properties.thy ===== *)
theory Server_Properties
  imports Server_Invariants Workflow_Properties
begin

text \<open>
  What single operations of the server do to the database: the evolution of stored runs under every
  operation, repeated and conflicting requests, concurrent updates, atomic creation and complete
  removal.
\<close>

section \<open>Statements without a fault\<close>

lemma exec_read:
  assumes "\<And>db. snd (s db) = db"
  shows "w_db (snd (exec driver s w)) = w_db w"
  using assms [of "w_db w"]
  by (cases "s (w_db w)") (auto simp: exec_def split: prod.splits Fault.splits)

lemma exec_NoFault:
  "driver (w_env w) = (NoFault, env) \<Longrightarrow>
     exec driver s w = (fst (s (w_db w)), \<lparr>w_db = snd (s (w_db w)), w_env = env\<rparr>)"
  by (auto simp: exec_def split: prod.splits)

lemma exec_cases:
  assumes "exec driver s w = (r, w')"
  obtains (NoFault) "r = fst (s (w_db w))" and "w_db w' = snd (s (w_db w))"
    | (FailBefore) t where "r = Inl (Text t)" and "w_db w' = w_db w"
    | (FailAfter) t where "r = Inl (Text t)" and "w_db w' = snd (s (w_db w))"
  using assms by (auto simp: exec_def split: prod.splits Fault.splits)

text \<open>A driver that never fails and changes nothing.\<close>

definition reliable :: "('e \<Rightarrow> Fault \<times> 'e) \<Rightarrow> bool" where
  "reliable driver \<longleftrightarrow> (\<forall>e. driver e = (NoFault, e))"

lemma exec_reliable: "reliable driver \<Longrightarrow>
    exec driver s w = (fst (s (w_db w)), w\<lparr>w_db := snd (s (w_db w))\<rparr>)"
  by (cases w) (simp add: exec_NoFault reliable_def)

section \<open>A workflow run that exists\<close>

lemma runs_Run_db: "w_db (snd (runs_Run driver name w)) = w_db w"
  using exec_read [of "GetRun name" driver w]
  by (auto simp: runs_Run_def op_run lift_def split: prod.splits sum.splits)

lemma runs_Run_found:
  assumes "runExists (w_db w) name" and "runs_Run driver name w = (Inl e, w')"
  shows "\<not> errors_is e ErrRunNotFound"
proof -
  from assms(1) obtain row where row: "find (\<lambda>r. rr_Name r = name) (db_runs (w_db w)) = Some row"
    by (cases "find (\<lambda>r. rr_Name r = name) (db_runs (w_db w))")
      (auto simp: runExists_def find_None_iff list_ex_iff)
  have "\<not> errors_is e ErrRunNotFound" if "decodeRun row = Inl e" for e
    using that by (auto simp: decodeRun_def Let_def split: if_splits)
  with row assms(2) show ?thesis
    by (auto simp: runs_Run_def op_run lift_def exec_def GetRun_def one_row_def
        split: prod.splits sum.splits Fault.splits)
qed

text \<open>Starting a run whose name is taken never changes the database, whatever fails.\<close>

lemma workflow_Start_existing:
  assumes "runExists (w_db w) (wq_Name q)"
  shows "w_db (snd (workflow_Start (serverWorkflows E) q w)) = w_db w"
proof (cases "validateRunStart (serverWorkflows E) q")
  case (Inl e)
  then show ?thesis by (simp add: workflow_Start_def)
next
  case (Inr d)
  have name: "wq_Name (startDefaultRef q) = wq_Name q" by (simp add: startDefaultRef_def)
  obtain r w' where run: "runs_Run (env_driver E) (wq_Name q) w = (r, w')" by fastforce
  then have db: "w_db w' = w_db w" using runs_Run_db [of "env_driver E" "wq_Name q" w] by simp
  have repo: "wr_Run (wc_repository (serverWorkflows E)) = runs_Run (env_driver E)"
    by (simp add: serverWorkflows_def runRepository_def)
  show ?thesis
  proof (cases r)
    case (Inl e)
    with run runs_Run_found [OF assms] have "\<not> errors_is e ErrRunNotFound" by blast
    with Inl run db Inr name repo show ?thesis
      by (simp add: workflow_Start_def Let_def handle_def)
  next
    case (Inr existing)
    with run db \<open>validateRunStart (serverWorkflows E) q = Inr d\<close> name repo show ?thesis
      by (simp add: workflow_Start_def Let_def handle_def)
  qed
qed

text \<open>Starting another run leaves the stored ones as they are.\<close>

lemma workflow_Start_other:
  assumes other: "wq_Name q \<noteq> run_Name r0"
    and stored: "runs_satisfy (\<lambda>r. run_Name r = run_Name r0 \<longrightarrow> run_moves r0 r) (w_db w)"
  shows "runs_satisfy (\<lambda>r. run_Name r = run_Name r0 \<longrightarrow> run_moves r0 r)
    (w_db (snd (workflow_Start (serverWorkflows E) q w)))"
proof -
  let ?I = "\<lambda>w. runs_satisfy (\<lambda>r. run_Name r = run_Name r0 \<longrightarrow> run_moves r0 r) (w_db w)"
  have create: "ensures ?I (wr_Create (wc_repository (serverWorkflows E)) run ds) (\<lambda>_. True)"
    if "run_Name run = wq_Name q" for run ds
    unfolding serverWorkflows_def runRepository_def
    using evolve.Create_stored [of run r0 "env_driver E" ds] that other
    by (auto intro: ensures_mono)
  have read: "ensures ?I (wr_Run (wc_repository (serverWorkflows E)) n) (\<lambda>_. True)" for n
    unfolding serverWorkflows_def runRepository_def
    by (auto intro: ensures_mono [OF evolve.Run_stored])
  have now: "ensures ?I (total (wc_now (serverWorkflows E))) (\<lambda>_. True)"
    by (simp add: serverWorkflows_def lift_fun_ensures)
  have "ensures ?I (workflow_Start (serverWorkflows E) q) (\<lambda>_. True)"
    unfolding workflow_Start_def createRun_def Let_def
    by (auto intro!: ensures_throw ensures_ret ensures_handle [OF read] ensures_andThen [OF now]
        ensures_handle [OF create] simp: newRun_def startDefaultRef_def split: sum.split)
  then show ?thesis using stored by (rule ensures_inv)
qed

section \<open>The evolution of a stored run\<close>

lemma run_row_unique:
  "database_ok db \<Longrightarrow> r \<in> set (db_runs db) \<Longrightarrow> s \<in> set (db_runs db) \<Longrightarrow> rr_Name r = rr_Name s \<Longrightarrow> r = s"
  by (simp add: database_ok_def) (metis inj_on_def distinct_map)

lemma storedRun_Some:
  assumes "tables_sound db"
  shows "storedRun db name = Some run \<longleftrightarrow>
    (\<exists>r \<in> set (db_runs db). rowRun r = run) \<and> run_Name run = name"
proof -
  have named: "run_Name (rowRun r) = rr_Name r" if "r \<in> set (db_runs db)" for r
    using assms that by (simp add: tables_sound_def runs_named_def rowRun_def)
  have unique: "r = s" if "r \<in> set (db_runs db)" "s \<in> set (db_runs db)" "rr_Name r = rr_Name s" for r s
    using assms that run_row_unique by (auto simp: tables_sound_def)
  show ?thesis
  proof
    assume "storedRun db name = Some run"
    then show "(\<exists>r \<in> set (db_runs db). rowRun r = run) \<and> run_Name run = name"
      using named by (auto simp: storedRun_def find_Some_iff)
  next
    assume "(\<exists>r \<in> set (db_runs db). rowRun r = run) \<and> run_Name run = name"
    then obtain r where r: "r \<in> set (db_runs db)" "rowRun r = run" "rr_Name r = name"
      using named by fastforce
    then obtain u where u: "find (\<lambda>r. rr_Name r = name) (db_runs db) = Some u"
      by (cases "find (\<lambda>r. rr_Name r = name) (db_runs db)") (auto simp: find_None_iff)
    then have "u \<in> set (db_runs db)" "rr_Name u = name" by (auto simp: find_Some_iff)
    with r unique have "u = r" by simp
    with r u show "storedRun db name = Some run" by (simp add: storedRun_def)
  qed
qed

lemma storedRun_exists: "storedRun db name = Some run \<Longrightarrow> runExists db name"
  by (auto simp: storedRun_def runExists_def list_ex_iff find_Some_iff)

lemma session_step_runs:
  assumes "\<And>x. ensures (\<lambda>w. (db_runs (w_db w), db_snapshots (w_db w)) = x) m (\<lambda>_. True)"
  shows "db_runs (w_db (snd (m w))) = db_runs (w_db w)"
  using ensures_inv [OF assms [of "(db_runs (w_db w), db_snapshots (w_db w))"], of w] by simp

lemma frame_triples:
  "db_runs (w_db (snd (session_Artifacts (serverSessions E) name w))) = db_runs (w_db w)"
  "db_runs (w_db (snd (session_PreparePublication (serverSessions E) name w))) = db_runs (w_db w)"
  using triple_weak [OF frame.sessions.artifacts_triple] triple_weak [OF frame.sessions.publication_triple]
  by (auto intro!: session_step_runs simp: triple_ensures [symmetric])

text \<open>Every step of the server moves a stored run along the step relation, or removes it.\<close>

lemma server_step_run:
  assumes step: "server_step E w w'" and sound: "world_sound w"
    and run: "storedRun (w_db w) name = Some run" and run': "storedRun (w_db w') name = Some run'"
  shows "run_moves run run'"
proof -
  let ?I = "\<lambda>w. runs_satisfy (\<lambda>r. run_Name r = run_Name run \<longrightarrow> run_moves run r) (w_db w)"
  have name: "run_Name run = name" using run storedRun_Some [OF sound] by simp
  have "run_moves run (rowRun r)" if "r \<in> set (db_runs (w_db w))" "run_Name (rowRun r) = run_Name run" for r
  proof -
    have "storedRun (w_db w) name = Some (rowRun r)"
      using that name storedRun_Some [OF sound] by blast
    with run show ?thesis by simp
  qed
  then have start: "?I w" by (simp add: runs_satisfy_def)
  have same: "?I w'" if "db_runs (w_db w') = db_runs (w_db w)"
    using start that by (simp add: runs_satisfy_def)
  from step have "?I w'"
  proof (cases rule: server_step.cases)
    case (run_start q)
    show ?thesis
    proof (cases "wq_Name q = name")
      case True
      then have "w_db w' = w_db w"
        unfolding run_start using storedRun_exists [OF run] by (intro workflow_Start_existing) simp
      with start show ?thesis by simp
    next
      case False
      with start name show ?thesis unfolding run_start by (intro workflow_Start_other) simp_all
    qed
  next
    case (run_get n)
    show ?thesis unfolding run_get by (rule ensures_inv [OF evolve.runs.get_ensures start])
  next
    case (run_cancel n)
    show ?thesis unfolding run_cancel by (rule ensures_inv [OF evolve.runs.cancel_ensures start])
  next
    case (run_delete n)
    show ?thesis unfolding run_delete by (rule ensures_inv [OF evolve.runs.delete_ensures start])
  next
    case (reconcile n)
    show ?thesis unfolding reconcile by (rule ensures_inv [OF evolve.runs.reconcile_ensures start])
  next
    case reconcile_all
    show ?thesis unfolding reconcile_all by (rule ensures_inv [OF evolve.runs.reconcileAll_ensures start])
  next
    case (publish q)
    show ?thesis
      by (rule same, unfold publish, rule session_step_runs)
        (auto intro: ensures_mono [OF frame_pub.publishing.Publish_ensures])
  qed (rule same, simp add: session_step_runs [OF frame.creation.start_ensures]
      session_step_runs [OF frame.creation.continue_ensures]
      session_step_runs [OF frame.sessions.status_ensures]
      session_step_runs [OF frame.sessions.logs_ensures] frame_triples
      session_step_runs [OF frame.removal.delete_ensures] session_Delete_def session_Destroy_def
      session_step_runs [OF frame.removal.reconcileDeletions_ensures])+
  moreover have "world_sound w'" by (rule server_step_sound [OF step sound])
  ultimately show ?thesis
    using run' name storedRun_Some [of "w_db w'" name run'] by (auto simp: runs_satisfy_def)
qed

text \<open>A settled step keeps its state and its results.\<close>

lemma server_step_settled:
  assumes "server_step E w w'" and "world_sound w" and "storedRun (w_db w) name = Some run"
    and "storedRun (w_db w') name = Some run'" and "get_step run n = Some s" and "settled (step_State s)"
  shows "\<exists>s'. get_step run' n = Some s' \<and> kept s s'"
  using run_moves_settled [OF server_step_run [OF assms(1-4)] assms(5,6)] .

section \<open>Concurrent updates of a run\<close>

lemma UpdateRun_stale:
  assumes "\<And>r. r \<in> set (db_runs db) \<Longrightarrow> rr_Name r = name \<Longrightarrow> rr_Version r \<noteq> version"
  shows "UpdateRun name contents version db = (Inl (Sentinel ErrNoRows), db)"
proof -
  let ?P = "\<lambda>r. rr_Name r = name \<and> rr_Version r = version"
  have "find ?P (db_runs db) = None" using assms by (auto simp: find_None_iff)
  moreover have "update_rows ?P f (db_runs db) = db_runs db" for f
    unfolding update_rows_def by (rule map_idI) (use assms in auto)
  ultimately show ?thesis by (simp add: UpdateRun_def Let_def one_row_def)
qed

text \<open>An update from a revision that is no longer stored fails and leaves the database alone.\<close>

lemma runs_Update_stale:
  assumes stale: "\<And>r. r \<in> set (db_runs (w_db w)) \<Longrightarrow> rr_Name r = run_Name run \<Longrightarrow>
      rr_Version r \<noteq> run_Revision run"
  shows "w_db (snd (runs_Update driver run w)) = w_db w"
    and "\<exists>e. fst (runs_Update driver run w) = Inl e"
    and "reliable driver \<Longrightarrow> encodeRun run = Inr contents \<Longrightarrow>
      fst (runs_Update driver run w) = Inl (Sentinel ErrConcurrentUpdate)"
  using UpdateRun_stale [OF stale]
  by (auto simp: runs_Update_def op_run exec_def reliable_def split: sum.split prod.splits Fault.splits)

lemma runs_Update_Inr:
  assumes update: "runs_Update driver run w = (Inr run', w')" and ok: "database_ok (w_db w)"
  shows "run' = run\<lparr>run_Revision := run_Revision run + 1\<rparr>"
    and "\<And>r. r \<in> set (db_runs (w_db w')) \<Longrightarrow> rr_Name r = run_Name run \<Longrightarrow>
      rr_Version r = run_Revision run + 1 \<and> rowRun r = run'"
proof -
  let ?P = "\<lambda>r. rr_Name r = run_Name run \<and> rr_Version r = run_Revision run"
  obtain contents where contents: "encodeRun run = Inr contents"
    using update by (cases "encodeRun run") (simp_all add: runs_Update_def throw_def)
  obtain row where one: "one_row ?P (db_runs (w_db w)) = Inr row"
    and db: "w_db w' = snd (UpdateRun (run_Name run) contents (run_Revision run) (w_db w))"
    and run': "run' = run\<lparr>run_Revision := rr_Version row + 1\<rparr>"
    using update contents
    by (cases "one_row ?P (db_runs (w_db w))")
      (auto simp: runs_Update_def op_run exec_def UpdateRun_def Let_def split: sum.splits prod.splits
        Fault.splits if_splits)
  from one_row_Inr [OF one] have row: "row \<in> set (db_runs (w_db w))" "?P row" by auto
  with run' show eq: "run' = run\<lparr>run_Revision := run_Revision run + 1\<rparr>" by simp
  fix r assume r: "r \<in> set (db_runs (w_db w'))" "rr_Name r = run_Name run"
  have unique: "s = row" if "s \<in> set (db_runs (w_db w))" "rr_Name s = run_Name run" for s
    using run_row_unique [OF ok that(1) row(1)] row(2) that(2) by simp
  from r(1) db consider "r \<in> set (db_runs (w_db w))" "\<not> ?P r"
    | u where "u \<in> set (db_runs (w_db w))" "?P u"
        "r = u\<lparr>rr_Contents := contents, rr_Version := rr_Version u + 1\<rparr>"
    by (simp add: UpdateRun_def Let_def set_update_rows) blast
  then have "r = row\<lparr>rr_Contents := contents, rr_Version := rr_Version row + 1\<rparr>"
  proof cases
    case 1
    with unique r(2) row(2) show ?thesis by blast
  next
    case 2
    with unique show ?thesis by blast
  qed
  with row encodeRun_Inr [OF contents] eq
  show "rr_Version r = run_Revision run + 1 \<and> rowRun r = run'" by (simp add: rowRun_def)
qed

section \<open>Creating a session\<close>

definition sessionWithTask :: "Record \<Rightarrow> Task \<Rightarrow> Database \<Rightarrow> Database" where
  "sessionWithTask rec t db =
     db\<lparr>db_sessions := db_sessions db @ [sessionParams rec],
        db_tasks := db_tasks db @ [sessionTaskParams (rec_Name rec) t]\<rparr>"

text \<open>A session and its first task are stored together or not at all.\<close>

lemma sessions_Create_atomic:
  assumes create: "sessions_Create driver rec t w = (r, w')"
  shows "w_db w' = w_db w \<or> w_db w' = sessionWithTask rec t (w_db w)"
    and "r = Inr () \<Longrightarrow> w_db w' = sessionWithTask rec t (w_db w)"
proof -
  let ?body = "handle (exec driver (CreateSession (sessionParams rec)))
          (\<lambda>e. throw (errorf (''create session '' @ rec_Name rec) e))
          (\<lambda>created.
             if created = 0 then throw (Sentinel SessionErrConflict)
             else handle (exec driver (CreateSessionTask (sessionTaskParams (rec_Name rec) t)))
               (\<lambda>e. throw (errorf (''create session '' @ rec_Name rec @ '' initial task'') e)) ret)"
  have body: "w_db v' = sessionWithTask rec t (w_db v)" if "?body v = (Inr u, v')" for u v v'
    using that
    by (auto simp: op_run exec_def CreateSession_def CreateSessionTask_def sessionWithTask_def
        sessionParams_def sessionTaskParams_def split: prod.splits Fault.splits sum.splits if_splits)
  show "w_db w' = w_db w \<or> w_db w' = sessionWithTask rec t (w_db w)"
    and "r = Inr () \<Longrightarrow> w_db w' = sessionWithTask rec t (w_db w)"
    using create body
    by (auto simp: sessions_Create_def transaction_def split: prod.splits Fault.splits sum.splits)
qed

end
