(* ===== verification/Session_Facts.thy ===== *)
theory Session_Facts
  imports Server_Properties
begin

text \<open>
  What the operations of session control do to the database, whatever fails in them: the evolution of
  stored tasks, requests for a session that exists, complete removal, and deletions that cannot finish.
\<close>

section \<open>Tasks under the operations on sessions\<close>

text \<open>The operations of session control on the database, with any arguments and any outcome.\<close>

inductive session_operation :: "'e Environment \<Rightarrow> 'e world \<Rightarrow> 'e world \<Rightarrow> bool" for E where
  start: "session_operation E w (snd (session_Start (serverSessions E) d q w))"
| continue: "session_operation E w (snd (session_Continue (serverSessions E) r w))"
| status: "session_operation E w (snd (session_Status (serverSessions E) name w))"
| artifacts: "session_operation E w (snd (session_Artifacts (serverSessions E) name w))"
| logs: "session_operation E w (snd (session_WriteLogs (serverSessions E) name follow w))"
| publication: "session_operation E w (snd (session_PreparePublication (serverSessions E) name w))"
| delete: "session_operation E w (snd (session_Delete (serverSessions E) name w))"
| destroy: "session_operation E w (snd (session_Destroy (serverSessions E) name w))"
| deletions: "session_operation E w (snd (session_ReconcileDeletions (serverSessions E) w))"

lemma session_operation_follows:
  assumes "session_operation E w w'" and "follows name tid t0 (w_db w)"
  shows "follows_if_kept name tid t0 (w_db w')"
proof -
  have weak: "follows_if_kept name tid t0 db" if "follows name tid t0 db" for db
    using that task_row_unique by (fastforce simp: follows_def follows_if_kept_def)
  have inv: "follows name tid t0 (w_db (snd (m w)))" if "ensures (\<lambda>w. follows name tid t0 (w_db w)) m (\<lambda>_. True)" for m
    using ensures_inv [OF that] assms(2) by simp
  have rem: "follows_if_kept name tid t0 (w_db (snd (m w)))" if "ensures (\<lambda>w. follows_if_kept name tid t0 (w_db w)) m (\<lambda>_. True)" for m
    using ensures_inv [OF that] weak [OF assms(2)] by simp
  from assms(1) show ?thesis
  proof (cases rule: session_operation.cases)
    case (artifacts n)
    have "follows name tid t0 (w_db w')" unfolding artifacts
      by (rule triple_inv [OF follow.sessions.artifacts_triple]) (rule assms(2))
    then show ?thesis by (rule weak)
  next
    case (publication n)
    have "follows name tid t0 (w_db w')" unfolding publication
      by (rule triple_inv [OF follow.sessions.publication_triple]) (rule assms(2))
    then show ?thesis by (rule weak)
  qed (auto simp: session_Delete_def session_Destroy_def
      intro!: rem [OF follow_removal.removal.delete_ensures] rem [OF follow_removal.removal.reconcileDeletions_ensures]
        weak [OF inv [OF follow.creation.start_ensures]] weak [OF inv [OF follow.creation.continue_ensures]]
        weak [OF inv [OF follow.sessions.status_ensures]] weak [OF inv [OF follow.sessions.logs_ensures]])
qed

section \<open>Requests for a session that exists\<close>

lemma stored_session:
  assumes "database_ok db" and "row \<in> set (db_sessions db)"
  shows "fst (GetSession (sn_Name row) db) = Inr row"
proof -
  obtain u where u: "find (\<lambda>r. sn_Name r = sn_Name row) (db_sessions db) = Some u"
    using assms(2) by (cases "find (\<lambda>r. sn_Name r = sn_Name row) (db_sessions db)") (auto simp: find_None_iff)
  then have "u \<in> set (db_sessions db)" "sn_Name u = sn_Name row" by (auto simp: find_Some_iff)
  then have "u = row" using assms by (simp add: database_ok_def) (metis distinct_map inj_on_def)
  with u show ?thesis by (simp add: GetSession_def one_row_def)
qed

lemma sessions_Create_existing:
  assumes "sessionExists (w_db w) (rec_Name rec)" and "sessions_Create driver rec t w = (r, w')"
  shows "w_db w' = w_db w" and "\<exists>e. r = Inl e"
    and "reliable driver \<Longrightarrow> r = Inl (Sentinel SessionErrConflict) \<and> w' = w"
proof -
  have "sn_Name (sessionParams rec) = rec_Name rec" by (simp add: sessionParams_def)
  then have exec: "exec driver (CreateSession (sessionParams rec)) (w\<lparr>w_env := x\<rparr>) = (Inr n, v') \<Longrightarrow> n = 0"
    for x n v'
    using assms(1) by (auto simp: exec_def CreateSession_def split: prod.splits Fault.splits)
  show "w_db w' = w_db w" and "\<exists>e. r = Inl e"
    using assms(2) by (auto simp: sessions_Create_def transaction_def op_run split: prod.splits Fault.splits sum.splits
       dest!: exec)
  assume "reliable driver"
  then show "r = Inl (Sentinel SessionErrConflict) \<and> w' = w"
    using assms \<open>sn_Name (sessionParams rec) = rec_Name rec\<close>
    by (auto simp: sessions_Create_def transaction_def op_run exec_reliable CreateSession_def reliable_def)
qed

lemma initialIntent_simps:
  assumes "initialIntent (serverSessions E) d r w = ((rec, t), w1)"
  shows "rec_Name rec = req_Name r" and "w_db w1 = w_db w"
  using assms by (auto simp: initialIntent_def serverSessions_def lift_fun_def split: prod.splits)

lemma sessions_Get_row:
  assumes "database_ok (w_db w)" and "row \<in> set (db_sessions (w_db w))" and "sn_Name row = name"
    and "sessions_Get driver name w = (r, w')"
  shows "w_db w' = w_db w" and "r = Inr x \<Longrightarrow> x = decodeSession row"
    and "reliable driver \<Longrightarrow> r = Inr (decodeSession row) \<and> w' = w"
  using assms stored_session [OF assms(1,2)] exec_read [of "GetSession name" driver w]
  by (auto simp: sessions_Get_def op_run exec_def reliable_def GetSession_def one_row_def
      split: prod.splits sum.splits Fault.splits option.splits if_splits)

text \<open>A session is not started again with other inputs: nothing is written.\<close>

lemma session_Start_other:
  assumes ok: "database_ok (w_db w)" and row: "row \<in> set (db_sessions (w_db w))" "sn_Name row = req_Name q"
    and other: "sn_IntentID row \<noteq> taskIntentID (serverSessions E) d (startDefaults d q)"
    and start: "session_Start (serverSessions E) d q w = (r, w')"
  shows "w_db w' = w_db w" and "\<exists>e. r = Inl e"
    and "reliable (env_driver E) \<Longrightarrow> validateSessionStart d (startDefaults d q) = None \<Longrightarrow>
      \<exists>e. r = Inl e \<and> ErrorKindOf PkgSession e = Some ErrorConflict"
proof -
  let ?c = "serverSessions E" and ?q = "startDefaults d q"
  have name: "req_Name ?q = req_Name q" by (simp add: startDefaults_def)
  obtain rec t w1 where i: "initialIntent ?c d ?q w = ((rec, t), w1)" by (metis prod.collapse)
  note i' = initialIntent_simps [OF i]
  have exists: "sessionExists (w_db w1) (rec_Name rec)"
    using row i' name by (auto simp: sessionExists_def list_ex_iff)
  obtain cr w2 where c: "sessions_Create (env_driver E) rec t w1 = (cr, w2)" by fastforce
  note c' = sessions_Create_existing [OF exists c]
  obtain gr w3 where g: "sessions_Get (env_driver E) (req_Name q) w2 = (gr, w3)" by fastforce
  have ok2: "database_ok (w_db w2)" "row \<in> set (db_sessions (w_db w2))" using ok row i' c'(1) by simp_all
  note g' = sessions_Get_row [OF ok2 row(2) g]
  have sel: "sr_Create (sc_repository ?c) = sessions_Create (env_driver E)"
    "sr_Get (sc_repository ?c) = sessions_Get (env_driver E)"
    by (simp_all add: serverSessions_def sessionRepository_def)
  have rec_other: "rec_IntentID (decodeSession row) \<noteq> taskIntentID ?c d ?q"
    using other by (simp add: decodeSession_def)
  obtain rr w4 where rr: "recordIntent ?c d ?q rec t w1 = (rr, w4)" by fastforce
  have r4: "w_db w4 = w_db w1 \<and> (\<exists>e. rr = Inl e)"
    using rr c c' g g' rec_other name
    by (auto simp: recordIntent_def op_run sel split: sum.splits if_splits)
  show "w_db w' = w_db w" and "\<exists>e. r = Inl e"
    using start i r4 rr i' by (auto simp: session_Start_def Let_def require_def op_run split: option.splits)
  assume rel: "reliable (env_driver E)" and valid: "validateSessionStart d ?q = None"
  have "rr = Inl (sessionError ErrorConflict (''session '' @ req_Name ?q @ '' already exists with different inputs'')
                        (Some (Sentinel SessionErrConflict)))"
    using rr c c'(3) [OF rel] g g'(3) [OF rel] rec_other name
    by (auto simp: recordIntent_def op_run sel)
  then show "\<exists>e. r = Inl e \<and> ErrorKindOf PkgSession e = Some ErrorConflict"
    using start i rr valid by (auto simp: session_Start_def Let_def require_def op_run sessionError_def)
qed

section \<open>Complete removal\<close>

definition session_gone :: "string \<Rightarrow> Database \<Rightarrow> bool" where
  "session_gone name db \<longleftrightarrow>
     (\<forall>r \<in> set (db_sessions db). sn_Name r \<noteq> name) \<and> (\<forall>t \<in> set (db_tasks db). tk_SessionName t \<noteq> name)
     \<and> (\<forall>p \<in> set (db_publications db). pb_SessionName p \<noteq> name)"

lemma no_session_gone:
  "database_ok db \<Longrightarrow> \<not> sessionExists db name \<Longrightarrow> session_gone name db"
  by (auto simp: database_ok_def session_gone_def sessionExists_def list_ex_iff)

lemma sessions_Get_missing:
  assumes "sessions_Get driver name w = (Inl e, w')" and "errors_is e SessionErrNotFound"
  shows "\<not> sessionExists (w_db w) name" and "w_db w' = w_db w"
  using assms
  by (auto simp: sessions_Get_def op_run exec_def GetSession_def one_row_def sessionExists_def find_None_iff list_ex_iff
      split: prod.splits sum.splits Fault.splits option.splits if_splits)

lemma sessions_Get_name: "sessions_Get driver name w = (Inr rec, w') \<Longrightarrow> rec_Name rec = name"
  by (auto simp: sessions_Get_def op_run exec_def GetSession_def decodeSession_def
      split: prod.splits sum.splits Fault.splits if_splits dest!: one_row_Inr)

lemma FinishDeletion_gone:
  "sessions_FinishDeletion driver name True w = (Inr u, w') \<Longrightarrow> session_gone name (w_db w')"
  by (auto simp: sessions_FinishDeletion_def require_row_def op_run exec_def DeleteSession_def session_gone_def
      split: prod.splits sum.splits Fault.splits if_splits)

lemma finishDeletion_gone:
  assumes "finishDeletion (serverSessions E) rec True w = (Inr u, w')"
  shows "session_gone (rec_Name rec) (w_db w')"
proof -
  have sel: "sr_FinishDeletion (sc_repository (serverSessions E)) = sessions_FinishDeletion (env_driver E)"
    by (simp add: serverSessions_def sessionRepository_def)
  show ?thesis
    using assms unfolding finishDeletion_def removesRecord_def sel
    by (auto simp: throw_def split: if_splits elim!: andThen_success dest: FinishDeletion_gone)
qed

lemma session_Destroy_gone:
  assumes ok: "database_ok (w_db w)" and destroy: "session_Destroy (serverSessions E) name w = (Inr u, w')"
  shows "session_gone name (w_db w')"
proof -
  let ?c = "serverSessions E"
  have sel: "sr_Get (sc_repository ?c) = sessions_Get (env_driver E)"
    by (simp add: serverSessions_def sessionRepository_def)
  obtain r w1 where get: "sessions_Get (env_driver E) name w = (r, w1)" by fastforce
  show ?thesis
  proof (cases r)
    case (Inl e)
    with destroy get have "errors_is e SessionErrNotFound" "w' = w1"
      by (auto simp: session_Destroy_def session_delete_def require_def handle_def sel throw_def ret_def
          split: option.splits if_splits)
    with Inl get sessions_Get_missing [of "env_driver E" name w e w1] no_session_gone [OF ok] show ?thesis by simp
  next
    case (Inr rec)
    with get have name: "rec_Name rec = name" by (auto dest: sessions_Get_name)
    from Inr destroy get obtain v v' where "finishDeletion ?c rec True v = (Inr (), v')" "w' = v'"
      by (auto simp: session_Destroy_def session_delete_def require_def op_run sel
          split: option.splits sum.splits prod.splits)
    with finishDeletion_gone name show ?thesis by blast
  qed
qed


section \<open>A deletion that cannot finish\<close>

lemma update_rows_set: "db_tasks (snd (SetSessionDeletion name storage db)) = db_tasks db"
  by (simp add: SetSessionDeletion_def Let_def)

lemma latest_same_tasks:
  "db_tasks db' = db_tasks db \<Longrightarrow> fst (GetLatestSessionTask name db') = fst (GetLatestSessionTask name db)"
  by (simp add: GetLatestSessionTask_def)

lemma BeginDeletion_tasks: "db_tasks (w_db (snd (sessions_BeginDeletion driver name storage w))) = db_tasks (w_db w)"
proof -
  have "obeys (same (\<lambda>w. db_tasks (w_db w))) (sessions_BeginDeletion driver name storage)"
    unfolding sessions_BeginDeletion_def sessions_Get_def
    by (intro same.obeys_handle same.obeys_throw same.obeys_ret same.obeys_if same.obeys_option;
      auto simp: obeys_def same_def exec_def SetSessionDeletion_def Let_def GetSession_def split: prod.splits Fault.splits)
  then show ?thesis by (rule obeys_sameD)
qed

lemma LatestTask_unfinished:
  assumes "fst (GetLatestSessionTask name (w_db w)) = Inr row" and "sessions_LatestTask driver name w = (r, w')"
  shows "w_db w' = w_db w" and "r = Inr t \<Longrightarrow> t = decodeSessionTask row"
    and "r = Inl e \<Longrightarrow> \<not> errors_is e SessionErrNotFound"
  using assms exec_read [of "GetLatestSessionTask name" driver w]
  by (auto simp: sessions_LatestTask_def op_run exec_def GetLatestSessionTask_def
      split: prod.splits sum.splits Fault.splits option.splits if_splits)

text \<open>
  Without an observation of its unfinished task, a session can neither be deleted nor destroyed.
\<close>

lemma settle_unobservable:
  assumes latest: "fst (GetLatestSessionTask (rec_Name rec) (w_db w)) = Inr row" "\<not> taskTerminal (tk_State row)"
    and unobservable: "\<And>e. \<exists>x. fst (env_observe E (rec_Name rec) (tk_TaskID row) e) = Inl x
      \<and> \<not> errors_is x SessionErrNotFound"
  shows "\<exists>x. fst (settleLatestTask (serverSessions E) rec w) = Inl x"
proof -
  let ?c = "serverSessions E"
  have sel: "sr_LatestTask (sc_repository ?c) = sessions_LatestTask (env_driver E)"
    "rt_Observe (sc_runtime ?c) n t = lift_env (env_observe E n t)" for n t
    by (simp_all add: serverSessions_def sessionRepository_def serverRuntime_def)
  have row: "task_State (decodeSessionTask row) = tk_State row" "task_ID (decodeSessionTask row) = tk_TaskID row"
    by (simp_all add: decodeSessionTask_def)
  obtain r w1 where l1: "sessions_LatestTask (env_driver E) (rec_Name rec) w = (r, w1)" by fastforce
  note f1 = LatestTask_unfinished [OF latest(1) l1]
  have latest1: "fst (GetLatestSessionTask (rec_Name rec) (w_db w1)) = Inr row" using latest f1(1) by simp
  obtain r2 w2 where l2: "sessions_LatestTask (env_driver E) (rec_Name rec) w1 = (r2, w2)" by fastforce
  note f2 = LatestTask_unfinished [OF latest1 l2]
  have obs: "\<exists>x v. lift_env (env_observe E (rec_Name rec) (tk_TaskID row)) u = (Inl x, v) \<and> \<not> errors_is x SessionErrNotFound" for u
    using unobservable [of "w_env u"] by (auto simp: lift_env_def split: prod.splits)
  obtain x v where o: "lift_env (env_observe E (rec_Name rec) (tk_TaskID row)) w2 = (Inl x, v)" "\<not> errors_is x SessionErrNotFound"
    using obs by blast
  have "\<exists>x v. synchronizeLatestTask ?c rec w1 = (Inl x, v) \<and> \<not> errors_is x SessionErrNotFound"
    using l2 f2(2,3) o row latest(2)
    by (cases r2) (auto simp: synchronizeLatestTask_def op_run sel unavailable_def sessionError_def)
  then show ?thesis
    using l1 f1 row latest(2)
    by (cases r) (auto simp: settleLatestTask_def op_run sel)
qed

lemma delete_unobservable:
  assumes row: "srow \<in> set (db_sessions (w_db w))" "sn_Name srow = name"
    and latest: "fst (GetLatestSessionTask name (w_db w)) = Inr row" "\<not> taskTerminal (tk_State row)"
    and unobservable: "\<And>e. \<exists>x. fst (env_observe E name (tk_TaskID row) e) = Inl x
      \<and> \<not> errors_is x SessionErrNotFound"
  shows "\<exists>x. fst (session_delete (serverSessions E) name storage w) = Inl x"
proof -
  let ?c = "serverSessions E"
  have sel: "sr_Get (sc_repository ?c) = sessions_Get (env_driver E)"
    "sr_BeginDeletion (sc_repository ?c) = sessions_BeginDeletion (env_driver E)"
    by (simp_all add: serverSessions_def sessionRepository_def)
  have exists: "sessionExists (w_db w) name" using row by (auto simp: sessionExists_def list_ex_iff)
  obtain r w1 where get: "sessions_Get (env_driver E) name w = (r, w1)" by fastforce
  show ?thesis
  proof (cases r)
    case (Inl e)
    with get exists sessions_Get_missing(1) [of "env_driver E" name w e w1] have "\<not> errors_is e SessionErrNotFound" by blast
    with Inl get show ?thesis
      by (auto simp: session_delete_def require_def op_run sel split: option.split)
  next
    case (Inr rec)
    with get have name: "rec_Name rec = name" by (auto dest: sessions_Get_name)
    have db1: "w_db w1 = w_db w"
      using get exec_read [of "GetSession name" "env_driver E" w]
      by (auto simp: sessions_Get_def op_run GetSession_def split: prod.splits sum.splits if_splits)
    obtain b w2 where b: "sessions_BeginDeletion (env_driver E) name storage w1 = (b, w2)" by fastforce
    then have "db_tasks (w_db w2) = db_tasks (w_db w)"
      using BeginDeletion_tasks [of "env_driver E" name storage w1] db1 by simp
    then have "fst (GetLatestSessionTask (rec_Name rec) (w_db w2)) = Inr row"
      using latest(1) name latest_same_tasks by metis
    from settle_unobservable [OF this latest(2), of E] unobservable name
    obtain x where "fst (settleLatestTask ?c rec w2) = Inl x" by auto
    then have "\<exists>x. fst (finishDeletion ?c rec storage w2) = Inl x"
      by (cases "settleLatestTask ?c rec w2") (auto simp: finishDeletion_def op_run)
    then show ?thesis
      using Inr get b
      by (cases b; cases "finishDeletion ?c rec storage w2")
        (auto simp: session_delete_def require_def op_run sel split: option.split)
  qed
qed

section \<open>Creation\<close>

text \<open>Creation on a database that works: what is stored and what is read back.\<close>

lemma fresh_session:
  assumes "reliable driver" and "database_ok (w_db w)" and "\<not> sessionExists (w_db w) (rec_Name rec)"
  shows "sessions_Create driver rec t w = (Inr (), w\<lparr>w_db := sessionWithTask rec t (w_db w)\<rparr>)"
    and "GetLatestSessionTask (rec_Name rec) (sessionWithTask rec t (w_db w)) =
      (Inr (sessionTaskParams (rec_Name rec) t), sessionWithTask rec t (w_db w))"
    and "find (\<lambda>r. sn_Name r = rec_Name rec) (db_sessions (w_db w)) = None"
proof -
  let ?w = "w\<lparr>w_db := sessionWithTask rec t (w_db w)\<rparr>" and ?n = "rec_Name rec"
  note rel = exec_reliable [OF assms(1)]
  have fresh: "\<And>r. r \<in> set (db_sessions (w_db w)) \<Longrightarrow> sn_Name r \<noteq> ?n"
    "\<And>u. u \<in> set (db_tasks (w_db w)) \<Longrightarrow> tk_SessionName u \<noteq> ?n"
    using assms(2,3) by (auto simp: database_ok_def sessionExists_def list_ex_iff)
  then have none: "find (\<lambda>r. sn_Name r = ?n) (db_sessions (w_db w)) = None"
    "filter (\<lambda>u. tk_SessionName u = ?n) (db_tasks (w_db w)) = []"
    "list_ex (\<lambda>u. tk_SessionName u = ?n \<and> P u) (db_tasks (w_db w)) = False" for P
    by (auto simp: find_None_iff filter_empty_conv list_ex_iff)
  have idle: "\<not> list_ex (activeTask ?n) (db_tasks (w_db w))"
    using fresh(2) by (auto simp: list_ex_iff activeTask_def)
  have fields: "sn_Name (sessionParams rec) = ?n" "tk_SessionName (sessionTaskParams ?n t) = ?n"
    "(sessionParams rec)\<lparr>sn_DeletionStorage := None\<rparr> = sessionParams rec"
    by (simp_all add: sessionParams_def sessionTaskParams_def)
  have driver: "driver e = (NoFault, e)" for e using assms(1) by (simp add: reliable_def)
  show "sessions_Create driver rec t w = (Inr (), ?w)"
    using assms(3) none(3) idle
    by (simp add: sessions_Create_def transaction_def driver op_run rel CreateSession_def CreateSessionTask_def fields
        sessionExists_def sessionWithTask_def)
  show "GetLatestSessionTask ?n (sessionWithTask rec t (w_db w)) =
      (Inr (sessionTaskParams ?n t), sessionWithTask rec t (w_db w))"
    using none(2) fields by (simp add: GetLatestSessionTask_def sessionWithTask_def)
  show "find (\<lambda>r. sn_Name r = ?n) (db_sessions (w_db w)) = None" by (rule none(1))
qed

end
