(* ===== verification/Examples.thy ===== *)
theory Examples
  imports Session_Facts
begin

text \<open>
  A concrete environment in which every dependency answers, for evaluating the operations on
  concrete inputs: a clock that counts, a runtime that records the requests it gets and reports one
  given observation, a publisher that pushes one commit and a GitHub repository with one branch.
\<close>

record Demo =
  demo_clock :: int
  demo_requests :: "TaskRequest list"
  demo_observation :: TaskObservation
  demo_commit :: string
  demo_pulls :: "PullRequest list"

definition demoAPI :: "Demo GitHubAPI" where
  "demoAPI =
     \<lparr>api_GetRef = (\<lambda>repo ref e.
          (if demo_commit e = [] then ApiNotFound (Text ''Not Found'') else ApiOk (demo_commit e), e)),
      api_ListOpenPulls = (\<lambda>repo b h e. (ApiOk (demo_pulls e), e)),
      api_CreatePull = (\<lambda>repo b h t x d e.
          let pull = \<lparr>pull_Number = 7, pull_URL = ''https://github.com/o/r/pull/7''\<rparr>
          in (ApiOk (Some pull), e\<lparr>demo_pulls := [pull]\<rparr>)),
      api_tick = (\<lambda>e. (True, e)), api_contextError = Text ''context deadline exceeded''\<rparr>"

definition demoStep :: "string \<Rightarrow> string list \<Rightarrow> bool \<Rightarrow> StepDefinition" where
  "demoStep name after publishable =
     \<lparr>sd_Name = name, sd_Agent = (if publishable then ''writer'' else ''reader''), sd_Prompt = ''do it'',
      sd_After = after, sd_ChangeFrom = [], sd_Publishable = publishable,
      sd_SessionDefinition =
        \<lparr>def_Agent = (if publishable then ''writer'' else ''reader''),
         def_Storage = (if publishable then StoragePersistent else StorageEphemeral),
         def_Instructions = ''x'', def_Skills = [], def_SetupCommand = [], def_CloneDepth = 1,
         def_StorageSize = ''1Gi'', def_Timeout = 60\<rparr>\<rparr>"

text \<open>Two steps: \<open>plan\<close>, and \<open>build\<close> after it, which is publishable.\<close>

definition demoDefinition :: WorkflowDefinition where
  "demoDefinition =
     \<lparr>wd_Name = ''flow'', wd_Description = ''demo'', wd_MaxParallelism = 1,
      wd_Steps = [(''build'', demoStep ''build'' [''plan''] True), (''plan'', demoStep ''plan'' [] False)]\<rparr>"

definition demoEnvironment :: "Demo Environment" where
  "demoEnvironment =
     \<lparr>env_driver = (\<lambda>e. (NoFault, e)), env_now = (\<lambda>e. (demo_clock e, e\<lparr>demo_clock := demo_clock e + 1\<rparr>)),
      env_random = (\<lambda>n e. (Inr (replicate n CHR ''r''), e)), env_auth = Some (\<lambda>e. (Inr ''token'', e)),
      env_scope = ''default'', env_start = (\<lambda>q e. (Inr (), e\<lparr>demo_requests := demo_requests e @ [q]\<rparr>)),
      env_observe = (\<lambda>n t e. (Inr (demo_observation e), e)), env_logs = (\<lambda>n t f e. (Inr (), e)),
      env_delete = (\<lambda>n s e. (Inr (), e)), env_image = ''image'', env_taskTimeout = 60,
      env_sha256 = (\<lambda>s. take 4 (s @ ''abcd'')), env_marshalTask = (\<lambda>d q s i. req_Prompt q),
      env_marshalIntent = (\<lambda>i. wq_Prompt (wi_Request i)), env_marshalOutputs = (\<lambda>m. ''{}''),
      env_catalog = Some (catalogOf (Some [(''flow'', demoDefinition)])),
      env_runPublisher = (\<lambda>q e.
          ((\<lparr>po_Branch = pe_Branch q, po_CommitSHA = replicate 40 CHR ''a''\<rparr>, None),
           e\<lparr>demo_commit := replicate 40 CHR ''a''\<rparr>)),
      env_deletePublisher = (\<lambda>n e. (Inr (), e)), env_github = (\<lambda>token. demoAPI),
      env_parseURL = (\<lambda>s. Inr \<lparr>url_Scheme = ''https'', url_Hostname = ''github.com'', url_HasUser = False,
          url_RawQuery = [], url_Fragment = [], url_Path = ''/o/r''\<rparr>),
      env_marshalPublish = (\<lambda>s r q. pq_Branch q)\<rparr>"

definition runningObservation :: TaskObservation where
  "runningObservation =
     \<lparr>obs_Phase = PhaseRunning, obs_Artifacts = \<lparr>ta_Outcome = RawEmpty, ta_PullRequest = RawEmpty,
        ta_WorkflowOutput = RawEmpty, ta_Change = None\<rparr>, obs_Failure = []\<rparr>"

text \<open>A task that completed with every artifact.\<close>

definition completedObservation :: TaskObservation where
  "completedObservation =
     \<lparr>obs_Phase = PhaseSucceeded,
      obs_Artifacts = \<lparr>ta_Outcome = RawDoc (JObject [(''status'', JString ''completed'')]),
        ta_PullRequest = RawDoc (JObject [(''title'', JString ''t''), (''body'', JString ''b'')]),
        ta_WorkflowOutput = RawDoc (JObject []), ta_Change = None\<rparr>, obs_Failure = []\<rparr>"

definition demoWorld :: "TaskObservation \<Rightarrow> Demo world" where
  "demoWorld obs =
     \<lparr>w_db = emptyDatabase, w_env = \<lparr>demo_clock = 0, demo_requests = [], demo_observation = obs,
        demo_commit = [], demo_pulls = []\<rparr>\<rparr>"

definition demoAgent :: Definition where
  "demoAgent = sd_SessionDefinition (demoStep ''build'' [] True)"

definition demoStart :: "string \<Rightarrow> StartRequest" where
  "demoStart prompt =
     \<lparr>req_Name = ''s'', req_Repository = ''https://github.com/o/r'', req_InitialRef = ''main'',
      req_Prompt = prompt, req_Timeout = 60, req_ResultKind = ResultKindPullRequest,
      req_WorkflowRun = [], req_WorkflowStep = [], req_ChangeInput = None\<rparr>"

definition demoRun :: WorkflowRequest where
  "demoRun = \<lparr>wq_Workflow = ''flow'', wq_Name = ''run'', wq_Repository = ''https://github.com/o/r'',
     wq_Ref = [], wq_Prompt = ''goal''\<rparr>"

definition demoPublish :: PublishRequest where
  "demoPublish = \<lparr>pq_Session = ''s'', pq_Branch = ''b'', pq_BaseBranch = [], pq_CommitMessage = ''m'',
     pq_Draft = False, pq_Timeout = 2000000000\<rparr>"

section \<open>Evaluation\<close>

lemma demo_texts [simp]:
  "\<not> blank ''p''" "\<not> blank ''q''" "\<not> blank ''x''" "\<not> blank ''s''" "\<not> blank ''b''" "\<not> blank ''m''"
  "\<not> blank ''t''" "\<not> blank ''goal''" "\<not> blank ''token''" "\<not> blank ''https://github.com/o/r''"
  "\<not> blank ''do it''" "TrimSpace ''b'' = ''b''" "dns_label ''s''" "dns_label ''writer''"
  "dns_label ''reader''" "dns_label ''run''" "dns_label ''build''" "dns_label ''plan''"
  by code_simp+

lemmas demo_defs =
  demoAgent_def demoStart_def demoStep_def demoWorld_def demoEnvironment_def demoRun_def demoDefinition_def
  demoPublish_def demoAPI_def runningObservation_def completedObservation_def

lemmas server_defs =
  op_run exec_def transaction_def lift_env_def lift_fun_def serverSessions_def serverRuntime_def
  serverOperations_def serverWorkflows_def serverPublish_def lift_api_def sessionRepository_def
  runRepository_def publishRepository_def

lemmas statement_defs =
  CreateSession_def CreateSessionTask_def GetSession_def GetLatestSessionTask_def UpdateSessionTask_def
  CountActiveSessionTasks_def SetSessionDeletion_def ClearSessionDeletion_def DeleteSession_def
  CreateRun_def GetRun_def UpdateRun_def CreateAgentSnapshot_def GetAgentSnapshot_def ListRuns_def
  CreatePublication_def GetPublication_def UpdatePublication_def emptyDatabase_def sessionExists_def
  runExists_def one_row_def update_rows_def affected_def activeTask_def progressOf_def

lemma demo_valid: "\<not> blank prompt \<Longrightarrow> validateSessionStart demoAgent (demoStart prompt) = None"
  by (simp add: validateSessionStart_def validateDNSLabel_def validateWorkflowOwner_def validateChangeInput_def
      check_def validateDefinition_def validateResultKind_def agentConfigSize_def maxAgentConfigBytes_def
      validateStorage_def demo_defs)

lemma demo_defaults: "startDefaults demoAgent (demoStart p) = demoStart p"
  by (simp add: startDefaults_def demo_defs)

text \<open>The session that the first request creates, and the world after it.\<close>

definition demoRecord :: Record where
  "demoRecord =
     \<lparr>rec_Name = ''s'', rec_IntentID = ''70616263'', rec_RuntimeScope = ''default'', rec_Image = ''image'',
      rec_Definition = demoAgent, rec_Repository = ''https://github.com/o/r'', rec_InitialRef = ''main'',
      rec_WorkflowRun = [], rec_WorkflowStep = [], rec_Deletion = None, rec_CreatedAt = 0\<rparr>"

definition demoTask :: Task where
  "demoTask =
     \<lparr>task_ID = ''s'', task_Prompt = ''p'', task_Timeout = 60, task_ResultKind = ResultKindPullRequest,
      task_ChangeInput = None, task_State = TaskPending, task_Artifacts = no_artifacts, task_Failure = [],
      task_CreatedAt = 0, task_FinishedAt = None\<rparr>"

definition sessionWorld :: "TaskObservation \<Rightarrow> Demo world" where
  "sessionWorld obs =
     \<lparr>w_db = sessionWithTask demoRecord demoTask emptyDatabase,
      w_env = \<lparr>demo_clock = 1, demo_requests = [taskRequest demoRecord demoTask False ''token''],
                demo_observation = obs, demo_commit = [], demo_pulls = []\<rparr>\<rparr>"

lemma demo_intent: "taskIntentID (serverSessions demoEnvironment) demoAgent (demoStart ''p'') = ''70616263''"
proof -
  have "hex_encode ''pabc'' = ''70616263''" by code_simp
  then show ?thesis by (simp add: taskIntentID_def server_defs demo_defs)
qed

lemma demo_initialIntent:
  "initialIntent (serverSessions demoEnvironment) demoAgent (demoStart ''p'') (demoWorld obs) =
     ((demoRecord, demoTask), (demoWorld obs)\<lparr>w_env := (w_env (demoWorld obs))\<lparr>demo_clock := 1\<rparr>\<rparr>)"
  by (simp add: initialIntent_def demo_intent demoRecord_def demoTask_def)
    (simp add: server_defs demo_defs)

lemma session_start_demo:
  "session_Start (serverSessions demoEnvironment) demoAgent (demoStart ''p'') (demoWorld obs) =
     (Inr \<lparr>res_Agent = ''writer'', res_Name = ''s'', res_TaskID = ''s''\<rparr>, sessionWorld obs)"
proof -
  have texts: "def_Agent demoAgent = ''writer''" "req_Name (demoStart ''p'') = ''s''" "task_ID demoTask = ''s''"
    by (simp_all add: demo_defs demoTask_def)
  show ?thesis
    unfolding session_Start_def Let_def demo_defaults demo_valid [OF demo_texts(1)]
    by (simp add: op_run demo_initialIntent recordIntent_def ensureExecution_def texts)
      (simp add: repositoryCredential_def no_artifacts_def server_defs statement_defs demo_defs sessions_Create_def sessionWorld_def sessionWithTask_def
        sessionParams_def sessionTaskParams_def demoRecord_def demoTask_def)
qed

lemma sessionWorld_reachable: "server_reachable demoEnvironment (sessionWorld obs)"
  using server_reachable.step [OF server_reachable.initial server_step.start, of "demoWorld obs" demoEnvironment
      demoAgent "demoStart ''p''"]
  by (simp add: session_start_demo) (simp add: demoWorld_def)

text \<open>The run that the request \<open>demoRun\<close> creates, and the world after it.\<close>

definition demoNewRun :: Run where
  "demoNewRun = newRun (serverWorkflows demoEnvironment) (startDefaultRef demoRun) demoDefinition
     (workflowIntent (serverWorkflows demoEnvironment) (startDefaultRef demoRun) demoDefinition) 0"

definition demoSnapshot :: "string \<Rightarrow> Definition \<Rightarrow> SnapshotRow" where
  "demoSnapshot agent d = \<lparr>as_RunName = ''run'', as_AgentName = agent, as_Contents = encodeSessionDefinition d\<rparr>"

definition runWorld :: "TaskObservation \<Rightarrow> Demo world" where
  "runWorld obs =
     \<lparr>w_db = emptyDatabase\<lparr>db_runs := [\<lparr>rr_Name = ''run'', rr_Contents = demoNewRun, rr_Version = 1\<rparr>],
        db_snapshots := [demoSnapshot ''reader'' (sd_SessionDefinition (demoStep ''plan'' [] False)),
          demoSnapshot ''writer'' (sd_SessionDefinition (demoStep ''build'' [''plan''] True))]\<rparr>,
      w_env = (w_env (demoWorld obs))\<lparr>demo_clock := 1\<rparr>\<rparr>"

lemma demo_sorted: "sorted_keys (resolvedSessions demoDefinition) = [''reader'', ''writer'']"
  by (simp add: resolvedSessions_def demo_defs sorted_keys_def)

lemma demo_sessions: "resolvedSessions demoDefinition =
    [(''writer'', sd_SessionDefinition (demoStep ''build'' [''plan''] True)),
     (''reader'', sd_SessionDefinition (demoStep ''plan'' [] False))]"
  by (simp add: resolvedSessions_def demo_defs)

lemma demo_validate: "validateRunStart (serverWorkflows demoEnvironment) demoRun = Inr demoDefinition"
  by (simp add: validateRunStart_def serverWorkflows_def demoEnvironment_def demoRun_def catalogOf_def
      workflows_Find_def)

lemma demoNewRun_simps [simp]:
  "run_Name demoNewRun = ''run''" "demoNewRun\<lparr>run_Revision := 0\<rparr> = demoNewRun" "run_Version demoNewRun = ''v1''"
  "run_MaxParallelism demoNewRun = 1" "run_CancelRequested demoNewRun = False"
  "map fst (run_Steps demoNewRun) = [''build'', ''plan'']"
  by (simp_all add: demoNewRun_def newRun_def startDefaultRef_def demo_defs)

lemma demo_step: "get_step demoNewRun n = map_option (newStep (serverWorkflows demoEnvironment) ''run'' n)
    (map_of (wd_Steps demoDefinition) n)"
  by (simp add: demoNewRun_def newRun_get_step startDefaultRef_def demoRun_def)

lemma demoNewRun_encode: "encodeRun demoNewRun = Inr demoNewRun"
proof -
  have "\<not> list_ex (\<lambda>e. malformed (step_Output (snd e))) (run_Steps demoNewRun)"
    by (simp add: demoNewRun_def newRun_def newStep_def demoDefinition_def malformed_def)
  then show ?thesis by (simp add: encodeRun_def)
qed

lemma workflow_start_demo:
  "workflow_Start (serverWorkflows demoEnvironment) demoRun (demoWorld obs) =
     (Inr (demoNewRun\<lparr>run_Revision := 1\<rparr>), runWorld obs)"
proof -
  have env: "env_driver demoEnvironment = (\<lambda>e. (NoFault, e))"
    "env_now demoEnvironment = (\<lambda>e. (demo_clock e, e\<lparr>demo_clock := demo_clock e + 1\<rparr>))"
    by (simp_all add: demoEnvironment_def)
  have fields: "run_Name demoNewRun = ''run''" "wq_Name (startDefaultRef demoRun) = ''run''"
    by (simp_all add: startDefaultRef_def demoRun_def)
  have new: "newRun (serverWorkflows demoEnvironment) (startDefaultRef demoRun) demoDefinition
      (workflowIntent (serverWorkflows demoEnvironment) (startDefaultRef demoRun) demoDefinition) 0 = demoNewRun"
    by (simp add: demoNewRun_def)
  have names: "def_Agent (sd_SessionDefinition (demoStep n as p)) = (if p then ''writer'' else ''reader'')" for n as p
    by (simp add: demoStep_def)
  have sel: "wc_repository (serverWorkflows demoEnvironment) = runRepository (env_driver demoEnvironment)"
    "wc_now (serverWorkflows demoEnvironment) = lift_fun (env_now demoEnvironment)"
    by (simp_all add: serverWorkflows_def)
  show ?thesis
    by (simp add: workflow_Start_def demo_validate Let_def sel)
     (simp add: Let_def sorted_keys_def createRun_def sel demo_sessions createSnapshot_def new fields env op_run exec_def transaction_def
       lift_fun_def runRepository_def runs_Run_def runs_Create_def demoNewRun_encode
       statement_defs runWorld_def demoSnapshot_def demoWorld_def)
qed

lemma runWorld_reachable: "server_reachable demoEnvironment (runWorld obs)"
  using server_reachable.step [OF server_reachable.initial server_step.run_start, of "demoWorld obs" demoEnvironment
      demoRun]
  by (simp add: workflow_start_demo) (simp add: demoWorld_def)

lemma demo_graph: "graph_ok (wd_Steps demoDefinition)"
proof -
  have "validateGraph (wd_Steps demoDefinition) = None"
    by (simp add: validateGraph_def visit.simps stepAfter_def demoDefinition_def demoStep_def)
  then show ?thesis
    using validateGraph_None [of "wd_Steps demoDefinition"] by (simp add: demoDefinition_def)
qed

lemma demo_definition: "definition_ok demoDefinition"
  using demo_graph
  by (simp add: definition_ok_def) (simp add: demoDefinition_def maxWorkflowSteps_def maxParallelism_def
      step_ok_def demoStep_def)

lemma demo_catalog: "catalog_ok (env_catalog demoEnvironment)"
  using demo_definition
  by (auto simp: catalog_ok_def demoEnvironment_def catalogOf_def workflows_Find_def split: if_splits)

definition demoDone :: Task where
  "demoDone = demoTask\<lparr>task_State := TaskCompleted, task_Artifacts := taskArtifacts (obs_Artifacts completedObservation),
     task_FinishedAt := Some 1\<rparr>"

definition doneWorld :: "Demo world" where
  "doneWorld =
     \<lparr>w_db = sessionWithTask demoRecord demoDone emptyDatabase,
      w_env = (w_env (sessionWorld completedObservation))\<lparr>demo_clock := 2\<rparr>\<rparr>"

lemma demo_outcome: "string_field [(''status'', JString ''completed'')] ''status'' = ''completed''"
  "bad_field [''status''] (''status'', JString ''completed'') = False"
  by code_simp+

lemma demo_observed: "applyObservation demoTask completedObservation StoragePersistent 1 = (demoDone, None)"
  by (simp add: applyObservation_def applyOutcome_def completedObservation_def demoTask_def demoDone_def demo_outcome Let_def raw_empty_def requiredArtifacts_def taskArtifacts_def)

lemma demo_decode: "decodeSession (sessionParams demoRecord) = demoRecord" "decodeSessionTask (sessionTaskParams ''s'' t) = t"
  by (simp_all add: decodeSession_def sessionParams_def demoRecord_def decodeSessionTask_def sessionTaskParams_def
    decodeSessionDefinition_def encodeSessionDefinition_def demo_defs)


lemma demo_reliable: "reliable (env_driver demoEnvironment)"
  by (simp add: reliable_def demoEnvironment_def)

lemmas demo_exec = exec_reliable [OF demo_reliable]

lemma demo_sessions_read:
  "sessions_Get (env_driver demoEnvironment) ''s'' \<lparr>w_db = sessionWithTask demoRecord t emptyDatabase, w_env = e\<rparr> =
     (Inr demoRecord, \<lparr>w_db = sessionWithTask demoRecord t emptyDatabase, w_env = e\<rparr>)"
  "sessions_LatestTask (env_driver demoEnvironment) ''s'' \<lparr>w_db = sessionWithTask demoRecord t emptyDatabase, w_env = e\<rparr> =
     (Inr t, \<lparr>w_db = sessionWithTask demoRecord t emptyDatabase, w_env = e\<rparr>)"
  "task_ID t = task_ID u \<Longrightarrow> static_task u = static_task t \<Longrightarrow>
   sessions_UpdateTask (env_driver demoEnvironment) ''s'' u
     \<lparr>w_db = sessionWithTask demoRecord t emptyDatabase, w_env = e\<rparr> =
     (Inr (), \<lparr>w_db = sessionWithTask demoRecord u emptyDatabase, w_env = e\<rparr>)"
proof -
  have name: "sn_Name (sessionParams demoRecord) = ''s''" "rec_Name demoRecord = ''s''"
    "tk_SessionName (sessionTaskParams ''s'' t) = ''s''" "demoRecord\<lparr>rec_Deletion := None\<rparr> = demoRecord" for t
    by (simp_all add: sessionParams_def demoRecord_def sessionTaskParams_def)
  show "sessions_Get (env_driver demoEnvironment) ''s'' \<lparr>w_db = sessionWithTask demoRecord t emptyDatabase, w_env = e\<rparr> =
     (Inr demoRecord, \<lparr>w_db = sessionWithTask demoRecord t emptyDatabase, w_env = e\<rparr>)"
    by (simp add: sessions_Get_def op_run demo_exec GetSession_def one_row_def sessionWithTask_def name demo_decode emptyDatabase_def)
  show "sessions_LatestTask (env_driver demoEnvironment) ''s'' \<lparr>w_db = sessionWithTask demoRecord t emptyDatabase, w_env = e\<rparr> =
     (Inr t, \<lparr>w_db = sessionWithTask demoRecord t emptyDatabase, w_env = e\<rparr>)"
    by (simp add: sessions_LatestTask_def op_run demo_exec GetLatestSessionTask_def sessionWithTask_def name demo_decode emptyDatabase_def)
  show "task_ID t = task_ID u \<Longrightarrow> static_task u = static_task t \<Longrightarrow>
   sessions_UpdateTask (env_driver demoEnvironment) ''s'' u
     \<lparr>w_db = sessionWithTask demoRecord t emptyDatabase, w_env = e\<rparr> =
     (Inr (), \<lparr>w_db = sessionWithTask demoRecord u emptyDatabase, w_env = e\<rparr>)"
    by (simp add: sessions_UpdateTask_def require_row_def op_run demo_exec UpdateSessionTask_def sessionWithTask_def name
       emptyDatabase_def Let_def update_rows_def affected_def)
      (simp add: sessionTaskParams_def progressOf_def static_task_def)
qed

lemma session_status_demo:
  "session_Status (serverSessions demoEnvironment) ''s'' (sessionWorld completedObservation) =
     (Inr \<lparr>st_Name = ''s'', st_TaskID = ''s'', st_State = TaskCompleted\<rparr>, doneWorld)"
proof -
  have rec: "rec_RuntimeScope demoRecord = env_scope demoEnvironment" "rec_Name demoRecord = ''s''" 
     "def_Storage (rec_Definition demoRecord) = StoragePersistent" "\<not> taskTerminal (task_State demoTask)"
     "task_ID demoTask = ''s''" "static_task demoDone = static_task demoTask" "task_State demoDone = TaskCompleted"
    "task_ID demoDone = ''s''"
    by (simp_all add: demoRecord_def demo_defs demoTask_def demoDone_def static_task_def)
  have env: "env_observe demoEnvironment n t e = (Inr (demo_observation e), e)"
    "env_now demoEnvironment e = (demo_clock e, e\<lparr>demo_clock := demo_clock e + 1\<rparr>)" for n t e
    by (simp_all add: demoEnvironment_def)
  show ?thesis
  by (simp add: session_Status_def validateName_def session_lookup_def sessionWorld_def serverSessions_def
    serverRuntime_def sessionRepository_def op_run demo_sessions_read synchronizeLatestTask_def rec lift_env_def env observedTask_def
    lift_fun_def demo_observed doneWorld_def)
qed

lemma doneWorld_reachable: "server_reachable demoEnvironment doneWorld"
  using server_reachable.step [OF sessionWorld_reachable [of completedObservation]
      server_step.status [where name = "''s''"]]
  by (simp add: session_status_demo)

definition demoPublished :: PublishResult where
  "demoPublished = \<lparr>pr_PullRequestNumber = 7, pr_PullRequestURL = ''https://github.com/o/r/pull/7'',
     pr_Branch = ''b'', pr_CommitSHA = replicate 40 CHR ''a''\<rparr>"

lemma demo_metadata: "pullRequestMetadata (RawDoc (JObject [(''title'', JString ''t''), (''body'', JString ''b'')])) = Inr (''t'', ''b'')"
proof -
  have "string_field [(''title'', JString ''t''), (''body'', JString ''b'')] ''title'' = ''t''"
   "string_field [(''title'', JString ''t''), (''body'', JString ''b'')] ''body'' = ''b''"
   "bad_field [''title'', ''body''] (''title'', JString ''t'') = False"
   "bad_field [''title'', ''body''] (''body'', JString ''b'') = False"
   by code_simp+
  then show ?thesis by (simp add: pullRequestMetadata_def)
qed

lemma demo_prepare: "session_PreparePublication (serverSessions demoEnvironment) ''s'' doneWorld =
   (Inr \<lparr>src_Repository = ''https://github.com/o/r'', src_InitialRef = ''main'', src_Image = ''image'',
      src_PullRequest = ta_PullRequest (obs_Artifacts completedObservation), src_Change = None\<rparr>, doneWorld)"
proof -
  have rec: "rec_RuntimeScope demoRecord = env_scope demoEnvironment" "rec_Name demoRecord = ''s''" 
     "def_Storage (rec_Definition demoRecord) = StoragePersistent" "taskTerminal (task_State demoDone)"
     "task_ID demoTask = ''s''" "static_task demoDone = static_task demoTask" "task_State demoDone = TaskCompleted"
    "task_ID demoDone = ''s''" "rec_Deletion demoRecord = None" "rec_Repository demoRecord = ''https://github.com/o/r''"
    "rec_InitialRef demoRecord = ''main''" "rec_Image demoRecord = ''image''"
    by (simp_all add: demoRecord_def demo_defs demoTask_def demoDone_def static_task_def)
  show ?thesis
  by (simp add: session_PreparePublication_def validateName_def session_lookup_def doneWorld_def serverSessions_def
    serverRuntime_def sessionRepository_def op_run demo_sessions_read synchronizeLatestTask_def rec)
   (simp add: demoDone_def taskArtifacts_def completedObservation_def raw_empty_def)
qed

lemma demo_repository: "ParseRepository (env_parseURL demoEnvironment) ''https://github.com/o/r'' =
   Inr \<lparr>repo_owner = ''o'', repo_name = ''r''\<rparr>"
proof -
  have "split_slash [] (trim_slash ''/o/r'') = [''o'', ''r'']" "trim_suffix ''.git'' ''r'' = ''r''"
   "map ascii_fold ''github.com'' = ''github.com''" by code_simp+
  then show ?thesis by (simp add: ParseRepository_def demoEnvironment_def)
qed

lemma demo_commit_length [simp]: "hex_of_length 40 (replicate 40 CHR ''a'')" by code_simp


lemma demo_env:
  "env_now demoEnvironment = (\<lambda>e. (demo_clock e, e\<lparr>demo_clock := demo_clock e + 1\<rparr>))"
  "env_auth demoEnvironment = Some (\<lambda>e. (Inr ''token'', e))"
  "env_runPublisher demoEnvironment = (\<lambda>q e.
          ((\<lparr>po_Branch = pe_Branch q, po_CommitSHA = replicate 40 CHR ''a''\<rparr>, None),
           e\<lparr>demo_commit := replicate 40 CHR ''a''\<rparr>))"
  "env_deletePublisher demoEnvironment = (\<lambda>n e. (Inr (), e))"
  "env_github demoEnvironment = (\<lambda>token. demoAPI)"
  by (simp_all add: demoEnvironment_def)


text \<open>The world with a publication of the session.\<close>

definition pubWorld :: "PublishRecord \<Rightarrow> int \<Rightarrow> Demo \<Rightarrow> Demo world" where
  "pubWorld r k e =
     \<lparr>w_db = (sessionWithTask demoRecord demoDone emptyDatabase)
        \<lparr>db_publications := [\<lparr>pb_SessionName = ''s'', pb_Contents = r, pb_Version = k\<rparr>]\<rparr>, w_env = e\<rparr>"

lemma pubWorld_env [simp]: "w_env (pubWorld r k e) = e" "pubWorld r k e\<lparr>w_env := e'\<rparr> = pubWorld r k e'"
  by (simp_all add: pubWorld_def)

lemma demo_publication_create:
  assumes "pub_Session r = ''s''"
  shows "publications_Create (env_driver demoEnvironment) r
      \<lparr>w_db = sessionWithTask demoRecord demoDone emptyDatabase, w_env = e\<rparr> =
    (Inr (r\<lparr>pub_Revision := 1\<rparr>), pubWorld r 1 e)"
  by (simp add: publications_Create_def assms op_run demo_exec CreatePublication_def sessionExists_def
      sessionWithTask_def sessionParams_def demoRecord_def emptyDatabase_def Let_def decodePublication_def lift_def
      pubWorld_def)

lemma demo_publication_update:
  assumes "pub_Session r = ''s''" and "pub_Revision r = k"
  shows "publications_Update (env_driver demoEnvironment) r (pubWorld r0 k e) =
    (Inr (r\<lparr>pub_Revision := k + 1\<rparr>), pubWorld r (k + 1) e)"
  by (simp add: publications_Update_def assms op_run demo_exec UpdatePublication_def Let_def one_row_def
      update_rows_def decodePublication_def lift_def pubWorld_def)


abbreviation demoControl :: "Demo world PublishControl" where
  "demoControl \<equiv> serverPublish demoEnvironment"

lemma demo_control:
  "pc_PreparePublication demoControl = session_PreparePublication (serverSessions demoEnvironment)"
  "pc_parseURL demoControl = env_parseURL demoEnvironment"
  "bp_Create (pc_repository demoControl) = publications_Create (env_driver demoEnvironment)"
  "bp_Update (pc_repository demoControl) = publications_Update (env_driver demoEnvironment)"
  "pc_now demoControl = lift_fun (env_now demoEnvironment)"
  "pc_token demoControl = lift_env (\<lambda>e. (Inr ''token'', e))"
  "pc_newGitHubClient demoControl = newClient (\<lambda>token. lift_api demoAPI)"
  "pc_RunPublisher demoControl = (\<lambda>q. lift_fun (env_runPublisher demoEnvironment q))"
  "pc_DeletePublisher demoControl = (\<lambda>n. lift_env (env_deletePublisher demoEnvironment n))"
  by (simp_all add: serverPublish_def demo_env publishRepository_def)

definition demoQuery :: PublishRequest where
  "demoQuery = demoPublish\<lparr>pq_BaseBranch := ''main''\<rparr>"

definition demoPublication :: PublishRecord where
  "demoPublication = newPublishRecord demoControl demoQuery
     \<lparr>src_Repository = ''https://github.com/o/r'', src_InitialRef = ''main'', src_Image = ''image'',
      src_PullRequest = ta_PullRequest (obs_Artifacts completedObservation), src_Change = None\<rparr> (''t'', ''b'') 2"

lemma demoPublication_fields:
  "pub_Session demoPublication = ''s''" "pub_State demoPublication = PublishPending"
  "pub_Request demoPublication = demoQuery" "pub_CommitSHA demoPublication = []"
  by (simp_all add: demoPublication_def newPublishRecord_def demoQuery_def demoPublish_def)

lemma demoQuery_fields: "pq_Branch demoQuery = ''b''" "pq_BaseBranch demoQuery = ''main''"
  by (simp_all add: demoQuery_def demoPublish_def)

lemma demo_save:
  assumes "pub_Session r = ''s''" and "pub_Revision r = k"
  shows "save_publication demoControl r (pubWorld r0 k e) =
    (Inr (r\<lparr>pub_UpdatedAt := demo_clock e, pub_Revision := k + 1\<rparr>),
     pubWorld (r\<lparr>pub_UpdatedAt := demo_clock e\<rparr>) (k + 1) (e\<lparr>demo_clock := demo_clock e + 1\<rparr>))"
  by (simp add: save_publication_def op_run demo_control demo_env lift_fun_def demo_publication_update assms)

lemma demo_valid_result:
  "pub_Request r = demoQuery \<Longrightarrow> validResult r \<lparr>po_Branch = ''b'', po_CommitSHA = replicate 40 CHR ''a''\<rparr>"
  unfolding validResult_def using demo_commit_length by (simp add: demoQuery_fields)

text \<open>Publishing the completed session: branch, pull request 7, and the record is completed.\<close>

lemma demo_resume:
  assumes "demo_commit e = []" and "demo_pulls e = []"
  shows "\<exists>r k e'. resumePublication demoControl demoQuery \<lparr>repo_owner = ''o'', repo_name = ''r''\<rparr>
     (demoPublication\<lparr>pub_Revision := 1\<rparr>) (pubWorld demoPublication 1 e) = (Inr demoPublished, pubWorld r k e')"
  by (simp add: resumePublication_def demoPublication_fields op_run demo_control lift_env_def newClient_def
      establishOwnership_def FindOpenPullRequest_def BranchCommitSHA_def lift_api_def demoAPI_def lift_fun_def assms
      demo_save publishOwned_def publishBranch_def demo_env publisherRequest_def demoQuery_fields demo_valid_result
      branchPublished_def createPull_def WaitForBranchCommit_def waitForBranchCommit.simps CreatePullRequest_def
      pullRequestFromAPI_def recordPull_def finish_publication_def recordResult_def demoPublished_def Let_def) blast

lemma Publish_demo: "\<exists>r k e. Publish demoControl demoPublish doneWorld = (Inr demoPublished, pubWorld r k e)"
proof -
  have w: "doneWorld = \<lparr>w_db = sessionWithTask demoRecord demoDone emptyDatabase,
    w_env = \<lparr>demo_clock = 2, demo_requests = [taskRequest demoRecord demoTask False ''token''],
                demo_observation = completedObservation, demo_commit = [], demo_pulls = []\<rparr>\<rparr>"
    by (simp_all add: doneWorld_def sessionWorld_def)
  have pm: "pullRequestMetadata (ta_PullRequest (obs_Artifacts completedObservation)) = Inr (''t'', ''b'')"
    using demo_metadata by (simp add: completedObservation_def)
  have v: "validatePublish demoPublish = None" "pq_Session demoPublish = ''s''" "pq_BaseBranch demoPublish = []"
    by (simp_all add: validatePublish_def demoPublish_def second_def)
  obtain r k e where "resumePublication demoControl demoQuery \<lparr>repo_owner = ''o'', repo_name = ''r''\<rparr>
     (demoPublication\<lparr>pub_Revision := 1\<rparr>) (pubWorld demoPublication 1 ((w_env doneWorld)\<lparr>demo_clock := 3\<rparr>)) =
     (Inr demoPublished, pubWorld r k e)" using demo_resume [of "(w_env doneWorld)\<lparr>demo_clock := 3\<rparr>"] by (auto simp: w)
  then show ?thesis
    by (simp add: Publish_def v publish_def Let_def demo_control op_run lift_fun_def demo_env demo_prepare
        demo_repository pm createOrLoad_def demoQuery_def [symmetric] demoPublication_def [symmetric])
      (simp add: w op_run demoQuery_def [symmetric] demoPublication_def [symmetric] demo_publication_create demoPublication_fields, blast)
qed

text \<open>A continuation of the completed session, and a repetition of its first request.\<close>

definition demoContinue :: ContinueRequest where
  "demoContinue = \<lparr>cont_Name = ''s'', cont_Prompt = ''q'', cont_Timeout = 60\<rparr>"

definition demoContinuation :: Task where
  "demoContinuation = continuationTask demoContinue 60 ''727272727272'' 2"

definition continuedWorld :: "Demo world" where
  "continuedWorld =
     \<lparr>w_db = (sessionWithTask demoRecord demoDone emptyDatabase)
        \<lparr>db_tasks := [sessionTaskParams ''s'' demoDone, sessionTaskParams ''s'' demoContinuation]\<rparr>,
      w_env = \<lparr>demo_clock = 3,
        demo_requests = [taskRequest demoRecord demoTask False ''token'',
                         taskRequest demoRecord demoContinuation True []],
        demo_observation = completedObservation, demo_commit = [], demo_pulls = []\<rparr>\<rparr>"

lemma demo_continue_texts:
  "hex_encode (replicate 6 CHR ''r'') = ''727272727272''" by code_simp

lemma demoRecord_fields:
  "rec_RuntimeScope demoRecord = env_scope demoEnvironment" "rec_Name demoRecord = ''s''"
  "def_Storage (rec_Definition demoRecord) = StoragePersistent" "rec_Deletion demoRecord = None"
  "rec_IntentID demoRecord = ''70616263''"
  by (simp_all add: demoRecord_def demo_defs)

lemma doneWorld_eq: "doneWorld = \<lparr>w_db = sessionWithTask demoRecord demoDone emptyDatabase,
    w_env = \<lparr>demo_clock = 2, demo_requests = [taskRequest demoRecord demoTask False ''token''],
                demo_observation = completedObservation, demo_commit = [], demo_pulls = []\<rparr>\<rparr>"
  by (simp add: doneWorld_def sessionWorld_def)

lemma demo_add:
  "sessions_AddTask (env_driver demoEnvironment) ''s'' demoContinuation
      \<lparr>w_db = sessionWithTask demoRecord demoDone emptyDatabase, w_env = e\<rparr> =
     (Inr (), \<lparr>w_db = w_db continuedWorld, w_env = e\<rparr>)"
proof -
  have "tk_SessionName (sessionTaskParams ''s'' t) = ''s''" "tk_TaskID (sessionTaskParams ''s'' t) = task_ID t"
     "tk_State (sessionTaskParams ''s'' t) = task_State t"
    "sn_Name (sessionParams demoRecord) = ''s''" "task_ID demoDone = ''s''" "task_ID demoContinuation = ''s-727272727272''"
    "task_State demoDone = TaskCompleted" "task_State demoContinuation = TaskPending" for t
    by (simp_all add: sessionTaskParams_def sessionParams_def demoRecord_def demoDone_def demoTask_def demoContinuation_def continuationTask_def demoContinue_def)
  then show ?thesis
    by (simp add: sessions_AddTask_def op_run demo_exec statement_defs sessionWithTask_def continuedWorld_def demoRecord_fields)
qed

lemma session_continue_demo:
  "session_Continue (serverSessions demoEnvironment) demoContinue doneWorld =
     (Inr \<lparr>tr_Name = ''s'', tr_TaskID = ''727272727272''\<rparr>, continuedWorld)"
proof -
  have env: "env_random demoEnvironment = (\<lambda>n e. (Inr (replicate n CHR ''r''), e))"
    "env_start demoEnvironment = (\<lambda>q e. (Inr (), e\<lparr>demo_requests := demo_requests e @ [q]\<rparr>))"
    by (simp_all add: demoEnvironment_def)
  have valid: "validateContinue demoContinue 60 = None" "cont_Timeout demoContinue = 60" "cont_Name demoContinue = ''s''"
    by (simp_all add: validateContinue_def demoContinue_def)
  have t: "taskTerminal (task_State demoDone)" by (simp add: demoDone_def)
  have c: "continuationTask demoContinue 60 ''727272727272'' 2 = demoContinuation" by (simp add: demoContinuation_def)
  have hex: "hex_encode [CHR ''r'', CHR ''r'', CHR ''r'', CHR ''r'', CHR ''r'', CHR ''r''] = ''727272727272''"
    using demo_continue_texts by (simp add: numeral_eq_Suc)
  show ?thesis
    by (simp add: session_Continue_def Let_def valid session_lookup_def doneWorld_eq serverSessions_def
      serverRuntime_def sessionRepository_def op_run demo_sessions_read synchronizeLatestTask_def demoRecord_fields
      randomTaskID_def lift_env_def env demo_continue_texts hex addContinuation_def lift_fun_def demo_env c demo_add t)
     (simp add: continuedWorld_def)
qed

lemma continued_latest: "sessions_LatestTask (env_driver demoEnvironment) ''s'' \<lparr>w_db = w_db continuedWorld, w_env = e\<rparr> =
   (Inr demoContinuation, \<lparr>w_db = w_db continuedWorld, w_env = e\<rparr>)"
proof -
  have "tk_SessionName (sessionTaskParams ''s'' t) = ''s''" "tk_CreatedAt (sessionTaskParams ''s'' t) = task_CreatedAt t"
    "task_CreatedAt demoDone = 0" "task_CreatedAt demoContinuation = 2" for t
    by (simp_all add: sessionTaskParams_def demoDone_def demoTask_def demoContinuation_def continuationTask_def)
  then show ?thesis
    by (simp add: sessions_LatestTask_def op_run demo_exec GetLatestSessionTask_def continuedWorld_def newerTask_def)
qed

lemma continued_get: "sessions_Get (env_driver demoEnvironment) ''s'' \<lparr>w_db = w_db continuedWorld, w_env = e\<rparr> =
   (Inr demoRecord, \<lparr>w_db = w_db continuedWorld, w_env = e\<rparr>)"
  using demo_sessions_read(1) [of demoDone e]
  by (simp add: sessions_Get_def op_run demo_exec GetSession_def continuedWorld_def throw_def split: sum.splits if_splits)

lemma continued_create: "sessionExists (w_db continuedWorld) ''s''"
  by (simp add: continuedWorld_def sessionExists_def sessionWithTask_def sessionParams_def demoRecord_def)


lemma session_restart_demo:
  "session_Start (serverSessions demoEnvironment) demoAgent (demoStart ''p'')
      \<lparr>w_db = w_db continuedWorld, w_env = e\<rparr> =
     (Inr \<lparr>res_Agent = ''writer'', res_Name = ''s'', res_TaskID = ''s-727272727272''\<rparr>,
      \<lparr>w_db = w_db continuedWorld, w_env = e\<lparr>demo_clock := demo_clock e + 1,
         demo_requests := demo_requests e @ [taskRequest demoRecord demoContinuation False ''token'']\<rparr>\<rparr>)"
proof -
  let ?w = "\<lparr>w_db = w_db continuedWorld, w_env = e\<lparr>demo_clock := demo_clock e + 1\<rparr>\<rparr>"
  have texts: "def_Agent demoAgent = ''writer''" "req_Name (demoStart ''p'') = ''s''" "task_ID demoTask = ''s''"
    "task_ID demoContinuation = ''s-727272727272''" "\<not> taskTerminal (task_State demoContinuation)"
    by (simp_all add: demo_defs demoTask_def demoContinuation_def continuationTask_def demoContinue_def)
  obtain rec t where i: "initialIntent (serverSessions demoEnvironment) demoAgent (demoStart ''p'')
      \<lparr>w_db = w_db continuedWorld, w_env = e\<rparr> = ((rec, t), ?w)" and name: "rec_Name rec = ''s''"
    by (simp add: initialIntent_def serverSessions_def lift_fun_def demo_env texts)
  have c: "sessions_Create (env_driver demoEnvironment) rec t ?w = (Inl (Sentinel SessionErrConflict), ?w)"
    using sessions_Create_existing(3) [OF _ _ demo_reliable, of ?w rec t] continued_create name
    by (cases "sessions_Create (env_driver demoEnvironment) rec t ?w") simp
  have intent: "taskIntentID (serverSessions demoEnvironment) demoAgent (demoStart ''p'') = rec_IntentID demoRecord"
    by (simp add: demo_intent demoRecord_fields)
  have env: "env_start demoEnvironment = (\<lambda>q e. (Inr (), e\<lparr>demo_requests := demo_requests e @ [q]\<rparr>))"
    by (simp add: demoEnvironment_def)
  have sel: "sc_repository (serverSessions demoEnvironment) = sessionRepository (env_driver demoEnvironment)"
    "rt_Start (sc_runtime (serverSessions demoEnvironment)) = (\<lambda>q. lift_env (env_start demoEnvironment q))"
    "sc_repositoryAuth (serverSessions demoEnvironment) = Some (lift_env (\<lambda>e. (Inr ''token'', e)))"
    by (simp_all add: serverSessions_def serverRuntime_def demo_env)
  show ?thesis
    unfolding session_Start_def Let_def demo_defaults demo_valid [OF demo_texts(1)]
    by (simp add: op_run i recordIntent_def sel sessionRepository_def c texts continued_get continued_latest intent
      ensureExecution_def repositoryCredential_def lift_env_def env)
qed

end
