(* ===== verification/Error_Kinds.thy ===== *)
theory Error_Kinds
  imports Session_Control Workflow_Control Publish_Control Agents
begin

text \<open>
  Which errors an operation can return.  The control plane maps the kind of an operation's error to
  the status of its answer (\<open>session.ErrorKindOf\<close> and its copies), so every error of a public
  operation has to carry a kind.
\<close>

definition fails_with :: "(err \<Rightarrow> bool) \<Rightarrow> ('w, 'a) op \<Rightarrow> bool" where
  "fails_with P m \<longleftrightarrow> (\<forall>w e. fst (m w) = Inl e \<longrightarrow> P e)"

named_theorems fails_intros "rules that prove that an operation only fails with certain errors"

lemma fails_ret [fails_intros]: "fails_with P (ret a)"
  by (simp add: fails_with_def)

lemma fails_throw [fails_intros]: "P e \<Longrightarrow> fails_with P (throw e)"
  by (simp add: fails_with_def)

lemma fails_total [fails_intros]: "fails_with P (total f)"
  by (auto simp: fails_with_def total_def split: prod.splits)

lemma fails_handle [fails_intros]:
  "(\<And>e. fails_with P (h e)) \<Longrightarrow> (\<And>a. fails_with P (k a)) \<Longrightarrow> fails_with P (handle m h k)"
  by (auto simp: fails_with_def handle_def split: prod.splits sum.splits)

lemma fails_andThen [fails_intros]:
  "fails_with P m \<Longrightarrow> (\<And>a. fails_with P (k a)) \<Longrightarrow> fails_with P (andThen m k)"
  unfolding fails_with_def andThen_def handle_def
  by (auto split: prod.splits sum.splits) (metis fst_conv)

lemma fails_if [fails_intros]:
  "(c \<Longrightarrow> fails_with P a) \<Longrightarrow> (\<not> c \<Longrightarrow> fails_with P b) \<Longrightarrow> fails_with P (if c then a else b)"
  by simp

lemma fails_require [fails_intros]:
  "(\<And>e. c = Some e \<Longrightarrow> P (wrap e)) \<Longrightarrow> fails_with P k \<Longrightarrow> fails_with P (require c wrap k)"
  by (auto simp: require_def fails_throw split: option.split)

lemma fails_result: "fails_with P m \<Longrightarrow> m w = (Inl e, w') \<Longrightarrow> P e"
  by (metis fails_with_def fst_conv)

section \<open>Session control\<close>

text \<open>
  The messages of the errors that a client may retry.  None of them shows its cause.
\<close>

definition sessionMessages :: "string list" where
  "sessionMessages =
     [''read session failed'', ''read session task failed'', ''observe session task failed'',
      ''record session task observation failed'', ''record session intent failed'',
      ''read existing session failed'', ''read existing session task failed'',
      ''prepare repository credential failed'', ''start session execution failed'',
      ''record session task failed'', ''start session task failed'', ''create task identity failed'',
      ''session task has no outcome artifact'', ''stream session logs failed'',
      ''read session before deletion failed'', ''record session deletion failed'',
      ''destroy session failed'', ''delete session failed'',
      ''session task has no pull request artifact'']"

definition session_classified :: "err \<Rightarrow> bool" where
  "session_classified e \<longleftrightarrow> (\<exists>k m c. e = OpError PkgSession k m c \<and>
     (k = ErrorUnavailable \<longrightarrow> m \<in> set sessionMessages))"

lemma session_classified_simps [simp]:
  "session_classified (sessionError k m c) \<longleftrightarrow> (k = ErrorUnavailable \<longrightarrow> m \<in> set sessionMessages)"
  "session_classified (unavailable m e) \<longleftrightarrow> m \<in> set sessionMessages"
  by (simp_all add: session_classified_def sessionError_def unavailable_def)

lemma session_classified_kind: "session_classified e \<Longrightarrow> ErrorKindOf PkgSession e \<noteq> None"
  by (auto simp: session_classified_def)

lemma validateName_classified: "validateName name = Some e \<Longrightarrow> session_classified e"
  by (auto simp: validateName_def split: if_splits)

lemma validateContinue_classified: "validateContinue r t = Some e \<Longrightarrow> session_classified e"
  by (auto simp: validateContinue_def split: if_splits)

lemma lookup_classified: "fails_with session_classified (session_lookup c name)"
  unfolding session_lookup_def by (intro fails_intros; simp add: sessionMessages_def)

lemma synchronize_classified: "fails_with session_classified (synchronizeLatestTask c rec)"
  unfolding synchronizeLatestTask_def by (intro fails_intros; simp add: sessionMessages_def)

lemma recordIntent_classified: "fails_with session_classified (recordIntent c d r rec t)"
  unfolding recordIntent_def by (intro fails_intros; simp add: sessionMessages_def)

lemma ensureExecution_classified: "fails_with session_classified (ensureExecution c p)"
  unfolding ensureExecution_def by (cases p) (auto simp: sessionMessages_def intro!: fails_intros)

lemma addContinuation_classified: "fails_with session_classified (addContinuation c r timeout rec tid)"
  unfolding addContinuation_def Let_def by (intro fails_intros; simp add: sessionMessages_def)

lemma session_operations_classified:
  "fails_with session_classified (session_Start c d q)"
  "fails_with session_classified (session_Continue c cr)"
  "fails_with session_classified (session_Status c name)"
  "fails_with session_classified (session_Artifacts c name)"
  "fails_with session_classified (session_WriteLogs c name follow)"
  "fails_with session_classified (session_PreparePublication c name)"
  "fails_with session_classified (session_delete c name storage)"
proof -
  show "fails_with session_classified (session_Start c d q)"
    unfolding session_Start_def Let_def
    by (auto simp: sessionMessages_def intro!: fails_intros recordIntent_classified ensureExecution_classified split: prod.splits)
  show "fails_with session_classified (session_Continue c cr)"
    unfolding session_Continue_def Let_def
    by (auto simp: sessionMessages_def intro!: fails_intros lookup_classified synchronize_classified addContinuation_classified
        dest: validateContinue_classified)
  show "fails_with session_classified (session_Status c name)"
    unfolding session_Status_def
    by (auto simp: sessionMessages_def intro!: fails_intros lookup_classified synchronize_classified
        dest: validateName_classified)
  show "fails_with session_classified (session_Artifacts c name)"
    unfolding session_Artifacts_def
    by (auto simp: sessionMessages_def intro!: fails_intros lookup_classified synchronize_classified
        dest: validateName_classified)
  show "fails_with session_classified (session_WriteLogs c name follow)"
    unfolding session_WriteLogs_def
    by (auto simp: sessionMessages_def intro!: fails_intros dest: validateName_classified)
  show "fails_with session_classified (session_PreparePublication c name)"
    unfolding session_PreparePublication_def
    by (auto simp: sessionMessages_def intro!: fails_intros lookup_classified synchronize_classified
        dest: validateName_classified)
  show "fails_with session_classified (session_delete c name storage)"
    unfolding session_delete_def
    by (auto simp: sessionMessages_def intro!: fails_intros dest: validateName_classified)
qed

section \<open>Workflow control\<close>

definition workflowMessages :: "string list" where
  "workflowMessages =
     [''create workflow run failed'', ''read existing workflow run failed'', ''read workflow run failed'',
      ''update workflow run failed'']"

definition workflow_classified :: "err \<Rightarrow> bool" where
  "workflow_classified e \<longleftrightarrow> (\<exists>k m c. e = OpError PkgWorkflow k m c \<and>
     (k = ErrorUnavailable \<longrightarrow> m \<in> set workflowMessages))"

lemma workflow_classified_simps [simp]:
  "workflow_classified (workflowError k m c) \<longleftrightarrow> (k = ErrorUnavailable \<longrightarrow> m \<in> set workflowMessages)"
  "workflow_classified (differentInputs name)"
  by (simp_all add: workflow_classified_def workflowError_def differentInputs_def)

lemma workflow_classified_kind: "workflow_classified e \<Longrightarrow> ErrorKindOf PkgWorkflow e \<noteq> None"
  by (auto simp: workflow_classified_def)

lemma validateRunStart_classified: "validateRunStart c q = Inl e \<Longrightarrow> workflow_classified e"
  by (auto simp: validateRunStart_def split: option.splits if_splits)

lemma load_run_classified: "fails_with workflow_classified (load_run c name)"
  unfolding load_run_def by (intro fails_intros; simp add: workflowMessages_def)

lemma stamp_and_save_classified: "fails_with workflow_classified (stamp_and_save c run)"
  unfolding stamp_and_save_def save_run_def by (intro fails_intros; simp add: workflowMessages_def)

lemma workflow_operations_classified:
  "fails_with workflow_classified (workflow_Start c q)"
  "fails_with workflow_classified (workflow_Get c name)"
  "fails_with workflow_classified (workflow_Artifacts c name)"
  "fails_with workflow_classified (workflow_Cancel c name)"
proof -
  show "fails_with workflow_classified (workflow_Start c q)"
    unfolding workflow_Start_def createRun_def Let_def
    by (auto simp: workflowMessages_def intro!: fails_intros dest: validateRunStart_classified split: sum.split)
  show "fails_with workflow_classified (workflow_Get c name)"
    by (simp add: workflow_Get_def load_run_classified)
  show "fails_with workflow_classified (workflow_Artifacts c name)"
    unfolding workflow_Artifacts_def workflow_Get_def by (intro fails_intros load_run_classified)
  show "fails_with workflow_classified (workflow_Cancel c name)"
    unfolding workflow_Cancel_def
    by (intro fails_intros load_run_classified stamp_and_save_classified)
qed

section \<open>Publish control\<close>

lemma Publish_classified:
  "fails_with (\<lambda>e. \<exists>k m c. e = OpError PkgPublish k m c \<and> k \<noteq> ErrorNotFound \<and>
     (k = ErrorUnavailable \<longrightarrow> m = ''publish session failed'')) (Publish c q)"
  unfolding Publish_def
  by (auto intro!: fails_intros split: option.split)

section \<open>Agent control\<close>

lemma agent_Start_classified:
  "fails_with (\<lambda>e. \<exists>k m c. e = OpError PkgAgent k m c \<and>
     (k = ErrorUnavailable \<longrightarrow> m = ''start session failed'')) (agent_Start c q)"
  unfolding agent_Start_def agentError_def
  by (auto intro!: fails_intros split: option.split)

end
