(* ===== verification/Session_Locks.thy ===== *)
theory Session_Locks
  imports Prelude
begin

text \<open>
  The per-session locks of session control (\<open>Control.lock\<close> and the function that it returns, in
  \<open>internal/session/control.go\<close>).  The map \<open>locks\<close> holds pointers to reference-counted locks, so the
  model has a heap of lock objects, and an entry is deleted and created again as sessions come and
  go.  The parts of the code that hold \<open>locksMu\<close> are atomic steps; any number of threads take the
  steps in any order.
\<close>

section \<open>The code\<close>

text \<open>A \<open>sessionLock\<close>: the thread that holds its mutex, if any, and its number of users.\<close>

record sessionLock =
  lock_holder :: "nat option"
  lock_users :: int

text \<open>
  Where a thread is: outside, waiting for the mutex of a lock object, holding it, or between
  unlocking the mutex and giving its reference back.
\<close>

datatype position =
    Outside
  | Waiting string nat
  | Holding string nat
  | Leaving string nat

record locks =
  lk_locks :: "string \<Rightarrow> nat option"
  lk_heap :: "nat \<Rightarrow> sessionLock"
  lk_next :: nat
  lk_position :: "nat \<Rightarrow> position"

definition noLocks :: locks where
  "noLocks = \<lparr>lk_locks = (\<lambda>_. None), lk_heap = (\<lambda>_. \<lparr>lock_holder = None, lock_users = 0\<rparr>), lk_next = 0,
              lk_position = (\<lambda>_. Outside)\<rparr>"

text \<open>From \<open>locksMu.Lock()\<close> to \<open>locksMu.Unlock()\<close> in \<open>lock\<close>: find or create the lock, count a user.\<close>

definition takeReference :: "nat \<Rightarrow> string \<Rightarrow> locks \<Rightarrow> locks" where
  "takeReference t name s =
     (case lk_locks s name of
        Some l \<Rightarrow>
          s\<lparr>lk_heap := (lk_heap s)(l := (lk_heap s l)\<lparr>lock_users := lock_users (lk_heap s l) + 1\<rparr>),
            lk_position := (lk_position s)(t := Waiting name l)\<rparr>
      | None \<Rightarrow>
          let l = lk_next s
          in s\<lparr>lk_locks := (lk_locks s)(name := Some l),
               lk_heap := (lk_heap s)(l := \<lparr>lock_holder = None, lock_users = 1\<rparr>),
               lk_next := l + 1, lk_position := (lk_position s)(t := Waiting name l)\<rparr>)"

text \<open>\<open>lock.mutex.Lock()\<close>, when the mutex is free, and \<open>lock.mutex.Unlock()\<close>.\<close>

definition enterMutex :: "nat \<Rightarrow> string \<Rightarrow> nat \<Rightarrow> locks \<Rightarrow> locks" where
  "enterMutex t name l s =
     s\<lparr>lk_heap := (lk_heap s)(l := (lk_heap s l)\<lparr>lock_holder := Some t\<rparr>),
       lk_position := (lk_position s)(t := Holding name l)\<rparr>"

definition leaveMutex :: "nat \<Rightarrow> string \<Rightarrow> nat \<Rightarrow> locks \<Rightarrow> locks" where
  "leaveMutex t name l s =
     s\<lparr>lk_heap := (lk_heap s)(l := (lk_heap s l)\<lparr>lock_holder := None\<rparr>),
       lk_position := (lk_position s)(t := Leaving name l)\<rparr>"

text \<open>The last part of the returned function: give the reference back, drop an unused lock.\<close>

definition dropReference :: "nat \<Rightarrow> string \<Rightarrow> nat \<Rightarrow> locks \<Rightarrow> locks" where
  "dropReference t name l s =
     (let users = lock_users (lk_heap s l) - 1
      in s\<lparr>lk_heap := (lk_heap s)(l := (lk_heap s l)\<lparr>lock_users := users\<rparr>),
           lk_locks := (if users = 0 then (lk_locks s)(name := None) else lk_locks s),
           lk_position := (lk_position s)(t := Outside)\<rparr>)"

inductive lock_step :: "locks \<Rightarrow> locks \<Rightarrow> bool" where
  take: "lk_position s t = Outside \<Longrightarrow> lock_step s (takeReference t name s)"
| enter: "lk_position s t = Waiting name l \<Longrightarrow> lock_holder (lk_heap s l) = None \<Longrightarrow>
     lock_step s (enterMutex t name l s)"
| leave: "lk_position s t = Holding name l \<Longrightarrow> lock_step s (leaveMutex t name l s)"
| drop: "lk_position s t = Leaving name l \<Longrightarrow> lock_step s (dropReference t name l s)"

definition lock_reachable :: "locks \<Rightarrow> bool" where
  "lock_reachable s \<longleftrightarrow> lock_step\<^sup>*\<^sup>* noLocks s"

section \<open>The invariant\<close>

text \<open>The lock object that a thread refers to, and the threads that refer to one.\<close>

fun reference :: "position \<Rightarrow> (string \<times> nat) option" where
  "reference Outside = None"
| "reference (Waiting name l) = Some (name, l)"
| "reference (Holding name l) = Some (name, l)"
| "reference (Leaving name l) = Some (name, l)"

definition users :: "locks \<Rightarrow> nat \<Rightarrow> nat set" where
  "users s l = {t. \<exists>name. reference (lk_position s t) = Some (name, l)}"

definition refs_ok :: "locks \<Rightarrow> bool" where
  "refs_ok s \<longleftrightarrow>
     (\<forall>t name l. reference (lk_position s t) = Some (name, l) \<longrightarrow> lk_locks s name = Some l)"

definition counts_ok :: "locks \<Rightarrow> bool" where
  "counts_ok s \<longleftrightarrow>
     (\<forall>name l. lk_locks s name = Some l \<longrightarrow> l < lk_next s \<and> users s l \<noteq> {} \<and> finite (users s l)
        \<and> lock_users (lk_heap s l) = int (card (users s l)))"

definition names_ok :: "locks \<Rightarrow> bool" where
  "names_ok s \<longleftrightarrow>
     (\<forall>name name' l. lk_locks s name = Some l \<longrightarrow> lk_locks s name' = Some l \<longrightarrow> name = name')"

definition holders_ok :: "locks \<Rightarrow> bool" where
  "holders_ok s \<longleftrightarrow>
     (\<forall>t name l. lk_position s t = Holding name l \<longleftrightarrow>
        lk_locks s name = Some l \<and> lock_holder (lk_heap s l) = Some t)"

definition locks_ok :: "locks \<Rightarrow> bool" where
  "locks_ok s \<longleftrightarrow> refs_ok s \<and> counts_ok s \<and> names_ok s \<and> holders_ok s"

lemma refsD: "refs_ok s \<Longrightarrow> reference (lk_position s t) = Some (name, l) \<Longrightarrow> lk_locks s name = Some l"
  by (simp add: refs_ok_def)

lemma countsD:
  "counts_ok s \<Longrightarrow> lk_locks s name = Some l \<Longrightarrow>
     l < lk_next s \<and> users s l \<noteq> {} \<and> finite (users s l) \<and> lock_users (lk_heap s l) = int (card (users s l))"
  by (simp add: counts_ok_def)

lemma namesD: "names_ok s \<Longrightarrow> lk_locks s name = Some l \<Longrightarrow> lk_locks s name' = Some l \<Longrightarrow> name = name'"
  unfolding names_ok_def by blast

lemma holdersD:
  "holders_ok s \<Longrightarrow> lk_position s t = Holding name l \<longleftrightarrow>
     lk_locks s name = Some l \<and> lock_holder (lk_heap s l) = Some t"
  unfolding holders_ok_def by blast

lemma noLocks_ok: "locks_ok noLocks"
  by (simp add: locks_ok_def refs_ok_def counts_ok_def names_ok_def holders_ok_def noLocks_def)

text \<open>A step that moves one thread but not its reference.\<close>

lemma users_same:
  assumes "reference p = reference (lk_position s t)"
  shows "users (s\<lparr>lk_heap := h, lk_position := (lk_position s)(t := p)\<rparr>) l = users s l"
  using assms by (auto simp: users_def)

lemma same_reference_ok:
  assumes ok: "refs_ok s" "counts_ok s" "names_ok s"
    and same: "reference p = reference (lk_position s t)"
    and count: "\<And>l. lock_users (h l) = lock_users (lk_heap s l)"
  shows "refs_ok (s\<lparr>lk_heap := h, lk_position := (lk_position s)(t := p)\<rparr>)"
    and "counts_ok (s\<lparr>lk_heap := h, lk_position := (lk_position s)(t := p)\<rparr>)"
    and "names_ok (s\<lparr>lk_heap := h, lk_position := (lk_position s)(t := p)\<rparr>)"
  using ok same count
  by (auto simp: refs_ok_def counts_ok_def names_ok_def users_same)

lemma enterMutex_ok:
  assumes ok: "locks_ok s" and at: "lk_position s t = Waiting name l"
    and free: "lock_holder (lk_heap s l) = None"
  shows "locks_ok (enterMutex t name l s)"
proof -
  let ?h = "(lk_heap s)(l := (lk_heap s l)\<lparr>lock_holder := Some t\<rparr>)"
  have l: "lk_locks s name = Some l" using ok at refsD [of s t name l] by (simp add: locks_ok_def)
  have hold: "holders_ok s" using ok by (simp add: locks_ok_def)
  have "holders_ok (enterMutex t name l s)"
    unfolding holders_ok_def
  proof (intro allI)
    fix u n k
    show "(lk_position (enterMutex t name l s) u = Holding n k) =
        (lk_locks (enterMutex t name l s) n = Some k \<and>
         lock_holder (lk_heap (enterMutex t name l s) k) = Some u)"
      using holdersD [OF hold, of u n k] holdersD [OF hold, of t n k] at free l
        namesD [of s name l n] ok
      by (cases "k = l"; cases "u = t") (auto simp: enterMutex_def locks_ok_def)
  qed
  with same_reference_ok [of s "Holding name l" t ?h] ok at show ?thesis
    by (simp add: locks_ok_def enterMutex_def)
qed

lemma leaveMutex_ok:
  assumes ok: "locks_ok s" and at: "lk_position s t = Holding name l"
  shows "locks_ok (leaveMutex t name l s)"
proof -
  let ?h = "(lk_heap s)(l := (lk_heap s l)\<lparr>lock_holder := None\<rparr>)"
  have hold: "holders_ok s" using ok by (simp add: locks_ok_def)
  have "holders_ok (leaveMutex t name l s)"
    unfolding holders_ok_def
  proof (intro allI)
    fix u n k
    show "(lk_position (leaveMutex t name l s) u = Holding n k) =
        (lk_locks (leaveMutex t name l s) n = Some k \<and>
         lock_holder (lk_heap (leaveMutex t name l s) k) = Some u)"
      using holdersD [OF hold, of u n k] holdersD [OF hold, of t n k] holdersD [OF hold, of t name l] at
      by (cases "k = l"; cases "u = t") (auto simp: leaveMutex_def)
  qed
  with same_reference_ok [of s "Leaving name l" t ?h] ok at show ?thesis
    by (simp add: locks_ok_def leaveMutex_def)
qed

lemma takeReference_ok:
  assumes ok: "locks_ok s" and at: "lk_position s t = Outside"
  shows "locks_ok (takeReference t name s)"
proof (cases "lk_locks s name")
  case None
  let ?s = "takeReference t name s" and ?l = "lk_next s"
  have refs: "refs_ok s" and counts: "counts_ok s" and hold: "holders_ok s" and names: "names_ok s"
    using ok by (simp_all add: locks_ok_def)
  have fresh: "lk_locks s n \<noteq> Some ?l" for n
    using countsD [OF counts, of n ?l] by auto
  then have unused: "reference (lk_position s u) \<noteq> Some (n, ?l)" for u n
    using refsD [OF refs] by blast
  have users_new: "users ?s ?l = {t}"
    using None unused by (auto simp: users_def takeReference_def Let_def)
  have users_old: "users ?s k = users s k" if "k \<noteq> ?l" for k
    using None at that by (auto simp: users_def takeReference_def Let_def)
  have "refs_ok ?s"
    using None refs by (auto simp: refs_ok_def takeReference_def Let_def)
  moreover have "counts_ok ?s"
    unfolding counts_ok_def
  proof (intro allI impI)
    fix n k assume "lk_locks ?s n = Some k"
    then show "k < lk_next ?s \<and> users ?s k \<noteq> {} \<and> finite (users ?s k) \<and>
        lock_users (lk_heap ?s k) = int (card (users ?s k))"
      using None fresh [of n] users_new users_old [of k] countsD [OF counts, of n k]
      by (cases "k = ?l") (auto simp: takeReference_def Let_def split: if_splits)
  qed
  moreover have "names_ok ?s"
    using None names fresh by (auto simp: names_ok_def takeReference_def Let_def)
  moreover have "holders_ok ?s"
    unfolding holders_ok_def
  proof (intro allI)
    fix u n k
    show "(lk_position ?s u = Holding n k) =
        (lk_locks ?s n = Some k \<and> lock_holder (lk_heap ?s k) = Some u)"
      using None at fresh [of n] holdersD [OF hold, of u n k] unused [of u n]
      by (cases "k = ?l"; cases "u = t"; cases "n = name") (auto simp: takeReference_def Let_def)
  qed
  ultimately show ?thesis by (simp add: locks_ok_def)
next
  case (Some l)
  let ?s = "takeReference t name s"
  have refs: "refs_ok s" and counts: "counts_ok s" and hold: "holders_ok s" and names: "names_ok s"
    using ok by (simp_all add: locks_ok_def)
  have users_l: "users ?s l = insert t (users s l)"
    using Some by (auto simp: users_def takeReference_def)
  have users_old: "users ?s k = users s k" if "k \<noteq> l" for k
    using Some at that by (auto simp: users_def takeReference_def)
  have "t \<notin> users s l" using at by (simp add: users_def)
  then have card: "card (insert t (users s l)) = card (users s l) + 1"
    using countsD [OF counts Some] by simp
  have "refs_ok ?s"
    using Some refs by (auto simp: refs_ok_def takeReference_def)
  moreover have "counts_ok ?s"
    unfolding counts_ok_def
  proof (intro allI impI)
    fix n k assume "lk_locks ?s n = Some k"
    then have n: "lk_locks s n = Some k" using Some by (simp add: takeReference_def)
    show "k < lk_next ?s \<and> users ?s k \<noteq> {} \<and> finite (users ?s k) \<and>
        lock_users (lk_heap ?s k) = int (card (users ?s k))"
      using Some users_l users_old [of k] countsD [OF counts n] card
      by (cases "k = l") (auto simp: takeReference_def)
  qed
  moreover have "names_ok ?s"
    using Some names by (simp add: names_ok_def takeReference_def)
  moreover have "holders_ok ?s"
    unfolding holders_ok_def
  proof (intro allI)
    fix u n k
    show "(lk_position ?s u = Holding n k) =
        (lk_locks ?s n = Some k \<and> lock_holder (lk_heap ?s k) = Some u)"
      using Some at holdersD [OF hold, of u n k]
      by (cases "k = l"; cases "u = t") (auto simp: takeReference_def)
  qed
  ultimately show ?thesis by (simp add: locks_ok_def)
qed

lemma dropReference_ok:
  assumes ok: "locks_ok s" and at: "lk_position s t = Leaving name l"
  shows "locks_ok (dropReference t name l s)"
proof -
  let ?s = "dropReference t name l s"
  have refs: "refs_ok s" and counts: "counts_ok s" and hold: "holders_ok s" and names: "names_ok s"
    using ok by (simp_all add: locks_ok_def)
  have l: "lk_locks s name = Some l" using refsD [OF refs, of t name l] at by simp
  have t: "t \<in> users s l" using at by (auto simp: users_def)
  note c = countsD [OF counts l]
  have users_old: "users ?s k = users s k" if "k \<noteq> l" for k
    using at that by (auto simp: users_def dropReference_def Let_def)
  have users_l: "users ?s l = users s l - {t}"
    by (auto simp: users_def dropReference_def Let_def)
  have "card (users s l) = 1 \<longleftrightarrow> users s l = {t}"
    using t by (auto simp: card_1_singleton_iff)
  with c t have last: "lock_users (lk_heap s l) - 1 = 0 \<longleftrightarrow> users ?s l = {}"
    unfolding users_l by auto
  have lk: "lk_locks ?s n = (if users ?s l = {} \<and> n = name then None else lk_locks s n)" for n
    using last by (simp add: dropReference_def Let_def)
  have "refs_ok ?s"
    unfolding refs_ok_def
  proof (intro allI impI)
    fix u n k assume u: "reference (lk_position ?s u) = Some (n, k)"
    then have "u \<noteq> t" and u': "reference (lk_position s u) = Some (n, k)"
      by (auto simp: dropReference_def Let_def split: if_splits)
    then have n: "lk_locks s n = Some k" by (simp add: refsD [OF refs])
    have "users ?s l \<noteq> {}" if "n = name"
      using that n l u' \<open>u \<noteq> t\<close> users_l by (auto simp: users_def)
    with n show "lk_locks ?s n = Some k" by (auto simp: lk)
  qed
  moreover have "counts_ok ?s"
    unfolding counts_ok_def
  proof (intro allI impI)
    fix n k assume n: "lk_locks ?s n = Some k"
    then have n': "lk_locks s n = Some k" by (auto simp: lk split: if_splits)
    show "k < lk_next ?s \<and> users ?s k \<noteq> {} \<and> finite (users ?s k) \<and>
        lock_users (lk_heap ?s k) = int (card (users ?s k))"
    proof (cases "k = l")
      case True
      then have "n = name" using namesD [OF names n'] l by simp
      with n have "users ?s l \<noteq> {}" by (auto simp: lk split: if_splits)
      moreover have "int (card (users s l - {t})) = int (card (users s l)) - 1"
        using t c by (simp add: card_Diff_singleton of_nat_diff Suc_leI card_gt_0_iff)
      ultimately show ?thesis
        using True c users_l by (simp add: dropReference_def Let_def)
    next
      case False
      with countsD [OF counts n'] users_old show ?thesis by (simp add: dropReference_def Let_def)
    qed
  qed
  moreover have "names_ok ?s"
    using names by (auto simp: names_ok_def lk split: if_splits)
  moreover have "holders_ok ?s"
    unfolding holders_ok_def
  proof (intro allI)
    fix u n k
    have "users ?s l \<noteq> {}" if "lk_position s u = Holding name l"
    proof -
      have "u \<in> users s l" "u \<noteq> t" using that at by (auto simp: users_def)
      then show ?thesis unfolding users_l by blast
    qed
    then show "(lk_position ?s u = Holding n k) =
        (lk_locks ?s n = Some k \<and> lock_holder (lk_heap ?s k) = Some u)"
      using at l holdersD [OF hold, of u n k] holdersD [OF hold, of t n k] lk [of n]
      by (cases "u = t"; cases "n = name"; cases "k = l")
        (auto simp: dropReference_def Let_def split: if_splits)
  qed
  ultimately show ?thesis by (simp add: locks_ok_def)
qed

lemma lock_step_ok: "lock_step s s' \<Longrightarrow> locks_ok s \<Longrightarrow> locks_ok s'"
  by (induction rule: lock_step.induct)
    (auto intro: takeReference_ok enterMutex_ok leaveMutex_ok dropReference_ok)

lemma lock_reachable_ok: "lock_reachable s \<Longrightarrow> locks_ok s"
  unfolding lock_reachable_def
  by (induction rule: rtranclp_induct) (auto intro: noLocks_ok lock_step_ok)

end
