(* ===== verification/Session_Theorems.thy ===== *)
theory Session_Theorems
  imports Examples Error_Kinds Session_Locks
begin

text \<open>
  The properties of session control: how tasks evolve, what is atomic, how conflicting and failing
  requests end, and the locks.  Each property has a witness in the environment of \<open>Examples\<close>.
\<close>

section \<open>Tasks\<close>

text \<open>
  C3. Session control refines the state machine of a task: whatever operation of session control
  runs, with any arguments and whatever fails in the database, the runtime or the clock, a stored
  task that is still stored afterwards has only made moves of \<open>task_move\<close>.
\<close>

theorem task_evolution:
  assumes "session_operation E w w'" and "database_ok (w_db w)"
    and "storedTask (w_db w) name tid = Some t" and "storedTask (w_db w') name tid = Some t'"
  shows "task_moves t t'"
proof -
  have "follows name tid t (w_db w)" using assms(2,3) follows_stored by blast
  from session_operation_follows [OF assms(1) this] have kept: "follows_if_kept name tid t (w_db w')" .
  then have "database_ok (w_db w')" by (simp add: follows_if_kept_def)
  from follows_if_kept_stored [OF this] kept assms(4) show ?thesis by blast
qed

lemma stored_demo:
  "storedTask (w_db (sessionWorld obs)) ''s'' ''s'' = Some demoTask"
  "storedTask (w_db doneWorld) ''s'' ''s'' = Some demoDone"
  by (simp_all add: storedTask_def sessionWorld_def doneWorld_def sessionWithTask_def task_key_def
      emptyDatabase_def)
    (simp_all add: sessionTaskParams_def demoRecord_def demoTask_def demoDone_def decodeSessionTask_def)

lemma reachable_database_ok: "server_reachable E w \<Longrightarrow> database_ok (w_db w)"
  using reachable_sound [of E w] by (simp add: tables_sound_def)

lemma demo_status_operation: "session_operation demoEnvironment (sessionWorld completedObservation) doneWorld"
  using session_operation.status [of demoEnvironment "sessionWorld completedObservation" "''s''"]
  by (simp add: session_status_demo)

theorem task_evolution_witness: "task_moves demoTask demoDone"
  by (rule task_evolution [OF demo_status_operation reachable_database_ok [OF sessionWorld_reachable] stored_demo])

text \<open>
  A finished task is final: no operation of session control changes a stored task that is
  completed, blocked, failed or canceled.
\<close>

lemma finished_task_final:
  assumes "session_operation E w w'" and "database_ok (w_db w)"
    and "storedTask (w_db w) name tid = Some t" and "taskTerminal (task_State t)"
    and "storedTask (w_db w') name tid = Some t'"
  shows "t' = t"
proof -
  have "follows name tid t (w_db w)" using assms(2,3) follows_stored by blast
  from session_operation_follows [OF assms(1) this] have kept: "follows_if_kept name tid t (w_db w')" .
  then have "database_ok (w_db w')" by (simp add: follows_if_kept_def)
  from follows_if_kept_stored [OF this] kept assms(5) have "task_moves t t'" by blast
  with assms(4) show ?thesis by (rule task_moves_terminal [rotated])
qed

lemma demo_continue_operation: "session_operation demoEnvironment doneWorld continuedWorld"
  using session_operation.continue [of demoEnvironment doneWorld demoContinue]
  by (simp add: session_continue_demo)

lemma continued_stored: "storedTask (w_db continuedWorld) ''s'' ''s'' = Some demoDone"
  by (simp add: storedTask_def continuedWorld_def task_key_def)
    (simp add: sessionTaskParams_def demoTask_def demoDone_def decodeSessionTask_def)

lemma finished_task_final_instance: "the (storedTask (w_db continuedWorld) ''s'' ''s'') = demoDone"
  using finished_task_final [OF demo_continue_operation reachable_database_ok [OF doneWorld_reachable]
      stored_demo(2) _ continued_stored]
  by (simp add: continued_stored demoDone_def)

text \<open>
  C16. In every database that the server can reach a session has at most one task that is pending or
  running, and a stored task has a time of finishing exactly when it is finished.
\<close>

theorem one_active_task:
  assumes "server_reachable E w"
  shows "affected (activeTask name) (db_tasks (w_db w)) \<le> 1
    \<and> (\<forall>tid t. storedTask (w_db w) name tid = Some t \<longrightarrow>
         (taskTerminal (task_State t) \<longleftrightarrow> task_FinishedAt t \<noteq> None))"
proof -
  have sound: "tables_sound (w_db w)" using reachable_sound [OF assms] by simp
  then have "task_sound t" if "storedTask (w_db w) name tid = Some t" for tid t
    using that storedTask_Some [of "w_db w" name tid t] by (auto simp: tables_sound_def tasks_sound_def)
  then show ?thesis using sound by (auto simp: tables_sound_def database_ok_def task_sound_def)
qed

theorem one_active_task_witness: "affected (activeTask ''s'') (db_tasks (w_db (sessionWorld runningObservation))) \<le> 1"
  using one_active_task [OF sessionWorld_reachable, of "''s''" runningObservation] by blast

text \<open>
  A stored task that counts as completed carries what its kind of result promises: pull request
  metadata, a workflow output, or an output together with a valid retained change.
\<close>

lemma completed_task_reported:
  assumes "server_reachable E w" and "storedTask (w_db w) name tid = Some t"
    and "task_State t = TaskCompleted"
  shows "reported (task_ResultKind t) (task_Artifacts t)"
proof -
  have "tables_sound (w_db w)" using reachable_sound [OF assms(1)] by simp
  with assms(2) storedTask_Some [of "w_db w" name tid t] have "task_sound t"
    by (auto simp: tables_sound_def tasks_sound_def)
  with assms(3) show ?thesis by (simp add: task_sound_def)
qed

lemma completed_task_reported_instance: "reported ResultKindPullRequest (task_Artifacts demoDone)"
  using completed_task_reported [OF doneWorld_reachable stored_demo(2)]
  by (simp add: demoDone_def demoTask_def)

section \<open>Requests\<close>

text \<open>
  C11. A session is never started a second time with other inputs: the request fails and writes nothing,
  whatever else fails; when nothing fails and the request is valid, its error has the kind conflict.
\<close>

theorem session_start_conflict:
  assumes "database_ok (w_db w)" and "row \<in> set (db_sessions (w_db w))" and "sn_Name row = req_Name q"
    and "sn_IntentID row \<noteq> taskIntentID (serverSessions E) d (startDefaults d q)"
    and "session_Start (serverSessions E) d q w = (r, w')"
  shows "w_db w' = w_db w \<and> (\<exists>e. r = Inl e \<and>
    (reliable (env_driver E) \<and> validateSessionStart d (startDefaults d q) = None \<longrightarrow>
       ErrorKindOf PkgSession e = Some ErrorConflict))"
proof -
  obtain e where e: "r = Inl e" using session_Start_other(2) [OF assms] by blast
  have "ErrorKindOf PkgSession e = Some ErrorConflict"
    if "reliable (env_driver E)" and "validateSessionStart d (startDefaults d q) = None"
    using session_Start_other(3) [OF assms that] e by simp
  with e session_Start_other(1) [OF assms] show ?thesis by simp
qed

lemma demo_other_intent: "taskIntentID (serverSessions demoEnvironment) demoAgent (demoStart ''q'') = ''71616263''"
proof -
  have "hex_encode ''qabc'' = ''71616263''" by code_simp
  then show ?thesis by (simp add: taskIntentID_def server_defs demo_defs)
qed

lemma demo_other_defaults: "startDefaults demoAgent (demoStart ''q'') = demoStart ''q''"
  by (rule demo_defaults)

lemma demo_session_row: "sessionParams demoRecord \<in> set (db_sessions (w_db (sessionWorld obs)))"
  by (simp add: sessionWorld_def sessionWithTask_def)

lemma demo_session_fields: "sn_Name (sessionParams demoRecord) = ''s''" "sn_IntentID (sessionParams demoRecord) = ''70616263''"
  "req_Name (demoStart p) = ''s''"
  by (simp_all add: sessionParams_def demoRecord_def demoStart_def)

theorem session_start_conflict_witness:
  "\<exists>e. fst (session_Start (serverSessions demoEnvironment) demoAgent (demoStart ''q'') (sessionWorld runningObservation)) = Inl e
     \<and> ErrorKindOf PkgSession e = Some ErrorConflict"
proof -
  obtain r w' where run:
    "session_Start (serverSessions demoEnvironment) demoAgent (demoStart ''q'') (sessionWorld runningObservation) = (r, w')"
    by fastforce
  have "sn_IntentID (sessionParams demoRecord) \<noteq>
      taskIntentID (serverSessions demoEnvironment) demoAgent (startDefaults demoAgent (demoStart ''q''))"
    unfolding demo_other_defaults demo_other_intent demo_session_fields by simp
  from session_start_conflict [OF reachable_database_ok [OF sessionWorld_reachable] demo_session_row _ this run]
  show ?thesis
    using run demo_reliable demo_valid [OF demo_texts(2)]
    by (auto simp: demo_session_fields demo_other_defaults)
qed

text \<open>
  A session and its first task are stored together or not at all, whatever fails, and when creation
  reports success both are stored.
\<close>

lemma session_creation_atomic:
  assumes "sessions_Create driver rec t w = (r, w')"
  shows "(w_db w' = w_db w \<or> w_db w' = sessionWithTask rec t (w_db w))
    \<and> (r = Inr () \<longrightarrow> w_db w' = sessionWithTask rec t (w_db w))"
  using sessions_Create_atomic [OF assms] by blast

lemma session_creation_atomic_instance:
  "\<exists>r w'. sessions_Create (\<lambda>e. (FailAfter ''lost'', e)) demoRecord demoTask (demoWorld runningObservation) = (r, w')
     \<and> (w_db w' = emptyDatabase \<or> w_db w' = sessionWithTask demoRecord demoTask emptyDatabase)"
proof -
  obtain r w' where run:
    "sessions_Create (\<lambda>e. (FailAfter ''lost'', e)) demoRecord demoTask (demoWorld runningObservation) = (r, w')" by fastforce
  have "w_db (demoWorld runningObservation) = emptyDatabase" by (simp add: demoWorld_def)
  with session_creation_atomic [OF run] run show ?thesis by auto
qed

text \<open>
  What creation stores is read back: the record without a deletion mark, and the task as the latest
  one of the session.
\<close>

lemma session_create_roundtrip:
  assumes "reliable driver" and "database_ok (w_db w)" and "\<not> sessionExists (w_db w) (rec_Name rec)"
    and "rec_Deletion rec = None"
  shows "\<exists>w'. sessions_Create driver rec t w = (Inr (), w')
    \<and> sessions_Get driver (rec_Name rec) w' = (Inr rec, w')
    \<and> sessions_LatestTask driver (rec_Name rec) w' = (Inr t, w')"
proof -
  let ?w = "w\<lparr>w_db := sessionWithTask rec t (w_db w)\<rparr>" and ?n = "rec_Name rec"
  note rel = exec_reliable [OF assms(1)] and fresh = fresh_session [OF assms(1-3)]
  have find_last: "find P xs = None \<Longrightarrow> P x \<Longrightarrow> find P (xs @ [x]) = Some x" for P :: "SessionRow \<Rightarrow> bool" and xs x
    by (induction xs) (auto split: if_splits)
  have fields: "sn_Name (sessionParams rec) = ?n"
    "(sessionParams rec)\<lparr>sn_DeletionStorage := None\<rparr> = sessionParams rec"
    by (simp_all add: sessionParams_def)
  have "sessions_Get driver ?n ?w = (Inr rec, ?w)"
    using find_last [OF fresh(3), of "sessionParams rec"] assms(4) fields
    by (simp add: sessions_Get_def op_run rel GetSession_def one_row_def sessionWithTask_def)
  moreover have "sessions_LatestTask driver ?n ?w = (Inr t, ?w)"
    using fresh(2) by (simp add: sessions_LatestTask_def op_run rel)
  ultimately show ?thesis using fresh(1) by blast
qed

lemma session_create_roundtrip_instance:
  "\<exists>w'. sessions_LatestTask (env_driver demoEnvironment) ''s'' w' = (Inr demoTask, w')"
  using session_create_roundtrip [OF demo_reliable, of "demoWorld runningObservation" demoRecord demoTask] emptyDatabase_sound
  by (auto simp: demoWorld_def tables_sound_def sessionExists_def emptyDatabase_def demoRecord_fields)

section \<open>Removal\<close>

text \<open>
  C12. When destroying a session reports success, nothing of it is left in the database: no session row,
  no task and no publication.
\<close>

theorem session_destroy_complete:
  assumes "database_ok (w_db w)" and "session_Destroy (serverSessions E) name w = (Inr (), w')"
  shows "session_gone name (w_db w')"
  using assms by (rule session_Destroy_gone)

lemma demo_begin:
  "sessions_BeginDeletion (env_driver demoEnvironment) ''s'' True
     \<lparr>w_db = sessionWithTask demoRecord t emptyDatabase, w_env = e\<rparr> =
   (Inr (), \<lparr>w_db = (sessionWithTask demoRecord t emptyDatabase)
      \<lparr>db_sessions := [(sessionParams demoRecord)\<lparr>sn_DeletionStorage := Some True\<rparr>]\<rparr>, w_env = e\<rparr>)"
  by (simp add: sessions_BeginDeletion_def op_run demo_exec SetSessionDeletion_def sessionWithTask_def
      emptyDatabase_def affected_def update_rows_def demo_session_fields)
    (simp add: sessionParams_def)

lemma demo_finish:
  "fst (sessions_FinishDeletion (env_driver demoEnvironment) ''s'' True
     \<lparr>w_db = (sessionWithTask demoRecord t emptyDatabase)
        \<lparr>db_sessions := [(sessionParams demoRecord)\<lparr>sn_DeletionStorage := Some True\<rparr>]\<rparr>, w_env = e\<rparr>) = Inr ()"
  by (simp add: sessions_FinishDeletion_def require_row_def op_run demo_exec DeleteSession_def affected_def
      demo_session_fields)

lemma demo_deleting_latest:
  "sessions_LatestTask (env_driver demoEnvironment) ''s''
     \<lparr>w_db = (sessionWithTask demoRecord t emptyDatabase)\<lparr>db_sessions := rows\<rparr>, w_env = e\<rparr> =
   (Inr t, \<lparr>w_db = (sessionWithTask demoRecord t emptyDatabase)\<lparr>db_sessions := rows\<rparr>, w_env = e\<rparr>)"
  by (simp add: sessions_LatestTask_def op_run demo_exec GetLatestSessionTask_def sessionWithTask_def
      emptyDatabase_def demoRecord_fields sessionTaskParams_def decodeSessionTask_def)

lemma demo_destroy: "fst (session_Destroy (serverSessions demoEnvironment) ''s'' doneWorld) = Inr ()"
proof -
  have env: "env_delete demoEnvironment = (\<lambda>n s e. (Inr (), e))" by (simp add: demoEnvironment_def)
  have t: "taskTerminal (task_State demoDone)" by (simp add: demoDone_def)
  obtain w' where f: "sessions_FinishDeletion (env_driver demoEnvironment) ''s'' True
     \<lparr>w_db = (sessionWithTask demoRecord demoDone emptyDatabase)
        \<lparr>db_sessions := [(sessionParams demoRecord)\<lparr>sn_DeletionStorage := Some True\<rparr>]\<rparr>, w_env = w_env doneWorld\<rparr> =
     (Inr (), w')"
    using demo_finish [of demoDone "w_env doneWorld"] by (metis prod.collapse)
  show ?thesis
    using f
    by (simp add: session_Destroy_def session_delete_def validateName_def serverSessions_def serverRuntime_def
        sessionRepository_def op_run doneWorld_eq demo_sessions_read demo_begin finishDeletion_def settleLatestTask_def
        demoRecord_fields demo_deleting_latest t removesRecord_def lift_env_def env)
qed

theorem session_destroy_complete_witness:
  "\<exists>w'. session_Destroy (serverSessions demoEnvironment) ''s'' doneWorld = (Inr (), w')
     \<and> session_gone ''s'' (w_db w')"
proof -
  obtain w' where w': "session_Destroy (serverSessions demoEnvironment) ''s'' doneWorld = (Inr (), w')"
    using demo_destroy by (metis prod.collapse)
  with session_destroy_complete [OF reachable_database_ok [OF doneWorld_reachable] w'] show ?thesis by blast
qed





section \<open>Errors\<close>

text \<open>
  Every error that an operation of session control returns has a kind: the server never answers
  with an unclassified failure.
\<close>

lemma session_errors_classified:
  "(\<forall>w e. fst (session_Start c d q w) = Inl e \<longrightarrow> ErrorKindOf PkgSession e \<noteq> None)
   \<and> (\<forall>w e. fst (session_Continue c r w) = Inl e \<longrightarrow> ErrorKindOf PkgSession e \<noteq> None)
   \<and> (\<forall>w e. fst (session_Status c name w) = Inl e \<longrightarrow> ErrorKindOf PkgSession e \<noteq> None)
   \<and> (\<forall>w e. fst (session_Artifacts c name w) = Inl e \<longrightarrow> ErrorKindOf PkgSession e \<noteq> None)
   \<and> (\<forall>w e. fst (session_WriteLogs c name follow w) = Inl e \<longrightarrow> ErrorKindOf PkgSession e \<noteq> None)
   \<and> (\<forall>w e. fst (session_PreparePublication c name w) = Inl e \<longrightarrow> ErrorKindOf PkgSession e \<noteq> None)
   \<and> (\<forall>w e. fst (session_Delete c name w) = Inl e \<longrightarrow> ErrorKindOf PkgSession e \<noteq> None)
   \<and> (\<forall>w e. fst (session_Destroy c name w) = Inl e \<longrightarrow> ErrorKindOf PkgSession e \<noteq> None)"
  using session_operations_classified [where c = c]
  unfolding fails_with_def session_Delete_def session_Destroy_def
  by (simp add: session_classified_kind)

lemma session_errors_classified_instance:
  "fst (session_Status (serverSessions demoEnvironment) [] (demoWorld runningObservation)) =
      Inl (sessionError ErrorInvalid ''session name is required'' None)
    \<and> ErrorKindOf PkgSession (sessionError ErrorInvalid ''session name is required'' None) \<noteq> None"
proof -
  have "blank []" by code_simp
  then have "fst (session_Status (serverSessions demoEnvironment) [] (demoWorld runningObservation)) =
      Inl (sessionError ErrorInvalid ''session name is required'' None)"
    by (simp add: session_Status_def validateName_def require_def throw_def)
  with session_errors_classified [where c = "serverSessions demoEnvironment" and name = "[]"] show ?thesis by blast
qed

section \<open>Locks\<close>

text \<open>
  C15. Mutual exclusion: in every interleaving of threads that lock and unlock sessions, two threads never
  hold the lock of the same session.
\<close>

theorem session_lock_exclusive:
  assumes "lock_reachable s" and "lk_position s t = Holding name l" and "lk_position s u = Holding name m"
  shows "t = u"
proof -
  have "holders_ok s" using lock_reachable_ok [OF assms(1)] by (simp add: locks_ok_def)
  with assms(2,3) show ?thesis by (simp add: holdersD)
qed

lemma lock_path:
  "lock_reachable (takeReference 1 ''s'' noLocks)"
  "lock_reachable (enterMutex 1 ''s'' 0 (takeReference 1 ''s'' noLocks))"
proof -
  have take: "lock_step noLocks (takeReference 1 ''s'' noLocks)"
    by (rule lock_step.take) (simp add: noLocks_def)
  then show one: "lock_reachable (takeReference 1 ''s'' noLocks)" by (simp add: lock_reachable_def)
  have "lock_step (takeReference 1 ''s'' noLocks) (enterMutex 1 ''s'' 0 (takeReference 1 ''s'' noLocks))"
    by (rule lock_step.enter) (simp_all add: takeReference_def noLocks_def)
  with one show "lock_reachable (enterMutex 1 ''s'' 0 (takeReference 1 ''s'' noLocks))"
    by (simp add: lock_reachable_def)
qed

theorem session_lock_exclusive_witness:
  "{u. lk_position (enterMutex 1 ''s'' 0 (takeReference 1 ''s'' noLocks)) u = Holding ''s'' 0} = {1}"
proof -
  let ?s = "enterMutex 1 ''s'' 0 (takeReference 1 ''s'' noLocks)"
  have holds: "lk_position ?s 1 = Holding ''s'' 0" by (simp add: enterMutex_def)
  have "u = 1" if "lk_position ?s u = Holding ''s'' 0" for u
    by (rule session_lock_exclusive [OF lock_path(2) that holds])
  with holds show ?thesis by blast
qed

text \<open>
  The lock table does not leak: it has a lock for a session exactly while some thread uses the
  session, and the count of users in the lock is the number of these threads.
\<close>

lemma session_locks_no_leak:
  assumes "lock_reachable s"
  shows "(lk_locks s name \<noteq> None \<longleftrightarrow> (\<exists>t l. reference (lk_position s t) = Some (name, l)))
    \<and> (\<forall>l. lk_locks s name = Some l \<longrightarrow>
         lock_users (lk_heap s l) = int (card {t. reference (lk_position s t) = Some (name, l)}))"
proof -
  have ok: "refs_ok s" "counts_ok s" "names_ok s"
    using lock_reachable_ok [OF assms] by (simp_all add: locks_ok_def)
  have users: "users s l = {t. reference (lk_position s t) = Some (name, l)}" if "lk_locks s name = Some l" for l
    using that refsD [OF ok(1)] namesD [OF ok(3)] by (auto simp: users_def)
  have "\<exists>t l. reference (lk_position s t) = Some (name, l)" if "lk_locks s name = Some l" for l
    using countsD [OF ok(2) that] users [OF that] by auto
  with refsD [OF ok(1)] countsD [OF ok(2)] users show ?thesis by fastforce
qed

lemma session_locks_no_leak_instance:
  "lk_locks (takeReference 1 ''s'' noLocks) ''t'' = None"
proof -
  have "reference (lk_position (takeReference 1 ''s'' noLocks) t) \<noteq> Some (''t'', l)" for t l
    by (simp add: takeReference_def noLocks_def)
  with session_locks_no_leak [OF lock_path(1), of "''t''"] show ?thesis by auto
qed

end
