(* ===== verification/Run_Facts.thy ===== *)
theory Run_Facts
  imports Server_Properties
begin

text \<open>
  What the operations of workflow control do to a stored run: reading, updating, cancelling and
  deleting it.
\<close>

section \<open>Reading and updating a run\<close>

lemma runs_Run_stored:
  assumes "runs_Run driver name w = (Inr run, w')"
  shows "storedRun (w_db w) name = Some run" and "w_db w' = w_db w" and "run_Name run = name"
proof -
  show "w_db w' = w_db w" using runs_Run_db [of driver name w] assms by simp
  obtain row where row: "one_row (\<lambda>r. rr_Name r = name) (db_runs (w_db w)) = Inr row" "decodeRun row = Inr run"
    using assms
    by (auto simp: runs_Run_def op_run exec_def GetRun_def lift_def split: prod.splits sum.splits Fault.splits
        if_splits)
  from row(1) have "find (\<lambda>r. rr_Name r = name) (db_runs (w_db w)) = Some row"
    by (auto simp: one_row_def split: option.splits)
  with decodeRun_Inr [OF row(2)] show "storedRun (w_db w) name = Some run" by (simp add: storedRun_def)
  show "run_Name run = name" using decodeRun_Inr [OF row(2)] one_row_Inr [OF row(1)]
    by (metis (no_types, lifting))
qed

lemma workflow_repository [simp]:
  "wr_Run (wc_repository (serverWorkflows E)) = runs_Run (env_driver E)"
  "wr_Update (wc_repository (serverWorkflows E)) = runs_Update (env_driver E)"
  "wr_Create (wc_repository (serverWorkflows E)) = runs_Create (env_driver E)"
  "wr_Delete (wc_repository (serverWorkflows E)) = runs_Delete (env_driver E)"
  by (simp_all add: serverWorkflows_def runRepository_def)

lemma load_run_stored:
  assumes "load_run (serverWorkflows E) name w = (Inr run, w')"
  shows "storedRun (w_db w) name = Some run \<and> w_db w' = w_db w \<and> run_Name run = name"
proof -
  from assms have "runs_Run (env_driver E) name w = (Inr run, w')"
    by (auto simp: load_run_def op_run split: sum.splits prod.splits if_splits)
  with runs_Run_stored show ?thesis by blast
qed

text \<open>After an update that succeeded, the stored run is the one that was given.\<close>

lemma runs_Update_stored:
  assumes update: "runs_Update driver run w = (Inr run', w')" and ok: "database_ok (w_db w)"
  shows "storedRun (w_db w') (run_Name run) = Some run'"
    and "run' = run\<lparr>run_Revision := run_Revision run + 1\<rparr>"
proof -
  note rows = runs_Update_Inr [OF update ok]
  let ?P = "\<lambda>r. rr_Name r = run_Name run \<and> rr_Version r = run_Revision run"
  have "\<exists>r \<in> set (db_runs (w_db w')). rr_Name r = run_Name run"
  proof -
    obtain contents row where one: "one_row ?P (db_runs (w_db w)) = Inr row"
      and db: "w_db w' = snd (UpdateRun (run_Name run) contents (run_Revision run) (w_db w))"
      using update
      by (cases "encodeRun run"; cases "one_row ?P (db_runs (w_db w))")
        (auto simp: runs_Update_def op_run exec_def UpdateRun_def Let_def split: sum.splits prod.splits
          Fault.splits if_splits)
    from one_row_Inr [OF one] have "row \<in> set (db_runs (w_db w))" "?P row" by auto
    then show ?thesis
      unfolding db UpdateRun_def Let_def snd_conv
      by (intro bexI [of _ "row\<lparr>rr_Contents := contents, rr_Version := rr_Version row + 1\<rparr>"])
        (auto simp: set_update_rows)
  qed
  then obtain u where "find (\<lambda>r. rr_Name r = run_Name run) (db_runs (w_db w')) = Some u"
    by (cases "find (\<lambda>r. rr_Name r = run_Name run) (db_runs (w_db w'))") (auto simp: find_None_iff)
  moreover from this have "u \<in> set (db_runs (w_db w'))" "rr_Name u = run_Name run"
    by (auto simp: find_Some_iff)
  ultimately show "storedRun (w_db w') (run_Name run) = Some run'"
    using rows(2) by (simp add: storedRun_def)
  show "run' = run\<lparr>run_Revision := run_Revision run + 1\<rparr>" by (rule rows(1))
qed

lemma save_run_stored:
  assumes "save_run (serverWorkflows E) run w = (Inr run', w')" and "database_ok (w_db w)"
  shows "storedRun (w_db w') (run_Name run) = Some (run\<lparr>run_Revision := run_Revision run + 1\<rparr>)"
proof -
  from assms(1) have "runs_Update (env_driver E) run w = (Inr run', w')"
    by (auto simp: save_run_def op_run split: sum.splits prod.splits)
  from runs_Update_stored [OF this assms(2)] show ?thesis by simp
qed

section \<open>Cancellation\<close>

lemma cancel_loop:
  "ensures (\<lambda>w. database_ok (w_db w)) (for_each (cancelStep (serverWorkflows E) now) ns run)
     (\<lambda>r. run_Name r = run_Name run)"
proof (rule ensures_for_each)
  fix n and r :: Run assume r: "run_Name r = run_Name run"
  have delete: "ensures (\<lambda>w. database_ok (w_db w)) (so_Delete (wc_sessions (serverWorkflows E)) s) (\<lambda>_. True)" for s
    using schema.removal.delete_ensures
    by (simp add: serverWorkflows_def serverOperations_def session_Delete_def)
  show "ensures (\<lambda>w. database_ok (w_db w)) (cancelStep (serverWorkflows E) now n r)
      (\<lambda>r. run_Name r = run_Name run)"
    unfolding cancelStep_def Let_def
    by (auto simp: r intro!: ensures_ret ensures_throw ensures_if ensures_handle [OF delete] split: option.split)
qed simp

lemma reconcileCancellation_stored:
  assumes cancel: "reconcileCancellation (serverWorkflows E) run w = (Inr (), w')" and ok: "database_ok (w_db w)"
  shows "\<exists>run'. storedRun (w_db w') (run_Name run) = Some run' \<and> run_State run' = StateCanceled
    \<and> (\<forall>n s. get_step run' n = Some s \<longrightarrow> \<not> step_unfinished s)"
proof -
  let ?c = "serverWorkflows E"
  obtain now w1 where now: "wc_now ?c w = (now, w1)" by fastforce
  then have db1: "w_db w1 = w_db w"
    by (auto simp: serverWorkflows_def lift_fun_def split: prod.splits)
  have "andThen (for_each (cancelStep ?c now) (map fst (run_Steps run)) run) (\<lambda>run.
      andThen (save_run ?c (run\<lparr>run_State := StateCanceled, run_UpdatedAt := now\<rparr>)) (\<lambda>_. ret ())) w1 = (Inr (), w')"
    using cancel now by (simp add: reconcileCancellation_def andThen_def handle_def total_def)
  then obtain run1 w2 where loop: "for_each (cancelStep ?c now) (map fst (run_Steps run)) run w1 = (Inr run1, w2)"
    and rest: "andThen (save_run ?c (run1\<lparr>run_State := StateCanceled, run_UpdatedAt := now\<rparr>)) (\<lambda>_. ret ()) w2 = (Inr (), w')"
    by (rule andThen_success)
  from rest obtain run2 where save: "save_run ?c (run1\<lparr>run_State := StateCanceled, run_UpdatedAt := now\<rparr>) w2 = (Inr run2, w')"
    by (auto simp: ret_def elim!: andThen_success)
  have "database_ok (w_db w1)" using ok db1 by simp
  from ensures_result [OF cancel_loop this loop] have ok2: "database_ok (w_db w2)" and name: "run_Name run1 = run_Name run"
    by auto
  from save_run_stored [OF save ok2] name
  have "storedRun (w_db w') (run_Name run) = Some (run1\<lparr>run_State := StateCanceled, run_UpdatedAt := now,
      run_Revision := run_Revision run1 + 1\<rparr>)" by simp
  moreover have "\<not> step_unfinished s"
    if "get_step (run1\<lparr>run_State := StateCanceled, run_UpdatedAt := now, run_Revision := run_Revision run1 + 1\<rparr>) n = Some s"
    for n s
    using cancel_all [OF loop] that by (simp add: get_step_def)
  ultimately show ?thesis by (intro exI conjI allI impI) auto
qed

lemma workflow_Reconcile_cancel:
  assumes stored: "storedRun (w_db w) name = Some run" and open_run: "\<not> terminal (run_State run)"
      "run_State run \<noteq> StateDeleting"
    and requested: "run_CancelRequested run" and ok: "database_ok (w_db w)"
    and reconcile: "workflow_Reconcile (serverWorkflows E) name w = (Inr (), w')"
  shows "\<exists>run'. storedRun (w_db w') name = Some run' \<and> run_State run' = StateCanceled
    \<and> (\<forall>n s. get_step run' n = Some s \<longrightarrow> \<not> step_unfinished s)"
proof -
  obtain r w1 where load: "load_run (serverWorkflows E) name w = (Inr r, w1)"
    and rest: "(if terminal (run_State r) then cleanupCompletedSteps (serverWorkflows E) r
       else if run_State r = StateDeleting then ret ()
       else if run_CancelRequested r then reconcileCancellation (serverWorkflows E) r
       else advanceRun (serverWorkflows E) r) w1 = (Inr (), w')"
    using reconcile unfolding workflow_Reconcile_def by (elim andThen_success)
  from load_run_stored [OF load] stored have r: "r = run" "w_db w1 = w_db w" "run_Name r = name" by auto
  with rest open_run requested have "reconcileCancellation (serverWorkflows E) run w1 = (Inr (), w')" by simp
  from reconcileCancellation_stored [OF this] ok r show ?thesis by simp
qed

section \<open>Deletion\<close>

lemma workflow_Delete_open:
  assumes stored: "storedRun (w_db w) name = Some run" and "\<not> terminal (run_State run)"
    and "run_State run \<noteq> StateDeleting"
  shows "w_db (snd (workflow_Delete (serverWorkflows E) name w)) = w_db w"
    and "\<exists>e. fst (workflow_Delete (serverWorkflows E) name w) = Inl e"
proof -
  obtain r w1 where load: "load_run (serverWorkflows E) name w = (r, w1)" by fastforce
  have db: "w_db w1 = w_db w"
    using load runs_Run_db [of "env_driver E" name w]
    by (auto simp: load_run_def op_run split: sum.splits prod.splits if_splits)
  have "workflow_Delete (serverWorkflows E) name w = (Inl e, w1)" if "r = Inl e" for e
    using load that by (simp add: workflow_Delete_def andThen_Inl)
  moreover have "\<exists>e. workflow_Delete (serverWorkflows E) name w = (Inl e, w1)" if "r = Inr run'" for run'
  proof -
    have "run' = run" using load_run_stored [of E name w run' w1] load that stored by simp
    with load that assms(2,3) show ?thesis
      unfolding workflow_Delete_def by (simp add: andThen_Inr throw_def)
  qed
  ultimately have "\<exists>e. workflow_Delete (serverWorkflows E) name w = (Inl e, w1)" by (cases r) auto
  with db show "w_db (snd (workflow_Delete (serverWorkflows E) name w)) = w_db w"
    and "\<exists>e. fst (workflow_Delete (serverWorkflows E) name w) = Inl e"
    by auto
qed

section \<open>Creating and starting a run\<close>

lemma snapshots_keep_runs:
  "ensures (\<lambda>w. db_runs (w_db w) = x) (for_each (createSnapshot driver run ds) names u) (\<lambda>_. True)"
proof (rule ensures_for_each)
  fix name :: string and u :: unit
  have "ensures (\<lambda>w. db_runs (w_db w) = x) (exec driver (CreateAgentSnapshot row)) (\<lambda>_. True)" for row
    by (rule exec_ensures) (auto simp: CreateAgentSnapshot_def)
  then show "ensures (\<lambda>w. db_runs (w_db w) = x) (createSnapshot driver run ds name u) (\<lambda>_. True)"
    unfolding createSnapshot_def
    by (auto intro!: ensures_ret ensures_throw ensures_handle split: option.split)
qed simp

lemma runs_Create_stored:
  assumes create: "runs_Create driver run ds w = (Inr run', w')"
  shows "run' = run\<lparr>run_Revision := 1\<rparr>" and "storedRun (w_db w') (run_Name run) = Some run'"
    and "storedRun (w_db w) (run_Name run) = None"
proof -
  let ?n = "run_Name run"
  obtain contents where enc: "encodeRun run = Inr contents"
    using create by (cases "encodeRun run") (simp_all add: runs_Create_def throw_def)
  have body: "\<exists>row v1 v2. exec driver (CreateRun ?n contents) v = (Inr row, v1)
      \<and> for_each (createSnapshot driver ?n ds) (sorted_keys ds) () v1 = (Inr (), v2) \<and> w_db w' = w_db v2
      \<and> run' = run\<lparr>run_Revision := rr_Version row\<rparr>"
    if v: "driver (w_env w) = (NoFault, e)" "v = w\<lparr>w_env := e\<rparr>" for v e
    using create enc v
    by (auto simp: runs_Create_def transaction_def op_run split: sum.splits prod.splits Fault.splits)
  obtain e where "driver (w_env w) = (NoFault, e)"
    using create enc
    by (auto simp: runs_Create_def transaction_def op_run split: prod.splits Fault.splits)
  from body [OF this refl] obtain row v1 v2 where
      row: "exec driver (CreateRun ?n contents) (w\<lparr>w_env := e\<rparr>) = (Inr row, v1)"
    and snaps: "for_each (createSnapshot driver ?n ds) (sorted_keys ds) () v1 = (Inr (), v2)"
    and db: "w_db w' = w_db v2" and run': "run' = run\<lparr>run_Revision := rr_Version row\<rparr>" by blast
  have created: "\<not> runExists (w_db w) ?n \<and> row = \<lparr>rr_Name = ?n, rr_Contents = contents, rr_Version = 1\<rparr>
      \<and> db_runs (w_db v1) = db_runs (w_db w) @ [row]"
    using row by (auto simp: exec_def CreateRun_def Let_def split: prod.splits Fault.splits if_splits)
  have none: "find (\<lambda>r. rr_Name r = ?n) (db_runs (w_db w)) = None"
    using created by (simp add: runExists_def list_ex_iff find_None_iff)
  then show "storedRun (w_db w) ?n = None" by (simp add: storedRun_def)
  show eq: "run' = run\<lparr>run_Revision := 1\<rparr>" using run' created by simp
  have "db_runs (w_db v2) = db_runs (w_db v1)"
    using ensures_inv [OF snapshots_keep_runs, of v1 "db_runs (w_db v1)" driver ?n ds "sorted_keys ds" "()"] snaps
    by simp
  moreover have "find P xs = None \<Longrightarrow> P x \<Longrightarrow> find P (xs @ [x]) = Some x" for P :: "RunRow \<Rightarrow> bool" and xs x
    by (induction xs) (auto split: if_splits)
  ultimately have "find (\<lambda>r. rr_Name r = ?n) (db_runs (w_db w')) = Some row"
    using created db none by simp
  then show "storedRun (w_db w') ?n = Some run'"
    using created encodeRun_Inr [OF enc] eq by (simp add: storedRun_def rowRun_def)
qed

text \<open>A request for a run that exists returns the stored run, and only to the request it was created for.\<close>

lemma workflow_Start_repeated:
  assumes stored: "storedRun (w_db w) (wq_Name q) = Some run"
    and start: "workflow_Start (serverWorkflows E) q w = (Inr r, w')"
  shows "r = run" and "\<exists>d. validateRunStart (serverWorkflows E) q = Inr d
    \<and> run_Intent run = workflowIntent (serverWorkflows E) (startDefaultRef q) d"
proof -
  let ?c = "serverWorkflows E"
  have name: "wq_Name (startDefaultRef q) = wq_Name q" by (simp add: startDefaultRef_def)
  obtain d where d: "validateRunStart ?c q = Inr d"
    using start by (cases "validateRunStart ?c q") (simp_all add: workflow_Start_def throw_def)
  obtain x w1 where run: "runs_Run (env_driver E) (wq_Name q) w = (x, w1)" by fastforce
  show "r = run" and "\<exists>d. validateRunStart ?c q = Inr d \<and> run_Intent run = workflowIntent ?c (startDefaultRef q) d"
  proof (atomize(full), cases x)
    case (Inl e)
    with run runs_Run_found [OF storedRun_exists [OF stored]] have "\<not> errors_is e ErrRunNotFound" by blast
    with Inl run start d name
    show "r = run \<and> (\<exists>d. validateRunStart ?c q = Inr d \<and> run_Intent run = workflowIntent ?c (startDefaultRef q) d)"
      by (simp add: workflow_Start_def Let_def handle_def throw_def)
  next
    case (Inr existing)
    with run have "existing = run" using runs_Run_stored(1) stored by (metis option.inject)
    with Inr run start d name
    show "r = run \<and> (\<exists>d. validateRunStart ?c q = Inr d \<and> run_Intent run = workflowIntent ?c (startDefaultRef q) d)"
      by (simp add: workflow_Start_def Let_def handle_def throw_def ret_def split: if_splits)
  qed
qed

end
