(* ===== verification/Workflow_Theorems.thy ===== *)
theory Workflow_Theorems
  imports Examples Run_Facts Error_Kinds
begin

text \<open>
  The properties of workflow control and of the catalog: what the scheduler decides, what a run keeps,
  how it makes progress, cancellation and deletion, the graph checks and the names of sessions.
\<close>

section \<open>The scheduler\<close>

text \<open>The scheduler completes no step.\<close>

lemma scheduler_completed:
  assumes "dep_completed (fst (scheduleReadySteps run now)) d"
  shows "dep_completed run d"
proof -
  let ?r = "fst (scheduleReadySteps run now)"
  obtain t where t: "get_step ?r d = Some t" "step_State t = StepCompleted"
    using assms by (auto simp: dep_state_def split: option.splits)
  obtain s where s: "get_step run d = Some s"
    using static_run_get [OF run_moves_static [OF scheduleReadySteps_moves [of run now]], of d] t(1)
    by (cases "get_step run d") auto
  have "\<exists>s'. get_step ?r d = Some s' \<and> scheduled ?r now s s'"
    by (rule schedule_moves_scheduled [OF scheduleReadySteps_schedule s])
  with t have "scheduled ?r now s t" by simp
  with t(2) have "t = s" by (auto simp: scheduled_def)
  with s t(2) show ?thesis by (simp add: dep_state_def)
qed

text \<open>
  C4. The scheduler only skips a pending step when a dependency has failed or is skipped itself, and only
  starts one when all its dependencies are completed; it leaves every other step as it is.
\<close>

theorem scheduler_respects_dependencies:
  assumes "get_step run n = Some s"
  shows "\<exists>s'. get_step (fst (scheduleReadySteps run now)) n = Some s' \<and>
    (s' = s
     \<or> step_State s = StepPending \<and> s' = s\<lparr>step_State := StepSkipped, step_FinishedAt := Some now\<rparr>
         \<and> list_ex (dep_failed (fst (scheduleReadySteps run now))) (step_After s)
     \<or> step_State s = StepPending \<and> s' = s\<lparr>step_State := StepStarting, step_StartedAt := Some now\<rparr>
         \<and> list_all (dep_completed run) (step_After s))"
proof -
  let ?r = "fst (scheduleReadySteps run now)"
  have "\<exists>s'. get_step ?r n = Some s' \<and> scheduled ?r now s s'"
    by (rule schedule_moves_scheduled [OF scheduleReadySteps_schedule assms])
  then obtain s' where s': "get_step ?r n = Some s'" "scheduled ?r now s s'" by (elim exE conjE)
  have mono: "list_all (dep_completed ?r) ds \<Longrightarrow> list_all (dep_completed run) ds" for ds
    using scheduler_completed [of run now] by (auto simp: list_all_iff)
  from s'(2) have "s' = s
     \<or> step_State s = StepPending \<and> s' = s\<lparr>step_State := StepSkipped, step_FinishedAt := Some now\<rparr>
         \<and> list_ex (dep_failed ?r) (step_After s)
     \<or> step_State s = StepPending \<and> s' = s\<lparr>step_State := StepStarting, step_StartedAt := Some now\<rparr>
         \<and> list_all (dep_completed run) (step_After s)"
    unfolding scheduled_def using mono by metis
  from conjI [OF s'(1) this] show ?thesis by (rule exI)
qed

lemma demo_plan:
  "get_step demoNewRun ''plan'' = Some (newStep (serverWorkflows demoEnvironment) ''run'' ''plan'' (demoStep ''plan'' [] False))"
  "get_step demoNewRun ''build'' = Some (newStep (serverWorkflows demoEnvironment) ''run'' ''build'' (demoStep ''build'' [''plan''] True))"
  by (simp_all add: demo_step demoDefinition_def)

theorem scheduler_respects_dependencies_witness:
  "\<exists>s. get_step (fst (scheduleReadySteps demoNewRun 5)) ''build'' = Some s \<and> step_State s \<noteq> StepStarting"
proof -
  have "\<not> list_all (dep_completed demoNewRun) [''plan'']"
    by (simp add: dep_state_def demo_plan newStep_def)
  with scheduler_respects_dependencies [OF demo_plan(2), of 5] show ?thesis
    by (auto simp: newStep_def demoStep_def)
qed


lemma demo_pending: "step_State (newStep c run n d) = StepPending"
  by (simp add: newStep_def)


text \<open>
  The state of a run does not depend on the order in which the map of its steps is read, and it is the
  worst state of a step: running while one is unfinished, then failed, blocked, canceled, and completed.
\<close>

lemma derived_state_order:
  assumes "set es = set es'"
  shows "deriveFrom acc es = deriveFrom acc es' \<and> deriveFrom acc es = runStateOf acc es"
proof -
  have "any_step P es = any_step P es'" for P using assms by (simp add: any_step_def)
  then show ?thesis by (simp add: deriveFrom_eq runStateOf_def)
qed

lemma derived_state_order_instance:
  "deriveFrom StateCompleted (run_Steps demoNewRun) = deriveFrom StateCompleted (rev (run_Steps demoNewRun))"
  using derived_state_order [of "run_Steps demoNewRun" "rev (run_Steps demoNewRun)"] by simp

text \<open>
  A run that satisfies its invariant is completed only when every one of its steps is completed: no
  skipped step hides behind completed ones.
\<close>

lemma completed_run_complete:
  assumes "run_ok run" and "run_State (deriveRunState run) = StateCompleted" and "get_step run n = Some s"
  shows "step_State s = StepCompleted"
  using completed_run_steps [OF assms] .

text \<open>The run of the example with both steps completed.\<close>

definition demoFinished :: Run where
  "demoFinished =
     put_step ''build'' ((newStep (serverWorkflows demoEnvironment) ''run'' ''build'' (demoStep ''build'' [''plan''] True))
         \<lparr>step_State := StepCompleted\<rparr>)
       (put_step ''plan'' ((newStep (serverWorkflows demoEnvironment) ''run'' ''plan'' (demoStep ''plan'' [] False))
         \<lparr>step_State := StepCompleted, step_Output := RawDoc JNull\<rparr>) demoNewRun)"

lemma demoFinished_step:
  "get_step demoFinished n = Some s \<Longrightarrow> step_State s = StepCompleted \<and> step_Name s = n
    \<and> (step_Publishable s \<or> \<not> raw_empty (step_Output s)) \<and> step_ChangeFrom s = []
    \<and> set (step_After s) \<subseteq> {''plan''}"
  by (auto simp: demoFinished_def demo_step demoDefinition_def newStep_def demoStep_def raw_empty_def
      split: if_splits)

lemma demoFinished_static: "static_run demoFinished = static_run demoNewRun"
  unfolding demoFinished_def
  by (subst static_put_step, simp add: demo_plan, simp add: static_step_def,
      subst static_put_step, rule demo_plan, simp add: static_step_def, simp)

lemma demoFinished_ok: "run_ok demoFinished"
proof -
  have new: "run_ok demoNewRun" unfolding demoNewRun_def by (rule newRun_ok [OF demo_definition])
  have keys: "map fst (run_Steps demoFinished) = [''build'', ''plan'']"
    using static_run_keys [OF demoFinished_static] by simp
  have all: "step_State s = StepCompleted" if "(n, s) \<in> set (run_Steps demoFinished)" for n s
    using that demoFinished_step step_in_run [of demoFinished n s] keys by simp
  have "activeSteps demoFinished = 0"
    using all by (fastforce simp: activeSteps_def count_entries_def step_active_def filter_empty_conv)
  then have idle: "activeSteps demoFinished \<le> run_MaxParallelism demoFinished"
    by (simp add: demoFinished_def)
  have change: "\<not> producesChange demoFinished n" if "n \<noteq> []" for n
    using that demoFinished_step step_in_run [of demoFinished] keys
    by (fastforce simp: producesChange_def list_ex_iff)
  have plan: "dep_completed demoFinished ''plan''"
    by (simp add: dep_state_def demoFinished_def)
  have "step_sound demoFinished s" if s: "get_step demoFinished n = Some s" for n s
  proof -
    have "n \<in> set (map fst (run_Steps demoFinished))" using get_step_key [OF s] by simp
    with keys have "n \<noteq> []" by auto
    with demoFinished_step [OF s] change plan have "retained demoFinished s"
      "list_all (dep_completed demoFinished) (step_After s)"
      by (auto simp: retained_def list_all_iff subset_iff)
    with demoFinished_step [OF s] show ?thesis by (simp add: step_sound_def)
  qed
  moreover have "run_graph_ok demoFinished"
    using new run_graph_ok_static [OF demoFinished_static] by (simp add: run_ok_def)
  ultimately show ?thesis using idle by (simp add: run_ok_def)
qed

lemma completed_run_complete_instance:
  "\<exists>s. get_step demoFinished ''plan'' = Some s \<and> step_State s = StepCompleted"
proof -
  have "\<not> any_step P (run_Steps demoFinished)" if "\<not> P StepCompleted" for P
    using that any_step_get [of demoFinished P] static_run_keys [OF demoFinished_static] demoFinished_step by force
  then have "run_State (deriveRunState demoFinished) = StateCompleted"
    by (simp add: deriveRunState_def deriveFrom_eq runStateOf_def)
  moreover obtain s where s: "get_step demoFinished ''plan'' = Some s"
    by (simp add: demoFinished_def)
  ultimately show ?thesis using completed_run_complete [OF demoFinished_ok _ s] by blast
qed

text \<open>
  When the scheduler has started a step that takes over the change of another step, that step is
  completed and its change is known: the request that starts the session always has its input.
\<close>

lemma change_input_available:
  assumes "run_ok run" and "get_step run n = Some s" and "step_State s = StepStarting"
    and "step_ChangeFrom s \<noteq> []"
  shows "\<exists>t ch. get_step run (step_ChangeFrom s) = Some t \<and> step_State t = StepCompleted
    \<and> stepChangeInput run s = Inr (Some \<lparr>ci_Session = step_Session t, ci_Artifact = ch\<rparr>)"
  using started_change_input [OF assms(1-3)] assms(4) by auto

text \<open>The run of the example as if \<open>build\<close> took over the change of \<open>plan\<close>, once \<open>plan\<close> is completed.\<close>

definition handoverDefinition :: WorkflowDefinition where
  "handoverDefinition = demoDefinition
     \<lparr>wd_Steps := [(''build'', (demoStep ''build'' [''plan''] True)\<lparr>sd_ChangeFrom := ''plan''\<rparr>),
                  (''plan'', (demoStep ''plan'' [] True)\<lparr>sd_Publishable := False\<rparr>)]\<rparr>"

definition handoverNew :: Run where
  "handoverNew = newRun (serverWorkflows demoEnvironment) demoRun handoverDefinition [] 0"

definition handoverPlan :: Step where
  "handoverPlan = (newStep (serverWorkflows demoEnvironment) ''run'' ''plan''
       ((demoStep ''plan'' [] True)\<lparr>sd_Publishable := False\<rparr>))
     \<lparr>step_State := StepCompleted, step_Output := RawDoc JNull,
       step_Change := Some \<lparr>ca_SHA256 = ''c'', ca_Bytes = 1\<rparr>\<rparr>"

definition handoverBuild :: Step where
  "handoverBuild = (newStep (serverWorkflows demoEnvironment) ''run'' ''build''
       ((demoStep ''build'' [''plan''] True)\<lparr>sd_ChangeFrom := ''plan''\<rparr>))
     \<lparr>step_State := StepStarting, step_StartedAt := Some 9\<rparr>"

definition handoverRun :: Run where
  "handoverRun = put_step ''build'' handoverBuild (put_step ''plan'' handoverPlan handoverNew)"

lemma handover_definition: "definition_ok handoverDefinition"
proof -
  have "validateGraph (wd_Steps handoverDefinition) = None"
    by (simp add: validateGraph_def visit.simps stepAfter_def handoverDefinition_def demoStep_def)
  then have "graph_ok (wd_Steps handoverDefinition)"
    using validateGraph_None [of "wd_Steps handoverDefinition"] by (simp add: handoverDefinition_def)
  then show ?thesis
    by (simp add: definition_ok_def) (simp add: handoverDefinition_def demoDefinition_def maxWorkflowSteps_def
      maxParallelism_def step_ok_def demoStep_def)
qed

lemma handover_steps:
  "get_step handoverRun n = (if n = ''build'' then Some handoverBuild else if n = ''plan'' then Some handoverPlan else None)"
  by (simp add: handoverRun_def handoverNew_def newRun_get_step handoverDefinition_def)

lemma handover_fields:
  "step_State handoverPlan = StepCompleted" "step_State handoverBuild = StepStarting"
  "step_After handoverPlan = []" "step_After handoverBuild = [''plan'']" "step_ChangeFrom handoverBuild = ''plan''"
  "step_ChangeFrom handoverPlan = []" "step_Name handoverPlan = ''plan''" "step_Change handoverPlan \<noteq> None"
  "\<not> raw_empty (step_Output handoverPlan)"
  by (simp_all add: handoverPlan_def handoverBuild_def newStep_def demoStep_def raw_empty_def)

lemma handover_static: "static_run handoverRun = static_run handoverNew"
proof -
  have new: "get_step handoverNew ''plan'' = Some (handoverPlan\<lparr>step_State := StepPending, step_Output := RawEmpty,
      step_Change := None\<rparr>)"
    "get_step handoverNew ''build'' = Some (handoverBuild\<lparr>step_State := StepPending, step_StartedAt := None\<rparr>)"
    by (simp_all add: handoverNew_def newRun_get_step handoverDefinition_def handoverPlan_def handoverBuild_def
        newStep_def demoRun_def)
  have "static_run (put_step ''plan'' handoverPlan handoverNew) = static_run handoverNew"
    using new(1) by (rule static_put_step) (simp add: static_step_def)
  moreover have "static_run handoverRun = static_run (put_step ''plan'' handoverPlan handoverNew)"
    unfolding handoverRun_def
    by (rule static_put_step [where s = "handoverBuild\<lparr>step_State := StepPending, step_StartedAt := None\<rparr>"])
      (simp_all add: new static_step_def)
  ultimately show ?thesis by simp
qed

lemma handover_ok: "run_ok handoverRun"
proof -
  have new: "run_ok handoverNew" unfolding handoverNew_def by (rule newRun_ok [OF handover_definition])
  have par: "run_MaxParallelism handoverRun = 1"
    by (simp add: handoverRun_def handoverNew_def newRun_def handoverDefinition_def demoDefinition_def)
  have "run_Steps handoverRun = [(''build'', handoverBuild), (''plan'', handoverPlan)]"
    by (simp add: handoverRun_def put_step_def handoverNew_def newRun_def handoverDefinition_def)
  then have "activeSteps handoverRun = 1"
    by (simp add: activeSteps_def count_entries_def step_active_def handover_fields)
  moreover have "step_sound handoverRun s" if "get_step handoverRun n = Some s" for n s
    using that handover_fields
    by (auto simp: handover_steps step_sound_def retained_def dep_state_def split: if_splits)
  moreover have "run_graph_ok handoverRun"
    using new run_graph_ok_static [OF handover_static] by (simp add: run_ok_def)
  ultimately show ?thesis using par by (simp add: run_ok_def)
qed

lemma change_input_available_instance:
  "\<exists>ch. stepChangeInput handoverRun handoverBuild =
     Inr (Some \<lparr>ci_Session = step_Session handoverPlan, ci_Artifact = ch\<rparr>)"
  using change_input_available [OF handover_ok, of "''build''" handoverBuild] handover_fields
  by (auto simp: handover_steps)




section \<open>Definitions\<close>

text \<open>
  C6. The graph search of the catalog accepts exactly the graphs whose dependencies are all steps and
  acyclic.
\<close>

theorem graph_check_correct:
  assumes "distinct (map fst steps)"
  shows "validateGraph steps = None \<longleftrightarrow>
    (\<forall>name s. map_of steps name = Some s \<longrightarrow> set (sd_After s) \<subseteq> fst ` set steps) \<and> acyclic (depends steps)"
proof -
  have "(\<forall>(name, s) \<in> set steps. set (sd_After s) \<subseteq> fst ` set steps) \<longleftrightarrow>
      (\<forall>name s. map_of steps name = Some s \<longrightarrow> set (sd_After s) \<subseteq> fst ` set steps)"
    using assms by auto
  with validateGraph_None [OF assms] show ?thesis by (simp add: graph_ok_def)
qed

theorem graph_check_correct_witness:
  "validateGraph [(''a'', demoStep ''a'' [''b''] False), (''b'', demoStep ''b'' [''a''] False)] \<noteq> None"
proof -
  let ?g = "[(''a'', demoStep ''a'' [''b''] False), (''b'', demoStep ''b'' [''a''] False)]"
  have "(''a'', ''b'') \<in> depends ?g" "(''b'', ''a'') \<in> depends ?g" by (simp_all add: stepAfter_def demoStep_def)
  then have "\<not> acyclic (depends ?g)" unfolding acyclic_def by (meson trancl.intros)
  moreover have "distinct (map fst ?g)" by simp
  ultimately show ?thesis using graph_check_correct [of ?g] by blast
qed

text \<open>
  A workflow file that is loaded without error gives a catalog in which every definition satisfies
  the contract that runs are built on: distinct steps within the limits, an acyclic graph of known
  dependencies, a change taken over only from a dependency, and persistent storage exactly for the steps
  that need it.
\<close>

lemma catalog_definitions_ok:
  assumes "loadWorkflowCatalog decode label agents contents = Inr ds" and "label [] \<noteq> []"
    and "\<And>file. decode contents = Inr file \<Longrightarrow>
      \<forall>f \<in> snd ` set (wcf_Workflows file). distinct (map fst (df_Steps f))"
    and "workflows_Find (Some ds) name = Some d"
  shows "definition_ok d"
  using loadWorkflowCatalog_ok [OF assms(1-3)] assms(4) by (auto simp: catalog_ok_def catalogOf_def)

text \<open>A file with one workflow of one step, and an agent for it.\<close>

definition demoFile :: WorkflowCatalogFile where
  "demoFile = \<lparr>wcf_Version = ''v1'', wcf_Workflows = [(''one'', \<lparr>df_Description = ''x'', df_MaxParallelism = 0,
     df_Steps = [(''plan'', \<lparr>sf_Agent = ''reader'', sf_Prompt = ''p'', sf_After = [], sf_ChangeFrom = [],
                           sf_Publishable = False\<rparr>)]\<rparr>)]\<rparr>"

definition demoAgents :: AgentCatalog where
  "demoAgents = \<lparr>ac_List = [], ac_Find = (\<lambda>name. Some \<lparr>ad_Name = name, ad_Description = ''x'',
     ad_Storage = StorageEphemeral, ad_Instructions = ''x'', ad_Skills = [], ad_SetupCommand = [],
     ad_CloneDepth = 1, ad_StorageSize = ''1Gi'', ad_Timeout = 60\<rparr>)\<rparr>"

lemma demo_load:
  "\<exists>d. loadWorkflowCatalog (\<lambda>_. Inr demoFile) (\<lambda>s. if s = [] then [''empty''] else []) (Some demoAgents) [] =
     Inr [(''one'', d)]"
  by (simp add: loadWorkflowCatalog_def demoFile_def loadWorkflowDefinition_def Let_def maxParallelism_def
      maxWorkflowSteps_def loadWorkflowStep_def demoAgents_def SessionDefinition_def validateGraph_def visit.simps
      stepAfter_def checkLeaf_def)

lemma catalog_definitions_ok_instance:
  "\<exists>ds d. loadWorkflowCatalog (\<lambda>_. Inr demoFile) (\<lambda>s. if s = [] then [''empty''] else []) (Some demoAgents) [] = Inr ds
     \<and> workflows_Find (Some ds) ''one'' = Some d \<and> definition_ok d"
proof -
  let ?L = "\<lambda>s :: string. if s = [] then [''empty''] else []"
  obtain d where load: "loadWorkflowCatalog (\<lambda>_. Inr demoFile) ?L (Some demoAgents) [] = Inr [(''one'', d)]"
    using demo_load by blast
  have "workflows_Find (Some [(''one'', d)]) ''one'' = Some d" by (simp add: workflows_Find_def)
  moreover from this have "definition_ok d"
    using catalog_definitions_ok [OF load, of "''one''" d] by (simp add: demoFile_def)
  ultimately show ?thesis using load by blast
qed

text \<open>
  The session of a step has a valid session name: a lowercase DNS label of at most 40 characters, and
  two steps of a run have the same one only when the hashes of their names agree in the first four bytes.
\<close>

lemma session_names_valid:
  assumes "validateRunStart c q = Inr d" and "\<And>name. length (wc_sha256 c name) \<ge> 4"
  shows "dns_label (workflowSessionName (wc_sha256 c) (wq_Name q) step)
    \<and> length (workflowSessionName (wc_sha256 c) (wq_Name q) step) \<le> 40
    \<and> (workflowSessionName (wc_sha256 c) (wq_Name q) step = workflowSessionName (wc_sha256 c) (wq_Name q) step'
        \<longrightarrow> take 4 (wc_sha256 c step) = take 4 (wc_sha256 c step'))"
proof -
  have run: "dns_label (wq_Name q)" "length (wq_Name q) \<le> 31" using validateRunStart_name [OF assms(1)] by auto
  have same: "take 4 (h s) = take 4 (h s')" if "workflowSessionName h r s = workflowSessionName h r s'" for h r s s'
    using that hex_encode_inj [of "take 4 (h s)" "take 4 (h s')"] by (simp add: workflowSessionName_def)
  have "dns_label (workflowSessionName (wc_sha256 c) (wq_Name q) step)"
    using run(1) assms(2) by (rule workflowSessionName_label)
  moreover have "length (workflowSessionName (wc_sha256 c) (wq_Name q) step) \<le> 40"
    using workflowSessionName_label(2) [OF run(1), of "wc_sha256 c" step] assms(2) run(2) by simp
  ultimately show ?thesis using same by blast
qed

lemma session_names_valid_instance:
  "dns_label (workflowSessionName (wc_sha256 (serverWorkflows demoEnvironment)) ''run'' ''plan'')"
proof -
  have "wq_Name demoRun = ''run''" by (simp add: demoRun_def)
  moreover have "length (wc_sha256 (serverWorkflows demoEnvironment) name) \<ge> 4" for name
    by (simp add: serverWorkflows_def demoEnvironment_def)
  ultimately show ?thesis using session_names_valid [OF demo_validate] by metis
qed

section \<open>Operations on runs\<close>

text \<open>
  Starting a run whose name is taken never writes anything, whatever fails, and succeeds only for the
  inputs that the stored run was created with: it then returns the stored run.
\<close>

lemma run_start_idempotent:
  assumes "storedRun (w_db w) (wq_Name q) = Some run"
  shows "w_db (snd (workflow_Start (serverWorkflows E) q w)) = w_db w
    \<and> (\<forall>r w'. workflow_Start (serverWorkflows E) q w = (Inr r, w') \<longrightarrow> r = run
         \<and> (\<exists>d. validateRunStart (serverWorkflows E) q = Inr d
              \<and> run_Intent run = workflowIntent (serverWorkflows E) (startDefaultRef q) d))"
  using workflow_Start_existing [OF storedRun_exists [OF assms], of E] workflow_Start_repeated [OF assms, of E]
  by blast

lemma demo_storedRun: "storedRun (w_db (runWorld obs)) ''run'' = Some (demoNewRun\<lparr>run_Revision := 1\<rparr>)"
  by (simp add: storedRun_def runWorld_def rowRun_def)

lemma run_start_idempotent_instance:
  "w_db (snd (workflow_Start (serverWorkflows demoEnvironment) demoRun (runWorld runningObservation))) = w_db (runWorld runningObservation)"
proof -
  have "wq_Name demoRun = ''run''" by (simp add: demoRun_def)
  then have "storedRun (w_db (runWorld runningObservation)) (wq_Name demoRun) = Some (demoNewRun\<lparr>run_Revision := 1\<rparr>)"
    by (simp add: demo_storedRun)
  from run_start_idempotent [OF this] show ?thesis by blast
qed

text \<open>
  A run that was created is stored with revision one and read back; no run of that name existed.
\<close>

lemma run_create_roundtrip:
  assumes "runs_Create driver run ds w = (Inr run', w')" and "run_Version run = ''v1''"
  shows "run' = run\<lparr>run_Revision := 1\<rparr> \<and> storedRun (w_db w) (run_Name run) = None
    \<and> storedRun (w_db w') (run_Name run) = Some run'
    \<and> (\<forall>r. reliable r \<longrightarrow> runs_Run r (run_Name run) w' = (Inr run', w'))"
proof -
  note stored = runs_Create_stored [OF assms(1)]
  have "runs_Run r (run_Name run) w' = (Inr run', w')" if "reliable r" for r
  proof -
    obtain row where row: "find (\<lambda>r. rr_Name r = run_Name run) (db_runs (w_db w')) = Some row" "rowRun row = run'"
      using stored(2) by (auto simp: storedRun_def)
    then have "rr_Name row = run_Name run" by (auto simp: find_Some_iff)
    moreover have "run_Name (rr_Contents row) = run_Name run" "run_Version (rr_Contents row) = ''v1''"
      using row(2) stored(1) assms(2) by (auto simp: rowRun_def dest: arg_cong [of _ _ run_Name] arg_cong [of _ _ run_Version])
    ultimately show ?thesis
      using row that by (simp add: runs_Run_def op_run exec_reliable GetRun_def one_row_def decodeRun_def rowRun_def
          lift_def)
  qed
  with stored show ?thesis by blast
qed

lemma run_create_roundtrip_instance:
  "\<exists>w'. runs_Create (env_driver demoEnvironment) demoNewRun [] (demoWorld runningObservation) = (Inr (demoNewRun\<lparr>run_Revision := 1\<rparr>), w')
     \<and> storedRun (w_db w') ''run'' = Some (demoNewRun\<lparr>run_Revision := 1\<rparr>)"
proof -
  have "env_driver demoEnvironment = (\<lambda>e. (NoFault, e))" by (simp add: demoEnvironment_def)
  then obtain w' where create: "runs_Create (env_driver demoEnvironment) demoNewRun [] (demoWorld runningObservation) =
      (Inr (demoNewRun\<lparr>run_Revision := 1\<rparr>), w')"
    by (simp add: runs_Create_def demoNewRun_encode transaction_def op_run exec_def CreateRun_def runExists_def
        demoWorld_def emptyDatabase_def Let_def sorted_keys_def)
  from run_create_roundtrip [OF this] have "storedRun (w_db w') ''run'' = Some (demoNewRun\<lparr>run_Revision := 1\<rparr>)"
    by simp
  with create show ?thesis by blast
qed

text \<open>
  C10. Optimistic concurrency: an update from a revision that is no longer stored fails and changes
  nothing, and an update that succeeds raises the revision by one and stores exactly the run it was given.
\<close>

theorem run_update_optimistic:
  assumes "database_ok (w_db w)"
  shows "((\<forall>r. storedRun (w_db w) (run_Name run) = Some r \<longrightarrow> run_Revision r \<noteq> run_Revision run) \<longrightarrow>
      w_db (snd (runs_Update driver run w)) = w_db w \<and> (\<exists>e. fst (runs_Update driver run w) = Inl e))
    \<and> (\<forall>run' w'. runs_Update driver run w = (Inr run', w') \<longrightarrow>
      run' = run\<lparr>run_Revision := run_Revision run + 1\<rparr> \<and> storedRun (w_db w') (run_Name run) = Some run')"
proof (intro conjI impI allI)
  assume stale: "\<forall>r. storedRun (w_db w) (run_Name run) = Some r \<longrightarrow> run_Revision r \<noteq> run_Revision run"
  have "rr_Version row \<noteq> run_Revision run"
    if row: "row \<in> set (db_runs (w_db w))" "rr_Name row = run_Name run" for row
  proof -
    obtain u where u: "find (\<lambda>r. rr_Name r = run_Name run) (db_runs (w_db w)) = Some u"
      using row by (cases "find (\<lambda>r. rr_Name r = run_Name run) (db_runs (w_db w))") (auto simp: find_None_iff)
    then have "u \<in> set (db_runs (w_db w))" "rr_Name u = run_Name run" by (auto simp: find_Some_iff)
    then have "u = row" using run_row_unique [OF assms] row by metis
    with u stale show ?thesis by (auto simp: storedRun_def rowRun_def)
  qed
  from runs_Update_stale(1,2) [OF this]
  show "w_db (snd (runs_Update driver run w)) = w_db w" and "\<exists>e. fst (runs_Update driver run w) = Inl e"
    by blast+
next
  fix run' w' assume "runs_Update driver run w = (Inr run', w')"
  from runs_Update_stored [OF this assms]
  show "run' = run\<lparr>run_Revision := run_Revision run + 1\<rparr>" and "storedRun (w_db w') (run_Name run) = Some run'"
    by blast+
qed

theorem run_update_optimistic_witness:
  "w_db (snd (runs_Update (env_driver demoEnvironment) (demoNewRun\<lparr>run_Revision := 7\<rparr>) (runWorld runningObservation))) = w_db (runWorld runningObservation)"
proof -
  have "database_ok (w_db (runWorld runningObservation))"
    using reachable_sound [OF runWorld_reachable] by (simp add: tables_sound_def)
  from run_update_optimistic [OF this, of "demoNewRun\<lparr>run_Revision := 7\<rparr>" "env_driver demoEnvironment"]
  show ?thesis using demo_storedRun [of runningObservation] by simp
qed

text \<open>
  C7. Cancellation: when the reconciliation of a stored run that is to be canceled succeeds, the stored run
  is canceled and has no step that is pending, starting or running.
\<close>

theorem cancellation_complete:
  assumes "storedRun (w_db w) name = Some run" and "\<not> terminal (run_State run)"
    and "run_State run \<noteq> StateDeleting" and "run_CancelRequested run" and "database_ok (w_db w)"
    and "workflow_Reconcile (serverWorkflows E) name w = (Inr (), w')"
  shows "\<exists>run'. storedRun (w_db w') name = Some run' \<and> run_State run' = StateCanceled
    \<and> (\<forall>n s. get_step run' n = Some s \<longrightarrow>
         step_State s \<in> {StepCompleted, StepBlocked, StepFailed, StepCanceled, StepSkipped})"
proof -
  have "\<not> step_unfinished s \<Longrightarrow> step_State s \<in> {StepCompleted, StepBlocked, StepFailed, StepCanceled, StepSkipped}"
    for s by (cases "step_State s") (simp_all add: step_unfinished_def step_active_def)
  with workflow_Reconcile_cancel [OF assms] show ?thesis by blast
qed

text \<open>The run of the example after a request to cancel it.\<close>

definition cancelWorld :: "Demo world" where
  "cancelWorld = (runWorld runningObservation)
     \<lparr>w_db := (w_db (runWorld runningObservation))
        \<lparr>db_runs := [\<lparr>rr_Name = ''run'', rr_Contents = demoNewRun\<lparr>run_CancelRequested := True, run_UpdatedAt := 1\<rparr>,
                      rr_Version = 2\<rparr>]\<rparr>,
      w_env := (w_env (runWorld runningObservation))\<lparr>demo_clock := 2\<rparr>\<rparr>"

definition cancelRun :: Run where
  "cancelRun = demoNewRun\<lparr>run_CancelRequested := True, run_UpdatedAt := 1, run_Revision := 2\<rparr>"

lemma cancelWorld_ok: "database_ok (w_db cancelWorld)"
proof -
  have "database_ok (w_db (runWorld runningObservation))"
    using reachable_sound [OF runWorld_reachable] by (simp add: tables_sound_def)
  then show ?thesis
    by (simp add: database_ok_def cancelWorld_def runWorld_def emptyDatabase_def sessionExists_def runExists_def demoSnapshot_def)
qed

lemma cancelWorld_run: "storedRun (w_db cancelWorld) ''run'' = Some cancelRun"
  by (simp add: storedRun_def cancelWorld_def rowRun_def cancelRun_def)

lemma cancelRun_fields:
  "run_State cancelRun = StatePending" "run_CancelRequested cancelRun" "run_Name cancelRun = ''run''"
  "map fst (run_Steps cancelRun) = [''build'', ''plan'']" "get_step cancelRun n = get_step demoNewRun n"
  "run_Revision cancelRun = 2"
  by (simp_all add: cancelRun_def demoNewRun_def newRun_def get_step_def startDefaultRef_def demo_defs)

lemma cancel_request_demo:
  "workflow_Cancel (serverWorkflows demoEnvironment) ''run'' (runWorld runningObservation) = (Inr (), cancelWorld)"
proof -
  have encode: "encodeRun (demoNewRun\<lparr>run_Revision := 1, run_CancelRequested := True, run_UpdatedAt := 1\<rparr>) =
      Inr (demoNewRun\<lparr>run_CancelRequested := True, run_UpdatedAt := 1\<rparr>)"
  proof -
    have "r\<lparr>run_Revision := 1, run_CancelRequested := True, run_UpdatedAt := 1, run_Revision := 0\<rparr> =
        (r\<lparr>run_Revision := 0\<rparr>)\<lparr>run_CancelRequested := True, run_UpdatedAt := 1\<rparr>" for r :: Run
      by simp
    from this [of demoNewRun]
    have zero: "demoNewRun\<lparr>run_Revision := 1, run_CancelRequested := True, run_UpdatedAt := 1, run_Revision := 0\<rparr> =
        demoNewRun\<lparr>run_CancelRequested := True, run_UpdatedAt := 1\<rparr>"
      by (simp only: demoNewRun_simps(2))
    have "\<not> list_ex (\<lambda>e. malformed (step_Output (snd e))) (run_Steps demoNewRun)"
      using demoNewRun_encode by (simp add: encodeRun_def split: if_splits)
    then show ?thesis unfolding encodeRun_def zero by simp
  qed
  have get: "runs_Run (env_driver demoEnvironment) ''run'' (runWorld runningObservation) =
      (Inr (demoNewRun\<lparr>run_Revision := 1\<rparr>), runWorld runningObservation)"
    by (simp add: runs_Run_def op_run demo_exec GetRun_def one_row_def runWorld_def decodeRun_def lift_def)
  have now: "wc_now (serverWorkflows demoEnvironment) = lift_fun (\<lambda>e. (demo_clock e, e\<lparr>demo_clock := demo_clock e + 1\<rparr>))"
    by (simp add: serverWorkflows_def demo_env)
  have state: "run_State demoNewRun = StatePending" by (simp add: demoNewRun_def newRun_def)
  have w: "db_runs (w_db (runWorld runningObservation)) = [\<lparr>rr_Name = ''run'', rr_Contents = demoNewRun, rr_Version = 1\<rparr>]"
    "demo_clock (w_env (runWorld runningObservation)) = 1"
    by (simp_all add: runWorld_def)
  show ?thesis
    by (simp add: workflow_Cancel_def load_run_def op_run get terminal_def state stamp_and_save_def now lift_fun_def
        save_run_def runs_Update_def encode demo_exec UpdateRun_def w Let_def one_row_def update_rows_def cancelWorld_def)
qed

lemma cancelWorld_reachable: "server_reachable demoEnvironment cancelWorld"
  using server_reachable.step [OF runWorld_reachable server_step.run_cancel [of demoEnvironment _ "''run''"]]
    cancel_request_demo by (metis snd_conv)

definition canceledRun :: "int \<Rightarrow> Run" where
  "canceledRun now =
     (put_step ''plan'' ((newStep (serverWorkflows demoEnvironment) ''run'' ''plan'' (demoStep ''plan'' [] False))
          \<lparr>step_State := StepCanceled, step_FinishedAt := Some now\<rparr>)
       (put_step ''build'' ((newStep (serverWorkflows demoEnvironment) ''run'' ''build'' (demoStep ''build'' [''plan''] True))
          \<lparr>step_State := StepCanceled, step_FinishedAt := Some now\<rparr>) cancelRun))
     \<lparr>run_State := StateCanceled, run_UpdatedAt := now\<rparr>"

lemma canceledRun_encode: "encodeRun (canceledRun now) = Inr ((canceledRun now)\<lparr>run_Revision := 0\<rparr>)"
proof -
  have "run_Steps (canceledRun now) =
    [(''build'', (newStep (serverWorkflows demoEnvironment) ''run'' ''build'' (demoStep ''build'' [''plan''] True))
          \<lparr>step_State := StepCanceled, step_FinishedAt := Some now\<rparr>),
     (''plan'', (newStep (serverWorkflows demoEnvironment) ''run'' ''plan'' (demoStep ''plan'' [] False))
          \<lparr>step_State := StepCanceled, step_FinishedAt := Some now\<rparr>)]"
    by (simp add: canceledRun_def put_step_def cancelRun_def demoNewRun_def newRun_def demoDefinition_def)
  then show ?thesis by (simp add: encodeRun_def newStep_def malformed_def)
qed

lemma cancel_demo: "fst (workflow_Reconcile (serverWorkflows demoEnvironment) ''run'' cancelWorld) = Inr ()"
proof -
  have get: "runs_Run (env_driver demoEnvironment) ''run'' cancelWorld = (Inr cancelRun, cancelWorld)"
    by (simp add: runs_Run_def op_run demo_exec GetRun_def one_row_def cancelWorld_def decodeRun_def lift_def
        cancelRun_def)
  have now: "wc_now (serverWorkflows demoEnvironment) = lift_fun (\<lambda>e. (demo_clock e, e\<lparr>demo_clock := demo_clock e + 1\<rparr>))"
    by (simp add: serverWorkflows_def demo_env)
  have rows: "db_runs (w_db cancelWorld) =
      [\<lparr>rr_Name = ''run'', rr_Contents = demoNewRun\<lparr>run_CancelRequested := True, run_UpdatedAt := 1\<rparr>,
        rr_Version = 2\<rparr>]"
    by (simp add: cancelWorld_def)
  have fields: "run_Name (canceledRun now) = ''run''" "run_Revision (canceledRun now) = 2" for now
    by (simp_all add: canceledRun_def cancelRun_fields)
  have "map fst (run_Steps cancelRun) = [''build'', ''plan'']" by (rule cancelRun_fields)
  then show ?thesis
    by (simp add: workflow_Reconcile_def load_run_def op_run get cancelRun_fields terminal_def
        reconcileCancellation_def now lift_fun_def cancelStep_def demo_plan Let_def step_active_def demo_pending
        canceledRun_def [symmetric] save_run_def runs_Update_def canceledRun_encode demo_exec UpdateRun_def rows
        one_row_def fields)
qed

theorem cancellation_complete_witness:
  "\<exists>w' run'. workflow_Reconcile (serverWorkflows demoEnvironment) ''run'' cancelWorld = (Inr (), w')
     \<and> storedRun (w_db w') ''run'' = Some run' \<and> run_State run' = StateCanceled"
proof -
  obtain w' where w': "workflow_Reconcile (serverWorkflows demoEnvironment) ''run'' cancelWorld = (Inr (), w')"
    using cancel_demo by (metis prod.collapse)
  from cancellation_complete [OF cancelWorld_run _ _ _ cancelWorld_ok w'] w' show ?thesis
    by (auto simp: cancelRun_fields terminal_def)
qed

text \<open>
  A run that is neither finished nor being deleted is never deleted: the request fails and writes
  nothing.
\<close>

lemma run_delete_requires_terminal:
  assumes "storedRun (w_db w) name = Some run" and "\<not> terminal (run_State run)"
    and "run_State run \<noteq> StateDeleting"
  shows "w_db (snd (workflow_Delete (serverWorkflows E) name w)) = w_db w
    \<and> (\<exists>e. fst (workflow_Delete (serverWorkflows E) name w) = Inl e)"
  using workflow_Delete_open [OF assms] by blast

lemma run_delete_requires_terminal_instance:
  "w_db (snd (workflow_Delete (serverWorkflows demoEnvironment) ''run'' cancelWorld)) = w_db cancelWorld"
  using run_delete_requires_terminal [OF cancelWorld_run] by (simp add: cancelRun_fields terminal_def)

text \<open>
  Every error of starting, reading and canceling a run has a kind.
\<close>

lemma run_errors_classified:
  "(\<forall>w e. fst (workflow_Start c q w) = Inl e \<longrightarrow> ErrorKindOf PkgWorkflow e \<noteq> None)
   \<and> (\<forall>w e. fst (workflow_Get c name w) = Inl e \<longrightarrow> ErrorKindOf PkgWorkflow e \<noteq> None)
   \<and> (\<forall>w e. fst (workflow_Cancel c name w) = Inl e \<longrightarrow> ErrorKindOf PkgWorkflow e \<noteq> None)"
  using workflow_operations_classified [where c = c] unfolding fails_with_def
  by (simp add: workflow_classified_kind)

lemma run_errors_classified_instance:
  "ErrorKindOf PkgWorkflow (workflowError ErrorNotFound ''no workflows are configured'' None) \<noteq> None
   \<and> fst (workflow_Start ((serverWorkflows demoEnvironment)\<lparr>wc_catalog := None\<rparr>) demoRun (demoWorld runningObservation)) =
       Inl (workflowError ErrorNotFound ''no workflows are configured'' None)"
proof -
  have "fst (workflow_Start ((serverWorkflows demoEnvironment)\<lparr>wc_catalog := None\<rparr>) demoRun (demoWorld runningObservation)) =
       Inl (workflowError ErrorNotFound ''no workflows are configured'' None)"
    by (simp add: workflow_Start_def validateRunStart_def)
  with run_errors_classified [of "(serverWorkflows demoEnvironment)\<lparr>wc_catalog := None\<rparr>"] show ?thesis by blast
qed

end
