(* ===== verification/Publish_Theorems.thy ===== *)
theory Publish_Theorems
  imports Examples Error_Kinds
begin

text \<open>
  The properties of publishing: what a stored publication and a published result satisfy, when a branch
  counts as owned, the polling loop, repository addresses and errors.
\<close>

section \<open>Publications\<close>

text \<open>
  In every database that the server can reach, a publication whose branch is published has a commit
  of 40 hexadecimal digits, and one whose pull request is created has a positive number and an address.
\<close>

lemma stored_publication_ok:
  assumes "server_reachable E w" and "storedPublication (w_db w) name = Some r"
  shows "(pub_State r = PublishBranchPublished \<longrightarrow> hex_of_length 40 (pub_CommitSHA r))
    \<and> (pub_State r = PublishPullRequestCreated \<or> pub_State r = PublishCompleted \<longrightarrow>
         0 < pub_PullRequestNumber r \<and> pub_PullRequestURL r \<noteq> [])"
proof -
  have "publications_satisfy publication_ok (w_db w)" using reachable_sound [OF assms(1)] by simp
  then have "publication_ok r"
    using assms(2) by (auto simp: storedPublication_def publications_satisfy_def find_Some_iff)
  then show ?thesis by (simp add: publication_ok_def)
qed

lemma stored_publication_ok_instance:
  "\<exists>w r. server_reachable demoEnvironment w \<and> storedPublication (w_db w) ''s'' = Some r
     \<and> (pub_State r = PublishCompleted \<longrightarrow> 0 < pub_PullRequestNumber r)"
proof -
  obtain r k e where w: "Publish (serverPublish demoEnvironment) demoPublish doneWorld = (Inr demoPublished, pubWorld r k e)"
    using Publish_demo by blast
  have reachable: "server_reachable demoEnvironment (pubWorld r k e)"
    using server_reachable.step [OF doneWorld_reachable server_step.publish [of demoEnvironment doneWorld demoPublish]] w
    by simp
  moreover have stored: "storedPublication (w_db (pubWorld r k e)) ''s'' = Some (r\<lparr>pub_Revision := k\<rparr>)"
    by (simp add: storedPublication_def pubWorld_def rowPublication_def)
  ultimately show ?thesis using stored_publication_ok [OF reachable stored] by blast
qed



section \<open>Ownership of a branch\<close>

lemma andThen_throw_fails: "andThen m (\<lambda>_. throw e) v \<noteq> (Inr x, v')"
  by (auto simp: op_run split: prod.splits sum.splits)

text \<open>
  A publication becomes ready only when GitHub has neither an open pull request for its branch nor
  the branch itself.
\<close>

lemma ownership_requires_absence:
  assumes "establishOwnership c r repo client w = (Inr r', w')"
  shows "\<exists>w1 commit w2.
    gh_FindOpenPullRequest client repo (pq_BaseBranch (pub_Request r)) (pq_Branch (pub_Request r)) w = (Inr None, w1)
    \<and> gh_BranchCommitSHA client repo (pq_Branch (pub_Request r)) w1 = (Inr (commit, False), w2)
    \<and> save_publication c (r\<lparr>pub_State := PublishReady\<rparr>) w2 = (Inr r', w')"
proof -
  obtain pull w1 where find:
      "gh_FindOpenPullRequest client repo (pq_BaseBranch (pub_Request r)) (pq_Branch (pub_Request r)) w = (Inr pull, w1)"
    and rest: "andThen (gh_BranchCommitSHA client repo (pq_Branch (pub_Request r)))
         (\<lambda>(_, branchExists).
           if pull \<noteq> None \<or> branchExists then
             (let r' = r\<lparr>pub_State := PublishConflicted, pub_Failure := ownershipFailure r\<rparr>
              in andThen (save_publication c r') (\<lambda>_. throw (conflictError (pub_Failure r'))))
           else save_publication c (r\<lparr>pub_State := PublishReady\<rparr>)) w1 = (Inr r', w')"
    using assms unfolding establishOwnership_def by (rule andThen_success)
  from rest obtain p w2 where branch: "gh_BranchCommitSHA client repo (pq_Branch (pub_Request r)) w1 = (Inr p, w2)"
    and last: "(case p of (_, branchExists) \<Rightarrow>
           if pull \<noteq> None \<or> branchExists then
             (let r' = r\<lparr>pub_State := PublishConflicted, pub_Failure := ownershipFailure r\<rparr>
              in andThen (save_publication c r') (\<lambda>_. throw (conflictError (pub_Failure r'))))
           else save_publication c (r\<lparr>pub_State := PublishReady\<rparr>)) w2 = (Inr r', w')"
    by (rule andThen_success)
  obtain commit ex where p: "p = (commit, ex)" by fastforce
  with last have "pull = None" "\<not> ex" by (auto simp: Let_def andThen_throw_fails split: if_splits)
  with find branch last p show ?thesis by auto
qed

definition demoClient :: "Demo world GitHubClient" where
  "demoClient =
     (let api = lift_api demoAPI
      in \<lparr>gh_BranchCommitSHA = BranchCommitSHA api, gh_WaitForBranchCommit = WaitForBranchCommit api,
          gh_FindOpenPullRequest = FindOpenPullRequest api, gh_WaitForOpenPullRequest = WaitForOpenPullRequest api,
          gh_CreatePullRequest = CreatePullRequest api\<rparr>)"

lemma demo_own:
  assumes "demo_commit e = []" and "demo_pulls e = []"
  shows "\<exists>r w. establishOwnership demoControl (demoPublication\<lparr>pub_Revision := 1\<rparr>)
      \<lparr>repo_owner = ''o'', repo_name = ''r''\<rparr> demoClient (pubWorld demoPublication 1 e) = (Inr r, w)"
  by (simp add: establishOwnership_def demoClient_def FindOpenPullRequest_def BranchCommitSHA_def lift_api_def
      demoAPI_def lift_fun_def assms op_run demo_save demoPublication_fields Let_def)

lemma ownership_requires_absence_instance:
  "\<exists>w1 w. gh_FindOpenPullRequest demoClient \<lparr>repo_owner = ''o'', repo_name = ''r''\<rparr> ''main'' ''b'' w = (Inr None, w1)"
proof -
  let ?w = "pubWorld demoPublication 1 (w_env doneWorld)"
  obtain r w where own: "establishOwnership demoControl (demoPublication\<lparr>pub_Revision := 1\<rparr>)
      \<lparr>repo_owner = ''o'', repo_name = ''r''\<rparr> demoClient ?w = (Inr r, w)"
    using demo_own [of "w_env doneWorld"] by (auto simp: doneWorld_eq)
  have "pub_Request (demoPublication\<lparr>pub_Revision := 1\<rparr>) = demoQuery" by (simp add: demoPublication_fields)
  with ownership_requires_absence [OF own] demoQuery_fields show ?thesis by auto
qed

text \<open>
  The polling loop for the branch ends without error only when GitHub reports the expected commit for
  it.
\<close>

lemma branch_wait_commit:
  assumes "WaitForBranchCommit api repo branch expected seconds w = (Inr (), w')"
  shows "\<exists>v. api_GetRef api repo (''heads/'' @ branch) v = (ApiOk expected, w') \<and> expected \<noteq> []"
proof -
  have sha: "BranchCommitSHA api repo branch v = (Inr (expected, True), v') \<Longrightarrow>
      api_GetRef api repo (''heads/'' @ branch) v = (ApiOk expected, v') \<and> expected \<noteq> []" for v v'
    by (auto simp: BranchCommitSHA_def op_run split: prod.splits response.splits if_splits)
  have "waitForBranchCommit api repo branch expected ticks w = (Inr (), w') \<Longrightarrow>
      \<exists>v. api_GetRef api repo (''heads/'' @ branch) v = (ApiOk expected, w') \<and> expected \<noteq> []" for ticks
  proof (induction ticks arbitrary: w)
    case 0
    then show ?case
      unfolding waitForBranchCommit.simps [of _ _ _ _ 0]
      by (auto simp: op_run split: prod.splits sum.splits if_splits dest!: sha)
  next
    case (Suc n)
    then show ?case
      unfolding waitForBranchCommit.simps [of _ _ _ _ "Suc n"]
      by (auto simp: op_run split: prod.splits sum.splits if_splits dest!: sha)
  qed
  with assms show ?thesis by (simp add: WaitForBranchCommit_def)
qed

lemma branch_wait_commit_instance:
  "\<exists>v. api_GetRef demoAPI \<lparr>repo_owner = ''o'', repo_name = ''r''\<rparr> (''heads/'' @ ''b'') v =
     (ApiOk ''c'', (w_env doneWorld)\<lparr>demo_commit := ''c''\<rparr>)"
proof -
  have "WaitForBranchCommit demoAPI \<lparr>repo_owner = ''o'', repo_name = ''r''\<rparr> ''b'' ''c'' 30
      ((w_env doneWorld)\<lparr>demo_commit := ''c''\<rparr>) = (Inr (), (w_env doneWorld)\<lparr>demo_commit := ''c''\<rparr>)"
    by (simp add: WaitForBranchCommit_def waitForBranchCommit.simps BranchCommitSHA_def demoAPI_def op_run)
  from branch_wait_commit [OF this] show ?thesis by blast
qed

section \<open>Repository addresses\<close>

lemma split_slash_parts: "p \<in> set (split_slash part s) \<Longrightarrow> CHR ''/'' \<notin> set part \<Longrightarrow> CHR ''/'' \<notin> set p"
  by (induction part s rule: split_slash.induct) (auto split: if_splits)

text \<open>
  Only an HTTPS address of github.com without user, query and fragment is accepted for publishing, and
  the owner and the name that are read from it are not empty and contain no slash.
\<close>

lemma repository_address:
  assumes "ParseRepository parseURL address = Inr repo"
  shows "repo_owner repo \<noteq> [] \<and> repo_name repo \<noteq> [] \<and> CHR ''/'' \<notin> set (repo_owner repo)
    \<and> CHR ''/'' \<notin> set (repo_name repo)
    \<and> (\<exists>u. parseURL address = Inr u \<and> url_Scheme u = ''https''
         \<and> map ascii_fold (url_Hostname u) = ''github.com'' \<and> \<not> url_HasUser u)"
proof -
  obtain u where u: "parseURL address = Inr u"
    using assms by (cases "parseURL address") (simp_all add: ParseRepository_def)
  have guard: "url_Scheme u = ''https''" "map ascii_fold (url_Hostname u) = ''github.com''" "\<not> url_HasUser u"
    using assms u by (auto simp: ParseRepository_def split: if_splits)
  obtain owner name where parts: "split_slash [] (trim_slash (url_Path u)) = [owner, name]"
    and repo: "owner \<noteq> []" "trim_suffix ''.git'' name \<noteq> []"
      "repo = \<lparr>repo_owner = owner, repo_name = trim_suffix ''.git'' name\<rparr>"
    using assms u by (auto simp: ParseRepository_def Let_def split: if_splits list.splits)
  have "CHR ''/'' \<notin> set owner" "CHR ''/'' \<notin> set name"
    using split_slash_parts [of _ "[]" "trim_slash (url_Path u)"] parts by auto
  moreover have "set (trim_suffix ''.git'' name) \<subseteq> set name"
    by (auto simp: trim_suffix_def dest: in_set_takeD)
  ultimately show ?thesis using u guard repo by auto
qed

lemma repository_address_instance:
  "ParseRepository (env_parseURL demoEnvironment) ''https://github.com/o/r'' = Inr \<lparr>repo_owner = ''o'', repo_name = ''r''\<rparr>
   \<and> CHR ''/'' \<notin> set ''o''"
  using repository_address [OF demo_repository] demo_repository by simp

section \<open>Pull requests of others\<close>




section \<open>Errors\<close>

text \<open>
  Every error of publishing has a kind: invalid for a request that fails validation, and otherwise
  conflict exactly for a conflicting publication, else unavailable.
\<close>

lemma publish_errors_classified:
  assumes "fst (Publish c q w) = Inl e"
  shows "if validatePublish q \<noteq> None then ErrorKindOf PkgPublish e = Some ErrorInvalid
    else ErrorKindOf PkgPublish e = Some (if errors_is e PublishErrConflict then ErrorConflict else ErrorUnavailable)"
proof (cases "validatePublish q")
  case (Some x)
  with assms show ?thesis by (auto simp: Publish_def throw_def)
next
  case None
  with assms show ?thesis
    by (auto simp: Publish_def handle_def throw_def ret_def split: prod.splits sum.splits)
qed

lemma publish_errors_classified_instance:
  "\<exists>e. fst (Publish (serverPublish demoEnvironment) (demoPublish\<lparr>pq_Branch := []\<rparr>) doneWorld) = Inl e
     \<and> ErrorKindOf PkgPublish e = Some ErrorInvalid"
proof -
  have "blank []" by code_simp
  then have invalid: "validatePublish (demoPublish\<lparr>pq_Branch := []\<rparr>) \<noteq> None"
    by (simp add: validatePublish_def demoPublish_def)
  then obtain e where e: "fst (Publish (serverPublish demoEnvironment) (demoPublish\<lparr>pq_Branch := []\<rparr>) doneWorld) = Inl e"
    by (auto simp: Publish_def throw_def)
  from publish_errors_classified [OF e] invalid e show ?thesis by auto
qed

end
