(* ===== verification/Manifest.thy ===== *)
theory Manifest
  imports Session_Types
begin

text \<open>
  The Kubernetes resources of one session task (\<open>internal/workload/manifest.go\<close>): the checks of a
  specification and the rendering of the network policy, the volume claim, the configuration of the
  agent, the repository credential and the Job.

  A resource is a map from strings to JSON values, written as a list of its entries; the document
  that \<open>json.MarshalIndent\<close> makes of it is represented by its JSON value.  Numbers are their decimal
  text.
\<close>

record ManifestSpec =
  ms_Name :: string
  ms_Namespace :: string
  ms_Image :: string
  ms_Storage :: Storage
  ms_TaskName :: string
  ms_Resume :: bool
  ms_Repository :: string
  ms_InitialRef :: string
  ms_SetupCommand :: string
  ms_Prompt :: string
  ms_AgentName :: string
  ms_Instructions :: string
  ms_Skills :: "Skill list"
  ms_CloneDepth :: int
  ms_StorageSize :: string
  ms_TimeoutSeconds :: int
  ms_ResultKind :: ResultKind
  ms_WorkflowRun :: string
  ms_WorkflowStep :: string
  ms_ChangeInput :: "ChangeInput option"
  ms_GitCredential :: string

type_synonym resource = "(string \<times> json) list"

definition codexAuthSecretName :: string where
  "codexAuthSecretName = ''coding-agent-auth''"

definition maxManifestConfigBytes :: nat where
  "maxManifestConfigBytes = 900 * 1024"

section \<open>Validation\<close>

text \<open>\<open>!dnsLabelPattern.MatchString(value) || len(value) > n\<close>\<close>

definition bad_label :: "nat \<Rightarrow> string \<Rightarrow> bool" where
  "bad_label n value \<longleftrightarrow> \<not> dns_label value \<or> length value > n"

fun agentSkillsError :: "string list \<Rightarrow> Skill list \<Rightarrow> err option" where
  "agentSkillsError names [] = None"
| "agentSkillsError names (s # ss) =
     (if bad_label 63 (sk_Name s)
      then Some (Text ''skill name must be a lowercase DNS label no longer than 63 characters'')
      else if blank (sk_Contents s)
      then Some (Text (''skill '' @ sk_Name s @ '' contents are required''))
      else if sk_Name s \<in> set names
      then Some (Text (''skill '' @ sk_Name s @ '' is duplicated''))
      else agentSkillsError (sk_Name s # names) ss)"

definition validateAgentSkills :: "Skill list \<Rightarrow> err option" where
  "validateAgentSkills skills = agentSkillsError [] skills"

definition validateSpecChange :: "ManifestSpec \<Rightarrow> bool \<Rightarrow> err option" where
  "validateSpecChange s initial =
     (case ms_ChangeInput s of
        None \<Rightarrow> None
      | Some input \<Rightarrow> first_error
          [check (\<not> initial) ''change input is only supported for an initial task'',
           check (ms_WorkflowRun s = []) ''change input requires a workflow-owned session'',
           check (bad_label 40 (ci_Session input))
             ''change input session must be a lowercase DNS label no longer than 40 characters'',
           check (ci_Session input = ms_Name s) ''change input session must differ from the target session'',
           check (\<not> hex_of_length 64 (ca_SHA256 (ci_Artifact input)))
             ''change input sha256 must contain 64 lowercase hexadecimal characters'',
           check (ca_Bytes (ci_Artifact input) \<le> 0) ''change input bytes must be greater than zero''])"

definition specConfigSize :: "ManifestSpec \<Rightarrow> nat" where
  "specConfigSize s =
     length (ms_Instructions s)
       + sum_list (map (\<lambda>k. length (sk_Name k) + length (sk_Contents k)) (ms_Skills s))"

definition validateSpecAgent :: "ManifestSpec \<Rightarrow> err option" where
  "validateSpecAgent s =
     (if ms_AgentName s = []
      then check (ms_Instructions s \<noteq> [] \<or> ms_Skills s \<noteq> [])
             ''agent name is required for instructions and skills''
      else first_error
        [check (bad_label 63 (ms_AgentName s))
           ''agent name must be a lowercase DNS label no longer than 63 characters'',
         check (blank (ms_Instructions s)) ''agent instructions are required'',
         validateAgentSkills (ms_Skills s),
         check (specConfigSize s > maxManifestConfigBytes)
           (''instructions and skills exceed '' @ itoa (int maxManifestConfigBytes) @ '' bytes'')])"

definition validateSpecStorage :: "ManifestSpec \<Rightarrow> err option" where
  "validateSpecStorage s =
     (case ms_Storage s of
        StorageEphemeral \<Rightarrow> None
      | StoragePersistent \<Rightarrow> None
      | StorageOther t \<Rightarrow> Some (Text (''unsupported storage '' @ quoted t)))"

text \<open>The empty kind is \<open>ResultKindOther []\<close>; it was replaced by the default before this check.\<close>

definition validateSpecResult :: "ManifestSpec \<Rightarrow> err option" where
  "validateSpecResult s =
     (case ms_ResultKind s of
        ResultKindPullRequest \<Rightarrow> None
      | ResultKindWorkflowOutput \<Rightarrow> None
      | ResultKindWorkflowChange \<Rightarrow>
          check (ms_Storage s \<noteq> StoragePersistent) ''workflow change result requires persistent storage''
      | ResultKindOther k \<Rightarrow>
          (if k = [] then None else Some (Text (''unsupported result kind '' @ quoted k))))"

definition validateManifest :: "ManifestSpec \<Rightarrow> bool \<Rightarrow> err option" where
  "validateManifest s initial = first_error
     [check (bad_label 40 (ms_Name s)) ''name must be a lowercase DNS label no longer than 40 characters'',
      check (bad_label 63 (ms_Namespace s))
        ''namespace must be a lowercase DNS label no longer than 63 characters'',
      check (ms_TaskName s \<noteq> [] \<and> bad_label 63 (ms_TaskName s))
        ''task name must be a lowercase DNS label no longer than 63 characters'',
      check ((ms_WorkflowRun s = []) \<noteq> (ms_WorkflowStep s = []))
        ''workflow run and step must be provided together'',
      check (ms_WorkflowRun s \<noteq> [] \<and> bad_label 40 (ms_WorkflowRun s))
        ''workflow run must be a lowercase DNS label no longer than 40 characters'',
      check (ms_WorkflowRun s \<noteq> [] \<and> bad_label 63 (ms_WorkflowStep s))
        ''workflow step must be a lowercase DNS label no longer than 63 characters'',
      validateSpecChange s initial,
      check (blank (ms_Image s)) ''image is required'',
      check (ms_InitialRef s = []) ''ref is required'',
      check (initial \<and> ms_StorageSize s = []) ''storage size is required'',
      check (ms_CloneDepth s < 0) ''clone depth cannot be negative'',
      check (ms_TimeoutSeconds s \<le> 0) ''timeout must be greater than zero'',
      check (blank (ms_Prompt s)) ''prompt is required'',
      validateSpecAgent s,
      validateSpecStorage s,
      validateSpecResult s]"

section \<open>Names and labels\<close>

definition sessionClaimName :: "string \<Rightarrow> string" where
  "sessionClaimName name = ''session-'' @ name"

definition sessionAgentConfigName :: "string \<Rightarrow> string" where
  "sessionAgentConfigName name = ''session-'' @ name @ ''-agent''"

definition agentSkillKey :: "string \<Rightarrow> string" where
  "agentSkillKey name = ''skill-'' @ name"

definition taskName :: "ManifestSpec \<Rightarrow> string" where
  "taskName s = (if ms_TaskName s \<noteq> [] then ms_TaskName s else ms_Name s)"

definition repositoryCredentialSecretName :: "ManifestSpec \<Rightarrow> string" where
  "repositoryCredentialSecretName s = taskName s @ ''-git''"

definition sessionLabels :: "string \<Rightarrow> resource" where
  "sessionLabels session =
     [(''app.kubernetes.io/name'', JString ''coding-agent''),
      (''app.kubernetes.io/managed-by'', JString ''dyne''),
      (''coding-agent/session'', JString session)]"

definition sessionLabelsFor :: "ManifestSpec \<Rightarrow> resource" where
  "sessionLabelsFor s =
     sessionLabels (ms_Name s) @
     (if ms_WorkflowRun s \<noteq> []
      then [(''coding-agent/workflow-run'', JString (ms_WorkflowRun s)),
            (''coding-agent/workflow-step'', JString (ms_WorkflowStep s))] else [])"

definition taskLabels :: "ManifestSpec \<Rightarrow> resource" where
  "taskLabels s = sessionLabelsFor s @ [(''coding-agent/task'', JString (taskName s))]"

definition defaultResultKind :: "ResultKind \<Rightarrow> ResultKind" where
  "defaultResultKind k = (if k = ResultKindOther [] then ResultKindPullRequest else k)"

fun result_kind_text :: "ResultKind \<Rightarrow> string" where
  "result_kind_text ResultKindPullRequest = ''pull-request''"
| "result_kind_text ResultKindWorkflowOutput = ''workflow-output''"
| "result_kind_text ResultKindWorkflowChange = ''workflow-change''"
| "result_kind_text (ResultKindOther k) = k"

fun storage_text :: "Storage \<Rightarrow> string" where
  "storage_text StorageEphemeral = ''ephemeral''"
| "storage_text StoragePersistent = ''persistent''"
| "storage_text (StorageOther t) = t"

definition bool_text :: "bool \<Rightarrow> string" where
  "bool_text b = (if b then ''true'' else ''false'')"

definition jint :: "int \<Rightarrow> json" where
  "jint i = JNumber (itoa i)"

section \<open>Resources\<close>

definition denyIngressPolicy :: "string \<Rightarrow> resource" where
  "denyIngressPolicy namespace =
     [(''apiVersion'', JString ''networking.k8s.io/v1''),
      (''kind'', JString ''NetworkPolicy''),
      (''metadata'', JObject
        [(''name'', JString ''deny-all-ingress''),
         (''namespace'', JString namespace)]),
      (''spec'', JObject
        [(''podSelector'', JObject []),
         (''policyTypes'', JArray [JString ''Ingress''])])]"

definition persistentVolumeClaim :: "ManifestSpec \<Rightarrow> resource" where
  "persistentVolumeClaim s =
     [(''apiVersion'', JString ''v1''),
      (''kind'', JString ''PersistentVolumeClaim''),
      (''metadata'', JObject
        [(''name'', JString (sessionClaimName (ms_Name s))),
         (''namespace'', JString (ms_Namespace s)),
         (''labels'', JObject (sessionLabelsFor s))]),
      (''spec'', JObject
        [(''accessModes'', JArray [JString ''ReadWriteOnce'']),
         (''resources'', JObject
           [(''requests'', JObject [(''storage'', JString (ms_StorageSize s))])])])]"

definition agentConfigMap :: "ManifestSpec \<Rightarrow> resource" where
  "agentConfigMap s =
     [(''apiVersion'', JString ''v1''),
      (''kind'', JString ''ConfigMap''),
      (''metadata'', JObject
        [(''name'', JString (sessionAgentConfigName (ms_Name s))),
         (''namespace'', JString (ms_Namespace s)),
         (''labels'', JObject (sessionLabelsFor s))]),
      (''immutable'', JBool True),
      (''data'', JObject
        (foldl (\<lambda>data k. AList.update (agentSkillKey (sk_Name k)) (JString (sk_Contents k)) data)
           [(''instructions'', JString (ms_Instructions s))] (ms_Skills s)))]"

definition repositoryCredentialSecret :: "ManifestSpec \<Rightarrow> resource" where
  "repositoryCredentialSecret s =
     [(''apiVersion'', JString ''v1''),
      (''kind'', JString ''Secret''),
      (''metadata'', JObject
        [(''name'', JString (repositoryCredentialSecretName s)),
         (''namespace'', JString (ms_Namespace s)),
         (''labels'', JObject (taskLabels s))]),
      (''type'', JString ''Opaque''),
      (''stringData'', JObject [(''token'', JString (ms_GitCredential s))])]"

section \<open>Containers\<close>

record MountAccess =
  acc_workspace :: bool
  acc_home :: bool
  acc_tmp :: bool
  acc_codex :: bool
  acc_artifacts :: bool
  acc_logs :: bool
  acc_gitAuth :: bool
  acc_agentInstructions :: bool
  acc_agentSkills :: bool
  acc_changeInput :: bool

definition noAccess :: MountAccess where
  "noAccess = \<lparr>acc_workspace = False, acc_home = False, acc_tmp = False, acc_codex = False,
     acc_artifacts = False, acc_logs = False, acc_gitAuth = False, acc_agentInstructions = False,
     acc_agentSkills = False, acc_changeInput = False\<rparr>"

text \<open>A mount of the volume \<open>name\<close>, with the further fields \<open>fs\<close>.\<close>

definition mount :: "string \<Rightarrow> string \<Rightarrow> resource \<Rightarrow> json" where
  "mount name path fs = JObject ([(''name'', JString name), (''mountPath'', JString path)] @ fs)"

definition containerMounts :: "bool \<Rightarrow> MountAccess \<Rightarrow> json list" where
  "containerMounts workspaceReadOnly access =
     (if acc_workspace access
      then [mount ''session'' ''/workspace''
              [(''subPath'', JString ''workspace''), (''readOnly'', JBool workspaceReadOnly)]] else []) @
     (if acc_home access
      then [mount ''session'' ''/home/agent'' [(''subPath'', JString ''home'')]] else []) @
     (if acc_tmp access then [mount ''tmp'' ''/tmp'' []] else []) @
     (if acc_codex access
      then [mount ''session'' ''/codex'' [(''subPath'', JString ''agent'')],
            mount ''auth'' ''/var/run/agent-auth'' [(''readOnly'', JBool True)]] else []) @
     (if acc_artifacts access
      then [mount ''session'' ''/artifacts'' [(''subPath'', JString ''artifacts'')]] else []) @
     (if acc_logs access
      then [mount ''session'' ''/logs'' [(''subPath'', JString ''logs'')]] else []) @
     (if acc_gitAuth access
      then [mount ''git-auth'' ''/var/run/git-auth'' [(''readOnly'', JBool True)]] else []) @
     (if acc_agentSkills access
      then [mount ''agent-config'' ''/home/agent/.agents/skills'' [(''readOnly'', JBool True)]] else []) @
     (if acc_changeInput access
      then [mount ''change-input'' ''/change''
              [(''subPath'', JString ''artifacts''), (''readOnly'', JBool True)]] else [])"

definition variable :: "string \<Rightarrow> string \<Rightarrow> json" where
  "variable name value = JObject [(''name'', JString name), (''value'', JString value)]"

text \<open>
  The variables \<open>CHANGE_SHA256\<close> and \<open>CHANGE_BYTES\<close> are read through the pointer \<open>ChangeInput\<close>, which
  every caller that asks for \<open>changeInput\<close> has checked.
\<close>

definition containerEnvironment :: "ManifestSpec \<Rightarrow> MountAccess \<Rightarrow> json list" where
  "containerEnvironment s access =
     [variable ''AGENT_STORAGE'' (storage_text (ms_Storage s)),
      variable ''AGENT_REPOSITORY'' (ms_Repository s),
      variable ''AGENT_REF'' (ms_InitialRef s),
      variable ''AGENT_SETUP'' (ms_SetupCommand s),
      variable ''AGENT_TASK'' (ms_Prompt s),
      variable ''AGENT_TASK_ID'' (taskName s),
      variable ''AGENT_RESUME'' (bool_text (ms_Resume s)),
      variable ''AGENT_CLONE_DEPTH'' (itoa (ms_CloneDepth s)),
      variable ''AGENT_RESULT_KIND'' (result_kind_text (defaultResultKind (ms_ResultKind s))),
      variable ''HOME'' ''/home/agent'',
      variable ''CODEX_HOME'' ''/codex'',
      variable ''MISE_DATA_DIR'' ''/home/agent/.local/share/mise'',
      variable ''MISE_CACHE_DIR'' ''/home/agent/.cache/mise'',
      variable ''npm_config_cache'' ''/home/agent/.cache/npm''] @
     (if acc_agentInstructions access
      then [JObject
             [(''name'', JString ''AGENT_INSTRUCTIONS''),
              (''valueFrom'', JObject
                [(''configMapKeyRef'', JObject
                  [(''name'', JString (sessionAgentConfigName (ms_Name s))),
                   (''key'', JString ''instructions'')])])]] else []) @
     (case (acc_changeInput access, ms_ChangeInput s) of
        (True, Some input) \<Rightarrow>
          [variable ''CHANGE_SHA256'' (ca_SHA256 (ci_Artifact input)),
           variable ''CHANGE_BYTES'' (itoa (ca_Bytes (ci_Artifact input)))]
      | _ \<Rightarrow> [])"

definition sessionContainer :: "ManifestSpec \<Rightarrow> string \<Rightarrow> json \<Rightarrow> bool \<Rightarrow> MountAccess \<Rightarrow> resource" where
  "sessionContainer s name args workspaceReadOnly access =
     [(''name'', JString name),
      (''image'', JString (ms_Image s)),
      (''imagePullPolicy'', JString ''IfNotPresent''),
      (''args'', args),
      (''workingDir'', JString ''/workspace''),
      (''env'', JArray (containerEnvironment s access)),
      (''securityContext'', JObject
        [(''allowPrivilegeEscalation'', JBool False),
         (''readOnlyRootFilesystem'', JBool True),
         (''capabilities'', JObject [(''drop'', JArray [JString ''ALL''])])]),
      (''resources'', JObject
        [(''requests'', JObject
           [(''cpu'', JString ''250m''), (''memory'', JString ''512Mi''),
            (''ephemeral-storage'', JString ''256Mi'')]),
         (''limits'', JObject
           [(''cpu'', JString ''2''), (''memory'', JString ''4Gi''),
            (''ephemeral-storage'', JString ''2Gi'')])]),
      (''volumeMounts'', JArray (containerMounts workspaceReadOnly access))]"

definition sessionDirectoryContainer :: "ManifestSpec \<Rightarrow> resource" where
  "sessionDirectoryContainer s =
     (let container = sessionContainer s ''session-init'' JNull False noAccess;
          container = AList.update ''command'' (JArray [JString ''mkdir'']) container;
          container = AList.update ''args'' (JArray
            [JString ''-p'', JString ''/session/workspace'', JString ''/session/home'',
             JString ''/session/agent'', JString ''/session/logs'', JString ''/session/artifacts''])
            container
      in AList.update ''volumeMounts'' (JArray [mount ''session'' ''/session'' []]) container)"

section \<open>Pods and Jobs\<close>

definition emptyDir :: "resource \<Rightarrow> string \<times> json" where
  "emptyDir fs = (''emptyDir'', JObject fs)"

definition sessionVolumes :: "ManifestSpec \<Rightarrow> json list" where
  "sessionVolumes s =
     (let volumes =
        [JObject
           [(''name'', JString ''session''),
            (if ms_Storage s = StorageEphemeral then emptyDir [(''sizeLimit'', JString ''7Gi'')]
             else (''persistentVolumeClaim'', JObject
                    [(''claimName'', JString (sessionClaimName (ms_Name s)))]))],
         JObject
           [(''name'', JString ''tmp''),
            emptyDir [(''medium'', JString ''Memory''), (''sizeLimit'', JString ''1Gi'')]],
         JObject
           [(''name'', JString ''auth''),
            (''secret'', JObject
              [(''secretName'', JString codexAuthSecretName),
               (''optional'', JBool True),
               (''defaultMode'', jint 288)])],
         JObject [(''name'', JString ''git-auth''), emptyDir []]];
        volumes =
          (if ms_GitCredential s \<noteq> []
           then volumes[3 := JObject
             [(''name'', JString ''git-auth''),
              (''secret'', JObject
                [(''secretName'', JString (repositoryCredentialSecretName s)),
                 (''defaultMode'', jint 288)])]]
           else volumes);
        volumes =
          (if ms_Skills s \<noteq> []
           then volumes @ [JObject
             [(''name'', JString ''agent-config''),
              (''configMap'', JObject
                [(''name'', JString (sessionAgentConfigName (ms_Name s))),
                 (''items'', JArray (map (\<lambda>k. JObject
                    [(''key'', JString (agentSkillKey (sk_Name k))),
                     (''path'', JString (sk_Name k @ ''/SKILL.md''))])
                    (sort_key sk_Name (ms_Skills s))))])]]
           else volumes)
      in case ms_ChangeInput s of
           None \<Rightarrow> volumes
         | Some input \<Rightarrow> volumes @ [JObject
             [(''name'', JString ''change-input''),
              (''persistentVolumeClaim'', JObject
                [(''claimName'', JString (sessionClaimName (ci_Session input))),
                 (''readOnly'', JBool True)])]])"

definition agentAccess :: "ManifestSpec \<Rightarrow> MountAccess" where
  "agentAccess s =
     noAccess\<lparr>acc_workspace := True, acc_home := True, acc_tmp := True, acc_codex := True,
       acc_artifacts := True, acc_logs := True, acc_agentInstructions := ms_AgentName s \<noteq> [],
       acc_agentSkills := ms_Skills s \<noteq> []\<rparr>"

definition initContainers :: "ManifestSpec \<Rightarrow> resource list" where
  "initContainers s =
     [sessionDirectoryContainer s,
      sessionContainer s ''repo-init'' (JArray [JString ''clone'']) False
        (noAccess\<lparr>acc_workspace := True, acc_artifacts := True, acc_gitAuth := True\<rparr>)] @
     (if ms_ChangeInput s \<noteq> None
      then [sessionContainer s ''change-init'' (JArray [JString ''apply-change'']) False
              (noAccess\<lparr>acc_workspace := True, acc_changeInput := True\<rparr>)] else []) @
     [sessionContainer s ''workspace-init'' (JArray [JString ''init'']) False
        (noAccess\<lparr>acc_workspace := True, acc_home := True, acc_tmp := True\<rparr>),
      sessionContainer s ''auth-init'' (JArray [JString ''auth'']) False (noAccess\<lparr>acc_codex := True\<rparr>)]"

definition agentContainer :: "ManifestSpec \<Rightarrow> resource" where
  "agentContainer s =
     sessionContainer s ''agent'' (JArray [JString ''run'']) (ms_Storage s = StorageEphemeral) (agentAccess s)"

definition sessionPodTemplate :: "ManifestSpec \<Rightarrow> json" where
  "sessionPodTemplate s = JObject
     [(''metadata'', JObject [(''labels'', JObject (taskLabels s))]),
      (''spec'', JObject
        [(''automountServiceAccountToken'', JBool False),
         (''restartPolicy'', JString ''Never''),
         (''terminationGracePeriodSeconds'', jint 30),
         (''securityContext'', JObject
           [(''runAsNonRoot'', JBool True),
            (''runAsUser'', jint 1000),
            (''runAsGroup'', jint 1000),
            (''fsGroup'', jint 1000),
            (''seccompProfile'', JObject [(''type'', JString ''RuntimeDefault'')])]),
         (''initContainers'', JArray (map JObject (initContainers s))),
         (''containers'', JArray [JObject (agentContainer s)]),
         (''volumes'', JArray (sessionVolumes s))])]"

definition sessionJob :: "ManifestSpec \<Rightarrow> resource" where
  "sessionJob s =
     [(''apiVersion'', JString ''batch/v1''),
      (''kind'', JString ''Job''),
      (''metadata'', JObject
        [(''name'', JString (taskName s)),
         (''namespace'', JString (ms_Namespace s)),
         (''labels'', JObject (sessionLabelsFor s @ [(''coding-agent/task'', JString (taskName s))]))]),
      (''spec'', JObject
        [(''backoffLimit'', jint 1),
         (''activeDeadlineSeconds'', jint (ms_TimeoutSeconds s)),
         (''template'', sessionPodTemplate s)])]"

section \<open>The document\<close>

definition encodeResourceList :: "resource list \<Rightarrow> json" where
  "encodeResourceList items = JObject
     [(''apiVersion'', JString ''v1''),
      (''kind'', JString ''List''),
      (''items'', JArray (map JObject items))]"

definition manifestItems :: "ManifestSpec \<Rightarrow> bool \<Rightarrow> resource list" where
  "manifestItems s initial =
     [denyIngressPolicy (ms_Namespace s)] @
     (if initial \<and> ms_Storage s = StoragePersistent then [persistentVolumeClaim s] else []) @
     (if ms_AgentName s \<noteq> [] then [agentConfigMap s] else []) @
     (if ms_GitCredential s \<noteq> [] then [repositoryCredentialSecret s] else []) @
     [sessionJob s]"

definition render :: "ManifestSpec \<Rightarrow> bool \<Rightarrow> err + json" where
  "render s initial =
     (case validateManifest s initial of
        Some e \<Rightarrow> Inl e
      | None \<Rightarrow> Inr (encodeResourceList (manifestItems s initial)))"

definition renderSessionManifest :: "ManifestSpec \<Rightarrow> err + json" where
  "renderSessionManifest s = render s True"

definition renderContinuationManifest :: "ManifestSpec \<Rightarrow> err + json" where
  "renderContinuationManifest s =
     (if ms_Storage s \<noteq> StoragePersistent then Inl (Text ''continuation requires persistent storage'')
      else if ms_TaskName s = [] then Inl (Text ''continuation task name is required'')
      else render s False)"

end
