(* ===== verification/Json_Text.thy ===== *)
theory Json_Text
  imports Json_Value
begin

text \<open>
  The part of Go's \<open>encoding/json\<close> that reads text: the grammar of a JSON value, and the decoding
  of an object into a struct whose fields are strings, booleans and 64-bit integers.

  A parser takes the text and returns the value with the text that follows it, or \<open>None\<close> on a
  syntax error.  The recursion is bounded by a fuel argument; \<open>next_value_fuel\<close> shows that any
  larger fuel gives the same result.  Text is taken to be valid UTF-8: the decoder
  would replace other bytes of a string by the replacement rune.  The nesting limit of 10000 is not
  modelled.
\<close>

section \<open>Lexical elements\<close>

definition json_space :: "char \<Rightarrow> bool" where
  "json_space c \<longleftrightarrow> c \<in> {CHR 0x20, CHR 0x09, CHR 0x0A, CHR 0x0D}"

definition skip_space :: "string \<Rightarrow> string" where
  "skip_space s = dropWhile json_space s"

definition digit :: "char \<Rightarrow> bool" where
  "digit c \<longleftrightarrow> c \<in> set ''0123456789''"

fun hex_value :: "char \<Rightarrow> nat option" where
  "hex_value c =
     (let n = (of_char c :: nat) in
      if 48 \<le> n \<and> n \<le> 57 then Some (n - 48)
      else if 97 \<le> n \<and> n \<le> 102 then Some (n - 87)
      else if 65 \<le> n \<and> n \<le> 70 then Some (n - 55)
      else None)"

fun hex4 :: "string \<Rightarrow> (nat \<times> string) option" where
  "hex4 (a # b # c # d # s) =
     (case (hex_value a, hex_value b, hex_value c, hex_value d) of
        (Some a, Some b, Some c, Some d) \<Rightarrow> Some (((a * 16 + b) * 16 + c) * 16 + d, s)
      | _ \<Rightarrow> None)"
| "hex4 _ = None"

definition utf8 :: "nat \<Rightarrow> string" where
  "utf8 u =
     (if u < 128 then [char_of u]
      else if u < 2048 then [char_of (192 + u div 64), char_of (128 + u mod 64)]
      else if u < 65536
      then [char_of (224 + u div 4096), char_of (128 + u div 64 mod 64), char_of (128 + u mod 64)]
      else [char_of (240 + u div 262144), char_of (128 + u div 4096 mod 64),
            char_of (128 + u div 64 mod 64), char_of (128 + u mod 64)])"

text \<open>
  The text after \<open>\u\<close>: a rune, a pair of surrogates, or a single surrogate, which is replaced by
  U+FFFD.
\<close>

definition unicode_escape :: "string \<Rightarrow> (string \<times> string) option" where
  "unicode_escape s =
     (case hex4 s of
        None \<Rightarrow> None
      | Some (u, s') \<Rightarrow>
          if 55296 \<le> u \<and> u < 57344 then
            (case s' of
               b # c # s'' \<Rightarrow>
                 (if b = CHR 0x5C \<and> c = CHR ''u'' then
                    (case hex4 s'' of
                       Some (l, s''') \<Rightarrow>
                         if u < 56320 \<and> 56320 \<le> l \<and> l < 57344
                         then Some (utf8 ((u - 55296) * 1024 + (l - 56320) + 65536), s''')
                         else Some (utf8 65533, s')
                     | None \<Rightarrow> Some (utf8 65533, s'))
                  else Some (utf8 65533, s'))
             | _ \<Rightarrow> Some (utf8 65533, s'))
          else Some (utf8 u, s'))"

definition simple_escape :: "char \<Rightarrow> char option" where
  "simple_escape c =
     (if c \<in> {CHR 0x22, CHR 0x5C, CHR ''/''} then Some c
      else map_of [(CHR ''b'', CHR 0x08), (CHR ''f'', CHR 0x0C), (CHR ''n'', CHR 0x0A),
                   (CHR ''r'', CHR 0x0D), (CHR ''t'', CHR 0x09)] c)"

text \<open>The characters of a string after its opening quotation mark.\<close>

fun string_body :: "nat \<Rightarrow> string \<Rightarrow> (string \<times> string) option" where
  "string_body 0 s = None"
| "string_body (Suc n) [] = None"
| "string_body (Suc n) (c # s) =
     (if c = CHR 0x22 then Some ([], s)
      else if c = CHR 0x5C then
        (case s of
           [] \<Rightarrow> None
         | e # s' \<Rightarrow>
             (case (if e = CHR ''u'' then unicode_escape s' else map_option (\<lambda>x. ([x], s')) (simple_escape e)) of
                None \<Rightarrow> None
              | Some (x, s'') \<Rightarrow> map_option (\<lambda>(t, r). (x @ t, r)) (string_body n s'')))
      else if (of_char c :: nat) < 32 then None
      else map_option (\<lambda>(t, r). (c # t, r)) (string_body n s))"

definition json_string :: "string \<Rightarrow> (string \<times> string) option" where
  "json_string s = string_body (length s) s"

definition digits1 :: "string \<Rightarrow> (string \<times> string) option" where
  "digits1 s = (let d = takeWhile digit s in if d = [] then None else Some (d, dropWhile digit s))"

text \<open>A number: its literal text, in the parts sign, integer, fraction and exponent.\<close>

definition number_sign :: "string \<Rightarrow> string \<times> string" where
  "number_sign s =
     (case s of [] \<Rightarrow> ([], s) | c # r \<Rightarrow> if c = CHR ''-'' then (''-'', r) else ([], s))"

definition number_integer :: "string \<Rightarrow> (string \<times> string) option" where
  "number_integer s =
     (case s of [] \<Rightarrow> None | c # r \<Rightarrow> if c = CHR ''0'' then Some (''0'', r) else digits1 s)"

definition number_fraction :: "string \<Rightarrow> (string \<times> string) option" where
  "number_fraction s =
     (case s of
        [] \<Rightarrow> Some ([], s)
      | c # r \<Rightarrow>
          if c = CHR ''.'' then map_option (\<lambda>(d, t). (''.'' @ d, t)) (digits1 r) else Some ([], s))"

definition exponent_sign :: "string \<Rightarrow> string \<times> string" where
  "exponent_sign s =
     (case s of
        [] \<Rightarrow> ([], s)
      | c # r \<Rightarrow> if c = CHR ''+'' \<or> c = CHR ''-'' then ([c], r) else ([], s))"

definition number_exponent :: "string \<Rightarrow> (string \<times> string) option" where
  "number_exponent s =
     (case s of
        [] \<Rightarrow> Some ([], s)
      | c # r \<Rightarrow>
          if c = CHR ''e'' \<or> c = CHR ''E''
          then (case exponent_sign r of
                  (sign, r') \<Rightarrow> map_option (\<lambda>(d, t). (c # sign @ d, t)) (digits1 r'))
          else Some ([], s))"

definition json_number :: "string \<Rightarrow> (string \<times> string) option" where
  "json_number s =
     (case number_sign s of
        (sign, s1) \<Rightarrow>
          Option.bind (number_integer s1) (\<lambda>(i, s2).
            Option.bind (number_fraction s2) (\<lambda>(f, s3).
              map_option (\<lambda>(e, s4). (sign @ i @ f @ e, s4)) (number_exponent s3))))"

definition json_literal :: "string \<Rightarrow> (json \<times> string) option" where
  "json_literal s =
     (if is_prefix_of ''true'' s then Some (JBool True, drop 4 s)
      else if is_prefix_of ''false'' s then Some (JBool False, drop 5 s)
      else if is_prefix_of ''null'' s then Some (JNull, drop 4 s)
      else None)"

section \<open>Values\<close>

text \<open>The text after the symbol \<open>c\<close>, which white space may precede.\<close>

definition symbol :: "char \<Rightarrow> string \<Rightarrow> string option" where
  "symbol c s = (case skip_space s of [] \<Rightarrow> None | d # r \<Rightarrow> if d = c then Some r else None)"

text \<open>A value that is neither an array nor an object.\<close>

definition json_atom :: "string \<Rightarrow> (json \<times> string) option" where
  "json_atom s =
     (case skip_space s of
        [] \<Rightarrow> None
      | c # r \<Rightarrow>
          if c = CHR 0x22 then map_option (\<lambda>(t, r). (JString t, r)) (json_string r)
          else if c = CHR ''-'' \<or> digit c then map_option (\<lambda>(t, r). (JNumber t, r)) (json_number (c # r))
          else json_literal (c # r))"

fun json_value :: "nat \<Rightarrow> string \<Rightarrow> (json \<times> string) option"
  and json_elements :: "nat \<Rightarrow> string \<Rightarrow> (json list \<times> string) option"
  and json_members :: "nat \<Rightarrow> string \<Rightarrow> ((string \<times> json) list \<times> string) option" where
  "json_value 0 s = None"
| "json_value (Suc n) s =
     (case symbol CHR ''{'' s of
        Some r \<Rightarrow>
          (case symbol CHR ''}'' r of
             Some t \<Rightarrow> Some (JObject [], t)
           | None \<Rightarrow> map_option (\<lambda>(ms, t). (JObject ms, t)) (json_members n r))
      | None \<Rightarrow>
          (case symbol CHR ''['' s of
             Some r \<Rightarrow>
               (case symbol CHR '']'' r of
                  Some t \<Rightarrow> Some (JArray [], t)
                | None \<Rightarrow> map_option (\<lambda>(vs, t). (JArray vs, t)) (json_elements n r))
           | None \<Rightarrow> json_atom s))"
| "json_elements 0 s = None"
| "json_elements (Suc n) s =
     (case json_value n s of
        None \<Rightarrow> None
      | Some (v, r) \<Rightarrow>
          (case symbol CHR '']'' r of
             Some t \<Rightarrow> Some ([v], t)
           | None \<Rightarrow>
               (case symbol CHR '','' r of
                  None \<Rightarrow> None
                | Some t \<Rightarrow> map_option (\<lambda>(vs, t). (v # vs, t)) (json_elements n t))))"
| "json_members 0 s = None"
| "json_members (Suc n) s =
     (case Option.bind (symbol CHR 0x22 s) json_string of
        None \<Rightarrow> None
      | Some (k, r) \<Rightarrow>
          (case Option.bind (symbol CHR '':'' r) (json_value n) of
             None \<Rightarrow> None
           | Some (v, r) \<Rightarrow>
               (case symbol CHR ''}'' r of
                  Some t \<Rightarrow> Some ([(k, v)], t)
                | None \<Rightarrow>
                    (case symbol CHR '','' r of
                       None \<Rightarrow> None
                     | Some t \<Rightarrow> map_option (\<lambda>(ms, t). ((k, v) # ms, t)) (json_members n t)))))"

declare json_value.simps [simp del] json_elements.simps [simp del] json_members.simps [simp del]

text \<open>The fuel: two calls may share one character, the bracket before an element.\<close>

definition parse_fuel :: "string \<Rightarrow> nat" where
  "parse_fuel s = 2 * length s + 2"

text \<open>The next value of a text, and the value of a text that holds one value only.\<close>

definition next_value :: "string \<Rightarrow> (json \<times> string) option" where
  "next_value s = json_value (parse_fuel s) s"

definition parse_json :: "string \<Rightarrow> json option" where
  "parse_json s =
     (case next_value s of
        Some (v, r) \<Rightarrow> if skip_space r = [] then Some v else None
      | None \<Rightarrow> None)"

section \<open>The text that is left, and the fuel\<close>

lemma hex4_length: "hex4 s = Some (u, r) \<Longrightarrow> length s = length r + 4"
  by (cases s rule: hex4.cases) (auto split: option.splits)

lemma unicode_escape_length: "unicode_escape s = Some (x, r) \<Longrightarrow> length r < length s"
  by (auto simp: unicode_escape_def dest!: hex4_length split: option.splits list.splits if_splits)

lemma string_body_length: "string_body n s = Some (t, r) \<Longrightarrow> length r < length s"
proof (induction n s arbitrary: t r rule: string_body.induct)
  case (3 n c s)
  then show ?case
    by (auto split: if_splits list.splits option.splits dest!: unicode_escape_length) fastforce+
qed auto

lemma skip_space_length: "length (skip_space s) \<le> length s"
  by (simp add: skip_space_def length_dropWhile_le)

lemma skip_space_Cons: "skip_space s = c # r \<Longrightarrow> length r < length s"
  using skip_space_length [of s] by simp

lemma digits1_length: "digits1 s = Some (d, r) \<Longrightarrow> length r < length s"
  by (cases s) (auto simp: digits1_def Let_def length_dropWhile_le less_Suc_eq_le split: if_splits)

lemma json_string_length: "json_string s = Some (t, r) \<Longrightarrow> length r < length s"
  by (simp add: json_string_def string_body_length)

lemma json_literal_length: "json_literal s = Some (v, r) \<Longrightarrow> length r < length s"
  by (cases s) (auto simp: json_literal_def split: if_splits)

lemma number_parts_length:
  "number_sign s = (t, r) \<Longrightarrow> length r \<le> length s"
  "number_integer s = Some (t, r) \<Longrightarrow> length r < length s"
  "number_fraction s = Some (t, r) \<Longrightarrow> length r \<le> length s"
  "exponent_sign s = (t, r) \<Longrightarrow> length r \<le> length s"
  by (auto simp: number_sign_def number_integer_def number_fraction_def exponent_sign_def
      dest!: digits1_length split: list.splits if_splits)

lemma number_exponent_length: "number_exponent s = Some (t, r) \<Longrightarrow> length r \<le> length s"
  by (auto simp: number_exponent_def dest!: digits1_length number_parts_length(4)
      split: list.splits if_splits prod.splits)

lemma json_number_length: "json_number s = Some (t, r) \<Longrightarrow> length r < length s"
  by (auto simp: json_number_def bind_eq_Some_conv dest!: number_parts_length(1-3) number_exponent_length
      split: prod.splits)

lemma symbol_length: "symbol c s = Some r \<Longrightarrow> length r < length s"
  by (auto simp: symbol_def dest: skip_space_Cons split: list.splits if_splits)

lemma json_atom_length: "json_atom s = Some (v, r) \<Longrightarrow> length r < length s"
  using skip_space_length [of s]
  by (auto simp: json_atom_def split: list.splits if_splits dest!: json_string_length json_number_length
      json_literal_length)

lemma json_value_length:
  "json_value n s = Some (v, r) \<Longrightarrow> length r < length s"
  "json_elements n s = Some (vs, r) \<Longrightarrow> length r < length s"
  "json_members n s = Some (ms, r) \<Longrightarrow> length r < length s"
proof (induction n s and n s and n s arbitrary: v r and vs r and ms r rule: json_value_json_elements_json_members.induct)
  case (2 n s)
  show ?case
  proof (cases "symbol CHR ''{'' s")
    case (Some t)
    with 2(2) [OF Some] 2(3) symbol_length [OF Some] show ?thesis
      by (auto simp: json_value.simps split: option.splits dest: symbol_length less_trans)
  next
    case None
    show ?thesis
    proof (cases "symbol CHR ''['' s")
      case (Some t)
      with 2(1) [OF None Some] 2(3) None symbol_length [OF Some] show ?thesis
        by (auto simp: json_value.simps split: option.splits dest: symbol_length less_trans)
    next
      case no: None
      with None 2(3) show ?thesis by (simp add: json_value.simps json_atom_length)
    qed
  qed
next
  case (4 n s)
  from 4(3) obtain v r1 where v: "json_value n s = Some (v, r1)"
    by (auto simp: json_elements.simps split: option.splits)
  have less: "length r1 < length s" by (rule 4(1) [OF v])
  show ?case
  proof (cases "symbol CHR '']'' r1")
    case (Some t)
    with v 4(3) less symbol_length [OF Some] show ?thesis by (simp add: json_elements.simps)
  next
    case None
    with v 4(3) obtain t us where t: "symbol CHR '','' r1 = Some t" "json_elements n t = Some (us, r)"
      by (auto simp: json_elements.simps split: option.splits)
    from 4(2) [OF v refl None t] symbol_length [OF t(1)] less show ?thesis by simp
  qed
next
  case (6 n s)
  from 6(3) obtain s1 k r1 s2 v r2 where parts: "symbol CHR 0x22 s = Some s1" "json_string s1 = Some (k, r1)"
      "symbol CHR '':'' r1 = Some s2" "json_value n s2 = Some (v, r2)"
    by (auto simp: json_members.simps bind_eq_Some_conv split: option.splits)
  then have read: "Option.bind (symbol CHR 0x22 s) json_string = Some (k, r1)"
      "Option.bind (symbol CHR '':'' r1) (json_value n) = Some (v, r2)" by simp_all
  have less: "length r2 < length s"
    using symbol_length [OF parts(1)] json_string_length [OF parts(2)] symbol_length [OF parts(3)]
      6(1) [OF read(1) refl parts(3,4)] by simp
  show ?case
  proof (cases "symbol CHR ''}'' r2")
    case (Some t)
    with read 6(3) less symbol_length [OF Some] show ?thesis by (simp add: json_members.simps)
  next
    case None
    with read 6(3) obtain t us where t: "symbol CHR '','' r2 = Some t" "json_members n t = Some (us, r)"
      by (auto simp: json_members.simps split: option.splits)
    from 6(2) [OF read(1) refl read(2) refl None t] symbol_length [OF t(1)] less show ?thesis by simp
  qed
qed (simp_all add: json_value.simps json_elements.simps json_members.simps)

lemma json_value_fuel:
  "2 * length s + 2 \<le> n \<Longrightarrow> n \<le> m \<Longrightarrow> json_value n s = json_value m s"
  "2 * length s + 3 \<le> n \<Longrightarrow> n \<le> m \<Longrightarrow> json_elements n s = json_elements m s"
  "2 * length s + 2 \<le> n \<Longrightarrow> n \<le> m \<Longrightarrow> json_members n s = json_members m s"
proof (induction n s and n s and n s arbitrary: m and m and m rule: json_value_json_elements_json_members.induct)
  case (2 n s)
  then obtain m' where m: "m = Suc m'" "n \<le> m'" by (cases m) auto
  have shorter: "2 * length r + 3 \<le> n" if "symbol c s = Some r" for c r
    using symbol_length [OF that] 2(3) by simp
  show ?case
  proof (cases "symbol CHR ''{'' s")
    case (Some r)
    with 2(2) [OF Some, of m'] m shorter [OF Some] show ?thesis
      by (simp add: json_value.simps split: option.split)
  next
    case None
    show ?thesis
    proof (cases "symbol CHR ''['' s")
      case (Some r)
      with 2(1) [OF None Some, of m'] None m shorter [OF Some] show ?thesis
        by (simp add: json_value.simps split: option.split)
    next
      case no: None
      with None m show ?thesis by (simp add: json_value.simps)
    qed
  qed
next
  case (4 n s)
  then obtain m' where m: "m = Suc m'" "n \<le> m'" by (cases m) auto
  have same: "json_value m' s = json_value n s" using 4(1) [of m'] 4(3) m by simp
  have rest: "json_elements m' t = json_elements n t"
    if "json_value n s = Some (v, r)" "symbol CHR '']'' r = None" "symbol CHR '','' r = Some t" for v r t
  proof -
    have "2 * length t + 3 \<le> n"
      using json_value_length(1) [OF that(1)] symbol_length [OF that(3)] 4(3) by simp
    then show ?thesis using 4(2) [OF that(1) refl that(2,3), of m'] m(2) by simp
  qed
  then show ?case
    unfolding m(1) json_elements.simps same by (auto split: option.split)
next
  case (6 n s)
  then obtain m' where m: "m = Suc m'" "n \<le> m'" by (cases m) auto
  have same: "json_value m' t = json_value n t"
    if "Option.bind (symbol CHR 0x22 s) json_string = Some (k, r)" "symbol CHR '':'' r = Some t" for k r t
  proof -
    have "length t < length s"
      using that by (auto simp: bind_eq_Some_conv dest!: symbol_length json_string_length)
    then show ?thesis using 6(1) [OF that(1) refl that(2), of m'] 6(3) m(2) by simp
  qed
  have rest: "json_members m' u = json_members n u"
    if "Option.bind (symbol CHR 0x22 s) json_string = Some (k, r)" "Option.bind (symbol CHR '':'' r) (json_value n) = Some (v, t)"
      "symbol CHR ''}'' t = None" "symbol CHR '','' t = Some u" for k r v t u
  proof -
    have "length u < length s"
      using that by (auto simp: bind_eq_Some_conv dest!: symbol_length json_string_length json_value_length(1))
    then show ?thesis using 6(2) [OF that(1) refl that(2) refl that(3,4), of m'] 6(3) m(2) by simp
  qed
  show ?case
  proof (cases "Option.bind (symbol CHR 0x22 s) json_string")
    case None
    then show ?thesis by (simp add: m(1) json_members.simps)
  next
    case (Some kr)
    then obtain k r where head: "Option.bind (symbol CHR 0x22 s) json_string = Some (k, r)" by (cases kr) auto
    then have bound: "Option.bind (symbol CHR '':'' r) (json_value m') = Option.bind (symbol CHR '':'' r) (json_value n)"
      using same by (cases "symbol CHR '':'' r") auto
    show ?thesis
      unfolding m(1) json_members.simps head option.case prod.case bound
      using rest [OF head] by (auto split: option.split)
  qed
qed simp_all

text \<open>The value of a text does not depend on the fuel, as long as it is enough.\<close>

lemma next_value_fuel: "parse_fuel s \<le> n \<Longrightarrow> json_value n s = next_value s"
  using json_value_fuel(1) [of s "parse_fuel s" n] by (simp add: next_value_def parse_fuel_def)

lemma next_value_length: "next_value s = Some (v, r) \<Longrightarrow> length r < length s"
  by (simp add: next_value_def json_value_length(1))

section \<open>Decoding into a struct\<close>

datatype field_type = FString | FBool | FInt64 | FInt64Pointer

definition digits_value :: "string \<Rightarrow> int" where
  "digits_value ds = foldl (\<lambda>v d. 10 * v + (int (of_char d) - 48)) 0 ds"

text \<open>\<open>strconv.ParseInt(literal, 10, 64)\<close> on the literal of a JSON number\<close>

definition int64_literal :: "string \<Rightarrow> int option" where
  "int64_literal t =
     (let (neg, ds) = (case t of c # r \<Rightarrow> if c = CHR ''-'' then (True, r) else (False, t) | [] \<Rightarrow> (False, t));
          v = (if neg then - digits_value ds else digits_value ds)
      in if ds \<noteq> [] \<and> list_all digit ds \<and> - (2 ^ 63) \<le> v \<and> v < 2 ^ 63 then Some v else None)"

fun fits :: "field_type \<Rightarrow> json \<Rightarrow> bool" where
  "fits t JNull = True"
| "fits FString (JString s) = True"
| "fits FBool (JBool b) = True"
| "fits FInt64 (JNumber t) = (int64_literal t \<noteq> None)"
| "fits FInt64Pointer (JNumber t) = (int64_literal t \<noteq> None)"
| "fits _ _ = False"

definition field_of :: "(string \<times> field_type) list \<Rightarrow> string \<times> json \<Rightarrow> (string \<times> field_type) option" where
  "field_of fields f = find (\<lambda>d. field_matches (fst d) f) fields"

definition field_error :: "bool \<Rightarrow> (string \<times> field_type) list \<Rightarrow> string \<times> json \<Rightarrow> err option" where
  "field_error strict fields f =
     (case field_of fields f of
        None \<Rightarrow> if strict then Some (Text (''json: unknown field '' @ quoted (fst f))) else None
      | Some (name, t) \<Rightarrow> if fits t (snd f) then None else Some (type_error (snd f)))"

text \<open>
  The value that a field ends up with: the last one given; \<open>null\<close> leaves a field alone, but sets a
  pointer to nil.
\<close>

definition field_value :: "(string \<times> json) list \<Rightarrow> string \<times> field_type \<Rightarrow> json option" where
  "field_value fs d =
     foldl (\<lambda>v f. if field_matches (fst d) f then
                    (if snd f = JNull then (if snd d = FInt64Pointer then None else v) else Some (snd f))
                  else v) None fs"

text \<open>\<open>Decode\<close> into a struct with these fields; \<open>strict\<close> is \<open>DisallowUnknownFields\<close>.\<close>

definition decode_struct ::
  "bool \<Rightarrow> (string \<times> field_type) list \<Rightarrow> json \<Rightarrow> err + (string \<Rightarrow> json option)" where
  "decode_struct strict fields j =
     (case j of
        JNull \<Rightarrow> Inr (\<lambda>_. None)
      | JObject fs \<Rightarrow>
          (case first_error (map (field_error strict fields) fs) of
             Some e \<Rightarrow> Inl e
           | None \<Rightarrow> Inr (\<lambda>name. case find (\<lambda>d. fst d = name) fields of
                               None \<Rightarrow> None
                             | Some d \<Rightarrow> field_value fs d))
      | _ \<Rightarrow> Inl (type_error j))"

fun string_or_empty :: "json option \<Rightarrow> string" where
  "string_or_empty (Some (JString s)) = s"
| "string_or_empty _ = []"

fun bool_or_false :: "json option \<Rightarrow> bool" where
  "bool_or_false (Some (JBool b)) = b"
| "bool_or_false _ = False"

fun int_pointer :: "json option \<Rightarrow> int option" where
  "int_pointer (Some (JNumber t)) = int64_literal t"
| "int_pointer _ = None"

lemma int64_literal_range: "int64_literal t = Some v \<Longrightarrow> - (2 ^ 63) \<le> v \<and> v < 2 ^ 63"
  by (auto simp: int64_literal_def Let_def split: list.splits if_splits)

end
