(* ===== verification/Kubernetes_Runtime.thy ===== *)
theory Kubernetes_Runtime
  imports Manifest Json_Text
begin

text \<open>
  The session runtime on Kubernetes (\<open>internal/workload/session.go\<close> and \<open>runtime.go\<close>): starting,
  observing, reading the logs of and deleting the executions of a session.  The Kubernetes API is a
  third-party client; it is the record \<open>Kubernetes\<close> of its requests, each of which succeeds, finds no
  such object, finds the object existing already or fails otherwise.
\<close>

datatype 'a kube = KubeOk 'a | KubeNotFound string | KubeExists string | KubeFailed string

type_synonym labels = "(string \<times> string) list"

text \<open>The fields of a Job and of a Pod that the code reads.\<close>

record JobCondition =
  jc_Type :: string
  jc_True :: bool
  jc_Message :: string
  jc_Reason :: string

record Job =
  job_Name :: string
  job_Annotations :: labels
  job_Succeeded :: int
  job_Failed :: int
  job_Active :: int
  job_Conditions :: "JobCondition list"

text \<open>A container status: its container's name and, when it has terminated, its message.\<close>

record Pod =
  pod_Name :: string
  pod_Created :: int
  pod_Statuses :: "(string \<times> string option) list"

text \<open>
  The requests of the session runtime.  \<open>k_CopyLogs\<close> is \<open>io.Copy\<close> from the opened stream to the
  writer, which is part of the world.  \<open>k_RESTMapping\<close> tells whether a kind is namespaced.
\<close>

record 'k Kubernetes =
  k_namespace :: string
  k_GetJob :: "string \<Rightarrow> 'k \<Rightarrow> Job kube \<times> 'k"
  k_ListJobs :: "labels \<Rightarrow> 'k \<Rightarrow> string list kube \<times> 'k"
  k_DeleteJob :: "string \<Rightarrow> 'k \<Rightarrow> unit kube \<times> 'k"
  k_ListConfigMaps :: "labels \<Rightarrow> 'k \<Rightarrow> string list kube \<times> 'k"
  k_DeleteConfigMap :: "string \<Rightarrow> 'k \<Rightarrow> unit kube \<times> 'k"
  k_ListSecrets :: "labels \<Rightarrow> 'k \<Rightarrow> string list kube \<times> 'k"
  k_DeleteSecret :: "string \<Rightarrow> 'k \<Rightarrow> unit kube \<times> 'k"
  k_DeleteClaim :: "string \<Rightarrow> 'k \<Rightarrow> unit kube \<times> 'k"
  k_ListPods :: "labels \<Rightarrow> 'k \<Rightarrow> Pod list kube \<times> 'k"
  k_OpenLogs :: "string \<Rightarrow> bool \<Rightarrow> 'k \<Rightarrow> unit kube \<times> 'k"
  k_CopyLogs :: "'k \<Rightarrow> unit kube \<times> 'k"
  k_CloseLogs :: "'k \<Rightarrow> unit kube \<times> 'k"
  k_RESTMapping :: "string \<Rightarrow> string \<Rightarrow> 'k \<Rightarrow> bool kube \<times> 'k"
  k_Apply :: "string \<Rightarrow> string option \<Rightarrow> string \<Rightarrow> json \<Rightarrow> 'k \<Rightarrow> unit kube \<times> 'k"

fun kube_result :: "'a kube \<Rightarrow> err + 'a" where
  "kube_result (KubeOk a) = Inr a"
| "kube_result (KubeNotFound t) = Inl (Text t)"
| "kube_result (KubeExists t) = Inl (Text t)"
| "kube_result (KubeFailed t) = Inl (Text t)"

text \<open>A request as an operation, any failure of which is an error with the given prefix.\<close>

definition request :: "('k \<Rightarrow> 'a kube \<times> 'k) \<Rightarrow> string \<Rightarrow> ('k, 'a) op" where
  "request f prefix w =
     (case f w of (r, w') \<Rightarrow> (map_sum (errorf prefix) id (kube_result r), w'))"

text \<open>\<open>if err != nil && !apierrors.IsNotFound(err) { ... }\<close>\<close>

definition unless_gone :: "('k \<Rightarrow> unit kube \<times> 'k) \<Rightarrow> string \<Rightarrow> ('k, unit) op" where
  "unless_gone f prefix w =
     (case f w of
        (KubeNotFound t, w') \<Rightarrow> (Inr (), w')
      | (r, w') \<Rightarrow> (map_sum (errorf prefix) id (kube_result r), w'))"

section \<open>Start\<close>

definition manifestSpec :: "TaskRequest \<Rightarrow> string \<Rightarrow> ManifestSpec" where
  "manifestSpec q namespace =
     \<lparr>ms_Name = tq_SessionName q, ms_Namespace = namespace, ms_Image = tq_Image q,
      ms_Storage = tq_Storage q, ms_TaskName = tq_TaskName q, ms_Resume = tq_Resume q,
      ms_Repository = tq_Repository q, ms_InitialRef = tq_InitialRef q,
      ms_SetupCommand = tq_SetupCommand q, ms_Prompt = tq_Prompt q, ms_AgentName = tq_AgentName q,
      ms_Instructions = tq_Instructions q, ms_Skills = tq_Skills q, ms_CloneDepth = tq_CloneDepth q,
      ms_StorageSize = tq_StorageSize q, ms_TimeoutSeconds = whole_seconds (tq_Timeout q),
      ms_ResultKind = tq_ResultKind q, ms_WorkflowRun = tq_WorkflowRun q,
      ms_WorkflowStep = tq_WorkflowStep q, ms_ChangeInput = tq_ChangeInput q,
      ms_GitCredential = tq_RepositoryCredential q\<rparr>"

text \<open>The text of a \<open>GroupVersionKind\<close>: a version without a group has an empty one.\<close>

definition groupVersionKind :: "json \<Rightarrow> string" where
  "groupVersionKind r =
     (let version = name_at [''apiVersion''] r
      in (if CHR ''/'' \<in> set version then version else ''/'' @ version)
           @ '', Kind='' @ name_at [''kind''] r)"

definition applyResource :: "'k Kubernetes \<Rightarrow> json \<Rightarrow> ('k, unit) op" where
  "applyResource K r =
     (let name = name_at [''metadata'', ''name''] r;
          namespace = name_at [''metadata'', ''namespace''] r;
          kind = name_at [''kind''] r
      in if name = []
         then throw (Text (''apply '' @ groupVersionKind r @ '': resource name is required''))
         else andThen (request (k_RESTMapping K (name_at [''apiVersion''] r) kind) (''map '' @ groupVersionKind r))
           (\<lambda>namespaced.
              if namespaced \<and> namespace = []
              then throw (Text (''apply '' @ kind @ '' '' @ name @ '': namespace is required''))
              else request (k_Apply K kind (if namespaced then Some namespace else None) name r)
                     (''apply '' @ kind @ '' '' @ name)))"

definition applyManifest :: "'k Kubernetes \<Rightarrow> json \<Rightarrow> ('k, unit) op" where
  "applyManifest K manifest =
     for_each (\<lambda>r _. applyResource K r) (jelements (jfield ''items'' manifest)) ()"

definition runtime_Start :: "'k Kubernetes \<Rightarrow> TaskRequest \<Rightarrow> ('k, unit) op" where
  "runtime_Start K q =
     (let spec = manifestSpec q (k_namespace K)
      in case (if tq_Resume q then renderContinuationManifest spec else renderSessionManifest spec) of
           Inl e \<Rightarrow> throw e
         | Inr manifest \<Rightarrow> applyManifest K manifest)"

section \<open>Artifacts\<close>

text \<open>\<open>base64.StdEncoding.DecodeString\<close>, which skips line breaks.\<close>

definition base64_digit :: "char \<Rightarrow> nat option" where
  "base64_digit c =
     (let n = (of_char c :: nat) in
      if 65 \<le> n \<and> n \<le> 90 then Some (n - 65)
      else if 97 \<le> n \<and> n \<le> 122 then Some (n - 71)
      else if 48 \<le> n \<and> n \<le> 57 then Some (n + 4)
      else if c = CHR ''+'' then Some 62
      else if c = CHR ''/'' then Some 63
      else None)"

fun base64_quads :: "string \<Rightarrow> string option" where
  "base64_quads [] = Some []"
| "base64_quads (a # b # c # d # s) =
     (case (base64_digit a, base64_digit b) of
        (Some x, Some y) \<Rightarrow>
          let first = char_of (x * 4 + y div 16) in
          if d = CHR ''='' then
            (if s \<noteq> [] then None
             else if c = CHR ''='' then Some [first]
             else map_option (\<lambda>z. [first, char_of (y mod 16 * 16 + z div 4)]) (base64_digit c))
          else
            (case (base64_digit c, base64_digit d, base64_quads s) of
               (Some z, Some v, Some r) \<Rightarrow>
                 Some (first # char_of (y mod 16 * 16 + z div 4) # char_of (z mod 4 * 64 + v) # r)
             | _ \<Rightarrow> None)
      | _ \<Rightarrow> None)"
| "base64_quads _ = None"

definition base64_decode :: "string \<Rightarrow> string option" where
  "base64_decode s = base64_quads (filter (\<lambda>c. c \<notin> {CHR 0x0A, CHR 0x0D}) s)"

definition noTaskArtifacts :: TaskArtifacts where
  "noTaskArtifacts = \<lparr>ta_Outcome = RawEmpty, ta_PullRequest = RawEmpty, ta_WorkflowOutput = RawEmpty,
     ta_Change = None\<rparr>"

definition decodeChangeArtifact :: "json \<Rightarrow> ChangeArtifact option" where
  "decodeChangeArtifact j =
     (case decode_struct False [(''sha256'', FString), (''bytes'', FInt64)] j of
        Inl e \<Rightarrow> None
      | Inr f \<Rightarrow> Some \<lparr>ca_SHA256 = string_or_empty (f ''sha256''),
                       ca_Bytes = (case int_pointer (f ''bytes'') of None \<Rightarrow> 0 | Some n \<Rightarrow> n)\<rparr>)"

text \<open>One line of the message; the result so far is the accumulator.\<close>

definition parseArtifactLine :: "string \<Rightarrow> TaskArtifacts \<Rightarrow> err + TaskArtifacts" where
  "parseArtifactLine line result =
     (case cut CHR ''='' line of
        None \<Rightarrow> Inr result
      | Some (key, contents) \<Rightarrow>
          (case Option.bind (base64_decode contents) parse_json of
             None \<Rightarrow> Inl (Text (''task artifact '' @ key @ '' is invalid''))
           | Some j \<Rightarrow>
               if key = ''outcome'' then Inr (result\<lparr>ta_Outcome := RawDoc j\<rparr>)
               else if key = ''pull-request'' then Inr (result\<lparr>ta_PullRequest := RawDoc j\<rparr>)
               else if key = ''workflow-output'' then Inr (result\<lparr>ta_WorkflowOutput := RawDoc j\<rparr>)
               else if key = ''change'' then
                 (case decodeChangeArtifact j of
                    None \<Rightarrow> Inl (Text ''task artifact change is invalid'')
                  | Some change \<Rightarrow> Inr (result\<lparr>ta_Change := Some change\<rparr>))
               else Inr result))"

fun parseArtifactLines :: "string list \<Rightarrow> TaskArtifacts \<Rightarrow> err + TaskArtifacts" where
  "parseArtifactLines [] result = Inr result"
| "parseArtifactLines (line # lines) result =
     (case parseArtifactLine line result of
        Inl e \<Rightarrow> Inl e
      | Inr result' \<Rightarrow> parseArtifactLines lines result')"

definition parseTaskArtifacts :: "string \<Rightarrow> err + TaskArtifacts" where
  "parseTaskArtifacts message =
     (case parseArtifactLines (split_on CHR 0x0A message) noTaskArtifacts of
        Inl e \<Rightarrow> Inl e
      | Inr result \<Rightarrow>
          if raw_empty (ta_Outcome result) then Inl (Text ''task did not report an outcome artifact'')
          else Inr result)"

section \<open>Pods and observation\<close>

definition newer :: "Pod \<Rightarrow> Pod \<Rightarrow> bool" where
  "newer candidate newest \<longleftrightarrow>
     pod_Created candidate > pod_Created newest
     \<or> (pod_Created candidate = pod_Created newest \<and> pod_Name candidate > pod_Name newest)"

fun newestPod :: "Pod \<Rightarrow> Pod list \<Rightarrow> Pod" where
  "newestPod newest [] = newest"
| "newestPod newest (p # ps) = newestPod (if newer p newest then p else newest) ps"

definition taskSelector :: "string \<Rightarrow> string \<Rightarrow> labels" where
  "taskSelector sessionName taskID =
     [(''coding-agent/session'', sessionName), (''coding-agent/task'', taskID)]"

definition sessionSelector :: "string \<Rightarrow> labels" where
  "sessionSelector name = [(''coding-agent/session'', name)]"

text \<open>The last error is \<open>apierrors.NewNotFound\<close> for the pods of the task.\<close>

definition taskPod :: "'k Kubernetes \<Rightarrow> string \<Rightarrow> string \<Rightarrow> ('k, Pod) op" where
  "taskPod K sessionName taskID =
     andThen (request (k_ListPods K (taskSelector sessionName taskID))
       (''list session '' @ sessionName @ '' task '' @ taskID @ '' Pods''))
     (\<lambda>pods. case pods of
         [] \<Rightarrow> throw (Text (''pods '' @ quoted taskID @ '' not found''))
       | p # ps \<Rightarrow> ret (newestPod p ps))"

text \<open>The message of the first terminated container of a name.\<close>

fun terminatedMessage :: "string \<Rightarrow> (string \<times> string option) list \<Rightarrow> string option" where
  "terminatedMessage container [] = None"
| "terminatedMessage container ((name, Some message) # rest) =
     (if name = container then Some message else terminatedMessage container rest)"
| "terminatedMessage container ((name, None) # rest) = terminatedMessage container rest"

definition readTaskArtifacts :: "'k Kubernetes \<Rightarrow> string \<Rightarrow> string \<Rightarrow> ('k, TaskArtifacts) op" where
  "readTaskArtifacts K sessionName taskID =
     andThen (taskPod K sessionName taskID) (\<lambda>pod.
       case terminatedMessage ''agent'' (pod_Statuses pod) of
         None \<Rightarrow> throw (Text (''session Pod '' @ pod_Name pod @ '' has no terminated agent result''))
       | Some message \<Rightarrow>
           (case parseTaskArtifacts message of Inl e \<Rightarrow> throw e | Inr a \<Rightarrow> ret a))"

definition jobConditionTrue :: "Job \<Rightarrow> string \<Rightarrow> bool" where
  "jobConditionTrue job t \<longleftrightarrow> list_ex (\<lambda>c. jc_Type c = t \<and> jc_True c) (job_Conditions job)"

definition jobFailure :: "Job \<Rightarrow> string" where
  "jobFailure job =
     (case find (\<lambda>c. jc_Type c = ''Failed'' \<and> jc_True c) (job_Conditions job) of
        None \<Rightarrow> ''session task failed''
      | Some c \<Rightarrow> if blank (jc_Message c) then jc_Reason c else jc_Message c)"

definition observeJob :: "'k Kubernetes \<Rightarrow> string \<Rightarrow> string \<Rightarrow> Job \<Rightarrow> ('k, TaskObservation) op" where
  "observeJob K sessionName taskID job =
     (if job_Succeeded job > 0 \<or> jobConditionTrue job ''Complete''
      then andThen (readTaskArtifacts K sessionName taskID) (\<lambda>artifacts.
        ret \<lparr>obs_Phase = PhaseSucceeded, obs_Artifacts = artifacts, obs_Failure = []\<rparr>)
      else if job_Failed job > 0 \<or> jobConditionTrue job ''Failed''
      then handle (readTaskArtifacts K sessionName taskID)
        (\<lambda>_. ret \<lparr>obs_Phase = PhaseFailed, obs_Artifacts = noTaskArtifacts, obs_Failure = jobFailure job\<rparr>)
        (\<lambda>artifacts.
           ret \<lparr>obs_Phase = PhaseFailed, obs_Artifacts = artifacts, obs_Failure = jobFailure job\<rparr>)
      else if job_Active job > 0
      then ret \<lparr>obs_Phase = PhaseRunning, obs_Artifacts = noTaskArtifacts, obs_Failure = []\<rparr>
      else ret \<lparr>obs_Phase = PhasePending, obs_Artifacts = noTaskArtifacts, obs_Failure = []\<rparr>)"

definition runtime_Observe :: "'k Kubernetes \<Rightarrow> string \<Rightarrow> string \<Rightarrow> ('k, TaskObservation) op" where
  "runtime_Observe K sessionName taskID =
     andThen (request (k_GetJob K taskID) (''get session '' @ sessionName @ '' task '' @ taskID @ '' Job''))
       (observeJob K sessionName taskID)"

text \<open>The deferred \<open>Close\<close> joins its error with the result.\<close>

definition runtime_WriteLogs :: "'k Kubernetes \<Rightarrow> string \<Rightarrow> string \<Rightarrow> bool \<Rightarrow> ('k, unit) op" where
  "runtime_WriteLogs K sessionName taskID follow =
     andThen (taskPod K sessionName taskID) (\<lambda>pod.
       andThen (request (k_OpenLogs K (pod_Name pod) follow) (''open logs for Pod '' @ pod_Name pod)) (\<lambda>_ w.
         case request (k_CopyLogs K) (''stream logs for Pod '' @ pod_Name pod) w of (copied, w') \<Rightarrow>
         case request (k_CloseLogs K) (''close logs for Pod '' @ pod_Name pod) w' of (closed, w'') \<Rightarrow>
           ((case (copied, closed) of
               (_, Inr _) \<Rightarrow> copied
             | (Inr _, Inl e) \<Rightarrow> Inl (Join [e])
             | (Inl e, Inl e') \<Rightarrow> Inl (Join [e, e'])), w'')))"

section \<open>Deletion\<close>

text \<open>List the objects of a kind and delete each; the errors of all requests are collected.\<close>

definition deleteKind ::
  "string \<Rightarrow> ('k \<Rightarrow> string list kube \<times> 'k) \<Rightarrow> (string \<Rightarrow> 'k \<Rightarrow> unit kube \<times> 'k) \<Rightarrow> 'k \<Rightarrow> err list \<times> 'k" where
  "deleteKind kind listing delete w =
     (case request listing (''list session '' @ kind @ ''s for deletion'') w of
        (Inl e, w') \<Rightarrow> ([e], w')
      | (Inr names, w') \<Rightarrow>
          collect_errors (\<lambda>n. unless_gone (delete n) (''delete '' @ kind @ '' '' @ n)) names w')"

definition runtime_Delete :: "'k Kubernetes \<Rightarrow> string \<Rightarrow> bool \<Rightarrow> ('k, unit) op" where
  "runtime_Delete K name deleteStorage w =
     (let selector = sessionSelector name in
      case deleteKind ''Job'' (k_ListJobs K selector) (k_DeleteJob K) w of (jobErrors, w1) \<Rightarrow>
      case deleteKind ''ConfigMap'' (k_ListConfigMaps K selector) (k_DeleteConfigMap K) w1 of (configErrors, w2) \<Rightarrow>
      case deleteKind ''Secret'' (k_ListSecrets K selector) (k_DeleteSecret K) w2 of (secretErrors, w3) \<Rightarrow>
      case (if deleteStorage
            then collect_errors
              (\<lambda>claim. unless_gone (k_DeleteClaim K claim) (''delete PersistentVolumeClaim '' @ claim))
              [sessionClaimName name] w3
            else ([], w3)) of (claimErrors, w4) \<Rightarrow>
        join_errors (jobErrors @ configErrors @ secretErrors @ claimErrors) w4)"

text \<open>The runtime as the interface \<open>session.Runtime\<close>.\<close>

definition kubernetesRuntime :: "'k Kubernetes \<Rightarrow> 'k SessionRuntime" where
  "kubernetesRuntime K =
     \<lparr>rt_Scope = k_namespace K, rt_Start = runtime_Start K, rt_Observe = runtime_Observe K,
      rt_WriteLogs = runtime_WriteLogs K, rt_Delete = runtime_Delete K\<rparr>"

end
