(* ===== verification/Runtime_Facts.thy ===== *)
theory Runtime_Facts
  imports Kubernetes_Runtime Manifest_Facts "HOL-Library.Product_Lexorder"
begin

text \<open>
  The runtime against session control: which requests that session control accepted the runtime
  renders, what an observation is made of, and that deletion finds what a start created.
\<close>

section \<open>Accepted requests\<close>

lemma skills_render: "validateSkills names skills = None \<Longrightarrow> agentSkillsError names skills = None"
  by (induction names skills rule: validateSkills.induct)
    (auto simp: validateDNSLabel_def bad_label_def split: option.splits if_splits)

lemma agent_renders:
  assumes "validateDefinition d = None" and "ms_AgentName s = def_Agent d"
    and "ms_Instructions s = def_Instructions d" and "ms_Skills s = def_Skills d" and "ms_Storage s = def_Storage d"
  shows "validateSpecAgent s = None" and "validateSpecStorage s = None"
proof -
  show "validateSpecAgent s = None"
  proof (cases "def_Agent d = []")
    case True
    with assms show ?thesis by (auto simp: validateSpecAgent_def validateDefinition_def split: if_splits)
  next
    case False
    with assms show ?thesis
      by (auto simp: validateSpecAgent_def validateDefinition_def first_error_None bad_label_def validateDNSLabel_def
          validateAgentSkills_def skills_render specConfigSize_def agentConfigSize_def maxAgentConfigBytes_def
          maxManifestConfigBytes_def split: option.splits if_splits)
  qed
  show "validateSpecStorage s = None"
    using assms(1,5)
    by (auto simp: validateSpecStorage_def validateDefinition_def validateStorage_def
        split: option.splits if_splits Storage.splits)
qed

text \<open>The checks of a specification that do not depend on the task.\<close>

lemma label_renders: "validateDNSLabel f v n = None \<longleftrightarrow> \<not> bad_label n v"
  by (simp add: validateDNSLabel_def bad_label_def)

lemma owner_renders:
  assumes "validateWorkflowOwner r = None"
  shows "(req_WorkflowRun r = []) = (req_WorkflowStep r = [])"
    and "req_WorkflowRun r \<noteq> [] \<Longrightarrow> \<not> bad_label 40 (req_WorkflowRun r) \<and> \<not> bad_label 63 (req_WorkflowStep r)"
  using assms by (auto simp: validateWorkflowOwner_def label_renders split: option.splits if_splits)

lemma change_renders:
  assumes "validateChangeInput r = None" and "ms_ChangeInput s = req_ChangeInput r"
    and "ms_WorkflowRun s = req_WorkflowRun r" and "ms_Name s = req_Name r"
  shows "validateSpecChange s True = None"
  using assms
  by (auto simp: validateSpecChange_def validateChangeInput_def first_error_None label_renders
      validateChangeArtifact_def split: option.splits if_splits)

lemma result_renders:
  assumes "validateResultKind d r = None" and "ms_ResultKind s = req_ResultKind r" and "ms_Storage s = def_Storage d"
  shows "validateSpecResult s = None"
  using assms by (auto simp: validateSpecResult_def validateResultKind_def split: ResultKind.splits if_splits)

text \<open>The specification of the first task of a session.\<close>

definition initialSpec :: "Definition \<Rightarrow> StartRequest \<Rightarrow> string \<Rightarrow> string \<Rightarrow> string \<Rightarrow> ManifestSpec" where
  "initialSpec d r img credential namespace =
     \<lparr>ms_Name = req_Name r, ms_Namespace = namespace, ms_Image = img, ms_Storage = def_Storage d,
      ms_TaskName = req_Name r, ms_Resume = False, ms_Repository = req_Repository r,
      ms_InitialRef = req_InitialRef r, ms_SetupCommand = def_SetupCommand d, ms_Prompt = req_Prompt r,
      ms_AgentName = def_Agent d, ms_Instructions = def_Instructions d, ms_Skills = def_Skills d,
      ms_CloneDepth = def_CloneDepth d, ms_StorageSize = def_StorageSize d,
      ms_TimeoutSeconds = whole_seconds (req_Timeout r), ms_ResultKind = req_ResultKind r,
      ms_WorkflowRun = req_WorkflowRun r, ms_WorkflowStep = req_WorkflowStep r,
      ms_ChangeInput = req_ChangeInput r, ms_GitCredential = credential\<rparr>"

lemma initial_request:
  assumes "initialIntent c d r w = ((rec, t), w')"
  shows "manifestSpec (taskRequest rec t False credential) namespace =
    initialSpec d r (sc_image c) credential namespace"
  using assms by (auto simp: initialIntent_def manifestSpec_def taskRequest_def initialSpec_def split: prod.splits)

lemma accepted_validates:
  assumes "validateSessionStart d r = None" and "\<not> bad_label 63 namespace" and "\<not> blank img"
  shows "validateManifest (initialSpec d r img credential namespace) True =
    check (req_Timeout r < 10 ^ 9) ''timeout must be greater than zero''"
proof -
  have ok: "validateDNSLabel ''name'' (req_Name r) 40 = None" "validateWorkflowOwner r = None"
    "validateChangeInput r = None" "req_InitialRef r \<noteq> []" "def_StorageSize d \<noteq> []" "\<not> def_CloneDepth d < 0"
    "\<not> req_Timeout r \<le> 0" "\<not> blank (req_Prompt r)" "validateDefinition d = None" "validateResultKind d r = None"
    using assms(1) by (simp_all add: validateSessionStart_def first_error_None)
  let ?s = "initialSpec d r img credential namespace"
  have fields: "ms_Name ?s = req_Name r" "ms_Namespace ?s = namespace" "ms_Image ?s = img" "ms_TaskName ?s = req_Name r"
    "ms_WorkflowRun ?s = req_WorkflowRun r" "ms_WorkflowStep ?s = req_WorkflowStep r" "ms_InitialRef ?s = req_InitialRef r"
    "ms_StorageSize ?s = def_StorageSize d" "ms_CloneDepth ?s = def_CloneDepth d" "ms_Prompt ?s = req_Prompt r"
    "ms_TimeoutSeconds ?s = whole_seconds (req_Timeout r)"
    by (simp_all add: initialSpec_def)
  have parts: "validateSpecChange ?s True = None" "validateSpecAgent ?s = None" "validateSpecStorage ?s = None"
    "validateSpecResult ?s = None"
    using change_renders [OF ok(3), of ?s] agent_renders [OF ok(9), of ?s] result_renders [OF ok(10), of ?s]
    by (simp_all add: initialSpec_def)
  have label: "\<not> bad_label 40 (req_Name r)" "\<not> bad_label 63 (req_Name r)"
    using ok(1) by (auto simp: label_renders bad_label_def)
  have timeout: "whole_seconds (req_Timeout r) \<le> 0 \<longleftrightarrow> req_Timeout r < 10 ^ 9"
    using ok(7) by (simp add: whole_seconds_positive)
  show ?thesis
    unfolding validateManifest_def fields parts timeout
    using ok label assms(2,3) owner_renders [OF ok(2)] by (cases "req_WorkflowRun r = []") (simp_all add: check_def)
qed

text \<open>What the runtime does with the request: it applies the manifest, or refuses a timeout below a second.\<close>

lemma accepted_start:
  assumes "validateSessionStart d r = None" and "\<not> bad_label 63 (k_namespace K)" and "\<not> blank (sc_image c)"
    and "initialIntent c d r w = ((rec, t), w')"
  shows "runtime_Start K (taskRequest rec t False credential) =
    (if req_Timeout r < 10 ^ 9 then throw (Text ''timeout must be greater than zero'')
     else applyManifest K (encodeResourceList
       (manifestItems (initialSpec d r (sc_image c) credential (k_namespace K)) True)))"
proof -
  have "tq_Resume (taskRequest rec t False credential) = False" by (simp add: taskRequest_def)
  then show ?thesis
    unfolding runtime_Start_def Let_def initial_request [OF assms(4)]
    by (simp add: renderSessionManifest_def render_def accepted_validates [OF assms(1-3)] check_def)
qed

section \<open>Observation\<close>

lemma newestPod_in: "newestPod p ps \<in> set (p # ps)"
  by (induction p ps rule: newestPod.induct) auto

text \<open>The order of pods is the lexicographic order of the time of creation and the name.\<close>

definition pod_key :: "Pod \<Rightarrow> int \<times> string" where
  "pod_key p = (pod_Created p, pod_Name p)"

lemma newer_key: "newer p q \<longleftrightarrow> pod_key q < pod_key p"
  by (auto simp: newer_def pod_key_def less_prod_def)

lemma newer_trans: "newer a c \<Longrightarrow> newer a b \<or> newer b c"
  unfolding newer_key using order_less_le_trans [of "pod_key c" "pod_key a" "pod_key b"]
  by (cases "pod_key b < pod_key a") (simp_all add: not_less)

lemma newer_irrefl [simp]: "\<not> newer p p"
  by (simp add: newer_key)

lemma newer_asym: "newer p q \<Longrightarrow> \<not> newer q p"
  by (simp add: newer_key)

lemma newestPod_max: "q \<in> set (p # ps) \<Longrightarrow> \<not> newer q (newestPod p ps)"
proof (induction p ps arbitrary: q rule: newestPod.induct)
  case (2 p x ps)
  let ?first = "if newer x p then x else p"
  have rest: "\<not> newer q (newestPod ?first ps)" if "q \<in> set (?first # ps)" for q using 2(1) [OF that] .
  have first: "\<not> newer q ?first" if "q \<in> {p, x}" for q
    using that by (auto dest: newer_asym)
  from 2(2) consider "q \<in> {p, x}" | "q \<in> set ps" by auto
  then show ?case
  proof cases
    case 1
    then show ?thesis using first rest [of ?first] newer_trans [of q "newestPod ?first ps" ?first] by auto
  next
    case 2
    then show ?thesis using rest [of q] by simp
  qed
qed simp

lemma newer_total: "\<not> newer p q \<Longrightarrow> \<not> newer q p \<Longrightarrow> pod_Name p = pod_Name q"
  by (auto simp: newer_def)

lemma parseArtifactLines_docs:
  assumes "parseArtifactLines lines a = Inr b"
    and "\<And>r. r \<in> {ta_Outcome a, ta_PullRequest a, ta_WorkflowOutput a} \<Longrightarrow> r = RawEmpty \<or> (\<exists>j. r = RawDoc j)"
    and "r \<in> {ta_Outcome b, ta_PullRequest b, ta_WorkflowOutput b}"
  shows "r = RawEmpty \<or> (\<exists>j. r = RawDoc j)"
  using assms
proof (induction lines arbitrary: a)
  case (Cons line lines)
  then obtain a' where line: "parseArtifactLine line a = Inr a'" "parseArtifactLines lines a' = Inr b"
    by (auto split: sum.splits)
  have "r = RawEmpty \<or> (\<exists>j. r = RawDoc j)" if "r \<in> {ta_Outcome a', ta_PullRequest a', ta_WorkflowOutput a'}" for r
    using that line(1) Cons(3) [of r]
    by (auto simp: parseArtifactLine_def split: option.splits if_splits)
  from Cons(1) [OF line(2) this Cons(4)] show ?case .
qed auto

lemma parsed_artifacts:
  assumes "parseTaskArtifacts message = Inr a"
  shows "\<exists>j. ta_Outcome a = RawDoc j"
    and "r \<in> {ta_PullRequest a, ta_WorkflowOutput a} \<Longrightarrow> r = RawEmpty \<or> (\<exists>j. r = RawDoc j)"
proof -
  obtain lines where parse: "parseArtifactLines lines noTaskArtifacts = Inr a" "ta_Outcome a \<noteq> RawEmpty"
    using assms by (auto simp: parseTaskArtifacts_def raw_empty_def split: sum.splits if_splits)
  have start: "r = RawEmpty \<or> (\<exists>j. r = RawDoc j)"
    if "r \<in> {ta_Outcome noTaskArtifacts, ta_PullRequest noTaskArtifacts, ta_WorkflowOutput noTaskArtifacts}" for r
    using that by (simp add: noTaskArtifacts_def)
  note docs = parseArtifactLines_docs [OF parse(1) start]
  show "\<exists>j. ta_Outcome a = RawDoc j" using docs [of "ta_Outcome a"] parse(2) by auto
  show "r \<in> {ta_PullRequest a, ta_WorkflowOutput a} \<Longrightarrow> r = RawEmpty \<or> (\<exists>j. r = RawDoc j)"
    using docs [of r] by auto
qed

end
