(* ===== verification/Runtime_Theorems.thy ===== *)
theory Runtime_Theorems
  imports Runtime_Facts Examples
begin

text \<open>
  The properties of the Kubernetes runtime: what a manifest refers to, who sees the repository
  credential, which accepted requests it can run, what it observes and what a deletion selects.
\<close>

section \<open>Manifests\<close>

text \<open>
  C20. A rendered manifest is closed: every volume that a container mounts is declared once in the
  pod, every ConfigMap and every Secret that the pod needs is a resource of the same manifest (but
  for the optional credentials of the agent), and it claims the storage of its own session, which
  the first manifest of the session creates, and of the session whose change it takes over.
\<close>

theorem manifest_closed:
  assumes "render s initial = Inr doc"
  shows "\<exists>job. job \<in> set (jelements (jfield ''items'' doc)) \<and> kind_of job = ''Job''
    \<and> distinct (map (name_at [''name'']) (volumes_of (pod_of job)))
    \<and> list_all (\<lambda>c. set (mounts_of c) \<subseteq> set (map (name_at [''name'']) (volumes_of (pod_of job))))
         (containers_of (pod_of job))
    \<and> set (config_refs (pod_of job)) \<subseteq> set (resources_named ''ConfigMap'' doc)
    \<and> set (secret_refs (pod_of job)) \<subseteq> {codexAuthSecretName} \<union> set (resources_named ''Secret'' doc)
    \<and> set (claim_refs (pod_of job)) \<subseteq> {sessionClaimName (ms_Name s)} \<union>
         sessionClaimName ` set (map ci_Session (case ms_ChangeInput s of None \<Rightarrow> [] | Some i \<Rightarrow> [i]))
    \<and> (initial \<and> ms_Storage s = StoragePersistent \<longrightarrow>
         sessionClaimName (ms_Name s) \<in> set (resources_named ''PersistentVolumeClaim'' doc))"
proof -
  from assms have valid: "validateManifest s initial = None" and doc: "doc = encodeResourceList (manifestItems s initial)"
    by (auto simp: render_def split: option.splits)
  have "validateSpecAgent s = None" using valid by (simp add: validateManifest_def first_error_None)
  then have skills: "ms_AgentName s = [] \<Longrightarrow> ms_Skills s = []" by (auto simp: validateSpecAgent_def split: if_splits)
  have job: "JObject (sessionJob s) \<in> set (jelements (jfield ''items'' doc))" by (simp add: doc manifestItems_def)
  show ?thesis
    unfolding doc
    using job [unfolded doc] mounted_declared [of _ s] distinct_volumes [of s] skills
    by (intro exI [of _ "JObject (sessionJob s)"])
      (auto simp: config_refs_job secret_refs_job claim_refs_job document_configs document_secrets document_claims
        list_all_iff split: option.splits if_splits)
qed

text \<open>A specification with everything a manifest can contain.\<close>

definition demoSpec :: ManifestSpec where
  "demoSpec =
     \<lparr>ms_Name = ''s'', ms_Namespace = ''default'', ms_Image = ''x'', ms_Storage = StoragePersistent,
      ms_TaskName = ''s'', ms_Resume = False, ms_Repository = ''r'', ms_InitialRef = ''main'',
      ms_SetupCommand = [], ms_Prompt = ''p'', ms_AgentName = ''writer'', ms_Instructions = ''x'',
      ms_Skills = [\<lparr>sk_Name = ''plan'', sk_Contents = ''t''\<rparr>], ms_CloneDepth = 1, ms_StorageSize = ''1Gi'',
      ms_TimeoutSeconds = 60, ms_ResultKind = ResultKindPullRequest, ms_WorkflowRun = [],
      ms_WorkflowStep = [], ms_ChangeInput = None, ms_GitCredential = ''token''\<rparr>"

lemma demoSpec_valid: "validateManifest demoSpec True = None"
proof -
  have labels: "\<not> bad_label 40 ''s''" "\<not> bad_label 63 ''s''" "\<not> bad_label 63 ''default''" "\<not> bad_label 63 ''writer''"
    "\<not> bad_label 63 ''plan''" by code_simp+
  show ?thesis
    by (simp add: validateManifest_def first_error_None validateSpecChange_def validateSpecAgent_def
        validateAgentSkills_def validateSpecStorage_def validateSpecResult_def specConfigSize_def
        maxManifestConfigBytes_def labels demoSpec_def)
qed

theorem manifest_closed_witness:
  "\<exists>doc. render demoSpec True = Inr doc
     \<and> sessionClaimName ''s'' \<in> set (resources_named ''PersistentVolumeClaim'' doc)"
proof -
  obtain doc where doc: "render demoSpec True = Inr doc" by (simp add: render_def demoSpec_valid)
  have "ms_Name demoSpec = ''s''" "ms_Storage demoSpec = StoragePersistent" by (simp_all add: demoSpec_def)
  with manifest_closed [OF doc] doc show ?thesis by auto
qed



definition selected :: "labels \<Rightarrow> json \<Rightarrow> bool" where
  "selected selector r \<longleftrightarrow> list_all (\<lambda>(k, v). name_at [''metadata'', ''labels'', k] r = v) selector"

lemma selected_items:
  "selected (sessionSelector (ms_Name s)) (JObject (sessionJob s))"
  "selected (sessionSelector (ms_Name s)) (JObject (agentConfigMap s))"
  "selected (sessionSelector (ms_Name s)) (JObject (repositoryCredentialSecret s))"
  by (simp_all add: selected_def sessionSelector_def name_at_def jfield.simps sessionJob_def agentConfigMap_def
      repositoryCredentialSecret_def sessionLabelsFor_def sessionLabels_def taskLabels_def)

text \<open>
  Deletion selects what a start has created: every Job, ConfigMap and Secret of a manifest has
  the label by which \<open>Delete\<close> lists them, the claim has the name that \<open>Delete\<close> removes, and what
  remains is the policy of the namespace.
\<close>

lemma deletion_selects_resources:
  assumes "render s initial = Inr doc" and "r \<in> set (jelements (jfield ''items'' doc))"
  shows "kind_of r \<in> {''Job'', ''ConfigMap'', ''Secret''} \<and> selected (sessionSelector (ms_Name s)) r
    \<or> kind_of r = ''PersistentVolumeClaim'' \<and> name_of r = sessionClaimName (ms_Name s)
    \<or> r = JObject (denyIngressPolicy (ms_Namespace s))"
  using assms selected_items [of s]
  by (auto simp: render_def manifestItems_def split: option.splits if_splits)

lemma deletion_selects_resources_instance:
  "selected (sessionSelector ''s'') (JObject (agentConfigMap demoSpec))"
proof -
  obtain doc where doc: "render demoSpec True = Inr doc" "doc = encodeResourceList (manifestItems demoSpec True)"
    by (simp add: render_def demoSpec_valid)
  have "ms_Name demoSpec = ''s''" "ms_AgentName demoSpec \<noteq> []" by (simp_all add: demoSpec_def)
  moreover from this have "JObject (agentConfigMap demoSpec) \<in> set (jelements (jfield ''items'' doc))"
    by (simp add: doc(2) manifestItems_def)
  moreover have "JObject (agentConfigMap demoSpec) \<noteq> JObject (denyIngressPolicy n)" for n
    by (simp add: agentConfigMap_def denyIngressPolicy_def)
  ultimately show ?thesis using deletion_selects_resources [OF doc(1)] by force
qed

section \<open>Accepted requests\<close>

text \<open>
  Every request that session control accepts can be run: unless its timeout is shorter than a
  second, the runtime does not refuse the first task but applies its manifest.
\<close>

lemma accepted_start_renders:
  assumes "validateSessionStart d r = None" and "\<not> bad_label 63 (k_namespace K)" and "\<not> blank (sc_image c)"
    and "initialIntent c d r w = ((rec, t), w')" and "10 ^ 9 \<le> req_Timeout r"
  shows "runtime_Start K (taskRequest rec t False credential) =
    applyManifest K (encodeResourceList
      (manifestItems (manifestSpec (taskRequest rec t False credential) (k_namespace K)) True))"
  using assms(5) by (simp add: accepted_start [OF assms(1-4)] initial_request [OF assms(4)])

text \<open>A cluster that takes every request and has no objects.\<close>

definition demoCluster :: "'k Kubernetes" where
  "demoCluster =
     \<lparr>k_namespace = ''default'', k_GetJob = (\<lambda>n k. (KubeNotFound ''not found'', k)),
      k_ListJobs = (\<lambda>l k. (KubeOk [], k)), k_DeleteJob = (\<lambda>n k. (KubeOk (), k)),
      k_ListConfigMaps = (\<lambda>l k. (KubeOk [], k)), k_DeleteConfigMap = (\<lambda>n k. (KubeOk (), k)),
      k_ListSecrets = (\<lambda>l k. (KubeOk [], k)), k_DeleteSecret = (\<lambda>n k. (KubeOk (), k)),
      k_DeleteClaim = (\<lambda>n k. (KubeOk (), k)), k_ListPods = (\<lambda>l k. (KubeOk [], k)),
      k_OpenLogs = (\<lambda>n f k. (KubeOk (), k)), k_CopyLogs = (\<lambda>k. (KubeOk (), k)),
      k_CloseLogs = (\<lambda>k. (KubeOk (), k)), k_RESTMapping = (\<lambda>v n k. (KubeOk True, k)),
      k_Apply = (\<lambda>kind ns name r k. (KubeOk (), k))\<rparr>"

lemma demoCluster_namespace: "\<not> bad_label 63 (k_namespace demoCluster)"
  by code_simp

lemma timeout_free:
  assumes "validateSessionStart d r = None" and "0 < x"
  shows "validateSessionStart d (r\<lparr>req_Timeout := x\<rparr>) = None"
proof -
  have "validateWorkflowOwner (r\<lparr>req_Timeout := x\<rparr>) = validateWorkflowOwner r"
    "validateChangeInput (r\<lparr>req_Timeout := x\<rparr>) = validateChangeInput r"
    "validateResultKind d (r\<lparr>req_Timeout := x\<rparr>) = validateResultKind d r"
    by (simp_all add: validateWorkflowOwner_def validateChangeInput_def validateResultKind_def
        cong: if_cong option.case_cong ResultKind.case_cong)
  with assms show ?thesis by (simp add: validateSessionStart_def first_error_None)
qed

lemma accepted_start_renders_instance:
  "\<exists>q. runtime_Start (demoCluster :: unit Kubernetes) q = applyManifest demoCluster (encodeResourceList
     (manifestItems (manifestSpec q ''default'') True))"
proof -
  let ?c = "serverSessions demoEnvironment" and ?r = "(demoStart ''p'')\<lparr>req_Timeout := 10 ^ 9\<rparr>"
  obtain rec t w' where i: "initialIntent ?c demoAgent ?r (demoWorld runningObservation) = ((rec, t), w')"
    by (metis prod.collapse)
  have "validateSessionStart demoAgent ?r = None"
    by (rule timeout_free [OF demo_valid]) simp_all
  moreover have "\<not> blank (sc_image ?c)"
  proof -
    have "\<not> blank ''image''" by code_simp
    then show ?thesis by (simp add: serverSessions_def demoEnvironment_def)
  qed
  moreover have "k_namespace (demoCluster :: unit Kubernetes) = ''default''" by (simp add: demoCluster_def)
  ultimately show ?thesis
    using accepted_start_renders [where K = "demoCluster :: unit Kubernetes", OF _ demoCluster_namespace _ i]
    by (intro exI [of _ "taskRequest rec t False []"]) simp
qed




section \<open>Observation\<close>

text \<open>
  C31. An observation tells what the cluster says: it rests on the Job of the task; the task has
  succeeded only if the Job has succeeded or is complete, and then its artifacts are JSON documents
  with an outcome among them, reported by the newest pod of the task, whatever the order in which the
  API lists the pods; and it has failed only if the Job has failed.
\<close>

theorem observation_truthful:
  assumes "runtime_Observe K name tid k = (Inr obs, k')"
  shows "\<exists>job k1. k_GetJob K tid k = (KubeOk job, k1)
    \<and> (obs_Phase obs = PhaseSucceeded \<longrightarrow>
         (job_Succeeded job > 0 \<or> jobConditionTrue job ''Complete'')
         \<and> (\<exists>j. ta_Outcome (obs_Artifacts obs) = RawDoc j)
         \<and> (\<exists>p ps k2 message. k_ListPods K (taskSelector name tid) k1 = (KubeOk (p # ps), k2)
              \<and> (\<exists>newest \<in> set (p # ps). (\<forall>q \<in> set (p # ps). \<not> newer q newest)
                   \<and> terminatedMessage ''agent'' (pod_Statuses newest) = Some message)
              \<and> parseTaskArtifacts message = Inr (obs_Artifacts obs)))
    \<and> (obs_Phase obs = PhaseFailed \<longrightarrow> job_Failed job > 0 \<or> jobConditionTrue job ''Failed'')
    \<and> obs_Phase obs \<in> {PhasePending, PhaseRunning, PhaseSucceeded, PhaseFailed}"
proof -
  obtain job k1 where job: "k_GetJob K tid k = (KubeOk job, k1)" and obs: "observeJob K name tid job k1 = (Inr obs, k')"
    using assms by (cases "k_GetJob K tid k"; cases "fst (k_GetJob K tid k)")
      (auto simp: runtime_Observe_def request_def op_run)
  show ?thesis
  proof (intro exI [of _ job] exI [of _ k1] conjI impI)
    assume succeeded: "obs_Phase obs = PhaseSucceeded"
    then show cond: "job_Succeeded job > 0 \<or> jobConditionTrue job ''Complete''"
      using obs by (auto simp: observeJob_def op_run split: if_splits prod.splits sum.splits)
    then obtain k2 where read: "readTaskArtifacts K name tid k1 = (Inr (obs_Artifacts obs), k2)"
      using obs by (auto simp: observeJob_def op_run split: prod.splits sum.splits)
    then obtain p ps k3 where pods: "k_ListPods K (taskSelector name tid) k1 = (KubeOk (p # ps), k3)"
      and message: "(case terminatedMessage ''agent'' (pod_Statuses (newestPod p ps)) of
          None \<Rightarrow> False | Some message \<Rightarrow> parseTaskArtifacts message = Inr (obs_Artifacts obs))"
      by (cases "k_ListPods K (taskSelector name tid) k1"; cases "fst (k_ListPods K (taskSelector name tid) k1)")
        (auto simp: readTaskArtifacts_def taskPod_def request_def op_run split: list.splits option.splits sum.splits)
    then obtain m where m: "terminatedMessage ''agent'' (pod_Statuses (newestPod p ps)) = Some m"
      "parseTaskArtifacts m = Inr (obs_Artifacts obs)" by (auto split: option.splits)
    show "\<exists>j. ta_Outcome (obs_Artifacts obs) = RawDoc j" by (rule parsed_artifacts(1) [OF m(2)])
    show "\<exists>p ps k2 message. k_ListPods K (taskSelector name tid) k1 = (KubeOk (p # ps), k2)
        \<and> (\<exists>newest \<in> set (p # ps). (\<forall>q \<in> set (p # ps). \<not> newer q newest)
             \<and> terminatedMessage ''agent'' (pod_Statuses newest) = Some message)
        \<and> parseTaskArtifacts message = Inr (obs_Artifacts obs)"
      using pods m newestPod_in [of p ps] newestPod_max [of _ p ps] by blast
  next
    assume "obs_Phase obs = PhaseFailed"
    then show "job_Failed job > 0 \<or> jobConditionTrue job ''Failed''"
      using obs by (auto simp: observeJob_def op_run split: if_splits prod.splits sum.splits)
  next
    show "k_GetJob K tid k = (KubeOk job, k1)" by (rule job)
    show "obs_Phase obs \<in> {PhasePending, PhaseRunning, PhaseSucceeded, PhaseFailed}"
      using obs by (auto simp: observeJob_def op_run split: if_splits prod.splits sum.splits)
  qed
qed

text \<open>A cluster with one completed Job and two pods of it, the newer of which reports an outcome.\<close>

definition doneCluster :: "unit Kubernetes" where
  "doneCluster = demoCluster
     \<lparr>k_GetJob := (\<lambda>n k. (KubeOk \<lparr>job_Name = n, job_Annotations = [], job_Succeeded = 1, job_Failed = 1,
        job_Active = 0, job_Conditions = []\<rparr>, k)),
      k_ListPods := (\<lambda>l k. (KubeOk
        [\<lparr>pod_Name = ''b'', pod_Created = 1, pod_Statuses = [(''agent'', Some [])]\<rparr>,
         \<lparr>pod_Name = ''a'', pod_Created = 2, pod_Statuses =
            [(''proxy'', None), (''agent'', Some ''outcome=eyJzdGF0dXMiOiJmYWlsZWQifQ=='')]\<rparr>], k))\<rparr>"

theorem observation_truthful_witness:
  "\<exists>obs. runtime_Observe doneCluster ''s'' ''s'' () = (Inr obs, ())
     \<and> ta_Outcome (obs_Artifacts obs) = RawDoc (JObject [(''status'', JString ''failed'')])
     \<and> (\<exists>j. ta_Outcome (obs_Artifacts obs) = RawDoc j)"
proof -
  have parse: "parseTaskArtifacts ''outcome=eyJzdGF0dXMiOiJmYWlsZWQifQ=='' =
      Inr (noTaskArtifacts\<lparr>ta_Outcome := RawDoc (JObject [(''status'', JString ''failed'')])\<rparr>)"
    by code_simp
  let ?a = "noTaskArtifacts\<lparr>ta_Outcome := RawDoc (JObject [(''status'', JString ''failed'')])\<rparr>"
  let ?obs = "\<lparr>obs_Phase = PhaseSucceeded, obs_Artifacts = ?a, obs_Failure = []\<rparr>"
  have run: "runtime_Observe doneCluster ''s'' ''s'' () = (Inr ?obs, ())"
    by (simp add: runtime_Observe_def request_def op_run observeJob_def doneCluster_def readTaskArtifacts_def
        taskPod_def newer_def parse)
  from observation_truthful [OF run] run show ?thesis by simp
qed

end
