(* ===== verification/Json_Encode.thy ===== *)
theory Json_Encode
  imports Json_Text
begin

text \<open>
  The text that \<open>json.Marshal\<close> makes of a value, and the proof that the parser of \<open>Json_Text\<close> reads it
  back.  Text is taken to be valid UTF-8, as there; the numbers are integers.
\<close>

section \<open>Encoding\<close>

definition unicode_text :: "nat \<Rightarrow> string" where
  "unicode_text n = [CHR 0x5C, CHR ''u'', CHR ''0'', CHR ''0'', hex_digit (n div 16), hex_digit (n mod 16)]"

text \<open>Control characters and the characters that HTML gives a meaning are escaped.\<close>

definition json_char :: "char \<Rightarrow> string" where
  "json_char c =
     (if c = CHR 0x22 \<or> c = CHR 0x5C then [CHR 0x5C, c]
      else
        case map_of [(CHR 0x08, CHR ''b''), (CHR 0x0C, CHR ''f''), (CHR 0x0A, CHR ''n''),
                     (CHR 0x0D, CHR ''r''), (CHR 0x09, CHR ''t'')] c of
          Some e \<Rightarrow> [CHR 0x5C, e]
        | None \<Rightarrow>
            if (of_char c :: nat) < 32 \<or> c = CHR ''<'' \<or> c = CHR ''>'' \<or> c = CHR ''&''
            then unicode_text (of_char c) else [c])"

text \<open>The line separators U+2028 and U+2029 are escaped too.\<close>

definition line_separator :: "string \<Rightarrow> string option" where
  "line_separator s =
     (if is_prefix_of [CHR 0xE2, CHR 0x80, CHR 0xA8] s then Some ([CHR 0x5C] @ ''u2028'')
      else if is_prefix_of [CHR 0xE2, CHR 0x80, CHR 0xA9] s then Some ([CHR 0x5C] @ ''u2029'')
      else None)"

fun json_chars :: "string \<Rightarrow> string" where
  "json_chars [] = []"
| "json_chars (c # cs) =
     (case line_separator (c # cs) of
        Some t \<Rightarrow> t @ json_chars (drop 2 cs)
      | None \<Rightarrow> json_char c @ json_chars cs)"

definition json_quote :: "string \<Rightarrow> string" where
  "json_quote s = [CHR 0x22] @ json_chars s @ [CHR 0x22]"

fun json_text :: "json \<Rightarrow> string" where
  "json_text JNull = ''null''"
| "json_text (JBool b) = (if b then ''true'' else ''false'')"
| "json_text (JNumber t) = t"
| "json_text (JString s) = json_quote s"
| "json_text (JArray xs) = ''['' @ join_on (CHR '','') (map json_text xs) @ '']''"
| "json_text (JObject fs) =
     ''{'' @ join_on (CHR '','') (map (\<lambda>(k, v). json_quote k @ '':'' @ json_text v) fs) @ ''}''"

text \<open>The values whose numbers are integers.\<close>

fun integral :: "json \<Rightarrow> bool" where
  "integral (JNumber t) = (\<exists>i. t = itoa i)"
| "integral (JArray xs) = list_all integral xs"
| "integral (JObject fs) = list_all (\<lambda>(k, v). integral v) fs"
| "integral _ = True"

section \<open>Strings\<close>

declare hex_value.simps [simp del]

lemma hex_value_digit: "d < 16 \<Longrightarrow> hex_value (hex_digit d) = Some d"
proof -
  assume "d < 16"
  then have "d \<in> set [0..<16]" by simp
  moreover have "list_all (\<lambda>d. hex_value (hex_digit d) = Some d) [0..<16]" by code_simp
  ultimately show ?thesis by (simp only: list_all_iff)
qed

lemma simple_read:
  "simple_escape e = Some x \<Longrightarrow> e \<noteq> CHR ''u'' \<Longrightarrow>
     string_body (Suc n) (CHR 0x5C # e # r) = map_option (\<lambda>(t, s). (x # t, s)) (string_body n r)"
  by simp

lemma unicode_read:
  "unicode_escape s = Some (x, r) \<Longrightarrow>
     string_body (Suc n) (CHR 0x5C # CHR ''u'' # s) = map_option (\<lambda>(t, s). (x @ t, s)) (string_body n r)"
  by simp

lemma plain_read:
  "c \<noteq> CHR 0x22 \<Longrightarrow> c \<noteq> CHR 0x5C \<Longrightarrow> \<not> (of_char c :: nat) < 32 \<Longrightarrow>
     string_body (Suc n) (c # r) = map_option (\<lambda>(t, s). (c # t, s)) (string_body n r)"
  by simp

lemma unicode_text_read:
  assumes "n < 128"
  shows "string_body (Suc m) (unicode_text n @ r) = map_option (\<lambda>(t, s). (char_of n # t, s)) (string_body m r)"
proof -
  have "hex_value (CHR ''0'') = Some 0" by code_simp
  then have "hex4 (drop 2 (unicode_text n) @ r) = Some (n div 16 * 16 + n mod 16, r)"
    using assms by (simp add: unicode_text_def hex_value_digit)
  with assms have "unicode_escape (drop 2 (unicode_text n) @ r) = Some ([char_of n], r)"
    by (simp add: unicode_escape_def utf8_def)
  from unicode_read [OF this, of m] show ?thesis by (simp add: unicode_text_def del: string_body.simps)
qed

lemma simple_escape_read:
  "simple_escape (CHR ''b'') = Some (CHR 0x08)" "simple_escape (CHR ''f'') = Some (CHR 0x0C)"
  "simple_escape (CHR ''n'') = Some (CHR 0x0A)" "simple_escape (CHR ''r'') = Some (CHR 0x0D)"
  "simple_escape (CHR ''t'') = Some (CHR 0x09)" "simple_escape (CHR 0x22) = Some (CHR 0x22)"
  "simple_escape (CHR 0x5C) = Some (CHR 0x5C)"
  by code_simp+

lemma json_char_forms:
  obtains (simple) e where "json_char c = [CHR 0x5C, e]" and "simple_escape e = Some c" and "e \<noteq> CHR ''u''"
    | (unicode) "json_char c = unicode_text (of_char c)" and "(of_char c :: nat) < 128"
    | (plain) "json_char c = [c]" and "c \<noteq> CHR 0x22" and "c \<noteq> CHR 0x5C" and "\<not> (of_char c :: nat) < 32"
proof (cases "c = CHR 0x22 \<or> c = CHR 0x5C")
  case True
  then show thesis
    using simple [of c] by (auto simp: json_char_def simple_escape_read)
next
  case special: False
  show thesis
  proof (cases "c \<in> {CHR 0x08, CHR 0x0C, CHR 0x0A, CHR 0x0D, CHR 0x09}")
    case True
    with special show thesis
      using simple by (auto simp: json_char_def simple_escape_read)
  next
    case False
    let ?escaped = "(of_char c :: nat) < 32 \<or> c = CHR ''<'' \<or> c = CHR ''>'' \<or> c = CHR ''&''"
    from special False have form: "json_char c = (if ?escaped then unicode_text (of_char c) else [c])"
      by (simp add: json_char_def)
    show thesis
    proof (cases ?escaped)
      case True
      then have "(of_char c :: nat) < 128" by (elim disjE) simp_all
      with True form unicode show thesis by simp
    next
      case False
      then have "\<not> (of_char c :: nat) < 32" by blast
      with False form special plain show thesis by simp
    qed
  qed
qed

lemma json_char_read:
  "string_body (Suc n) (json_char c @ r) = map_option (\<lambda>(t, s). (c # t, s)) (string_body n r)"
proof (cases c rule: json_char_forms)
  case (simple e)
  then show ?thesis by (simp add: simple_read del: string_body.simps)
next
  case unicode
  then show ?thesis by (simp add: unicode_text_read del: string_body.simps)
next
  case plain
  then show ?thesis by (simp add: plain_read del: string_body.simps)
qed

lemma line_separator_forms:
  assumes "line_separator (c # cs) = Some t"
  obtains (line) u where "c # cs = [CHR 0xE2, CHR 0x80, CHR 0xA8] @ u" and "t = [CHR 0x5C] @ ''u2028''"
    | (break) u where "c # cs = [CHR 0xE2, CHR 0x80, CHR 0xA9] @ u" and "t = [CHR 0x5C] @ ''u2029''"
proof -
  have prefix: "\<exists>u. s = p @ u" if "is_prefix_of p s" for p s
    using that by (induction p s rule: is_prefix_of.induct) auto
  show thesis
  proof (cases "is_prefix_of [CHR 0xE2, CHR 0x80, CHR 0xA8] (c # cs)")
    case True
    with assms prefix [OF True] line show thesis by (auto simp: line_separator_def simp del: is_prefix_of.simps)
  next
    case False
    with assms have other: "is_prefix_of [CHR 0xE2, CHR 0x80, CHR 0xA9] (c # cs)" "t = [CHR 0x5C] @ ''u2029''"
      by (simp_all add: line_separator_def del: is_prefix_of.simps split: if_splits)
    with prefix [OF other(1)] break show thesis by blast
  qed
qed

lemma separator_escapes:
  "unicode_escape (CHR ''2'' # CHR ''0'' # CHR ''2'' # CHR ''8'' # r) = Some ([CHR 0xE2, CHR 0x80, CHR 0xA8], r)"
  "unicode_escape (CHR ''2'' # CHR ''0'' # CHR ''2'' # CHR ''9'' # r) = Some ([CHR 0xE2, CHR 0x80, CHR 0xA9], r)"
proof -
  have "hex_value (CHR ''2'') = Some 2" "hex_value (CHR ''0'') = Some 0" "hex_value (CHR ''8'') = Some 8"
    "hex_value (CHR ''9'') = Some 9" by code_simp+
  moreover have "char_of (226 :: nat) = CHR 0xE2" "char_of (128 :: nat) = CHR 0x80"
      "char_of (168 :: nat) = CHR 0xA8" "char_of (169 :: nat) = CHR 0xA9" by code_simp+
  then have "utf8 8232 = [CHR 0xE2, CHR 0x80, CHR 0xA8]" "utf8 8233 = [CHR 0xE2, CHR 0x80, CHR 0xA9]"
    by (simp_all add: utf8_def)
  ultimately show
    "unicode_escape (CHR ''2'' # CHR ''0'' # CHR ''2'' # CHR ''8'' # r) = Some ([CHR 0xE2, CHR 0x80, CHR 0xA8], r)"
    "unicode_escape (CHR ''2'' # CHR ''0'' # CHR ''2'' # CHR ''9'' # r) = Some ([CHR 0xE2, CHR 0x80, CHR 0xA9], r)"
    by (simp_all add: unicode_escape_def)
qed

lemma line_separator_read:
  assumes "line_separator (c # cs) = Some t" and "string_body n r = Some (drop 2 cs, s)"
  shows "string_body (Suc n) (t @ r) = Some (c # cs, s)"
  using assms(1)
proof (cases rule: line_separator_forms)
  case (line u)
  with assms(2) unicode_read [OF separator_escapes(1), of n r] show ?thesis
    by (simp del: string_body.simps)
next
  case (break u)
  with assms(2) unicode_read [OF separator_escapes(2), of n r] show ?thesis
    by (simp del: string_body.simps)
qed

lemma json_chars_read:
  "length s < n \<Longrightarrow> string_body n (json_chars s @ CHR 0x22 # r) = Some (s, r)"
proof (induction s arbitrary: n rule: json_chars.induct)
  case 1
  then show ?case by (cases n) auto
next
  case (2 c cs)
  then obtain m where n: "n = Suc m" "length cs < m" by (cases n) auto
  show ?case
  proof (cases "line_separator (c # cs)")
    case None
    with 2(1) [OF None n(2)] n show ?thesis by (simp add: json_char_read del: string_body.simps)
  next
    case (Some t)
    have "length (drop 2 cs) < m" using n(2) by simp
    from line_separator_read [OF Some 2(2) [OF Some this]] Some n show ?thesis
      by (simp del: string_body.simps)
  qed
qed

lemma json_char_length: "0 < length (json_char c)"
  by (cases c rule: json_char_forms) (auto simp: unicode_text_def)

lemma json_chars_length: "length s \<le> length (json_chars s)"
proof (induction s rule: json_chars.induct)
  case (2 c cs)
  show ?case
  proof (cases "line_separator (c # cs)")
    case None
    with 2(1) [OF None] json_char_length [of c] show ?thesis by (cases "json_char c") simp_all
  next
    case (Some t)
    then have "length t = 6" by (cases rule: line_separator_forms) auto
    with Some 2(2) [OF Some] show ?thesis by simp
  qed
qed simp

lemma json_quote_read: "json_string (json_chars s @ CHR 0x22 # r) = Some (s, r)"
  using json_chars_length [of s] by (simp add: json_string_def json_chars_read)

section \<open>Numbers\<close>

lemma digit_char_digit: "d < 10 \<Longrightarrow> digit (digit_char d) \<and> int (of_char (digit_char d)) - 48 = int d \<and> (digit_char d = CHR ''0'' \<longleftrightarrow> d = 0)"
proof -
  assume "d < 10"
  then have "d \<in> set [0..<10]" by simp
  moreover have "list_all (\<lambda>d. digit (digit_char d) \<and> int (of_char (digit_char d)) - 48 = int d
      \<and> (digit_char d = CHR ''0'' \<longleftrightarrow> d = 0)) [0..<10]" by code_simp
  ultimately show ?thesis by (simp only: list_all_iff)
qed

lemma itoa_nat_digits:
  "list_all digit (itoa_nat n) \<and> itoa_nat n \<noteq> [] \<and> (hd (itoa_nat n) = CHR ''0'' \<longrightarrow> n = 0)
     \<and> digits_value (itoa_nat n) = int n"
proof (induction n rule: itoa_nat.induct)
  case (1 n)
  show ?case
  proof (cases "n < 10")
    case True
    with digit_char_digit [OF True] show ?thesis by (simp add: itoa_nat.simps [of n] digits_value_def)
  next
    case False
    have last: "n mod 10 < 10" by simp
    from False have "itoa_nat n = itoa_nat (n div 10) @ [digit_char (n mod 10)]"
      by (subst itoa_nat.simps) simp
    moreover have "10 * int (n div 10) + int (n mod 10) = int n"
      by (simp add: of_nat_div of_nat_mod)
    moreover from False have "n div 10 \<noteq> 0" by simp
    ultimately show ?thesis
      using 1 [OF False] digit_char_digit [OF last] by (simp add: digits_value_def)
  qed
qed

lemma itoa_nat_zero: "itoa_nat 0 = ''0''"
  by code_simp

text \<open>What may follow a value inside an array or an object, and at the end of the text.\<close>

definition stops :: "string \<Rightarrow> bool" where
  "stops r \<longleftrightarrow> r = [] \<or> hd r \<in> {CHR '','', CHR '']'', CHR ''}''}"

lemma stops_parts:
  assumes "stops r"
  shows "takeWhile digit r = []" and "dropWhile digit r = r" and "number_fraction r = Some ([], r)"
    and "number_exponent r = Some ([], r)"
  using assms
  by (cases r; auto simp: stops_def digit_def number_fraction_def number_exponent_def)+

lemma digits_read:
  assumes "list_all digit ds" and "ds \<noteq> []" and "stops r"
  shows "digits1 (ds @ r) = Some (ds, r)"
proof -
  have "takeWhile digit (ds @ r) = ds" "dropWhile digit (ds @ r) = r"
    using assms stops_parts [OF assms(3)]
    by (simp_all add: takeWhile_append2 dropWhile_append2 list_all_iff)
  with assms(2) show ?thesis by (simp add: digits1_def Let_def)
qed

lemma number_integer_read:
  assumes "stops r"
  shows "number_integer (itoa_nat n @ r) = Some (itoa_nat n, r)"
proof (cases "n = 0")
  case True
  then show ?thesis by (simp add: itoa_nat_zero number_integer_def)
next
  case False
  with itoa_nat_digits [of n] obtain d ds where "itoa_nat n = d # ds" "d \<noteq> CHR ''0''"
    by (cases "itoa_nat n") auto
  with digits_read [OF _ _ assms, of "itoa_nat n"] itoa_nat_digits [of n] show ?thesis
    by (simp add: number_integer_def)
qed

lemma number_sign_read: "number_sign (itoa_nat n @ r) = ([], itoa_nat n @ r)"
proof -
  obtain d ds where "itoa_nat n = d # ds" "digit d"
    using itoa_nat_digits [of n] by (cases "itoa_nat n") auto
  then show ?thesis by (auto simp: number_sign_def digit_def)
qed

lemma number_read:
  assumes "stops r"
  shows "json_number (itoa i @ r) = Some (itoa i, r)"
  using number_integer_read [OF assms] stops_parts [OF assms]
  by (auto simp: json_number_def itoa_def number_sign_read) (simp add: number_sign_def)

lemma int64_read:
  assumes "- (2 ^ 63) \<le> i" and "i < 2 ^ 63"
  shows "int64_literal (itoa i) = Some i"
proof (cases "i < 0")
  case True
  with assms itoa_nat_digits [of "nat (- i)"] show ?thesis by (simp add: int64_literal_def itoa_def)
next
  case False
  obtain d ds where d: "itoa_nat (nat i) = d # ds" "digit d"
    using itoa_nat_digits [of "nat i"] by (cases "itoa_nat (nat i)") auto
  then have "d \<noteq> CHR ''-''" by (auto simp: digit_def)
  with d False assms itoa_nat_digits [of "nat i"] show ?thesis by (simp add: int64_literal_def itoa_def)
qed

section \<open>Values\<close>

lemma symbol_hit: "\<not> json_space c \<Longrightarrow> symbol c (c # r) = Some r"
  by (simp add: symbol_def skip_space_def)

lemma symbol_miss: "\<not> json_space d \<Longrightarrow> d \<noteq> c \<Longrightarrow> symbol c (d # r) = None"
  by (simp add: symbol_def skip_space_def)

lemma punctuation: "\<not> json_space (CHR ''{'')" "\<not> json_space (CHR ''}'')" "\<not> json_space (CHR ''['')"
  "\<not> json_space (CHR '']'')" "\<not> json_space (CHR '','')" "\<not> json_space (CHR '':'')" "\<not> json_space (CHR 0x22)"
  by (simp_all add: json_space_def)

lemma json_text_head:
  assumes "integral j"
  obtains c t where "json_text j = c # t" and "\<not> json_space c" and "c \<noteq> CHR '']''"
proof -
  have "\<exists>c t. json_text j = c # t \<and> \<not> json_space c \<and> c \<noteq> CHR '']''"
  proof (cases j)
    case (JNumber t)
    with assms obtain i where "t = itoa i" by auto
    moreover obtain c ds where "itoa i = c # ds" "digit c \<or> c = CHR ''-''"
      using itoa_nat_digits [of "nat i"] by (cases "i < 0"; cases "itoa_nat (nat i)") (auto simp: itoa_def)
    ultimately show ?thesis using JNumber by (auto simp: digit_def json_space_def)
  qed (simp_all add: json_quote_def json_space_def)
  then show thesis using that by blast
qed

text \<open>With enough fuel, the parser reads the text of the value and leaves the rest.\<close>

definition reads :: "json \<Rightarrow> bool" where
  "reads j \<longleftrightarrow> (\<forall>r. stops r \<longrightarrow> (\<exists>N. \<forall>n \<ge> N. json_value n (json_text j @ r) = Some (j, r)))"

lemma readsE:
  assumes "reads j" and "stops r"
  obtains N where "\<And>n. N \<le> n \<Longrightarrow> json_value n (json_text j @ r) = Some (j, r)"
  using assms by (auto simp: reads_def)

lemma atom_value:
  assumes "\<not> json_space c" and "c \<noteq> CHR ''{''" and "c \<noteq> CHR ''[''"
  shows "json_value (Suc n) (c # s) = json_atom (c # s)"
  using assms by (simp add: json_value.simps symbol_miss)

lemma reads_atom:
  assumes "\<And>r. stops r \<Longrightarrow> json_atom (json_text j @ r) = Some (j, r)"
    and "json_text j = c # t" and "\<not> json_space c" and "c \<noteq> CHR ''{''" and "c \<noteq> CHR ''[''"
  shows "reads j"
  unfolding reads_def
proof (intro allI impI exI [of _ 1])
  fix r n :: "_" assume "stops r" "1 \<le> (n :: nat)"
  then show "json_value n (json_text j @ r) = Some (j, r)"
    using assms(1) [of r] assms(2) atom_value [OF assms(3-5)] by (cases n) auto
qed

lemma reads_string: "reads (JString s)"
  by (rule reads_atom [where c = "CHR 0x22" and t = "json_chars s @ [CHR 0x22]"])
    (simp_all add: json_quote_def json_atom_def skip_space_def json_quote_read punctuation)

lemma reads_number: "reads (JNumber (itoa i))"
proof -
  obtain c ds where c: "itoa i = c # ds" "digit c \<or> c = CHR ''-''"
    using itoa_nat_digits [of "nat i"] by (cases "i < 0"; cases "itoa_nat (nat i)") (auto simp: itoa_def)
  then have plain: "\<not> json_space c" "c \<noteq> CHR ''{''" "c \<noteq> CHR ''[''" "c \<noteq> CHR 0x22"
    by (auto simp: digit_def json_space_def)
  show ?thesis
  proof (rule reads_atom [where c = c and t = ds])
    fix r assume "stops r"
    with number_read [of r i] c plain show "json_atom (json_text (JNumber (itoa i)) @ r) = Some (JNumber (itoa i), r)"
      by (auto simp: json_atom_def skip_space_def)
  qed (use c plain in simp_all)
qed

lemma reads_null: "reads JNull"
  by (rule reads_atom [where c = "CHR ''n''" and t = "''ull''"])
    (simp_all add: json_atom_def skip_space_def json_space_def digit_def json_literal_def)

lemma reads_bool: "reads (JBool b)"
proof (cases b)
  case True
  then show ?thesis
    by (intro reads_atom [where c = "CHR ''t''" and t = "''rue''"])
      (simp_all add: json_atom_def skip_space_def json_space_def digit_def json_literal_def)
next
  case False
  then show ?thesis
    by (intro reads_atom [where c = "CHR ''f''" and t = "''alse''"])
      (simp_all add: json_atom_def skip_space_def json_space_def digit_def json_literal_def)
qed

lemma join_on_head: "xs \<noteq> [] \<Longrightarrow> \<exists>s. join_on sep (map f xs) @ r = f (hd xs) @ s"
  by (cases xs rule: remdups_adj.cases) auto

lemma stops_next [simp]: "stops (CHR '','' # r)" "stops (CHR '']'' # r)" "stops (CHR ''}'' # r)"
  by (simp_all add: stops_def)

lemma elements_read:
  assumes "xs \<noteq> []" and "\<And>x. x \<in> set xs \<Longrightarrow> reads x"
  shows "\<exists>N. \<forall>n \<ge> N. json_elements n (join_on (CHR '','') (map json_text xs) @ CHR '']'' # r) = Some (xs, r)"
  using assms
proof (induction xs rule: induct_list012)
  case (2 x)
  then have "reads x" by simp
  from this stops_next(2) obtain N
    where "\<And>n. N \<le> n \<Longrightarrow> json_value n (json_text x @ CHR '']'' # r) = Some (x, CHR '']'' # r)"
    by (rule readsE) blast
  then have "json_elements n (json_text x @ CHR '']'' # r) = Some ([x], r)" if "Suc N \<le> n" for n
    using that by (cases n) (auto simp: json_elements.simps symbol_hit punctuation)
  then show ?case by auto
next
  case (3 x y ys)
  let ?rest = "join_on (CHR '','') (map json_text (y # ys)) @ CHR '']'' # r"
  have "reads x" using 3(4) by simp
  from this stops_next(1) obtain N
    where N: "\<And>n. N \<le> n \<Longrightarrow> json_value n (json_text x @ CHR '','' # ?rest) = Some (x, CHR '','' # ?rest)"
    by (rule readsE) blast
  obtain M where M: "\<And>n. M \<le> n \<Longrightarrow> json_elements n ?rest = Some (y # ys, r)"
    using 3(2) [OF _ 3(4)] by auto
  have "json_elements n (json_text x @ CHR '','' # ?rest) = Some (x # y # ys, r)" if "Suc (N + M) \<le> n" for n
    using that N [of "n - 1"] M [of "n - 1"]
    by (cases n) (auto simp: json_elements.simps symbol_hit symbol_miss punctuation)
  then show ?case by (intro exI [of _ "Suc (N + M)"]) simp
qed simp

definition member_text :: "string \<times> json \<Rightarrow> string" where
  "member_text f = json_quote (fst f) @ '':'' @ json_text (snd f)"

lemma key_read:
  "Option.bind (symbol CHR 0x22 (json_quote k @ s)) json_string = Some (k, s)"
  by (simp add: json_quote_def symbol_hit punctuation json_quote_read)

lemma members_read:
  assumes "fs \<noteq> []" and "\<And>f. f \<in> set fs \<Longrightarrow> reads (snd f)"
  shows "\<exists>N. \<forall>n \<ge> N. json_members n (join_on (CHR '','') (map member_text fs) @ CHR ''}'' # r) = Some (fs, r)"
  using assms
proof (induction fs rule: induct_list012)
  case (2 f)
  then have "reads (snd f)" by simp
  from this stops_next(3) obtain N
    where "\<And>n. N \<le> n \<Longrightarrow> json_value n (json_text (snd f) @ CHR ''}'' # r) = Some (snd f, CHR ''}'' # r)"
    by (rule readsE) blast
  then have "json_members n (member_text f @ CHR ''}'' # r) = Some ([f], r)" if "Suc N \<le> n" for n
    using that by (cases n) (auto simp: json_members.simps member_text_def key_read symbol_hit punctuation)
  then show ?case by auto
next
  case (3 f g gs)
  let ?rest = "join_on (CHR '','') (map member_text (g # gs)) @ CHR ''}'' # r"
  have "reads (snd f)" using 3(4) by simp
  from this stops_next(1) obtain N
    where N: "\<And>n. N \<le> n \<Longrightarrow> json_value n (json_text (snd f) @ CHR '','' # ?rest) = Some (snd f, CHR '','' # ?rest)"
    by (rule readsE) blast
  obtain M where M: "\<And>n. M \<le> n \<Longrightarrow> json_members n ?rest = Some (g # gs, r)"
    using 3(2) [OF _ 3(4)] by auto
  have "json_members n (member_text f @ CHR '','' # ?rest) = Some (f # g # gs, r)" if "Suc (N + M) \<le> n" for n
    using that N [of "n - 1"] M [of "n - 1"]
    by (cases n) (auto simp: json_members.simps member_text_def key_read symbol_hit symbol_miss punctuation)
  then show ?case by (intro exI [of _ "Suc (N + M)"]) simp
qed simp

lemma reads_array:
  assumes "\<And>x. x \<in> set xs \<Longrightarrow> reads x \<and> integral x"
  shows "reads (JArray xs)"
  unfolding reads_def
proof (intro allI impI)
  fix r
  show "\<exists>N. \<forall>n \<ge> N. json_value n (json_text (JArray xs) @ r) = Some (JArray xs, r)"
  proof (cases "xs = []")
    case True
    then have "json_value n (json_text (JArray xs) @ r) = Some (JArray xs, r)" if "1 \<le> n" for n
      using that by (cases n) (auto simp: json_value.simps symbol_hit symbol_miss punctuation)
    then show ?thesis by blast
  next
    case False
    let ?rest = "join_on (CHR '','') (map json_text xs) @ CHR '']'' # r"
    from False assms have "integral (hd xs)" by simp
    then obtain c t where "json_text (hd xs) = c # t" "\<not> json_space c" "c \<noteq> CHR '']''"
      by (rule json_text_head)
    moreover obtain s where "?rest = json_text (hd xs) @ s"
      using join_on_head [OF False, of "CHR '',''" json_text] by blast
    ultimately obtain t where "?rest = c # t" "\<not> json_space c" "c \<noteq> CHR '']''" by simp
    then have start: "symbol (CHR '']'') ?rest = None" by (simp add: symbol_miss)
    obtain N where N: "\<And>n. N \<le> n \<Longrightarrow> json_elements n ?rest = Some (xs, r)"
      using elements_read [OF False] assms by blast
    have "json_value n (CHR ''['' # ?rest) = Some (JArray xs, r)" if "Suc N \<le> n" for n
      using that N [of "n - 1"] start
      by (cases n) (auto simp: json_value.simps symbol_hit symbol_miss punctuation)
    then show ?thesis by (intro exI [of _ "Suc N"]) simp
  qed
qed

lemma reads_object:
  assumes "\<And>f. f \<in> set fs \<Longrightarrow> reads (snd f)"
  shows "reads (JObject fs)"
  unfolding reads_def
proof (intro allI impI)
  fix r
  show "\<exists>N. \<forall>n \<ge> N. json_value n (json_text (JObject fs) @ r) = Some (JObject fs, r)"
  proof (cases "fs = []")
    case True
    then have "json_value n (json_text (JObject fs) @ r) = Some (JObject fs, r)" if "1 \<le> n" for n
      using that by (cases n) (auto simp: json_value.simps symbol_hit symbol_miss punctuation)
    then show ?thesis by blast
  next
    case False
    let ?rest = "join_on (CHR '','') (map member_text fs) @ CHR ''}'' # r"
    have shape: "json_text (JObject fs) @ r = CHR ''{'' # ?rest"
      by (simp add: member_text_def case_prod_beta' cong: map_cong)
    obtain s where "?rest = member_text (hd fs) @ s"
      using join_on_head [OF False, of "CHR '',''" member_text] by blast
    then obtain t where "?rest = CHR 0x22 # t" by (simp add: member_text_def json_quote_def)
    then have start: "symbol (CHR ''}'') ?rest = None" by (simp add: symbol_miss punctuation)
    obtain N where N: "\<And>n. N \<le> n \<Longrightarrow> json_members n ?rest = Some (fs, r)"
      using members_read [OF False] assms by blast
    have "json_value n (CHR ''{'' # ?rest) = Some (JObject fs, r)" if "Suc N \<le> n" for n
      using that N [of "n - 1"] start by (cases n) (auto simp: json_value.simps symbol_hit punctuation)
    with shape show ?thesis by (intro exI [of _ "Suc N"]) simp
  qed
qed

lemma integral_reads: "integral j \<Longrightarrow> reads j"
proof (induction j)
  case (JArray xs)
  then show ?case by (auto intro!: reads_array simp: list_all_iff)
next
  case (JObject fs)
  then show ?case by (force intro!: reads_object simp: list_all_iff)
qed (auto intro: reads_null reads_bool reads_number reads_string)

text \<open>The parser reads back the text of every value.\<close>

lemma parse_json_text:
  assumes "integral j"
  shows "parse_json (json_text j) = Some j"
proof -
  have "stops []" by (simp add: stops_def)
  with integral_reads [OF assms] obtain N
    where N: "\<And>n. N \<le> n \<Longrightarrow> json_value n (json_text j @ []) = Some (j, [])" by (rule readsE) blast
  have "next_value (json_text j) = Some (j, [])"
    using N [of "max N (parse_fuel (json_text j))"] next_value_fuel [of "json_text j" "max N (parse_fuel (json_text j))"]
    by simp
  then show ?thesis by (simp add: parse_json_def skip_space_def)
qed

end
