(* ===== verification/Control_Plane.thy ===== *)
theory Control_Plane
  imports Json_Text Agents Workflow_Types Publish_Types
begin

text \<open>
  The HTTP control plane (\<open>internal/controlplane/server.go\<close>): the routes, the decoding of request
  bodies, one definition per handler, and the answers to errors.

  A handler maps a request and a world to its response, the lines it writes to \<open>ErrorOutput\<close> and the
  new world.  The paths are those that \<open>http.ServeMux\<close> matches: cleaned, split at the slashes and
  unescaped.  The values that \<open>writeJSON\<close> encodes stand in the response as they are; the text that
  \<open>json.Encoder\<close> makes of them is not modelled.
\<close>

section \<open>Dependencies\<close>

text \<open>\<open>agentOperations\<close>, \<open>sessionOperations\<close>, \<open>publishOperations\<close>, \<open>workflowOperations\<close>\<close>

record 'w AgentOperations =
  ao_Agents :: "AgentSummary list"
  ao_Start :: "AgentStartRequest \<Rightarrow> ('w, StartResult) op"

text \<open>\<open>WriteLogs\<close> returns, besides its result, what it wrote to the writer it was given.\<close>

record 'w ControlSessions =
  cs_Continue :: "ContinueRequest \<Rightarrow> ('w, TaskResult) op"
  cs_Status :: "string \<Rightarrow> ('w, Status) op"
  cs_Artifacts :: "string \<Rightarrow> ('w, Artifacts) op"
  cs_WriteLogs :: "string \<Rightarrow> bool \<Rightarrow> 'w \<Rightarrow> (string list \<times> (err + unit)) \<times> 'w"
  cs_Delete :: "string \<Rightarrow> ('w, unit) op"
  cs_Destroy :: "string \<Rightarrow> ('w, unit) op"

record 'w WorkflowOperations =
  wo_Workflows :: "WorkflowSummary list"
  wo_Start :: "WorkflowRequest \<Rightarrow> ('w, Run) op"
  wo_Get :: "string \<Rightarrow> ('w, Run) op"
  wo_Artifacts :: "string \<Rightarrow> ('w, RunArtifacts) op"
  wo_Cancel :: "string \<Rightarrow> ('w, unit) op"
  wo_Delete :: "string \<Rightarrow> ('w, unit) op"

text \<open>
  The struct \<open>server\<close> with its \<open>Config\<close>.  \<open>cp_decoderError\<close> is the text of the decoder's error for a
  body from which it cannot read a value.
\<close>

record 'w ControlPlane =
  cp_agents :: "'w AgentOperations"
  cp_sessions :: "'w ControlSessions"
  cp_Publish :: "PublishRequest \<Rightarrow> ('w, PublishResult) op"
  cp_workflows :: "'w WorkflowOperations option"
  cp_decoderError :: "string \<Rightarrow> string"

section \<open>Requests and responses\<close>

record Request =
  http_Method :: string
  http_Path :: "string list"
  http_Query :: "(string \<times> string) list"
  http_Body :: string

datatype Payload =
    NoBody
  | TextBody string
  | ErrorBody string
  | LogStream "string list"
  | AgentsBody "AgentSummary list"
  | StartBody StartResult
  | TaskBody TaskResult
  | StatusBody Status
  | ArtifactsBody Artifacts
  | PublishBody PublishResult
  | WorkflowsBody "WorkflowSummary list"
  | RunBody Run
  | RunArtifactsBody RunArtifacts

record Response =
  rs_Status :: nat
  rs_Type :: string
  rs_Body :: Payload

type_synonym answer = "Response \<times> string list"
type_synonym 'w handler = "'w \<Rightarrow> answer \<times> 'w"

definition StatusOK :: nat where "StatusOK = 200"
definition StatusAccepted :: nat where "StatusAccepted = 202"
definition StatusNoContent :: nat where "StatusNoContent = 204"
definition StatusBadRequest :: nat where "StatusBadRequest = 400"
definition StatusNotFound :: nat where "StatusNotFound = 404"
definition StatusMethodNotAllowed :: nat where "StatusMethodNotAllowed = 405"
definition StatusConflict :: nat where "StatusConflict = 409"
definition StatusInternalServerError :: nat where "StatusInternalServerError = 500"
definition StatusServiceUnavailable :: nat where "StatusServiceUnavailable = 503"

lemmas status_codes [simp] =
  StatusOK_def StatusAccepted_def StatusNoContent_def StatusBadRequest_def StatusNotFound_def
  StatusMethodNotAllowed_def StatusConflict_def StatusInternalServerError_def
  StatusServiceUnavailable_def

definition writeJSON :: "nat \<Rightarrow> Payload \<Rightarrow> answer" where
  "writeJSON status v = (\<lparr>rs_Status = status, rs_Type = ''application/json'', rs_Body = v\<rparr>, [])"

definition writeError :: "nat \<Rightarrow> string \<Rightarrow> answer" where
  "writeError status message = writeJSON status (ErrorBody message)"

definition writeNoContent :: answer where
  "writeNoContent = (\<lparr>rs_Status = StatusNoContent, rs_Type = [], rs_Body = NoBody\<rparr>, [])"

text \<open>\<open>request.URL.Query().Get(name)\<close>\<close>

definition query_value :: "Request \<Rightarrow> string \<Rightarrow> string" where
  "query_value q name = (case map_of (http_Query q) name of None \<Rightarrow> [] | Some v \<Rightarrow> v)"

section \<open>Errors of operations\<close>

text \<open>\<open>errors.Unwrap\<close>; a joined error does not unwrap.\<close>

fun errors_unwrap :: "err \<Rightarrow> err option" where
  "errors_unwrap (Wrapped m e) = Some e"
| "errors_unwrap (OpError p k m c) = c"
| "errors_unwrap _ = None"

definition logOperationError :: "err \<Rightarrow> string" where
  "logOperationError e =
     (let detail = (case errors_unwrap e of Some d \<Rightarrow> d | None \<Rightarrow> e)
      in ''control-plane operation failed: '' @ error_text detail @ [CHR 0x0A])"

definition answerError :: "err \<Rightarrow> nat \<times> string \<Rightarrow> answer" where
  "answerError e sm =
     (case sm of (status, message) \<Rightarrow>
        (fst (writeError status message),
         if StatusInternalServerError \<le> status then [logOperationError e] else []))"

text \<open>
  The status and the message for the kind of an error, and the four functions that write them.  The
  kinds of a publish error have no case for an object that does not exist.
\<close>

definition kind_answer :: "error_kind option \<Rightarrow> err \<Rightarrow> nat \<times> string" where
  "kind_answer k e =
     (case k of
        Some ErrorInvalid \<Rightarrow> (StatusBadRequest, error_text e)
      | Some ErrorNotFound \<Rightarrow> (StatusNotFound, error_text e)
      | Some ErrorConflict \<Rightarrow> (StatusConflict, error_text e)
      | Some ErrorUnavailable \<Rightarrow> (StatusServiceUnavailable, error_text e)
      | None \<Rightarrow> (StatusInternalServerError, ''operation failed''))"

definition writeAgentError :: "err \<Rightarrow> answer" where
  "writeAgentError e = answerError e (kind_answer (ErrorKindOf PkgAgent e) e)"

definition writeSessionError :: "err \<Rightarrow> answer" where
  "writeSessionError e = answerError e (kind_answer (ErrorKindOf PkgSession e) e)"

definition writeWorkflowError :: "err \<Rightarrow> answer" where
  "writeWorkflowError e = answerError e (kind_answer (ErrorKindOf PkgWorkflow e) e)"

definition writePublishError :: "err \<Rightarrow> answer" where
  "writePublishError e =
     (let k = ErrorKindOf PkgPublish e
      in answerError e (kind_answer (if k = Some ErrorNotFound then None else k) e))"

text \<open>An operation whose error and result are both written as the answer.\<close>

definition answer_with :: "('w, 'a) op \<Rightarrow> (err \<Rightarrow> answer) \<Rightarrow> ('a \<Rightarrow> answer) \<Rightarrow> 'w handler" where
  "answer_with m h k w = (case m w of (Inl e, w') \<Rightarrow> (h e, w') | (Inr a, w') \<Rightarrow> (k a, w'))"

section \<open>Request bodies\<close>

definition maxRequestBytes :: nat where
  "maxRequestBytes = 2 ^ 20"

definition composite :: "json \<Rightarrow> bool" where
  "composite v \<longleftrightarrow> (case v of JArray xs \<Rightarrow> True | JObject fs \<Rightarrow> True | _ \<Rightarrow> False)"

text \<open>
  \<open>http.MaxBytesReader\<close> delivers \<open>maxRequestBytes\<close> bytes and then fails.  A value that is neither an
  array nor an object ends only when the next byte, or the end of the input, is seen.
\<close>

definition decodeJSON ::
  "(string \<Rightarrow> string) \<Rightarrow> (string \<times> field_type) list \<Rightarrow> string \<Rightarrow> err + (string \<Rightarrow> json option)" where
  "decodeJSON decoderError types body =
     (case next_value (take maxRequestBytes body) of
        None \<Rightarrow> Inl (Text (decoderError body))
      | Some (v, r) \<Rightarrow>
          if maxRequestBytes < length body \<and> r = [] \<and> \<not> composite v
          then Inl (Text (decoderError body))
          else
            case decode_struct True types v of
              Inl e \<Rightarrow> Inl e
            | Inr f \<Rightarrow>
                if skip_space r = [] \<and> length body \<le> maxRequestBytes then Inr f
                else Inl (Text ''request body must contain one JSON value''))"

text \<open>A handler that decodes its body first.\<close>

definition with_body ::
  "'w ControlPlane \<Rightarrow> Request \<Rightarrow> (string \<times> field_type) list \<Rightarrow> ((string \<Rightarrow> json option) \<Rightarrow> 'w handler) \<Rightarrow> 'w handler" where
  "with_body s q types k w =
     (case decodeJSON (cp_decoderError s) types (http_Body q) of
        Inl e \<Rightarrow> (writeError StatusBadRequest (error_text e), w)
      | Inr f \<Rightarrow> k f w)"

text \<open>\<open>time.Duration(n) * time.Second\<close>: the product wraps at 64 bits.\<close>

definition duration_seconds :: "int \<Rightarrow> int" where
  "duration_seconds n = (n * 1000000000 + 2 ^ 63) mod 2 ^ 64 - 2 ^ 63"

definition requestTimeout :: "int \<Rightarrow> (string \<Rightarrow> json option) \<Rightarrow> int" where
  "requestTimeout none f =
     (case int_pointer (f ''timeout_seconds'') of None \<Rightarrow> none | Some n \<Rightarrow> duration_seconds n)"

abbreviation text_value :: "(string \<Rightarrow> json option) \<Rightarrow> string \<Rightarrow> string" where
  "text_value f name \<equiv> string_or_empty (f name)"

section \<open>Handlers\<close>

definition listAgents :: "'w ControlPlane \<Rightarrow> 'w handler" where
  "listAgents s w = (writeJSON StatusOK (AgentsBody (ao_Agents (cp_agents s))), w)"

definition createAgentSessionRequest :: "(string \<times> field_type) list" where
  "createAgentSessionRequest =
     [(''name'', FString), (''repository'', FString), (''ref'', FString), (''prompt'', FString),
      (''timeout_seconds'', FInt64Pointer)]"

definition agentStartInput :: "string \<Rightarrow> (string \<Rightarrow> json option) \<Rightarrow> AgentStartRequest" where
  "agentStartInput agent f =
     \<lparr>ar_Agent = agent, ar_Name = text_value f ''name'', ar_Repository = text_value f ''repository'',
      ar_InitialRef = text_value f ''ref'', ar_Prompt = text_value f ''prompt'',
      ar_Timeout = requestTimeout 0 f, ar_ResultKind = ResultKindOther [], ar_WorkflowRun = [],
      ar_WorkflowStep = []\<rparr>"

definition createAgentSession :: "'w ControlPlane \<Rightarrow> Request \<Rightarrow> string \<Rightarrow> 'w handler" where
  "createAgentSession s q agent =
     with_body s q createAgentSessionRequest (\<lambda>f.
       answer_with (ao_Start (cp_agents s) (agentStartInput agent f)) writeAgentError
         (\<lambda>r. writeJSON StatusAccepted (StartBody r)))"

definition continueSessionRequest :: "(string \<times> field_type) list" where
  "continueSessionRequest = [(''prompt'', FString), (''timeout_seconds'', FInt64Pointer)]"

definition continueInput :: "string \<Rightarrow> (string \<Rightarrow> json option) \<Rightarrow> ContinueRequest" where
  "continueInput name f =
     \<lparr>cont_Name = name, cont_Prompt = text_value f ''prompt'', cont_Timeout = requestTimeout 0 f\<rparr>"

definition continueSession :: "'w ControlPlane \<Rightarrow> Request \<Rightarrow> string \<Rightarrow> 'w handler" where
  "continueSession s q name =
     with_body s q continueSessionRequest (\<lambda>f.
       answer_with (cs_Continue (cp_sessions s) (continueInput name f)) writeSessionError
         (\<lambda>r. writeJSON StatusAccepted (TaskBody r)))"

definition sessionStatus :: "'w ControlPlane \<Rightarrow> string \<Rightarrow> 'w handler" where
  "sessionStatus s name =
     answer_with (cs_Status (cp_sessions s) name) writeSessionError
       (\<lambda>r. writeJSON StatusOK (StatusBody r))"

text \<open>
  \<open>trackingResponseWriter\<close>: after the first write the status 200 has been sent, and an error is
  logged only.
\<close>

definition sessionLogs :: "'w ControlPlane \<Rightarrow> Request \<Rightarrow> string \<Rightarrow> 'w handler" where
  "sessionLogs s q name w =
     (case cs_WriteLogs (cp_sessions s) name (query_value q ''follow'' = ''true'') w of
        ((written, result), w') \<Rightarrow>
          let stream = \<lparr>rs_Status = StatusOK, rs_Type = ''application/x-ndjson'', rs_Body = LogStream written\<rparr>
          in (case result of
                Inr u \<Rightarrow> ((stream, []), w')
              | Inl e \<Rightarrow>
                  if written \<noteq> [] then ((stream, [logOperationError e]), w')
                  else (writeSessionError e, w')))"

definition sessionArtifacts :: "'w ControlPlane \<Rightarrow> string \<Rightarrow> 'w handler" where
  "sessionArtifacts s name =
     answer_with (cs_Artifacts (cp_sessions s) name) writeSessionError
       (\<lambda>r. writeJSON StatusOK (ArtifactsBody r))"

definition deleteSession :: "'w ControlPlane \<Rightarrow> Request \<Rightarrow> string \<Rightarrow> 'w handler" where
  "deleteSession s q name =
     answer_with
       (if query_value q ''storage'' = ''delete'' then cs_Destroy (cp_sessions s) name
        else cs_Delete (cp_sessions s) name)
       writeSessionError (\<lambda>_. writeNoContent)"

definition publishSessionRequest :: "(string \<times> field_type) list" where
  "publishSessionRequest =
     [(''branch'', FString), (''base'', FString), (''commit_message'', FString), (''ready'', FBool),
      (''timeout_seconds'', FInt64Pointer)]"

definition publishInput :: "string \<Rightarrow> (string \<Rightarrow> json option) \<Rightarrow> PublishRequest" where
  "publishInput name f =
     \<lparr>pq_Session = name, pq_Branch = text_value f ''branch'', pq_BaseBranch = text_value f ''base'',
      pq_CommitMessage = text_value f ''commit_message'', pq_Draft = (\<not> bool_or_false (f ''ready'')),
      pq_Timeout = requestTimeout (10 * 60 * 1000000000) f\<rparr>"

definition publishSession :: "'w ControlPlane \<Rightarrow> Request \<Rightarrow> string \<Rightarrow> 'w handler" where
  "publishSession s q name =
     with_body s q publishSessionRequest (\<lambda>f.
       answer_with (cp_Publish s (publishInput name f)) writePublishError
         (\<lambda>r. writeJSON StatusOK (PublishBody r)))"

definition listWorkflows :: "'w WorkflowOperations \<Rightarrow> 'w handler" where
  "listWorkflows c w = (writeJSON StatusOK (WorkflowsBody (wo_Workflows c)), w)"

definition createWorkflowRunRequest :: "(string \<times> field_type) list" where
  "createWorkflowRunRequest =
     [(''name'', FString), (''repository'', FString), (''ref'', FString), (''prompt'', FString)]"

definition workflowStartInput :: "string \<Rightarrow> (string \<Rightarrow> json option) \<Rightarrow> WorkflowRequest" where
  "workflowStartInput workflow f =
     \<lparr>wq_Workflow = workflow, wq_Name = text_value f ''name'', wq_Repository = text_value f ''repository'',
      wq_Ref = text_value f ''ref'', wq_Prompt = text_value f ''prompt''\<rparr>"

definition createWorkflowRun :: "'w ControlPlane \<Rightarrow> 'w WorkflowOperations \<Rightarrow> Request \<Rightarrow> string \<Rightarrow> 'w handler" where
  "createWorkflowRun s c q workflow =
     with_body s q createWorkflowRunRequest (\<lambda>f.
       answer_with (wo_Start c (workflowStartInput workflow f)) writeWorkflowError
         (\<lambda>r. writeJSON StatusAccepted (RunBody r)))"

definition workflowRunStatus :: "'w WorkflowOperations \<Rightarrow> string \<Rightarrow> 'w handler" where
  "workflowRunStatus c name =
     answer_with (wo_Get c name) writeWorkflowError (\<lambda>r. writeJSON StatusOK (RunBody r))"

definition workflowRunArtifacts :: "'w WorkflowOperations \<Rightarrow> string \<Rightarrow> 'w handler" where
  "workflowRunArtifacts c name =
     answer_with (wo_Artifacts c name) writeWorkflowError
       (\<lambda>r. writeJSON StatusOK (RunArtifactsBody r))"

definition cancelWorkflowRun :: "'w WorkflowOperations \<Rightarrow> string \<Rightarrow> 'w handler" where
  "cancelWorkflowRun c name =
     answer_with (wo_Cancel c name) writeWorkflowError (\<lambda>_. writeNoContent)"

definition deleteWorkflowRun :: "'w WorkflowOperations \<Rightarrow> string \<Rightarrow> 'w handler" where
  "deleteWorkflowRun c name =
     answer_with (wo_Delete c name) writeWorkflowError (\<lambda>_. writeNoContent)"

section \<open>Routes\<close>

datatype Route =
    ToListAgents
  | ToCreateAgentSession
  | ToSessionStatus
  | ToContinueSession
  | ToSessionLogs
  | ToSessionArtifacts
  | ToPublishSession
  | ToDeleteSession
  | ToListWorkflows
  | ToCreateWorkflowRun
  | ToWorkflowRunStatus
  | ToWorkflowRunArtifacts
  | ToCancelWorkflowRun
  | ToDeleteWorkflowRun

datatype segment = Literal string | Wildcard

text \<open>The patterns that \<open>New\<close> registers; those of the workflows only when they are configured.\<close>

definition sessionRoutes :: "(string \<times> segment list \<times> Route) list" where
  "sessionRoutes =
     [(''GET'', [Literal ''v1'', Literal ''agents''], ToListAgents),
      (''POST'', [Literal ''v1'', Literal ''agents'', Wildcard, Literal ''sessions''], ToCreateAgentSession),
      (''GET'', [Literal ''v1'', Literal ''sessions'', Wildcard], ToSessionStatus),
      (''POST'', [Literal ''v1'', Literal ''sessions'', Wildcard, Literal ''tasks''], ToContinueSession),
      (''GET'', [Literal ''v1'', Literal ''sessions'', Wildcard, Literal ''logs''], ToSessionLogs),
      (''GET'', [Literal ''v1'', Literal ''sessions'', Wildcard, Literal ''artifacts''], ToSessionArtifacts),
      (''POST'', [Literal ''v1'', Literal ''sessions'', Wildcard, Literal ''publish''], ToPublishSession),
      (''DELETE'', [Literal ''v1'', Literal ''sessions'', Wildcard], ToDeleteSession)]"

definition workflowRoutes :: "(string \<times> segment list \<times> Route) list" where
  "workflowRoutes =
     [(''GET'', [Literal ''v1'', Literal ''workflows''], ToListWorkflows),
      (''POST'', [Literal ''v1'', Literal ''workflows'', Wildcard, Literal ''runs''], ToCreateWorkflowRun),
      (''GET'', [Literal ''v1'', Literal ''workflow-runs'', Wildcard], ToWorkflowRunStatus),
      (''GET'', [Literal ''v1'', Literal ''workflow-runs'', Wildcard, Literal ''artifacts''], ToWorkflowRunArtifacts),
      (''POST'', [Literal ''v1'', Literal ''workflow-runs'', Wildcard, Literal ''cancel''], ToCancelWorkflowRun),
      (''DELETE'', [Literal ''v1'', Literal ''workflow-runs'', Wildcard], ToDeleteWorkflowRun)]"

text \<open>
  A pattern matches a path segment by segment; the result is the value of its wildcard.  A wildcard
  does not match an empty segment.
\<close>

fun match_path :: "segment list \<Rightarrow> string list \<Rightarrow> string option" where
  "match_path [] [] = Some []"
| "match_path (Literal l # ps) (s # ss) = (if l = s then match_path ps ss else None)"
| "match_path (Wildcard # ps) (s # ss) =
     (if s = [] then None else map_option (\<lambda>v. s) (match_path ps ss))"
| "match_path _ _ = None"

text \<open>A pattern with the method GET matches HEAD too.\<close>

definition method_matches :: "string \<Rightarrow> string \<Rightarrow> bool" where
  "method_matches pattern method \<longleftrightarrow> pattern = method \<or> pattern = ''GET'' \<and> method = ''HEAD''"

datatype Routed = Matched Route string | MethodNotAllowed | NoRoute

fun route_in :: "(string \<times> segment list \<times> Route) list \<Rightarrow> string \<Rightarrow> string list \<Rightarrow> Routed" where
  "route_in [] m p = NoRoute"
| "route_in ((pattern, segments, r) # rs) m p =
     (case match_path segments p of
        None \<Rightarrow> route_in rs m p
      | Some v \<Rightarrow>
          if method_matches pattern m then Matched r v
          else (case route_in rs m p of Matched r' v' \<Rightarrow> Matched r' v' | _ \<Rightarrow> MethodNotAllowed))"

definition routes :: "'w ControlPlane \<Rightarrow> (string \<times> segment list \<times> Route) list" where
  "routes s = sessionRoutes @ (if cp_workflows s = None then [] else workflowRoutes)"

definition notFound :: answer where
  "notFound = (\<lparr>rs_Status = StatusNotFound, rs_Type = ''text/plain; charset=utf-8'',
     rs_Body = TextBody (''404 page not found'' @ [CHR 0x0A])\<rparr>, [])"

definition methodNotAllowed :: answer where
  "methodNotAllowed = (\<lparr>rs_Status = StatusMethodNotAllowed, rs_Type = ''text/plain; charset=utf-8'',
     rs_Body = TextBody (''Method Not Allowed'' @ [CHR 0x0A])\<rparr>, [])"

text \<open>The handlers of the workflow routes; without a configuration they are not registered.\<close>

definition with_workflows :: "'w ControlPlane \<Rightarrow> ('w WorkflowOperations \<Rightarrow> 'w handler) \<Rightarrow> 'w handler" where
  "with_workflows s h w = (case cp_workflows s of None \<Rightarrow> (notFound, w) | Some c \<Rightarrow> h c w)"

definition run_route :: "'w ControlPlane \<Rightarrow> Request \<Rightarrow> Route \<Rightarrow> string \<Rightarrow> 'w handler" where
  "run_route s q r v =
     (case r of
        ToListAgents \<Rightarrow> listAgents s
      | ToCreateAgentSession \<Rightarrow> createAgentSession s q v
      | ToSessionStatus \<Rightarrow> sessionStatus s v
      | ToContinueSession \<Rightarrow> continueSession s q v
      | ToSessionLogs \<Rightarrow> sessionLogs s q v
      | ToSessionArtifacts \<Rightarrow> sessionArtifacts s v
      | ToPublishSession \<Rightarrow> publishSession s q v
      | ToDeleteSession \<Rightarrow> deleteSession s q v
      | ToListWorkflows \<Rightarrow> with_workflows s listWorkflows
      | ToCreateWorkflowRun \<Rightarrow> with_workflows s (\<lambda>c. createWorkflowRun s c q v)
      | ToWorkflowRunStatus \<Rightarrow> with_workflows s (\<lambda>c. workflowRunStatus c v)
      | ToWorkflowRunArtifacts \<Rightarrow> with_workflows s (\<lambda>c. workflowRunArtifacts c v)
      | ToCancelWorkflowRun \<Rightarrow> with_workflows s (\<lambda>c. cancelWorkflowRun c v)
      | ToDeleteWorkflowRun \<Rightarrow> with_workflows s (\<lambda>c. deleteWorkflowRun c v))"

text \<open>\<open>ServeHTTP\<close> of the handler that \<open>New\<close> returns.\<close>

definition serveHTTP :: "'w ControlPlane \<Rightarrow> Request \<Rightarrow> 'w handler" where
  "serveHTTP s q w =
     (case route_in (routes s) (http_Method q) (http_Path q) of
        NoRoute \<Rightarrow> (notFound, w)
      | MethodNotAllowed \<Rightarrow> (methodNotAllowed, w)
      | Matched r v \<Rightarrow> run_route s q r v w)"

end
