(* ===== verification/Cli.thy ===== *)
theory Cli
  imports Json_Encode Control_Plane
begin

text \<open>
  The command line client (\<open>cmd/dyne/main.go\<close>): the flags of each command, the request that it sends,
  and what it makes of the response.  The command \<open>server\<close> is in \<open>Startup\<close>.

  Of the standard library: the package \<open>flag\<close> is written out, with \<open>time.ParseDuration\<close> as a parameter,
  and so are the escaping of URL paths and the part of URL parsing that the requests need.
\<close>

section \<open>Flags\<close>

datatype flag_value = FlagString string | FlagBool bool | FlagDuration int | FlagInt64 int

type_synonym flags = "(string \<times> flag_value) list"

text \<open>\<open>strconv.ParseBool\<close>\<close>

definition ParseBool :: "string \<Rightarrow> bool option" where
  "ParseBool s =
     (if s \<in> {''1'', ''t'', ''T'', ''TRUE'', ''true'', ''True''} then Some True
      else if s \<in> {''0'', ''f'', ''F'', ''FALSE'', ''false'', ''False''} then Some False
      else None)"

text \<open>
  \<open>strconv.ParseInt(s, 0, 64)\<close>, with the reason that \<open>flag\<close> gives for a failure.  The base is taken from the
  prefix; underscores may separate digits, and the prefix counts as one.
\<close>

definition lower_digit :: "char \<Rightarrow> int option" where
  "lower_digit c =
     (let k = (of_char c :: int)
      in if 48 \<le> k \<and> k \<le> 57 then Some (k - 48)
         else if 97 \<le> k \<and> k \<le> 122 then Some (k - 87)
         else if 65 \<le> k \<and> k \<le> 90 then Some (k - 55)
         else None)"

fun scan_digits :: "int \<Rightarrow> int \<Rightarrow> string \<Rightarrow> string + int" where
  "scan_digits base n [] = Inr n"
| "scan_digits base n (c # cs) =
     (if c = CHR ''_'' then scan_digits base n cs
      else case lower_digit c of
        None \<Rightarrow> Inl ''parse error''
      | Some d \<Rightarrow>
          if base \<le> d then Inl ''parse error''
          else if 2 ^ 64 \<le> n * base + d then Inl ''value out of range''
          else scan_digits base (n * base + d) cs)"

text \<open>The first argument tells whether a digit precedes.\<close>

fun separated :: "bool \<Rightarrow> string \<Rightarrow> bool" where
  "separated after [] = True"
| "separated after (c # cs) =
     (if c = CHR ''_'' then after \<and> cs \<noteq> [] \<and> separated False cs else separated True cs)"

definition number_base :: "string \<Rightarrow> int \<times> string \<times> bool" where
  "number_base u =
     (if u \<noteq> [] \<and> hd u = CHR ''0'' then
        if 3 \<le> length u \<and> u ! 1 \<in> {CHR ''b'', CHR ''B''} then (2, drop 2 u, True)
        else if 3 \<le> length u \<and> u ! 1 \<in> {CHR ''o'', CHR ''O''} then (8, drop 2 u, True)
        else if 3 \<le> length u \<and> u ! 1 \<in> {CHR ''x'', CHR ''X''} then (16, drop 2 u, True)
        else (8, drop 1 u, True)
      else (10, u, False))"

definition ParseInt0 :: "string \<Rightarrow> string + int" where
  "ParseInt0 s =
     (let signed = (s \<noteq> [] \<and> hd s \<in> {CHR ''+'', CHR ''-''});
          negative = (signed \<and> hd s = CHR ''-'');
          u = (if signed then tl s else s)
      in if u = [] then Inl ''parse error''
         else case number_base u of
           (base, ds, after) \<Rightarrow>
             (case scan_digits base 0 ds of
                Inl e \<Rightarrow> Inl e
              | Inr n \<Rightarrow>
                  if \<not> separated after ds then Inl ''parse error''
                  else if negative then if n > 2 ^ 63 then Inl ''value out of range'' else Inr (- n)
                  else if 2 ^ 63 \<le> n then Inl ''value out of range''
                  else Inr n))"

text \<open>\<open>Value.Set\<close> on a flag that holds a value.\<close>

fun set_flag :: "(string \<Rightarrow> int option) \<Rightarrow> flag_value \<Rightarrow> string \<Rightarrow> flag_value option" where
  "set_flag parseDuration (FlagString d) s = Some (FlagString s)"
| "set_flag parseDuration (FlagBool d) s = map_option FlagBool (ParseBool s)"
| "set_flag parseDuration (FlagDuration d) s = map_option FlagDuration (parseDuration s)"
| "set_flag parseDuration (FlagInt64 d) s = (case ParseInt0 s of Inl e \<Rightarrow> None | Inr n \<Rightarrow> Some (FlagInt64 n))"

datatype flag_shape = NoFlag | EndOfFlags | BadFlag | Flag string "string option"

text \<open>The forms of an argument that \<open>parseOne\<close> tells apart.\<close>

definition flag_form :: "string \<Rightarrow> flag_shape" where
  "flag_form a =
     (if length a < 2 \<or> hd a \<noteq> CHR ''-'' then NoFlag
      else if a = ''--'' then EndOfFlags
      else
        let name = (if a ! 1 = CHR ''-'' then drop 2 a else drop 1 a)
        in if name = [] \<or> hd name = CHR ''-'' \<or> hd name = CHR ''='' then BadFlag
           else (case cut (CHR ''='') name of
                   None \<Rightarrow> Flag name None
                 | Some (n, v) \<Rightarrow> Flag n (Some v)))"

text \<open>
  The text that a flag is set to, and the arguments after it: a boolean flag takes its value from the
  same argument only.
\<close>

definition flag_argument :: "flag_value \<Rightarrow> string option \<Rightarrow> string list \<Rightarrow> (string \<times> string list) option" where
  "flag_argument old given as =
     (case given of
        Some s \<Rightarrow> Some (s, as)
      | None \<Rightarrow>
          (case old of
             FlagBool b \<Rightarrow> Some (''true'', as)
           | _ \<Rightarrow> (case as of [] \<Rightarrow> None | s # as' \<Rightarrow> Some (s, as'))))"

definition flag_failure :: "flag_value \<Rightarrow> string \<Rightarrow> string \<Rightarrow> err" where
  "flag_failure old name s =
     Text (case old of
             FlagBool b \<Rightarrow> ''invalid boolean value '' @ quoted s @ '' for -'' @ name @ '': parse error''
           | FlagInt64 d \<Rightarrow> ''invalid value '' @ quoted s @ '' for flag -'' @ name @ '': ''
               @ (case ParseInt0 s of Inl e \<Rightarrow> e | Inr n \<Rightarrow> [])
           | _ \<Rightarrow> ''invalid value '' @ quoted s @ '' for flag -'' @ name @ '': parse error'')"

lemma flag_argument_length: "flag_argument old given as = Some (s, as') \<Longrightarrow> length as' \<le> length as"
  by (auto simp: flag_argument_def split: option.splits flag_value.splits list.splits)

text \<open>\<open>FlagSet.Parse\<close>: the values of the flags and the arguments that are left.\<close>

function parse_flags :: "(string \<Rightarrow> int option) \<Rightarrow> flags \<Rightarrow> string list \<Rightarrow> err + flags \<times> string list" where
  "parse_flags parseDuration fls [] = Inr (fls, [])"
| "parse_flags parseDuration fls (a # as) =
     (case flag_form a of
        NoFlag \<Rightarrow> Inr (fls, a # as)
      | EndOfFlags \<Rightarrow> Inr (fls, as)
      | BadFlag \<Rightarrow> Inl (Text (''bad flag syntax: '' @ a))
      | Flag name given \<Rightarrow>
          (case map_of fls name of
             None \<Rightarrow>
               if name = ''help'' \<or> name = ''h'' then Inl (Text ''flag: help requested'')
               else Inl (Text (''flag provided but not defined: -'' @ name))
           | Some old \<Rightarrow>
               (case flag_argument old given as of
                  None \<Rightarrow> Inl (Text (''flag needs an argument: -'' @ name))
                | Some (s, as') \<Rightarrow>
                    (case set_flag parseDuration old s of
                       None \<Rightarrow> Inl (flag_failure old name s)
                     | Some v \<Rightarrow> parse_flags parseDuration (AList.update name v fls) as'))))"
  by pat_completeness auto

termination
  by (relation "measure (\<lambda>(pd, fls, args). length args)") (auto dest: flag_argument_length)

definition text_flag :: "flags \<Rightarrow> string \<Rightarrow> string" where
  "text_flag fls name = (case map_of fls name of Some (FlagString s) \<Rightarrow> s | _ \<Rightarrow> [])"

definition bool_flag :: "flags \<Rightarrow> string \<Rightarrow> bool" where
  "bool_flag fls name = (case map_of fls name of Some (FlagBool b) \<Rightarrow> b | _ \<Rightarrow> False)"

definition int_flag :: "flags \<Rightarrow> string \<Rightarrow> int" where
  "int_flag fls name = (case map_of fls name of Some (FlagInt64 n) \<Rightarrow> n | _ \<Rightarrow> 0)"

definition duration_flag :: "flags \<Rightarrow> string \<Rightarrow> int" where
  "duration_flag fls name = (case map_of fls name of Some (FlagDuration d) \<Rightarrow> d | _ \<Rightarrow> 0)"

section \<open>Addresses\<close>

definition url_plain :: "char \<Rightarrow> bool" where
  "url_plain c \<longleftrightarrow>
     c \<in> set ''abcdefghijklmnopqrstuvwxyzABCDEFGHIJKLMNOPQRSTUVWXYZ0123456789-_.~$&+:=@''"

definition upper_hex_digit :: "nat \<Rightarrow> char" where
  "upper_hex_digit d = ''0123456789ABCDEF'' ! (d mod 16)"

text \<open>\<open>url.PathEscape\<close>\<close>

definition PathEscape :: "string \<Rightarrow> string" where
  "PathEscape s = concat (map (\<lambda>c.
     if url_plain c then [c]
     else [CHR ''%'', upper_hex_digit (of_char c div 16), upper_hex_digit (of_char c mod 16)]) s)"

text \<open>\<open>url.PathUnescape\<close>, and with a true flag \<open>url.QueryUnescape\<close>\<close>

fun url_unescape :: "bool \<Rightarrow> string \<Rightarrow> string option" where
  "url_unescape pl [] = Some []"
| "url_unescape pl (c # cs) =
     (if c = CHR ''%'' then
        (case cs of
           a # b # r \<Rightarrow>
             (case (hex_value a, hex_value b) of
                (Some x, Some y) \<Rightarrow> map_option ((#) (char_of (16 * x + y))) (url_unescape pl r)
              | _ \<Rightarrow> None)
         | _ \<Rightarrow> None)
      else map_option ((#) (if pl \<and> c = CHR ''+'' then CHR '' '' else c)) (url_unescape pl cs))"

text \<open>
  The segments of a path that \<open>http.ServeMux\<close> matches.  A path with an empty segment or a dot segment is
  redirected or has no route.
\<close>

definition path_segments :: "string \<Rightarrow> string list option" where
  "path_segments p =
     (case split_on (CHR ''/'') p of
        [] # ss \<Rightarrow>
          if list_ex (\<lambda>s. s = [] \<or> s = ''.'' \<or> s = ''..'') ss then None
          else those (map (url_unescape False) ss)
      | _ \<Rightarrow> None)"

text \<open>\<open>url.ParseQuery\<close>\<close>

definition query_pair :: "string \<Rightarrow> (string \<times> string) option" where
  "query_pair s =
     (if s = [] \<or> CHR '';'' \<in> set s then None
      else
        case (case cut (CHR ''='') s of None \<Rightarrow> (s, []) | Some kv \<Rightarrow> kv) of
          (k, v) \<Rightarrow>
            (case (url_unescape True k, url_unescape True v) of
               (Some k, Some v) \<Rightarrow> Some (k, v)
             | _ \<Rightarrow> None))"

definition ParseQuery :: "string \<Rightarrow> (string \<times> string) list" where
  "ParseQuery s = List.map_filter query_pair (split_on (CHR ''&'') s)"

section \<open>Requests\<close>

text \<open>What \<open>requestJSON\<close> sends: the address of the server, the path with its query, and the body.\<close>

record Outgoing =
  out_Method :: string
  out_Server :: string
  out_Path :: string
  out_Body :: "json option"

definition out_text :: "Outgoing \<Rightarrow> string" where
  "out_text o' = (case out_Body o' of None \<Rightarrow> [] | Some j \<Rightarrow> json_text j)"

text \<open>The request as the control plane receives it.\<close>

definition received :: "Outgoing \<Rightarrow> Request option" where
  "received o' =
     (case (case cut (CHR ''?'') (out_Path o') of None \<Rightarrow> (out_Path o', []) | Some pq \<Rightarrow> pq) of
        (p, query) \<Rightarrow>
          map_option (\<lambda>ss. \<lparr>http_Method = out_Method o', http_Path = ss, http_Query = ParseQuery query,
                            http_Body = out_text o'\<rparr>) (path_segments p))"

record Cli =
  cli_serverVariable :: string
  cli_parseDuration :: "string \<Rightarrow> int option"

definition defaultServerURL :: string where
  "defaultServerURL = ''http://127.0.0.1:8080''"

text \<open>The flag of every client command; \<open>DYNE_SERVER\<close> replaces its default.\<close>

definition serverFlag :: "Cli \<Rightarrow> string \<times> flag_value" where
  "serverFlag c =
     (''server'',
      FlagString (if cli_serverVariable c = [] then defaultServerURL else cli_serverVariable c))"

definition trim_slashes :: "string \<Rightarrow> string" where
  "trim_slashes s = rev (dropWhile (\<lambda>c. c = CHR ''/'') (rev s))"

definition outgoing :: "flags \<Rightarrow> string \<Rightarrow> string \<Rightarrow> json option \<Rightarrow> Outgoing" where
  "outgoing fls method path body =
     \<lparr>out_Method = method, out_Server = trim_slashes (text_flag fls ''server''), out_Path = path, out_Body = body\<rparr>"

text \<open>A map is encoded in the order of its keys.\<close>

definition json_map :: "(string \<times> json) list \<Rightarrow> json" where
  "json_map kvs = JObject (sort_key fst kvs)"

definition timeout_field :: "int \<Rightarrow> (string \<times> json) list" where
  "timeout_field d =
     (if d \<noteq> 0 then [(''timeout_seconds'', JNumber (itoa (whole_seconds d)))] else [])"

text \<open>A command that parses its flags first.\<close>

definition with_flags ::
  "Cli \<Rightarrow> flags \<Rightarrow> string list \<Rightarrow> (flags \<Rightarrow> string list \<Rightarrow> err + Outgoing) \<Rightarrow> err + Outgoing" where
  "with_flags c fls args k =
     (case parse_flags (cli_parseDuration c) (serverFlag c # fls) args of
        Inl e \<Rightarrow> Inl e
      | Inr (fls', rest) \<Rightarrow> k fls' rest)"

section \<open>Commands\<close>

definition startFlags :: flags where
  "startFlags =
     [(''agent'', FlagString []), (''name'', FlagString []), (''repo'', FlagString []),
      (''ref'', FlagString ''main''), (''prompt'', FlagString []), (''timeout'', FlagDuration 0)]"

definition cli_start :: "Cli \<Rightarrow> string list \<Rightarrow> err + Outgoing" where
  "cli_start c args =
     with_flags c startFlags args
       (\<lambda>fls rest.
          if text_flag fls ''agent'' = [] then Inl (Text ''--agent is required'')
          else Inr (outgoing fls ''POST''
                 (''/v1/agents/'' @ PathEscape (text_flag fls ''agent'') @ ''/sessions'')
                 (Some (json_map
                   ([(''name'', JString (text_flag fls ''name'')),
                     (''repository'', JString (text_flag fls ''repo'')),
                     (''ref'', JString (text_flag fls ''ref'')),
                     (''prompt'', JString (text_flag fls ''prompt''))]
                    @ timeout_field (duration_flag fls ''timeout''))))))"

definition cli_listAgents :: "Cli \<Rightarrow> string list \<Rightarrow> err + Outgoing" where
  "cli_listAgents c args =
     with_flags c [] args (\<lambda>fls rest. Inr (outgoing fls ''GET'' ''/v1/agents'' None))"

definition cli_listWorkflows :: "Cli \<Rightarrow> string list \<Rightarrow> err + Outgoing" where
  "cli_listWorkflows c args =
     with_flags c [] args (\<lambda>fls rest. Inr (outgoing fls ''GET'' ''/v1/workflows'' None))"

definition workflowStartFlags :: flags where
  "workflowStartFlags =
     [(''workflow'', FlagString []), (''name'', FlagString []), (''repo'', FlagString []),
      (''ref'', FlagString ''main''), (''prompt'', FlagString [])]"

definition cli_startWorkflow :: "Cli \<Rightarrow> string list \<Rightarrow> err + Outgoing" where
  "cli_startWorkflow c args =
     with_flags c workflowStartFlags args
       (\<lambda>fls rest.
          if text_flag fls ''workflow'' = [] \<or> text_flag fls ''name'' = [] \<or> text_flag fls ''repo'' = []
             \<or> text_flag fls ''prompt'' = []
          then Inl (Text ''workflow-start requires --workflow, --name, --repo, and --prompt'')
          else Inr (outgoing fls ''POST''
                 (''/v1/workflows/'' @ PathEscape (text_flag fls ''workflow'') @ ''/runs'')
                 (Some (json_map
                   [(''name'', JString (text_flag fls ''name'')),
                    (''repository'', JString (text_flag fls ''repo'')),
                    (''ref'', JString (text_flag fls ''ref'')),
                    (''prompt'', JString (text_flag fls ''prompt''))]))))"

text \<open>A command that names one object: \<open>getWorkflowRun\<close>, \<open>changeWorkflowRun\<close>, \<open>getSession\<close>.\<close>

definition cli_named :: "Cli \<Rightarrow> flags \<Rightarrow> string list \<Rightarrow> string \<Rightarrow> string \<Rightarrow> (flags \<Rightarrow> string) \<Rightarrow> err + Outgoing" where
  "cli_named c fls args method prefix suffix =
     with_flags c ((''name'', FlagString []) # fls) args
       (\<lambda>fls rest.
          if text_flag fls ''name'' = [] then Inl (Text ''--name is required'')
          else Inr (outgoing fls method (prefix @ PathEscape (text_flag fls ''name'') @ suffix fls) None))"

definition cli_getWorkflowRun :: "Cli \<Rightarrow> string list \<Rightarrow> string \<Rightarrow> err + Outgoing" where
  "cli_getWorkflowRun c args suffix = cli_named c [] args ''GET'' ''/v1/workflow-runs/'' (\<lambda>_. suffix)"

definition cli_changeWorkflowRun :: "Cli \<Rightarrow> string \<Rightarrow> string list \<Rightarrow> string \<Rightarrow> err + Outgoing" where
  "cli_changeWorkflowRun c method args suffix =
     cli_named c [] args method ''/v1/workflow-runs/'' (\<lambda>_. suffix)"

definition cli_getSession :: "Cli \<Rightarrow> string list \<Rightarrow> string \<Rightarrow> err + Outgoing" where
  "cli_getSession c args suffix = cli_named c [] args ''GET'' ''/v1/sessions/'' (\<lambda>_. suffix)"

definition cli_logs :: "Cli \<Rightarrow> string list \<Rightarrow> err + Outgoing" where
  "cli_logs c args =
     cli_named c [(''follow'', FlagBool False)] args ''GET'' ''/v1/sessions/''
       (\<lambda>fls. if bool_flag fls ''follow'' then ''/logs?follow=true'' else ''/logs'')"

definition cli_deleteSession :: "Cli \<Rightarrow> string list \<Rightarrow> err + Outgoing" where
  "cli_deleteSession c args =
     cli_named c [(''storage'', FlagBool False)] args ''DELETE'' ''/v1/sessions/''
       (\<lambda>fls. if bool_flag fls ''storage'' then ''?storage=delete'' else [])"

definition taskFlags :: flags where
  "taskFlags =
     [(''name'', FlagString []), (''timeout'', FlagDuration 0)]"

definition cli_task :: "Cli \<Rightarrow> string list \<Rightarrow> err + Outgoing" where
  "cli_task c args =
     with_flags c taskFlags args
       (\<lambda>fls rest.
          if text_flag fls ''name'' = [] \<or> length rest \<noteq> 1
          then Inl (Text ''task requires --name and one prompt argument'')
          else Inr (outgoing fls ''POST''
                 (''/v1/sessions/'' @ PathEscape (text_flag fls ''name'') @ ''/tasks'')
                 (Some (json_map
                   ((''prompt'', JString (hd rest)) # timeout_field (duration_flag fls ''timeout''))))))"

definition publishFlags :: flags where
  "publishFlags =
     [(''name'', FlagString []), (''branch'', FlagString []), (''base'', FlagString []),
      (''commit-message'', FlagString []), (''ready'', FlagBool False), (''timeout'', FlagDuration 0)]"

definition cli_publishSession :: "Cli \<Rightarrow> string list \<Rightarrow> err + Outgoing" where
  "cli_publishSession c args =
     with_flags c publishFlags args
       (\<lambda>fls rest.
          if text_flag fls ''name'' = [] then Inl (Text ''--name is required'')
          else Inr (outgoing fls ''POST''
                 (''/v1/sessions/'' @ PathEscape (text_flag fls ''name'') @ ''/publish'')
                 (Some (json_map
                   ([(''branch'', JString (text_flag fls ''branch'')),
                     (''base'', JString (text_flag fls ''base'')),
                     (''commit_message'', JString (text_flag fls ''commit-message'')),
                     (''ready'', JBool (bool_flag fls ''ready''))]
                    @ timeout_field (duration_flag fls ''timeout''))))))"

definition cli_usage :: string where
  "cli_usage = ''usage: dyne <server|agents|workflows|start|workflow-start|status|workflow-status|logs|artifacts|workflow-artifacts|task|publish|delete|workflow-cancel|workflow-delete> [options]''"

text \<open>\<open>run\<close>, without the command \<open>server\<close>\<close>

definition cli_run :: "Cli \<Rightarrow> string list \<Rightarrow> err + Outgoing" where
  "cli_run c args =
     (case args of
        [] \<Rightarrow> Inl (Text cli_usage)
      | cmd # as \<Rightarrow>
          if cmd = ''agents'' then cli_listAgents c as
          else if cmd = ''workflows'' then cli_listWorkflows c as
          else if cmd = ''workflow-start'' then cli_startWorkflow c as
          else if cmd = ''workflow-status'' then cli_getWorkflowRun c as []
          else if cmd = ''workflow-artifacts'' then cli_getWorkflowRun c as ''/artifacts''
          else if cmd = ''workflow-cancel'' then cli_changeWorkflowRun c ''POST'' as ''/cancel''
          else if cmd = ''workflow-delete'' then cli_changeWorkflowRun c ''DELETE'' as []
          else if cmd = ''start'' then cli_start c as
          else if cmd = ''status'' then cli_getSession c as []
          else if cmd = ''logs'' then cli_logs c as
          else if cmd = ''artifacts'' then cli_getSession c as ''/artifacts''
          else if cmd = ''task'' then cli_task c as
          else if cmd = ''publish'' then cli_publishSession c as
          else if cmd = ''delete'' then cli_deleteSession c as
          else Inl (Text (''unknown command '' @ quoted cmd @ [CHR 0x0A] @ cli_usage)))"

text \<open>
  The end of \<open>requestJSON\<close>, for a response that arrived: its status, the text of its status line and its
  body.
\<close>

definition cli_response :: "nat \<Rightarrow> string \<Rightarrow> string \<Rightarrow> err + string" where
  "cli_response status line body =
     (if status < 200 \<or> 300 \<le> status
      then Inl (Text (''dyne server returned '' @ line @ '': '' @ TrimSpace (take (2 ^ 20) body)))
      else Inr body)"

end
