(* ===== verification/Control_Facts.thy ===== *)
theory Control_Facts
  imports Control_Plane Server Error_Kinds
begin

text \<open>
  Facts about the control plane: what a decoded body looks like, that a request has one route, which
  answers the kinds of errors give, and the control plane over the operations of the server.
\<close>

section \<open>Bodies\<close>

lemma decodeJSON_Inr:
  assumes "decodeJSON decoderError types body = Inr f"
  obtains v where "length body \<le> maxRequestBytes" and "parse_json body = Some v"
    and "decode_struct True types v = Inr f"
proof -
  from assms have small: "length body \<le> maxRequestBytes"
    by (auto simp: decodeJSON_def split: option.splits if_splits sum.splits)
  with assms obtain v r where "next_value body = Some (v, r)" "decode_struct True types v = Inr f"
      "skip_space r = []"
    by (auto simp: decodeJSON_def split: option.splits if_splits sum.splits)
  with small show thesis by (intro that [of v]) (simp_all add: parse_json_def)
qed

lemma decodeJSON_accepts:
  assumes "length body \<le> maxRequestBytes" and "parse_json body = Some v"
    and "decode_struct True types v = Inr f"
  shows "decodeJSON decoderError types body = Inr f"
  using assms by (auto simp: decodeJSON_def parse_json_def split: option.splits if_splits)

text \<open>A decoded value is \<open>null\<close>, or an object whose keys are fields and whose values fit them.\<close>

definition well_formed_body :: "(string \<times> field_type) list \<Rightarrow> json \<Rightarrow> bool" where
  "well_formed_body types v \<longleftrightarrow>
     (case v of
        JNull \<Rightarrow> True
      | JObject fs \<Rightarrow> list_all (\<lambda>f. list_ex (\<lambda>d. field_matches (fst d) f \<and> fits (snd d) (snd f)) types) fs
      | _ \<Rightarrow> False)"

lemma field_error_strict:
  assumes "field_error True types f = None"
  shows "list_ex (\<lambda>d. field_matches (fst d) f \<and> fits (snd d) (snd f)) types"
proof -
  from assms obtain d where d: "find (\<lambda>d. field_matches (fst d) f) types = Some d" "fits (snd d) (snd f)"
    by (auto simp: field_error_def field_of_def split: option.splits if_splits)
  then show ?thesis by (auto simp: find_Some_iff list_ex_iff)
qed

lemma decode_struct_well_formed: "decode_struct True types v = Inr f \<Longrightarrow> well_formed_body types v"
  by (auto simp: decode_struct_def well_formed_body_def first_error_None list_all_iff
      intro: field_error_strict split: json.splits option.splits)

section \<open>Durations\<close>

lemma duration_seconds_range: "- (2 ^ 63) \<le> duration_seconds n \<and> duration_seconds n < 2 ^ 63"
  by (simp add: duration_seconds_def)

lemma duration_seconds_exact:
  "duration_seconds n = n * 1000000000 \<longleftrightarrow> -9223372036 \<le> n \<and> n \<le> 9223372036"
proof
  assume "duration_seconds n = n * 1000000000"
  with duration_seconds_range [of n] show "-9223372036 \<le> n \<and> n \<le> 9223372036" by simp
next
  assume "-9223372036 \<le> n \<and> n \<le> 9223372036"
  then show "duration_seconds n = n * 1000000000"
    by (simp add: duration_seconds_def)
qed

section \<open>Routes\<close>

lemma match_path_simps:
  "match_path [] p = Some v \<longleftrightarrow> p = [] \<and> v = []"
  "match_path (Literal l # ps) p = Some v \<longleftrightarrow> (\<exists>ss. p = l # ss \<and> match_path ps ss = Some v)"
  "match_path (Wildcard # ps) p = Some v \<longleftrightarrow>
     (\<exists>s ss u. p = s # ss \<and> s \<noteq> [] \<and> v = s \<and> match_path ps ss = Some u)"
  by (cases p; auto)+

lemma route_in_Matched:
  "route_in rs m p = Matched r v \<Longrightarrow>
     \<exists>pattern segments. (pattern, segments, r) \<in> set rs \<and> method_matches pattern m \<and> match_path segments p = Some v"
  by (induction rs m p rule: route_in.induct) (auto split: option.splits if_splits Routed.splits)

text \<open>The method, the path and the wildcard of every route.\<close>

fun route_path :: "Route \<Rightarrow> string \<Rightarrow> string list" where
  "route_path ToListAgents v = [''v1'', ''agents'']"
| "route_path ToCreateAgentSession v = [''v1'', ''agents'', v, ''sessions'']"
| "route_path ToSessionStatus v = [''v1'', ''sessions'', v]"
| "route_path ToContinueSession v = [''v1'', ''sessions'', v, ''tasks'']"
| "route_path ToSessionLogs v = [''v1'', ''sessions'', v, ''logs'']"
| "route_path ToSessionArtifacts v = [''v1'', ''sessions'', v, ''artifacts'']"
| "route_path ToPublishSession v = [''v1'', ''sessions'', v, ''publish'']"
| "route_path ToDeleteSession v = [''v1'', ''sessions'', v]"
| "route_path ToListWorkflows v = [''v1'', ''workflows'']"
| "route_path ToCreateWorkflowRun v = [''v1'', ''workflows'', v, ''runs'']"
| "route_path ToWorkflowRunStatus v = [''v1'', ''workflow-runs'', v]"
| "route_path ToWorkflowRunArtifacts v = [''v1'', ''workflow-runs'', v, ''artifacts'']"
| "route_path ToCancelWorkflowRun v = [''v1'', ''workflow-runs'', v, ''cancel'']"
| "route_path ToDeleteWorkflowRun v = [''v1'', ''workflow-runs'', v]"

definition route_method :: "Route \<Rightarrow> string" where
  "route_method r =
     (case r of
        ToCreateAgentSession \<Rightarrow> ''POST'' | ToContinueSession \<Rightarrow> ''POST'' | ToPublishSession \<Rightarrow> ''POST''
      | ToCreateWorkflowRun \<Rightarrow> ''POST'' | ToCancelWorkflowRun \<Rightarrow> ''POST''
      | ToDeleteSession \<Rightarrow> ''DELETE'' | ToDeleteWorkflowRun \<Rightarrow> ''DELETE'' | _ \<Rightarrow> ''GET'')"

definition workflow_route :: "Route \<Rightarrow> bool" where
  "workflow_route r \<longleftrightarrow>
     r \<in> {ToListWorkflows, ToCreateWorkflowRun, ToWorkflowRunStatus, ToWorkflowRunArtifacts, ToCancelWorkflowRun,
          ToDeleteWorkflowRun}"

text \<open>The routes that have no wildcard.\<close>

definition plain_route :: "Route \<Rightarrow> bool" where
  "plain_route r \<longleftrightarrow> r = ToListAgents \<or> r = ToListWorkflows"

lemma route_entry:
  assumes "(pattern, segments, r) \<in> set (routes s)" and "match_path segments p = Some v"
  shows "p = route_path r v" and "pattern = route_method r" and "(v = []) = plain_route r"
    and "workflow_route r \<longrightarrow> cp_workflows s \<noteq> None"
proof -
  have "p = route_path r v \<and> pattern = route_method r \<and> (v = []) = plain_route r
      \<and> (workflow_route r \<longrightarrow> cp_workflows s \<noteq> None)"
    using assms
    by (auto simp: routes_def sessionRoutes_def workflowRoutes_def match_path_simps route_method_def
        workflow_route_def plain_route_def split: if_splits)
  then show "p = route_path r v" "pattern = route_method r" "(v = []) = plain_route r"
      "workflow_route r \<longrightarrow> cp_workflows s \<noteq> None"
    by simp_all
qed

lemma route_Matched:
  assumes "route_in (routes s) m p = Matched r v"
  shows "p = route_path r v" and "method_matches (route_method r) m" and "(v = []) = plain_route r"
    and "workflow_route r \<longrightarrow> cp_workflows s \<noteq> None"
  using route_in_Matched [OF assms] route_entry [where s = s] by metis+

lemma route_taken:
  assumes "(v = []) = plain_route r" and "workflow_route r \<longrightarrow> cp_workflows s \<noteq> None"
    and "method_matches (route_method r) m"
  shows "route_in (routes s) m (route_path r v) = Matched r v"
  using assms
  by (cases r) (auto simp: routes_def sessionRoutes_def workflowRoutes_def method_matches_def route_method_def
      workflow_route_def plain_route_def)

section \<open>Answers\<close>

text \<open>An answer that a client may see: only the fixed messages \<open>ms\<close> and one line in the log.\<close>

definition discreet :: "string list \<Rightarrow> answer \<Rightarrow> bool" where
  "discreet ms a \<longleftrightarrow>
     (if StatusInternalServerError \<le> rs_Status (fst a)
      then \<exists>m \<in> set ms. rs_Body (fst a) = ErrorBody m \<and> length (snd a) = 1
      else snd a = [] \<or> (\<exists>cs. rs_Body (fst a) = LogStream cs \<and> cs \<noteq> []))"

lemma discreet_success [simp]:
  "discreet ms (writeJSON 200 v)" "discreet ms (writeJSON 202 v)"
  "discreet ms writeNoContent" "discreet ms (writeError 400 m)"
  "discreet ms notFound" "discreet ms methodNotAllowed"
  by (simp_all add: discreet_def writeJSON_def writeNoContent_def writeError_def notFound_def methodNotAllowed_def)

lemma status_success [simp]:
  "rs_Status (fst (writeJSON n v)) = n" "rs_Status (fst writeNoContent) = 204"
  "rs_Status (fst (writeError n m)) = n" "rs_Status (fst notFound) = 404"
  "rs_Status (fst methodNotAllowed) = 405"
  by (simp_all add: writeJSON_def writeNoContent_def writeError_def notFound_def methodNotAllowed_def)

lemma answerError_status [simp]: "rs_Status (fst (answerError e (n, m))) = n"
  by (simp add: answerError_def writeError_def)

lemma answerError_discreet:
  "(500 \<le> n \<Longrightarrow> m \<in> set ms) \<Longrightarrow> discreet ms (answerError e (n, m))"
  by (auto simp: discreet_def answerError_def writeError_def writeJSON_def)

text \<open>
  The answer to an error whose kind is known, with a message of \<open>ms\<close> when it is unavailable.
\<close>

lemma kind_answer_discreet:
  assumes "k = Some ErrorUnavailable \<Longrightarrow> error_text e \<in> set ms" and "''operation failed'' \<in> set ms"
  shows "discreet ms (answerError e (kind_answer k e))"
  using assms by (cases k; cases "the k") (auto simp: kind_answer_def intro!: answerError_discreet)

lemma kind_answer_status:
  "k \<noteq> None \<Longrightarrow> rs_Status (fst (answerError e (kind_answer k e))) \<noteq> 500"
  by (cases k; cases "the k") (auto simp: kind_answer_def)

text \<open>What holds of every answer of a handler that calls an operation.\<close>

lemma answer_with_holds:
  assumes "fails_with P m" and "\<And>e. P e \<Longrightarrow> Q (h e)" and "\<And>a. Q (k a)"
  shows "Q (fst (answer_with m h k w))"
  using assms by (auto simp: answer_with_def fails_with_def split: prod.splits sum.splits) (metis fst_conv)

section \<open>The control plane of the server\<close>

definition serverAgents :: "'e Environment \<Rightarrow> AgentCatalog option \<Rightarrow> 'e world AgentControl" where
  "serverAgents E agents = \<lparr>agc_start = session_Start (serverSessions E), agc_catalog = agents\<rparr>"

text \<open>
  The response writer is part of the environment: \<open>fresh\<close> installs an empty one, and \<open>written\<close> are
  the chunks written to it since.
\<close>

definition serverWriteLogs ::
  "'e Environment \<Rightarrow> ('e \<Rightarrow> 'e) \<Rightarrow> ('e \<Rightarrow> string list) \<Rightarrow> string \<Rightarrow> bool \<Rightarrow> 'e world
     \<Rightarrow> (string list \<times> (err + unit)) \<times> 'e world" where
  "serverWriteLogs E fresh written name follow w =
     (case session_WriteLogs (serverSessions E) name follow (w\<lparr>w_env := fresh (w_env w)\<rparr>) of
        (r, w') \<Rightarrow> ((written (w_env w'), r), w'))"

definition serverControlPlane ::
  "'e Environment \<Rightarrow> AgentCatalog option \<Rightarrow> ('e \<Rightarrow> 'e) \<Rightarrow> ('e \<Rightarrow> string list) \<Rightarrow> (string \<Rightarrow> string)
     \<Rightarrow> 'e world ControlPlane" where
  "serverControlPlane E agents fresh written decoderError =
     (let ctl = serverAgents E agents; ss = serverSessions E; ws = serverWorkflows E
      in \<lparr>cp_agents = \<lparr>ao_Agents = agent_Agents ctl, ao_Start = agent_Start ctl\<rparr>,
          cp_sessions =
            \<lparr>cs_Continue = session_Continue ss, cs_Status = session_Status ss,
             cs_Artifacts = session_Artifacts ss, cs_WriteLogs = serverWriteLogs E fresh written,
             cs_Delete = session_Delete ss, cs_Destroy = session_Destroy ss\<rparr>,
          cp_Publish = Publish (serverPublish E),
          cp_workflows =
            (if env_catalog E = None then None
             else Some \<lparr>wo_Workflows = workflow_Workflows ws, wo_Start = workflow_Start ws,
                        wo_Get = workflow_Get ws, wo_Artifacts = workflow_Artifacts ws,
                        wo_Cancel = workflow_Cancel ws, wo_Delete = workflow_Delete ws\<rparr>),
          cp_decoderError = decoderError\<rparr>)"

lemma server_operations [simp]:
  fixes E agents fresh written decoderError
  defines "s \<equiv> serverControlPlane E agents fresh written decoderError"
  shows "ao_Start (cp_agents s) = agent_Start (serverAgents E agents)"
    and "cs_Continue (cp_sessions s) = session_Continue (serverSessions E)"
    and "cs_Status (cp_sessions s) = session_Status (serverSessions E)"
    and "cs_Artifacts (cp_sessions s) = session_Artifacts (serverSessions E)"
    and "cs_WriteLogs (cp_sessions s) = serverWriteLogs E fresh written"
    and "cs_Delete (cp_sessions s) = session_Delete (serverSessions E)"
    and "cs_Destroy (cp_sessions s) = session_Destroy (serverSessions E)"
    and "cp_Publish s = Publish (serverPublish E)"
    and "cp_decoderError s = decoderError"
  by (simp_all add: s_def serverControlPlane_def Let_def)

lemma server_workflows:
  assumes "cp_workflows (serverControlPlane E agents fresh written decoderError) = Some c"
  shows "env_catalog E \<noteq> None" and "wo_Workflows c = workflow_Workflows (serverWorkflows E)"
    and "wo_Start c = workflow_Start (serverWorkflows E)" and "wo_Get c = workflow_Get (serverWorkflows E)"
    and "wo_Artifacts c = workflow_Artifacts (serverWorkflows E)"
    and "wo_Cancel c = workflow_Cancel (serverWorkflows E)"
    and "wo_Delete c = workflow_Delete (serverWorkflows E)"
  using assms by (auto simp: serverControlPlane_def Let_def split: if_splits)

text \<open>The messages that accompany the statuses 500 and 503.\<close>

definition serverMessages :: "string list" where
  "serverMessages =
     ''operation failed'' # ''start session failed'' # ''publish session failed''
       # sessionMessages @ workflowMessages"

lemma messages_member:
  "''operation failed'' \<in> set serverMessages"
  "m = ''start session failed'' \<Longrightarrow> m \<in> set serverMessages"
  "m = ''publish session failed'' \<Longrightarrow> m \<in> set serverMessages"
  "m \<in> set sessionMessages \<Longrightarrow> m \<in> set serverMessages"
  "m \<in> set workflowMessages \<Longrightarrow> m \<in> set serverMessages"
  by (simp_all add: serverMessages_def)

lemma agent_error_answer:
  assumes "\<exists>k m c. e = OpError PkgAgent k m c \<and> (k = ErrorUnavailable \<longrightarrow> m = ''start session failed'')"
  shows "discreet serverMessages (writeAgentError e) \<and> rs_Status (fst (writeAgentError e)) \<noteq> 500"
  using assms
  by (auto simp: writeAgentError_def kind_answer_status messages_member intro!: kind_answer_discreet)

lemma session_error_answer:
  assumes "session_classified e"
  shows "discreet serverMessages (writeSessionError e) \<and> rs_Status (fst (writeSessionError e)) \<noteq> 500"
  using assms
  by (auto simp: session_classified_def writeSessionError_def kind_answer_status messages_member
      intro!: kind_answer_discreet)

lemma workflow_error_answer:
  assumes "workflow_classified e"
  shows "discreet serverMessages (writeWorkflowError e) \<and> rs_Status (fst (writeWorkflowError e)) \<noteq> 500"
  using assms
  by (auto simp: workflow_classified_def writeWorkflowError_def kind_answer_status messages_member
      intro!: kind_answer_discreet)

lemma publish_error_answer:
  assumes "\<exists>k m c. e = OpError PkgPublish k m c \<and> k \<noteq> ErrorNotFound \<and>
     (k = ErrorUnavailable \<longrightarrow> m = ''publish session failed'')"
  shows "discreet serverMessages (writePublishError e) \<and> rs_Status (fst (writePublishError e)) \<noteq> 500"
  using assms
  by (auto simp: writePublishError_def kind_answer_status messages_member Let_def intro!: kind_answer_discreet)

end
