(* ===== verification/Cli_Facts.thy ===== *)
theory Cli_Facts
  imports Cli Control_Facts
begin

text \<open>
  Facts about the command line client: escaped names arrive as they were given, and the body of a
  request is read back.
\<close>

section \<open>Paths\<close>

lemma escape_byte:
  fixes c :: char
  shows "hex_value (upper_hex_digit (of_char c div 16)) = Some (of_char c div 16)"
    and "hex_value (upper_hex_digit (of_char c mod 16)) = Some (of_char c mod 16)"
    and "upper_hex_digit d \<in> set ''0123456789ABCDEF''"
proof -
  have digits: "list_all (\<lambda>d. hex_value (upper_hex_digit d) = Some d) [0..<16]" by code_simp
  have "(of_char c :: nat) < 256" by (rule nat_of_char_less_256)
  then have "of_char c div 16 < (16 :: nat)" "of_char c mod 16 < (16 :: nat)" by linarith+
  then have "of_char c div 16 \<in> set [0..<16]" "of_char c mod 16 \<in> set [0..<16]" by simp_all
  with digits show "hex_value (upper_hex_digit (of_char c div 16)) = Some (of_char c div 16)"
    "hex_value (upper_hex_digit (of_char c mod 16)) = Some (of_char c mod 16)"
    by (simp_all only: list_all_iff)
  have "d mod 16 < length ''0123456789ABCDEF''" by simp
  then show "upper_hex_digit d \<in> set ''0123456789ABCDEF''"
    unfolding upper_hex_digit_def by (rule nth_mem)
qed

lemma PathEscape_Cons:
  "PathEscape (c # s) =
     (if url_plain c then [c]
      else [CHR ''%'', upper_hex_digit (of_char c div 16), upper_hex_digit (of_char c mod 16)]) @ PathEscape s"
  by (simp add: PathEscape_def)

lemma unescape_PathEscape: "url_unescape False (PathEscape s) = Some s"
proof (induction s)
  case Nil
  then show ?case by (simp add: PathEscape_def)
next
  case (Cons c s)
  show ?case
  proof (cases "url_plain c")
    case True
    then have "c \<noteq> CHR ''%''" by (auto simp: url_plain_def)
    with True Cons show ?thesis by (simp add: PathEscape_Cons)
  next
    case False
    have "char_of (16 * (of_char c div 16) + of_char c mod 16 :: nat) = c" by simp
    with False Cons escape_byte(1,2) [of c] show ?thesis by (simp add: PathEscape_Cons)
  qed
qed

lemma PathEscape_chars: "c \<in> set (PathEscape s) \<Longrightarrow> url_plain c \<or> c = CHR ''%''"
proof (induction s)
  case (Cons d s)
  have "url_plain (upper_hex_digit n)" for n
    using escape_byte(3) [of n] by (auto simp: url_plain_def)
  with Cons show ?case by (auto simp: PathEscape_Cons split: if_splits)
qed (simp add: PathEscape_def)

lemma PathEscape_no_delimiter: "CHR ''/'' \<notin> set (PathEscape s)" "CHR ''?'' \<notin> set (PathEscape s)"
  using PathEscape_chars [of "CHR ''/''" s] PathEscape_chars [of "CHR ''?''" s] by (auto simp: url_plain_def)

definition dot_segment :: "string \<Rightarrow> bool" where
  "dot_segment s \<longleftrightarrow> s = [] \<or> s = ''.'' \<or> s = ''..''"

lemma PathEscape_dots: "dot_segment (PathEscape s) = dot_segment s"
proof
  assume "dot_segment (PathEscape s)"
  then have "url_unescape False (PathEscape s) = Some (PathEscape s)" by (auto simp: dot_segment_def)
  with unescape_PathEscape [of s] have "PathEscape s = s" by simp
  with \<open>dot_segment (PathEscape s)\<close> show "dot_segment s" by simp
next
  have "PathEscape [] = []" "PathEscape ''.'' = ''.''" "PathEscape ''..'' = ''..''" by code_simp+
  moreover assume "dot_segment s"
  ultimately show "dot_segment (PathEscape s)" by (auto simp: dot_segment_def)
qed

definition escaped_path :: "string list \<Rightarrow> string" where
  "escaped_path ss = CHR ''/'' # join_on (CHR ''/'') (map PathEscape ss)"

lemma path_segments_escaped:
  assumes "ss \<noteq> []"
  shows "path_segments (escaped_path ss) = (if list_ex dot_segment ss then None else Some ss)"
proof -
  have "split_on (CHR ''/'') (join_on (CHR ''/'') (map PathEscape ss)) = map PathEscape ss"
    using assms PathEscape_no_delimiter by (intro split_join) auto
  then have "split_on (CHR ''/'') (escaped_path ss) = [] # map PathEscape ss"
    by (simp add: escaped_path_def)
  moreover have "those (map (url_unescape False) (map PathEscape ss)) = Some ss"
    by (induction ss) (simp_all add: unescape_PathEscape)
  moreover have "list_ex (\<lambda>s. s = [] \<or> s = ''.'' \<or> s = ''..'') (map PathEscape ss) = list_ex dot_segment ss"
    using PathEscape_dots by (auto simp: list_ex_iff dot_segment_def)
  ultimately show ?thesis by (simp add: path_segments_def)
qed

lemma join_on_chars: "c \<in> set (join_on d ps) \<Longrightarrow> c = d \<or> (\<exists>p \<in> set ps. c \<in> set p)"
  by (induction d ps rule: join_on.induct) auto

lemma escaped_path_query: "CHR ''?'' \<notin> set (escaped_path ss)"
  using PathEscape_no_delimiter(2) by (auto simp: escaped_path_def dest!: join_on_chars)

lemma cut_absent: "sep \<notin> set s \<Longrightarrow> cut sep s = None"
  by (simp add: cut_def)

lemma cut_first: "sep \<notin> set p \<Longrightarrow> cut sep (p @ sep # s) = Some (p, s)"
  by (auto simp: cut_def takeWhile_append dropWhile_append)

text \<open>What arrives of a request whose path is made of escaped segments.\<close>

lemma received_plain:
  assumes "out_Path o' = escaped_path ss" and "ss \<noteq> []" and "received o' = Some q"
  shows "http_Method q = out_Method o'" and "http_Path q = ss" and "http_Query q = ParseQuery []"
    and "http_Body q = out_text o'" and "\<not> list_ex dot_segment ss"
  using assms(3) cut_absent [OF escaped_path_query [of ss]] path_segments_escaped [OF assms(2)]
  by (auto simp: received_def assms(1) split: if_splits)

lemma received_query:
  assumes "out_Path o' = escaped_path ss @ CHR ''?'' # t" and "ss \<noteq> []" and "received o' = Some q"
  shows "http_Method q = out_Method o'" and "http_Path q = ss" and "http_Query q = ParseQuery t"
    and "http_Body q = out_text o'" and "\<not> list_ex dot_segment ss"
  using assms(3) cut_first [OF escaped_path_query [of ss]] path_segments_escaped [OF assms(2)]
  by (auto simp: received_def assms(1) split: if_splits)

lemma received_exists:
  assumes "out_Path o' = escaped_path ss" and "ss \<noteq> []" and "\<not> list_ex dot_segment ss"
  obtains q where "received o' = Some q"
  using assms cut_absent [OF escaped_path_query [of ss]] path_segments_escaped [OF assms(2)]
  by (auto simp: received_def)

text \<open>The paths of the commands.\<close>

lemma escaped_literals:
  "PathEscape ''v1'' = ''v1''" "PathEscape ''agents'' = ''agents''" "PathEscape ''sessions'' = ''sessions''"
  "PathEscape ''tasks'' = ''tasks''" "PathEscape ''publish'' = ''publish''" "PathEscape ''logs'' = ''logs''"
  "PathEscape ''artifacts'' = ''artifacts''" "PathEscape ''workflows'' = ''workflows''"
  "PathEscape ''runs'' = ''runs''" "PathEscape ''workflow-runs'' = ''workflow-runs''"
  "PathEscape ''cancel'' = ''cancel''"
  by code_simp+

definition command_path :: "Route \<Rightarrow> string \<Rightarrow> string" where
  "command_path r v = escaped_path (route_path r v)"

lemma command_path_simps [simp]:
  "command_path ToListAgents v = ''/v1/agents''"
  "command_path ToCreateAgentSession v = ''/v1/agents/'' @ PathEscape v @ ''/sessions''"
  "command_path ToSessionStatus v = ''/v1/sessions/'' @ PathEscape v"
  "command_path ToContinueSession v = ''/v1/sessions/'' @ PathEscape v @ ''/tasks''"
  "command_path ToSessionLogs v = ''/v1/sessions/'' @ PathEscape v @ ''/logs''"
  "command_path ToSessionArtifacts v = ''/v1/sessions/'' @ PathEscape v @ ''/artifacts''"
  "command_path ToPublishSession v = ''/v1/sessions/'' @ PathEscape v @ ''/publish''"
  "command_path ToDeleteSession v = ''/v1/sessions/'' @ PathEscape v"
  "command_path ToListWorkflows v = ''/v1/workflows''"
  "command_path ToCreateWorkflowRun v = ''/v1/workflows/'' @ PathEscape v @ ''/runs''"
  "command_path ToWorkflowRunStatus v = ''/v1/workflow-runs/'' @ PathEscape v"
  "command_path ToWorkflowRunArtifacts v = ''/v1/workflow-runs/'' @ PathEscape v @ ''/artifacts''"
  "command_path ToCancelWorkflowRun v = ''/v1/workflow-runs/'' @ PathEscape v @ ''/cancel''"
  "command_path ToDeleteWorkflowRun v = ''/v1/workflow-runs/'' @ PathEscape v"
  by (simp_all add: command_path_def escaped_path_def escaped_literals)

section \<open>Bodies\<close>

lemma fold_literals:
  "fold_name ''name'' = ''name''" "fold_name ''repository'' = ''repository''" "fold_name ''ref'' = ''ref''"
  "fold_name ''prompt'' = ''prompt''" "fold_name ''timeout_seconds'' = ''timeout_seconds''"
  "fold_name ''branch'' = ''branch''" "fold_name ''base'' = ''base''"
  "fold_name ''commit_message'' = ''commit_message''" "fold_name ''ready'' = ''ready''"
  by code_simp+

lemma start_order:
  "json_map ((''name'', a) # (''repository'', b) # (''ref'', c) # (''prompt'', d) # timeout_field t)
    = JObject ((''name'', a) # (''prompt'', d) # (''ref'', c) # (''repository'', b) # timeout_field t)"
  by (simp add: json_map_def timeout_field_def)

lemma publish_order:
  "json_map ((''branch'', a) # (''base'', b) # (''commit_message'', c) # (''ready'', d) # timeout_field t)
    = JObject ((''base'', b) # (''branch'', a) # (''commit_message'', c) # (''ready'', d) # timeout_field t)"
  by (simp add: json_map_def timeout_field_def)

lemma task_order:
  "json_map ((''prompt'', a) # timeout_field t) = JObject ((''prompt'', a) # timeout_field t)"
  by (simp add: json_map_def timeout_field_def)

lemma timeout_literal:
  "\<bar>d\<bar> < 2 ^ 63 \<Longrightarrow> int64_literal (itoa (whole_seconds d)) = Some (whole_seconds d)"
  using whole_seconds_bound [of d] by (intro int64_read) auto

lemmas decode_defs =
  decode_struct_def field_error_def field_of_def field_matches_def fold_literals field_value_def timeout_field_def

lemma start_decoded:
  assumes "\<bar>t\<bar> < 2 ^ 63"
  shows "\<exists>f. decode_struct True createAgentSessionRequest
      (json_map ((''name'', JString a) # (''repository'', JString b) # (''ref'', JString c) # (''prompt'', JString d)
        # timeout_field t)) = Inr f
    \<and> f ''name'' = Some (JString a) \<and> f ''repository'' = Some (JString b) \<and> f ''ref'' = Some (JString c)
    \<and> f ''prompt'' = Some (JString d)
    \<and> int_pointer (f ''timeout_seconds'') = (if t = 0 then None else Some (whole_seconds t))"
  unfolding start_order
  by (cases "t = 0") (simp_all add: createAgentSessionRequest_def decode_defs timeout_literal [OF assms])

lemma task_decoded:
  assumes "\<bar>t\<bar> < 2 ^ 63"
  shows "\<exists>f. decode_struct True continueSessionRequest (json_map ((''prompt'', JString a) # timeout_field t)) = Inr f
    \<and> f ''prompt'' = Some (JString a)
    \<and> int_pointer (f ''timeout_seconds'') = (if t = 0 then None else Some (whole_seconds t))"
  unfolding task_order
  by (cases "t = 0") (simp_all add: continueSessionRequest_def decode_defs timeout_literal [OF assms])

lemma publish_decoded:
  assumes "\<bar>t\<bar> < 2 ^ 63"
  shows "\<exists>f. decode_struct True publishSessionRequest
      (json_map ((''branch'', JString a) # (''base'', JString b) # (''commit_message'', JString c) # (''ready'', JBool d)
        # timeout_field t)) = Inr f
    \<and> f ''branch'' = Some (JString a) \<and> f ''base'' = Some (JString b) \<and> f ''commit_message'' = Some (JString c)
    \<and> f ''ready'' = Some (JBool d)
    \<and> int_pointer (f ''timeout_seconds'') = (if t = 0 then None else Some (whole_seconds t))"
  unfolding publish_order
  by (cases "t = 0") (simp_all add: publishSessionRequest_def decode_defs timeout_literal [OF assms])

lemma json_map_integral: "integral (json_map kvs) \<longleftrightarrow> list_all (\<lambda>f. integral (snd f)) kvs"
  by (simp add: json_map_def list_all_iff split_beta)

lemma timeout_integral: "list_all (\<lambda>f. integral (snd f)) (timeout_field t)"
  by (auto simp: timeout_field_def)

end
