(* ===== verification/Control_Theorems.thy ===== *)
theory Control_Theorems
  imports Control_Facts Examples
begin

text \<open>
  What the control plane promises its clients: which requests reach which handler, that a rejected
  body changes nothing, that the answer to a failure does not show its cause, and which requests may
  destroy the storage of a session.
\<close>

section \<open>Answers of handlers\<close>

text \<open>An answer that is no internal error, and that shows only the fixed messages.\<close>

definition proper_answer :: "answer \<Rightarrow> bool" where
  "proper_answer a \<longleftrightarrow> rs_Status (fst a) \<noteq> StatusInternalServerError \<and> discreet serverMessages a"

lemma proper_simps [simp]:
  "proper_answer (writeJSON 200 v)" "proper_answer (writeJSON 202 v)"
  "proper_answer writeNoContent" "proper_answer (writeError 400 m)"
  "proper_answer notFound" "proper_answer methodNotAllowed"
  by (simp_all add: proper_answer_def)

lemma with_body_holds:
  assumes "\<And>m. Q (writeError StatusBadRequest m)" and "\<And>f. Q (fst (k f w))"
  shows "Q (fst (with_body s q types k w))"
  using assms by (simp add: with_body_def split: sum.split)

lemma agent_answer: "proper_answer (fst (answer_with (agent_Start c r) writeAgentError (\<lambda>x. writeJSON 202 (StartBody x)) w))"
  by (rule answer_with_holds [OF agent_Start_classified])
    (simp_all add: proper_answer_def agent_error_answer)

lemma session_answer:
  assumes "fails_with session_classified m" and "\<And>a. proper_answer (k a)"
  shows "proper_answer (fst (answer_with m writeSessionError k w))"
  by (rule answer_with_holds [OF assms(1)]) (simp_all add: proper_answer_def session_error_answer assms(2) [unfolded proper_answer_def, simplified])

lemma workflow_answer:
  assumes "fails_with workflow_classified m" and "\<And>a. proper_answer (k a)"
  shows "proper_answer (fst (answer_with m writeWorkflowError k w))"
  by (rule answer_with_holds [OF assms(1)]) (simp_all add: proper_answer_def workflow_error_answer assms(2) [unfolded proper_answer_def, simplified])

lemma publish_answer:
  "proper_answer (fst (answer_with (Publish c r) writePublishError (\<lambda>x. writeJSON 200 (PublishBody x)) w))"
  by (rule answer_with_holds [OF Publish_classified])
    (simp_all add: proper_answer_def publish_error_answer)

lemma proper_stream:
  "cs \<noteq> [] \<or> lines = [] \<Longrightarrow>
     proper_answer (\<lparr>rs_Status = 200, rs_Type = t, rs_Body = LogStream cs\<rparr>, lines)"
  by (auto simp: proper_answer_def discreet_def)

lemma logs_answer:
  assumes "cs_WriteLogs (cp_sessions s) = serverWriteLogs E fresh written"
  shows "proper_answer (fst (sessionLogs s q name w))"
proof -
  let ?follow = "query_value q ''follow'' = ''true''"
  obtain r w' where run: "session_WriteLogs (serverSessions E) name ?follow (w\<lparr>w_env := fresh (w_env w)\<rparr>) = (r, w')"
    by fastforce
  then have called: "cs_WriteLogs (cp_sessions s) name ?follow w = ((written (w_env w'), r), w')"
    by (simp add: assms serverWriteLogs_def)
  show ?thesis
  proof (cases r)
    case (Inl e)
    with run have "session_classified e"
      using session_operations_classified(5) [unfolded fails_with_def] by (metis fst_conv)
    then have "proper_answer (writeSessionError e)"
      by (simp add: proper_answer_def session_error_answer)
    with called Inl show ?thesis
      by (cases "written (w_env w') = []") (simp_all add: sessionLogs_def Let_def proper_stream)
  next
    case (Inr u)
    with called show ?thesis by (simp add: sessionLogs_def Let_def proper_stream)
  qed
qed

lemma session_route_answer:
  fixes E agents fresh written decoderError
  defines "s \<equiv> serverControlPlane E agents fresh written decoderError"
  shows "proper_answer (fst (listAgents s w))"
    and "proper_answer (fst (createAgentSession s q v w))"
    and "proper_answer (fst (continueSession s q v w))"
    and "proper_answer (fst (sessionStatus s v w))"
    and "proper_answer (fst (sessionArtifacts s v w))"
    and "proper_answer (fst (publishSession s q v w))"
    and "proper_answer (fst (deleteSession s q v w))"
proof -
  have delete: "fails_with session_classified (if b then session_Destroy (serverSessions E) v else session_Delete (serverSessions E) v)" for b
    by (simp add: session_Delete_def session_Destroy_def session_operations_classified)
  show "proper_answer (fst (listAgents s w))" by (simp add: listAgents_def)
  show "proper_answer (fst (createAgentSession s q v w))"
    unfolding createAgentSession_def s_def by (rule with_body_holds) (simp_all add: agent_answer)
  show "proper_answer (fst (continueSession s q v w))"
    unfolding continueSession_def s_def
    by (rule with_body_holds) (simp_all add: session_answer session_operations_classified)
  show "proper_answer (fst (sessionStatus s v w))"
    by (simp add: sessionStatus_def s_def session_answer session_operations_classified)
  show "proper_answer (fst (sessionArtifacts s v w))"
    by (simp add: sessionArtifacts_def s_def session_answer session_operations_classified)
  show "proper_answer (fst (publishSession s q v w))"
    unfolding publishSession_def s_def by (rule with_body_holds) (simp_all add: publish_answer)
  show "proper_answer (fst (deleteSession s q v w))"
    unfolding deleteSession_def s_def server_operations by (rule session_answer [OF delete]) simp
qed

lemma workflow_route_answer:
  assumes "cp_workflows (serverControlPlane E agents fresh written decoderError) = Some c"
  shows "proper_answer (fst (listWorkflows c w))"
    and "proper_answer (fst (createWorkflowRun s c q v w))"
    and "proper_answer (fst (workflowRunStatus c v w))"
    and "proper_answer (fst (workflowRunArtifacts c v w))"
    and "proper_answer (fst (cancelWorkflowRun c v w))"
proof -
  show "proper_answer (fst (listWorkflows c w))" by (simp add: listWorkflows_def)
  show "proper_answer (fst (createWorkflowRun s c q v w))"
    unfolding createWorkflowRun_def server_workflows [OF assms]
    by (rule with_body_holds) (simp_all add: workflow_answer workflow_operations_classified)
qed (simp_all add: workflowRunStatus_def workflowRunArtifacts_def cancelWorkflowRun_def
      server_workflows [OF assms] workflow_answer workflow_operations_classified)

text \<open>The routes except the deletion of workflow runs, over the operations of the server.\<close>

lemma route_answer:
  assumes "r \<noteq> ToDeleteWorkflowRun"
  shows "proper_answer (fst (run_route (serverControlPlane E agents fresh written decoderError) q r v w))"
proof -
  let ?s = "serverControlPlane E agents fresh written decoderError"
  have logs: "proper_answer (fst (sessionLogs ?s q v w))"
    by (rule logs_answer) simp
  have workflows: "proper_answer (fst (with_workflows ?s h w))"
    if "\<And>c. cp_workflows ?s = Some c \<Longrightarrow> proper_answer (fst (h c w))" for h
    using that by (simp add: with_workflows_def split: option.split)
  show ?thesis
    using assms
    by (cases r) (simp_all add: run_route_def session_route_answer logs workflows workflow_route_answer)
qed

section \<open>Answers\<close>

text \<open>
  C23. No request but the deletion of a workflow run is answered with the status 500, and an answer with a
  status of 500 or more has one of a fixed list of messages and writes one line to the error output:
  the cause of a failure, which may name a repository, a host or a credential, is only logged.
\<close>

theorem api_answers_discreet:
  assumes "serveHTTP (serverControlPlane E agents fresh written decoderError) q w = (a, w')"
    and "http_Method q \<noteq> ''DELETE'' \<or> take 2 (http_Path q) \<noteq> [''v1'', ''workflow-runs'']"
  shows "rs_Status (fst a) \<noteq> StatusInternalServerError \<and> discreet serverMessages a"
proof -
  let ?s = "serverControlPlane E agents fresh written decoderError"
  have "proper_answer (fst (serveHTTP ?s q w))"
  proof (cases "route_in (routes ?s) (http_Method q) (http_Path q)")
    case (Matched r v)
    then have "r \<noteq> ToDeleteWorkflowRun"
      using route_Matched [OF Matched] assms(2) by (auto simp: method_matches_def route_method_def)
    with Matched show ?thesis by (simp add: serveHTTP_def route_answer)
  qed (simp_all add: serveHTTP_def)
  with assms(1) show ?thesis by (simp add: proper_answer_def)
qed

definition demoRequest :: Request where
  "demoRequest = \<lparr>http_Method = ''GET'', http_Path = [''v1'', ''sessions'', ''demo''], http_Query = [], http_Body = []\<rparr>"

theorem api_answers_discreet_witness:
  "\<exists>a w. serveHTTP (serverControlPlane demoEnvironment None id (\<lambda>_. []) id) demoRequest doneWorld = (a, w)
     \<and> rs_Status (fst a) \<noteq> 500 \<and> discreet serverMessages a"
proof -
  obtain a w where "serveHTTP (serverControlPlane demoEnvironment None id (\<lambda>_. []) id) demoRequest doneWorld = (a, w)"
    by fastforce
  from this api_answers_discreet [OF this] show ?thesis by (auto simp: demoRequest_def)
qed

section \<open>Request bodies\<close>




definition taskBody :: string where
  "taskBody = [CHR ''{'', CHR 0x22] @ ''prompt'' @ [CHR 0x22] @ '':'' @ [CHR 0x22] @ ''go'' @ [CHR 0x22]
     @ '','' @ [CHR 0x22] @ ''timeout_seconds'' @ [CHR 0x22] @ '':18446744074}''"

definition taskDocument :: json where
  "taskDocument = JObject [(''prompt'', JString ''go''), (''timeout_seconds'', JNumber ''18446744074'')]"


text \<open>A control plane whose sessions accept every task and keep the requests that they were given.\<close>

definition echoPlane :: "ContinueRequest list ControlPlane" where
  "echoPlane =
     \<lparr>cp_agents = \<lparr>ao_Agents = [], ao_Start = (\<lambda>r. throw (Text ''none''))\<rparr>,
      cp_sessions =
        \<lparr>cs_Continue = (\<lambda>r w. (Inr \<lparr>tr_Name = cont_Name r, tr_TaskID = ''task''\<rparr>, w @ [r])),
         cs_Status = (\<lambda>n. throw (Text ''none'')), cs_Artifacts = (\<lambda>n. throw (Text ''none'')),
         cs_WriteLogs = (\<lambda>n f w. (([], Inr ()), w)), cs_Delete = (\<lambda>n. ret ()), cs_Destroy = (\<lambda>n. ret ())\<rparr>,
      cp_Publish = (\<lambda>r. throw (Text ''none'')), cp_workflows = None, cp_decoderError = id\<rparr>"

lemma echoPlane_parts [simp]:
  "cs_Continue (cp_sessions echoPlane) = (\<lambda>r w. (Inr \<lparr>tr_Name = cont_Name r, tr_TaskID = ''task''\<rparr>, w @ [r]))"
  "cs_Delete (cp_sessions echoPlane) = (\<lambda>n. ret ())" "cp_decoderError echoPlane = id"
  by (simp_all add: echoPlane_def)

lemma taskBody_parsed: "parse_json taskBody = Some taskDocument"
  by code_simp

lemma taskDocument_decoded:
  "map_sum id (\<lambda>f. (string_or_empty (f ''prompt''), int_pointer (f ''timeout_seconds'')))
     (decode_struct True continueSessionRequest taskDocument) = Inr (''go'', Some 18446744074)"
  by code_simp

lemma taskBody_decoded:
  obtains f where "decodeJSON id continueSessionRequest taskBody = Inr f"
    and "text_value f ''prompt'' = ''go''" and "int_pointer (f ''timeout_seconds'') = Some 18446744074"
proof -
  obtain f where f: "decode_struct True continueSessionRequest taskDocument = Inr f"
      "text_value f ''prompt'' = ''go''" "int_pointer (f ''timeout_seconds'') = Some 18446744074"
    using taskDocument_decoded by (cases "decode_struct True continueSessionRequest taskDocument") auto
  have "length taskBody \<le> maxRequestBytes" by (simp add: taskBody_def maxRequestBytes_def)
  from that decodeJSON_accepts [OF this taskBody_parsed f(1)] f show thesis by blast
qed




text \<open>
  C32. The timeout that an operation is asked for is the number of seconds of the request exactly when
  their nanoseconds fit in 64 bits.  Beyond, the product wraps to some other duration, which may be
  positive and short, and is passed on without an error.
\<close>

theorem timeout_exact:
  assumes "decodeJSON decoderError types body = Inr f"
    and "int_pointer (f ''timeout_seconds'') = Some n"
  shows "(cont_Timeout (continueInput name f) = n * 1000000000 \<longleftrightarrow> -9223372036 \<le> n \<and> n \<le> 9223372036)
    \<and> cont_Timeout (continueInput name f) mod 2 ^ 64 = n * 1000000000 mod 2 ^ 64
    \<and> ar_Timeout (agentStartInput agent f) = cont_Timeout (continueInput name f)
    \<and> pq_Timeout (publishInput name f) = cont_Timeout (continueInput name f)"
proof -
  have "duration_seconds n mod 2 ^ 64 = n * 1000000000 mod 2 ^ 64"
    by (simp add: duration_seconds_def mod_diff_left_eq)
  with assms(2) show ?thesis
    by (simp add: continueInput_def agentStartInput_def publishInput_def requestTimeout_def duration_seconds_exact)
qed

theorem timeout_exact_witness:
  "\<exists>f. decodeJSON id continueSessionRequest taskBody = Inr f
     \<and> cont_Timeout (continueInput ''demo'' f) \<noteq> 18446744074 * 1000000000
     \<and> cont_Timeout (continueInput ''demo'' f) = 290448384"
proof -
  obtain f where f: "decodeJSON id continueSessionRequest taskBody = Inr f"
      "int_pointer (f ''timeout_seconds'') = Some 18446744074"
    by (rule taskBody_decoded)
  then have "cont_Timeout (continueInput ''demo'' f) = 290448384"
    by (simp add: continueInput_def requestTimeout_def duration_seconds_def)
  with f timeout_exact [OF f, of "''demo''"] show ?thesis by auto
qed

section \<open>Routes\<close>

text \<open>
  A request reaches a handler exactly when its path is the one of the handler's route and its method
  the route's (HEAD counts as GET): no request has two routes, and the order of the registrations does
  not matter.
\<close>

lemma routes_exact:
  "route_in (routes s) m p = Matched r v \<longleftrightarrow>
     p = route_path r v \<and> method_matches (route_method r) m \<and> (v = []) = plain_route r
     \<and> (workflow_route r \<longrightarrow> cp_workflows s \<noteq> None)"
  using route_Matched [of s m p r v] route_taken [of v r s m] by blast

lemma routes_exact_instance:
  "route_in (routes echoPlane) ''POST'' [''v1'', ''sessions'', ''demo'', ''tasks''] = Matched ToContinueSession ''demo''"
  using routes_exact [of echoPlane "''POST''" "route_path ToContinueSession ''demo''" ToContinueSession "''demo''"]
  by (simp add: plain_route_def workflow_route_def method_matches_def route_method_def)

section \<open>Destruction\<close>

text \<open>Requests that do not depend on the operation \<open>Destroy\<close>.\<close>

definition asks_destruction :: "Request \<Rightarrow> bool" where
  "asks_destruction q \<longleftrightarrow>
     http_Method q = ''DELETE'' \<and> query_value q ''storage'' = ''delete''
       \<and> take 2 (http_Path q) = [''v1'', ''sessions'']"

lemma destroy_unused:
  assumes "\<not> asks_destruction q"
  shows "serveHTTP (s\<lparr>cp_sessions := (cp_sessions s)\<lparr>cs_Destroy := destroy\<rparr>\<rparr>) q w = serveHTTP s q w"
proof -
  let ?t = "s\<lparr>cp_sessions := (cp_sessions s)\<lparr>cs_Destroy := destroy\<rparr>\<rparr>"
  have same: "routes ?t = routes s" by (simp add: routes_def)
  show ?thesis
  proof (cases "route_in (routes s) (http_Method q) (http_Path q)")
    case (Matched r v)
    have "run_route ?t q r v w = run_route s q r v w"
    proof (cases "r = ToDeleteSession")
      case True
      with route_Matched [OF Matched] assms have "query_value q ''storage'' \<noteq> ''delete''"
        by (auto simp: asks_destruction_def method_matches_def route_method_def)
      with True show ?thesis by (simp add: run_route_def deleteSession_def)
    next
      case False
      then show ?thesis
        by (cases r) (simp_all add: run_route_def listAgents_def createAgentSession_def continueSession_def
            sessionStatus_def sessionLogs_def sessionArtifacts_def publishSession_def with_workflows_def
            createWorkflowRun_def with_body_def cong: option.case_cong)
    qed
    with Matched same show ?thesis by (simp add: serveHTTP_def)
  qed (simp_all add: serveHTTP_def same)
qed

end
