(* ===== verification/Cli_Theorems.thy ===== *)
theory Cli_Theorems
  imports Cli_Facts Control_Theorems
begin

text \<open>
  The client and the control plane together: every command reaches its own handler, and the values of
  its flags are the arguments of the operation that the handler calls.
\<close>

section \<open>Commands and routes\<close>


lemma outgoing_parts [simp]:
  "out_Method (outgoing fls m p b) = m" "out_Path (outgoing fls m p b) = p" "out_Body (outgoing fls m p b) = b"
  by (simp_all add: outgoing_def)


text \<open>A request with the method and the path of a route takes this route.\<close>

lemma routed:
  assumes path: "out_Path o' = command_path r v @ t" and t: "t = [] \<or> (\<exists>u. t = CHR ''?'' # u)"
    and "out_Method o' = route_method r" and "received o' = Some q"
    and "workflow_route r \<longrightarrow> cp_workflows s \<noteq> None" and plain: "plain_route r \<longrightarrow> v = []"
  shows "route_in (routes s) (http_Method q) (http_Path q) = Matched r v"
    and "http_Query q = ParseQuery (drop 1 t)" and "http_Body q = out_text o'"
proof -
  have some: "route_path r v \<noteq> []" by (cases r) simp_all
  have parts: "http_Method q = route_method r \<and> http_Path q = route_path r v \<and> http_Query q = ParseQuery (drop 1 t)
      \<and> http_Body q = out_text o' \<and> \<not> list_ex dot_segment (route_path r v)"
    using t
  proof (elim disjE exE)
    assume "t = []"
    then show ?thesis using received_plain [OF _ some \<open>received o' = Some q\<close>] path assms(3) by (simp add: command_path_def)
  next
    fix u assume "t = CHR ''?'' # u"
    then show ?thesis using received_query [OF _ some \<open>received o' = Some q\<close>] path assms(3) by (simp add: command_path_def)
  qed
  then have "(v = []) = plain_route r"
    using plain by (cases r) (auto simp: plain_route_def dot_segment_def)
  from route_taken [OF this assms(5), of "route_method r"] parts
  show "route_in (routes s) (http_Method q) (http_Path q) = Matched r v"
    by (simp add: method_matches_def)
  from parts show "http_Query q = ParseQuery (drop 1 t)" "http_Body q = out_text o'" by simp_all
qed












text \<open>A command line: \<open>dyne start --agent builder --name demo --prompt=go --timeout 90s\<close>\<close>

definition demoCli :: Cli where
  "demoCli = \<lparr>cli_serverVariable = [], cli_parseDuration = map_of [(''90s'', 90000000000), (''500ms'', 500000000)]\<rparr>"

definition startLine :: "string list" where
  "startLine = [''--agent'', ''builder'', ''--name'', ''demo'', ''--prompt=go'', ''--timeout'', ''90s'']"

lemma startLine_parsed:
  "parse_flags (cli_parseDuration demoCli) (serverFlag demoCli # startFlags) startLine =
     Inr ([(''server'', FlagString defaultServerURL), (''agent'', FlagString ''builder''),
           (''name'', FlagString ''demo''), (''repo'', FlagString []), (''ref'', FlagString ''main''),
           (''prompt'', FlagString ''go''), (''timeout'', FlagDuration 90000000000)], [])"
  by code_simp

section \<open>The arguments of an operation\<close>

text \<open>A request with a body is decoded to the values that were encoded.\<close>

lemma body_arrives:
  assumes "out_Path o' = command_path r v" and "out_Method o' = route_method r" and "received o' = Some q"
    and "workflow_route r \<longrightarrow> cp_workflows s \<noteq> None" and "plain_route r \<longrightarrow> v = []"
    and "out_Body o' = Some j" and "integral j" and "length (http_Body q) \<le> maxRequestBytes"
    and "decode_struct True types j = Inr f"
  shows "route_in (routes s) (http_Method q) (http_Path q) = Matched r v"
    and "decodeJSON d types (http_Body q) = Inr f"
proof -
  have "out_Path o' = command_path r v @ []" by (simp add: assms(1))
  note arrived = routed [OF this _ assms(2-5), simplified]
  from arrived(1) show "route_in (routes s) (http_Method q) (http_Path q) = Matched r v" by simp
  have "parse_json (http_Body q) = Some j"
    using arrived(3) parse_json_text [OF assms(7)] by (simp add: out_text_def assms(6))
  then show "decodeJSON d types (http_Body q) = Inr f"
    using decodeJSON_accepts assms(8,9) by blast
qed

text \<open>What the server makes of the deadline of a command.\<close>

lemma deadline_arrives:
  assumes "\<bar>t\<bar> < 2 ^ 63" and "int_pointer (f ''timeout_seconds'') = (if t = 0 then None else Some (whole_seconds t))"
  shows "requestTimeout none f = (if t = 0 then none else whole_seconds t * 1000000000)"
    and "requestTimeout 0 f = whole_seconds t * 1000000000"
proof -
  have "duration_seconds (whole_seconds t) = whole_seconds t * 1000000000"
    using whole_seconds_bound [OF assms(1)] by (subst duration_seconds_exact) linarith
  with assms(2) show "requestTimeout none f = (if t = 0 then none else whole_seconds t * 1000000000)"
    "requestTimeout 0 f = whole_seconds t * 1000000000"
    by (simp_all add: requestTimeout_def)
qed

text \<open>A request of a client command whose body is decoded is served by the rest of the handler.\<close>

lemma command_served:
  assumes "out_Path o' = command_path r v" and "out_Method o' = route_method r" and "out_Body o' = Some j"
    and "received o' = Some q" and "\<not> workflow_route r" and "\<not> plain_route r" and "integral j"
    and "length (http_Body q) \<le> 1048576" and "decode_struct True types j = Inr f"
    and "run_route s q r v = with_body s q types k"
  shows "serveHTTP s q = k f"
proof -
  have "length (http_Body q) \<le> maxRequestBytes" using assms(8) by (simp add: maxRequestBytes_def)
  note arrived = body_arrives [OF assms(1,2,4) _ _ assms(3,7) this assms(9), where s = s]
  show ?thesis
    using arrived assms(5,6) by (simp add: fun_eq_iff serveHTTP_def assms(10) with_body_def)
qed

text \<open>
  The command \<open>start\<close> and the control plane together call \<open>Start\<close> with the values of the flags,
  whatever characters they contain, and with the deadline in whole seconds.
\<close>

lemma start_served:
  assumes "parse_flags (cli_parseDuration c) (serverFlag c # startFlags) args = Inr (fls, rest)"
    and "cli_start c args = Inr o'" and "received o' = Some q"
    and "length (http_Body q) \<le> 1048576" and "\<bar>duration_flag fls ''timeout''\<bar> < 2 ^ 63"
  shows "serveHTTP s q = answer_with
    (ao_Start (cp_agents s)
      \<lparr>ar_Agent = text_flag fls ''agent'', ar_Name = text_flag fls ''name'',
       ar_Repository = text_flag fls ''repo'', ar_InitialRef = text_flag fls ''ref'',
       ar_Prompt = text_flag fls ''prompt'',
       ar_Timeout = whole_seconds (duration_flag fls ''timeout'') * 1000000000,
       ar_ResultKind = ResultKindOther [], ar_WorkflowRun = [], ar_WorkflowStep = []\<rparr>)
    writeAgentError (\<lambda>r. writeJSON StatusAccepted (StartBody r))"
proof -
  let ?t = "duration_flag fls ''timeout''"
  let ?j = "json_map ((''name'', JString (text_flag fls ''name'')) # (''repository'', JString (text_flag fls ''repo''))
      # (''ref'', JString (text_flag fls ''ref'')) # (''prompt'', JString (text_flag fls ''prompt'')) # timeout_field ?t)"
  have sent: "out_Path o' = command_path ToCreateAgentSession (text_flag fls ''agent'')"
      "out_Method o' = route_method ToCreateAgentSession" "out_Body o' = Some ?j"
    using assms(1,2) by (auto simp: cli_start_def with_flags_def route_method_def split: if_splits)
  obtain f where f: "decode_struct True createAgentSessionRequest ?j = Inr f"
      "agentStartInput (text_flag fls ''agent'') f =
        \<lparr>ar_Agent = text_flag fls ''agent'', ar_Name = text_flag fls ''name'',
         ar_Repository = text_flag fls ''repo'', ar_InitialRef = text_flag fls ''ref'',
         ar_Prompt = text_flag fls ''prompt'', ar_Timeout = whole_seconds ?t * 1000000000,
         ar_ResultKind = ResultKindOther [], ar_WorkflowRun = [], ar_WorkflowStep = []\<rparr>"
    using start_decoded [OF assms(5), of "text_flag fls ''name''" "text_flag fls ''repo''" "text_flag fls ''ref''"
        "text_flag fls ''prompt''"] deadline_arrives(2) [OF assms(5)]
    by (auto simp: agentStartInput_def)
  have integral: "integral ?j" by (simp add: json_map_integral timeout_integral)
  have "run_route s q ToCreateAgentSession v = with_body s q createAgentSessionRequest (\<lambda>f.
      answer_with (ao_Start (cp_agents s) (agentStartInput v f)) writeAgentError
        (\<lambda>r. writeJSON StatusAccepted (StartBody r)))" for v
    by (simp add: run_route_def createAgentSession_def)
  note served = command_served [OF sent assms(3) _ _ integral assms(4) f(1) this]
  from served show ?thesis
    by (simp add: workflow_route_def plain_route_def f(2))
qed

lemma startLine_body:
  "(case cli_start demoCli startLine of
      Inl e \<Rightarrow> False
    | Inr o' \<Rightarrow> (case received o' of None \<Rightarrow> False | Some q \<Rightarrow> length (http_Body q) < 100))"
  by code_simp

lemma start_served_instance:
  "\<exists>o' q. cli_start demoCli startLine = Inr o' \<and> received o' = Some q \<and>
     serveHTTP echoPlane q = answer_with
       (ao_Start (cp_agents echoPlane)
         \<lparr>ar_Agent = ''builder'', ar_Name = ''demo'', ar_Repository = [], ar_InitialRef = ''main'',
          ar_Prompt = ''go'', ar_Timeout = 90000000000, ar_ResultKind = ResultKindOther [],
          ar_WorkflowRun = [], ar_WorkflowStep = []\<rparr>)
       writeAgentError (\<lambda>r. writeJSON StatusAccepted (StartBody r))"
proof -
  obtain o' q where sent: "cli_start demoCli startLine = Inr o'" "received o' = Some q"
      "length (http_Body q) \<le> 1048576"
    using startLine_body by (auto split: sum.splits option.splits)
  have "whole_seconds 90000000000 = 90"
    by (subst whole_seconds_small) simp_all
  with start_served [OF startLine_parsed sent, of echoPlane] sent show ?thesis
    by (simp add: text_flag_def duration_flag_def)
qed

text \<open>
  C34. The command \<open>publish\<close> and the control plane together call \<open>Publish\<close> with the values of the flags:
  a draft unless \<open>--ready\<close> is given, and ten minutes when no deadline is.  A deadline of less than a
  second arrives as zero, which publishing rejects.
\<close>

theorem publish_served:
  assumes "parse_flags (cli_parseDuration c) (serverFlag c # publishFlags) args = Inr (fls, rest)"
    and "cli_publishSession c args = Inr o'" and "received o' = Some q"
    and "length (http_Body q) \<le> 1048576" and "\<bar>duration_flag fls ''timeout''\<bar> < 2 ^ 63"
  shows "serveHTTP s q = answer_with
    (cp_Publish s
      \<lparr>pq_Session = text_flag fls ''name'', pq_Branch = text_flag fls ''branch'',
       pq_BaseBranch = text_flag fls ''base'', pq_CommitMessage = text_flag fls ''commit-message'',
       pq_Draft = (\<not> bool_flag fls ''ready''),
       pq_Timeout = (if duration_flag fls ''timeout'' = 0 then 600000000000
         else whole_seconds (duration_flag fls ''timeout'') * 1000000000)\<rparr>)
    writePublishError (\<lambda>r. writeJSON StatusOK (PublishBody r))"
proof -
  let ?t = "duration_flag fls ''timeout''" and ?name = "text_flag fls ''name''"
  let ?branch = "text_flag fls ''branch''" and ?base = "text_flag fls ''base''"
  let ?message = "text_flag fls ''commit-message''" and ?ready = "bool_flag fls ''ready''"
  let ?j = "json_map ((''branch'', JString ?branch) # (''base'', JString ?base)
      # (''commit_message'', JString ?message) # (''ready'', JBool ?ready) # timeout_field ?t)"
  have sent: "out_Path o' = command_path ToPublishSession ?name"
      "out_Method o' = route_method ToPublishSession" "out_Body o' = Some ?j"
    using assms(1,2) by (auto simp: cli_publishSession_def with_flags_def route_method_def split: if_splits)
  obtain f where f: "decode_struct True publishSessionRequest ?j = Inr f"
      "publishInput ?name f =
        \<lparr>pq_Session = ?name, pq_Branch = ?branch, pq_BaseBranch = ?base, pq_CommitMessage = ?message,
         pq_Draft = (\<not> ?ready), pq_Timeout = (if ?t = 0 then 600000000000 else whole_seconds ?t * 1000000000)\<rparr>"
    using publish_decoded [OF assms(5), of ?branch ?base ?message ?ready]
      deadline_arrives(1) [OF assms(5), where none = 600000000000]
    by (auto simp: publishInput_def)
  have integral: "integral ?j" by (simp add: json_map_integral timeout_integral)
  have "run_route s q ToPublishSession v = with_body s q publishSessionRequest (\<lambda>f.
      answer_with (cp_Publish s (publishInput v f)) writePublishError
        (\<lambda>r. writeJSON StatusOK (PublishBody r)))" for v
    by (simp add: run_route_def publishSession_def)
  note served = command_served [OF sent assms(3) _ _ integral assms(4) f(1) this]
  from served show ?thesis
    by (simp add: workflow_route_def plain_route_def f(2))
qed

definition publishLine :: "string list" where
  "publishLine = [''-name'', ''demo'', ''-branch=topic'', ''-ready'', ''-timeout=500ms'']"

lemma publishLine_parsed:
  "parse_flags (cli_parseDuration demoCli) (serverFlag demoCli # publishFlags) publishLine =
     Inr ([(''server'', FlagString defaultServerURL), (''name'', FlagString ''demo''),
           (''branch'', FlagString ''topic''), (''base'', FlagString []), (''commit-message'', FlagString []),
           (''ready'', FlagBool True), (''timeout'', FlagDuration 500000000)], [])"
  by code_simp

lemma publishLine_body:
  "(case cli_publishSession demoCli publishLine of
      Inl e \<Rightarrow> False
    | Inr o' \<Rightarrow> (case received o' of None \<Rightarrow> False | Some q \<Rightarrow> length (http_Body q) < 100))"
  by code_simp

theorem publish_served_witness:
  "\<exists>o' q. cli_publishSession demoCli publishLine = Inr o' \<and> received o' = Some q \<and>
     serveHTTP echoPlane q = answer_with
       (cp_Publish echoPlane
         \<lparr>pq_Session = ''demo'', pq_Branch = ''topic'', pq_BaseBranch = [], pq_CommitMessage = [],
          pq_Draft = False, pq_Timeout = 0\<rparr>)
       writePublishError (\<lambda>r. writeJSON StatusOK (PublishBody r))"
proof -
  obtain o' q where sent: "cli_publishSession demoCli publishLine = Inr o'" "received o' = Some q"
      "length (http_Body q) \<le> 1048576"
    using publishLine_body by (auto split: sum.splits option.splits)
  have "whole_seconds 500000000 = 0"
    by (subst whole_seconds_small) simp_all
  with publish_served [OF publishLine_parsed sent, of echoPlane] sent show ?thesis
    by (simp add: text_flag_def duration_flag_def bool_flag_def)
qed

section \<open>Destroying storage\<close>




lemma route_method_delete: "route_method r = ''DELETE'' \<Longrightarrow> r = ToDeleteSession \<or> r = ToDeleteWorkflowRun"
  by (cases r) (simp_all add: route_method_def)










end
