(* ===== verification/Publisher_Runtime.thy ===== *)
theory Publisher_Runtime
  imports Kubernetes_Runtime Publish_Types
begin

text \<open>
  The publisher runtime on Kubernetes (\<open>internal/workload/publish.go\<close>): one Job per session pushes its
  work to a branch.  The requests to the Kubernetes API are the record \<open>PublisherAPI\<close>; \<open>pa_tick\<close> is
  the wait of a polling loop, \<open>True\<close> when its interval ends before its deadline.
\<close>

record SecretObject =
  sec_Name :: string
  sec_Namespace :: string
  sec_Labels :: labels
  sec_Type :: string
  sec_Data :: labels

record 'k PublisherAPI =
  pa_namespace :: string
  pa_GetJob :: "string \<Rightarrow> 'k \<Rightarrow> Job kube \<times> 'k"
  pa_CreateJob :: "(string \<times> json) list \<Rightarrow> 'k \<Rightarrow> Job kube \<times> 'k"
  pa_DeleteJob :: "string \<Rightarrow> 'k \<Rightarrow> unit kube \<times> 'k"
  pa_GetSecret :: "string \<Rightarrow> 'k \<Rightarrow> SecretObject kube \<times> 'k"
  pa_CreateSecret :: "SecretObject \<Rightarrow> 'k \<Rightarrow> unit kube \<times> 'k"
  pa_UpdateSecret :: "SecretObject \<Rightarrow> 'k \<Rightarrow> unit kube \<times> 'k"
  pa_DeleteSecret :: "string \<Rightarrow> 'k \<Rightarrow> unit kube \<times> 'k"
  pa_ListPods :: "labels \<Rightarrow> 'k \<Rightarrow> Pod list kube \<times> 'k"
  pa_GetLogs :: "string \<Rightarrow> string \<Rightarrow> 'k \<Rightarrow> string kube \<times> 'k"
  pa_tick :: "'k \<Rightarrow> bool \<times> 'k"

definition publishIntentAnnotationKey :: string where
  "publishIntentAnnotationKey = ''coding-agent/publish-intent''"

definition publisherJobName :: "string \<Rightarrow> string" where
  "publisherJobName session = session @ ''-publish''"

definition publisherCredentialName :: "string \<Rightarrow> string" where
  "publisherCredentialName session = session @ ''-publish-git''"

definition publisherLabels :: "string \<Rightarrow> labels" where
  "publisherLabels session =
     [(''app.kubernetes.io/name'', ''coding-agent''), (''app.kubernetes.io/managed-by'', ''dyne''),
      (''coding-agent/session'', session), (''coding-agent/component'', ''publisher'')]"

text \<open>\<open>m[key]\<close>, where a missing key gives the empty string\<close>

definition label_value :: "labels \<Rightarrow> string \<Rightarrow> string" where
  "label_value m key = (case map_of m key of None \<Rightarrow> [] | Some v \<Rightarrow> v)"

definition publishIntent :: "Job \<Rightarrow> string" where
  "publishIntent job = label_value (job_Annotations job) publishIntentAnnotationKey"

section \<open>The Job\<close>

definition publisherVolumes :: "PublisherRequest \<Rightarrow> json list" where
  "publisherVolumes q =
     (let claim = (\<lambda>name. JObject
            [(''name'', JString name),
             (''persistentVolumeClaim'', JObject
               [(''claimName'', JString (sessionClaimName (pe_Session q))), (''readOnly'', JBool True)])])
      in (if pe_Change q = None then [claim ''workspace''] else []) @
         [claim ''artifacts'',
          JObject [(''name'', JString ''publish''), emptyDir [(''sizeLimit'', JString ''4Gi'')]],
          JObject
            [(''name'', JString ''tmp''),
             emptyDir [(''medium'', JString ''Memory''), (''sizeLimit'', JString ''1Gi'')]],
          JObject
            [(''name'', JString ''git-auth''),
             (''secret'', JObject
               [(''secretName'', JString (publisherCredentialName (pe_Session q))),
                (''defaultMode'', jint 288)])]])"

definition publisherMounts :: "PublisherRequest \<Rightarrow> json list" where
  "publisherMounts q =
     (if pe_Change q = None
      then [mount ''workspace'' ''/workspace''
              [(''subPath'', JString ''workspace''), (''readOnly'', JBool True)]] else []) @
     [mount ''artifacts'' ''/artifacts'' [(''subPath'', JString ''artifacts''), (''readOnly'', JBool True)],
      mount ''publish'' ''/publish'' [],
      mount ''tmp'' ''/tmp'' [],
      mount ''git-auth'' ''/var/run/git-auth'' [(''readOnly'', JBool True)]]"

definition publisherEnvironment :: "PublisherRequest \<Rightarrow> json list" where
  "publisherEnvironment q =
     [variable ''PUBLISH_REPOSITORY'' (pe_Repository q),
      variable ''PUBLISH_BASE'' (pe_BaseRef q),
      variable ''PUBLISH_BRANCH'' (pe_Branch q),
      variable ''PUBLISH_COMMIT_MESSAGE'' (pe_CommitMessage q),
      variable ''PUBLISH_AUTHOR_NAME'' (pe_AuthorName q),
      variable ''PUBLISH_AUTHOR_EMAIL'' (pe_AuthorEmail q)] @
     (case pe_Change q of
        None \<Rightarrow> []
      | Some change \<Rightarrow>
          [variable ''PUBLISH_CHANGE_SHA256'' (ca_SHA256 change),
           variable ''PUBLISH_CHANGE_BYTES'' (itoa (ca_Bytes change))])"

definition publisherContainer :: "PublisherRequest \<Rightarrow> (string \<times> json) list" where
  "publisherContainer q =
     [(''name'', JString ''publisher''),
      (''image'', JString (pe_Image q)),
      (''imagePullPolicy'', JString ''IfNotPresent''),
      (''args'', JArray [JString ''publish'']),
      (''workingDir'', JString ''/publish''),
      (''env'', JArray (publisherEnvironment q)),
      (''securityContext'', JObject
        [(''allowPrivilegeEscalation'', JBool False),
         (''readOnlyRootFilesystem'', JBool True),
         (''capabilities'', JObject [(''drop'', JArray [JString ''ALL''])])]),
      (''resources'', JObject
        [(''requests'', JObject
           [(''cpu'', JString ''250m''), (''memory'', JString ''512Mi''),
            (''ephemeral-storage'', JString ''512Mi'')]),
         (''limits'', JObject
           [(''cpu'', JString ''2''), (''memory'', JString ''4Gi''),
            (''ephemeral-storage'', JString ''6Gi'')])]),
      (''volumeMounts'', JArray (publisherMounts q))]"

definition label_object :: "labels \<Rightarrow> json" where
  "label_object ls = JObject (map (\<lambda>(k, v). (k, JString v)) ls)"

definition publisherJob :: "string \<Rightarrow> PublisherRequest \<Rightarrow> (string \<times> json) list" where
  "publisherJob namespace q =
     [(''metadata'', JObject
        [(''name'', JString (publisherJobName (pe_Session q))),
         (''namespace'', JString namespace),
         (''labels'', label_object (publisherLabels (pe_Session q))),
         (''annotations'', JObject [(publishIntentAnnotationKey, JString (pe_IntentID q))])]),
      (''spec'', JObject
        [(''backoffLimit'', jint 0),
         (''activeDeadlineSeconds'', jint (whole_seconds (pe_Timeout q))),
         (''template'', JObject
           [(''metadata'', JObject [(''labels'', label_object (publisherLabels (pe_Session q)))]),
            (''spec'', JObject
              [(''automountServiceAccountToken'', JBool False),
               (''restartPolicy'', JString ''Never''),
               (''securityContext'', JObject
                 [(''runAsNonRoot'', JBool True),
                  (''runAsUser'', jint 1000),
                  (''runAsGroup'', jint 1000),
                  (''fsGroup'', jint 1000),
                  (''seccompProfile'', JObject [(''type'', JString ''RuntimeDefault'')])]),
               (''containers'', JArray [JObject (publisherContainer q)]),
               (''volumes'', JArray (publisherVolumes q))])])])]"

section \<open>The credential\<close>

text \<open>The Secret after a creation, and an existing one after its update.\<close>

definition newCredential :: "string \<Rightarrow> PublisherRequest \<Rightarrow> SecretObject" where
  "newCredential namespace q =
     \<lparr>sec_Name = publisherCredentialName (pe_Session q), sec_Namespace = namespace, sec_Labels = publisherLabels (pe_Session q),
      sec_Type = ''Opaque'', sec_Data = [(''token'', pe_RepositoryCredential q)]\<rparr>"

definition updatedCredential :: "PublisherRequest \<Rightarrow> SecretObject \<Rightarrow> SecretObject" where
  "updatedCredential q secret =
     secret\<lparr>sec_Data := [(''token'', pe_RepositoryCredential q)], sec_Labels := publisherLabels (pe_Session q)\<rparr>"

definition ensurePublisherCredential :: "'k PublisherAPI \<Rightarrow> PublisherRequest \<Rightarrow> ('k, unit) op" where
  "ensurePublisherCredential K q w =
     (case pa_GetSecret K (publisherCredentialName (pe_Session q)) w of
        (KubeNotFound t, w') \<Rightarrow>
          request (pa_CreateSecret K (newCredential (pa_namespace K) q)) ''create publisher credential Secret'' w'
      | (KubeOk secret, w') \<Rightarrow>
          request (pa_UpdateSecret K (updatedCredential q secret)) ''update publisher credential Secret'' w'
      | (KubeExists t, w') \<Rightarrow> throw (errorf ''get publisher credential Secret'' (Text t)) w'
      | (KubeFailed t, w') \<Rightarrow> throw (errorf ''get publisher credential Secret'' (Text t)) w')"

section \<open>Ensuring the Job\<close>

definition foreignIntent :: err where
  "foreignIntent = Text ''publisher Job belongs to a different publish intent''"

text \<open>
  \<open>ensurePublisherJob\<close> and \<open>createPublisherJob\<close> call each other as long as the Job does not exist
  for one and exists already for the other, so the result is optional.
\<close>

partial_function (option) ensurePublisherJob ::
  "'k PublisherAPI \<Rightarrow> PublisherRequest \<Rightarrow> 'k \<Rightarrow> ((err + unit) \<times> 'k) option" where
  "ensurePublisherJob K q w =
     (case pa_GetJob K (publisherJobName (pe_Session q)) w of
        (KubeOk job, w') \<Rightarrow>
          Some (if publishIntent job \<noteq> pe_IntentID q then (Inl foreignIntent, w') else (Inr (), w'))
      | (KubeExists t, w') \<Rightarrow> Some (Inl (errorf ''get publisher Job'' (Text t)), w')
      | (KubeFailed t, w') \<Rightarrow> Some (Inl (errorf ''get publisher Job'' (Text t)), w')
      | (KubeNotFound t, w') \<Rightarrow>
          (case pa_CreateJob K (publisherJob (pa_namespace K) q) w' of
             (KubeExists t, w'') \<Rightarrow> ensurePublisherJob K q w''
           | (KubeOk job, w'') \<Rightarrow> Some (Inr (), w'')
           | (KubeNotFound t, w'') \<Rightarrow> Some (Inl (errorf ''create publisher Job'' (Text t)), w'')
           | (KubeFailed t, w'') \<Rightarrow> Some (Inl (errorf ''create publisher Job'' (Text t)), w'')))"

section \<open>The result of a Job\<close>

definition noResult :: PublisherResult where
  "noResult = \<lparr>po_Branch = [], po_CommitSHA = []\<rparr>"

definition parsePublisherLine :: "string \<Rightarrow> PublisherResult \<Rightarrow> PublisherResult" where
  "parsePublisherLine line result =
     (case cut CHR ''='' line of
        None \<Rightarrow> result
      | Some (key, v) \<Rightarrow>
          if key = ''branch'' then result\<lparr>po_Branch := v\<rparr>
          else if key = ''commit'' then result\<lparr>po_CommitSHA := v\<rparr>
          else result)"

definition parsePublisherJobResult :: "string \<Rightarrow> PublisherResult" where
  "parsePublisherJobResult message = fold parsePublisherLine (split_on CHR 0x0A message) noResult"

definition publisherJobPod :: "'k PublisherAPI \<Rightarrow> string \<Rightarrow> ('k, Pod) op" where
  "publisherJobPod K jobName =
     andThen (request (pa_ListPods K [(''job-name'', jobName)]) ''list publisher Pods'') (\<lambda>pods.
       case pods of
         [pod] \<Rightarrow> ret pod
       | _ \<Rightarrow> throw (Text (''publisher Job has '' @ itoa (int (length pods)) @ '' Pods, want 1'')))"

definition publisherJobResult :: "'k PublisherAPI \<Rightarrow> string \<Rightarrow> ('k, PublisherResult) op" where
  "publisherJobResult K jobName =
     andThen (publisherJobPod K jobName) (\<lambda>pod.
       case terminatedMessage ''publisher'' (pod_Statuses pod) of
         None \<Rightarrow> throw (Text ''publisher container has no termination result'')
       | Some message \<Rightarrow>
           let result = parsePublisherJobResult message
           in if po_Branch result = [] \<or> \<not> hex_of_length 40 (po_CommitSHA result)
              then throw (Text ''publisher did not report a valid branch and commit'')
              else ret result)"

text \<open>The last 4000 bytes of a failed publisher's output.\<close>

definition failureMessage :: "string \<Rightarrow> string" where
  "failureMessage contents =
     (let message = TrimSpace contents;
          message = drop (length message - 4000) message
      in if message = [] then ''publisher container exited without an error message'' else message)"

definition publisherJobFailure :: "'k PublisherAPI \<Rightarrow> string \<Rightarrow> 'k \<Rightarrow> err \<times> 'k" where
  "publisherJobFailure K jobName w =
     (case publisherJobPod K jobName w of
        (Inl e, w') \<Rightarrow> (e, w')
      | (Inr pod, w') \<Rightarrow>
          (case request (pa_GetLogs K (pod_Name pod) ''publisher'') ''publisher Job failed; read logs'' w' of
             (Inl e, w'') \<Rightarrow> (e, w'')
           | (Inr contents, w'') \<Rightarrow> (Text (failureMessage contents), w'')))"

section \<open>Waiting\<close>

datatype poll = Waiting | Finished PublisherResult | Stopped PublisherResult err

definition pollPublisherJob :: "'k PublisherAPI \<Rightarrow> string \<Rightarrow> string \<Rightarrow> 'k \<Rightarrow> poll \<times> 'k" where
  "pollPublisherJob K session intent w =
     (case pa_GetJob K (publisherJobName session) w of
        (KubeOk job, w') \<Rightarrow>
          if publishIntent job \<noteq> intent
          then (Stopped noResult (Text ''publisher Job intent changed while waiting''), w')
          else if jobConditionTrue job ''Failed'' then
            (case publisherJobResult K (job_Name job) w' of (r, w'') \<Rightarrow>
             case publisherJobFailure K (job_Name job) w'' of (e, w''') \<Rightarrow>
               (Stopped (case r of Inl _ \<Rightarrow> noResult | Inr result \<Rightarrow> result)
                  (Join [Sentinel ErrExecutionFailed, e]), w'''))
          else if \<not> jobConditionTrue job ''Complete'' then (Waiting, w')
          else
            (case publisherJobResult K (job_Name job) w' of
               (Inl e, w'') \<Rightarrow> (Stopped noResult e, w'')
             | (Inr result, w'') \<Rightarrow> (Finished result, w''))
      | (KubeNotFound t, w') \<Rightarrow> (Stopped noResult (Text t), w')
      | (KubeExists t, w') \<Rightarrow> (Stopped noResult (Text t), w')
      | (KubeFailed t, w') \<Rightarrow> (Stopped noResult (Text t), w'))"

definition deadlineExceeded :: err where
  "deadlineExceeded = Text ''context deadline exceeded''"

text \<open>
  \<open>wait.PollUntilContextTimeout\<close> with an immediate first poll: the interval ends at most
  \<open>ticks\<close> times before the deadline.
\<close>

fun waitForJob :: "'k PublisherAPI \<Rightarrow> string \<Rightarrow> string \<Rightarrow> nat \<Rightarrow> 'k \<Rightarrow> (PublisherResult \<times> err option) \<times> 'k" where
  "waitForJob K session intent ticks w =
     (case pollPublisherJob K session intent w of
        (Finished result, w') \<Rightarrow> ((result, None), w')
      | (Stopped result e, w') \<Rightarrow> ((result, Some e), w')
      | (Waiting, w') \<Rightarrow>
          (case pa_tick K w' of (again, w'') \<Rightarrow>
             (case ticks of
                0 \<Rightarrow> ((noResult, Some deadlineExceeded), w'')
              | Suc n \<Rightarrow>
                  if again then waitForJob K session intent n w''
                  else ((noResult, Some deadlineExceeded), w''))))"

declare waitForJob.simps [simp del]

definition waitForPublisherJob ::
  "'k PublisherAPI \<Rightarrow> string \<Rightarrow> string \<Rightarrow> int \<Rightarrow> 'k \<Rightarrow> (PublisherResult \<times> err option) \<times> 'k" where
  "waitForPublisherJob K session intent timeout w =
     (case waitForJob K session intent (nat (timeout div 1000000000)) w of
        ((result, e), w') \<Rightarrow> ((result, map_option (errorf (''publish session '' @ session)) e), w'))"

section \<open>The operations of the interface\<close>

definition validatePublisher :: "PublisherRequest \<Rightarrow> err option" where
  "validatePublisher q = first_error
     [check (pe_Timeout q < 1000000000) ''publisher timeout must be at least one second'',
      check (blank (pe_RepositoryCredential q)) ''publisher repository credential is required'',
      (case pe_Change q of
         None \<Rightarrow> None
       | Some change \<Rightarrow> first_error
           [check (\<not> hex_of_length 64 (ca_SHA256 change))
              ''publisher change sha256 must contain 64 lowercase hexadecimal characters'',
            check (ca_Bytes change \<le> 0) ''publisher change bytes must be greater than zero''])]"

text \<open>The first look at the Job: nothing is written when it belongs to another intent.\<close>

definition checkExistingJob :: "'k PublisherAPI \<Rightarrow> PublisherRequest \<Rightarrow> ('k, unit) op" where
  "checkExistingJob K q w =
     (case pa_GetJob K (publisherJobName (pe_Session q)) w of
        (KubeOk job, w') \<Rightarrow>
          if publishIntent job \<noteq> pe_IntentID q then throw foreignIntent w' else ret () w'
      | (KubeNotFound t, w') \<Rightarrow> ret () w'
      | (KubeExists t, w') \<Rightarrow> throw (errorf ''get publisher Job'' (Text t)) w'
      | (KubeFailed t, w') \<Rightarrow> throw (errorf ''get publisher Job'' (Text t)) w')"

text \<open>\<open>None\<close> stands for a run that never returns.\<close>

definition RunPublisher ::
  "'k PublisherAPI \<Rightarrow> PublisherRequest \<Rightarrow> 'k \<Rightarrow> ((PublisherResult \<times> err option) \<times> 'k) option" where
  "RunPublisher K q w =
     (case validatePublisher q of
        Some e \<Rightarrow> Some ((noResult, Some e), w)
      | None \<Rightarrow>
          (case andThen (checkExistingJob K q) (\<lambda>_. ensurePublisherCredential K q) w of
             (Inl e, w') \<Rightarrow> Some ((noResult, Some e), w')
           | (Inr u, w') \<Rightarrow>
               (case ensurePublisherJob K q w' of
                  None \<Rightarrow> None
                | Some (Inl e, w'') \<Rightarrow> Some ((noResult, Some e), w'')
                | Some (Inr u, w'') \<Rightarrow>
                    Some (waitForPublisherJob K (pe_Session q) (pe_IntentID q) (pe_Timeout q) w''))))"

text \<open>The wait of a deletion: 120 intervals of 250 milliseconds.\<close>

definition deletionWaits :: nat where
  "deletionWaits = 120"

definition pollDeletion :: "'k PublisherAPI \<Rightarrow> string \<Rightarrow> ('k, bool) op" where
  "pollDeletion K session w =
     (case pa_GetJob K (publisherJobName session) w of
        (KubeExists t, w') \<Rightarrow> throw (Text t) w'
      | (KubeFailed t, w') \<Rightarrow> throw (Text t) w'
      | (r, w') \<Rightarrow>
          (case pa_ListPods K [(''job-name'', publisherJobName session)] w' of
             (p, w'') \<Rightarrow>
               (case kube_result p of
                  Inl e \<Rightarrow> throw e w''
                | Inr pods \<Rightarrow> ret ((case r of KubeNotFound t \<Rightarrow> True | _ \<Rightarrow> False) \<and> pods = []) w'')))"

fun waitForDeletion :: "'k PublisherAPI \<Rightarrow> string \<Rightarrow> nat \<Rightarrow> ('k, unit) op" where
  "waitForDeletion K session ticks =
     andThen (pollDeletion K session) (\<lambda>gone.
       if gone then ret ()
       else andThen (total (pa_tick K)) (\<lambda>again.
         case ticks of
           0 \<Rightarrow> throw deadlineExceeded
         | Suc n \<Rightarrow> if again then waitForDeletion K session n else throw deadlineExceeded))"

declare waitForDeletion.simps [simp del]

definition deletePublisherJob :: "'k PublisherAPI \<Rightarrow> string \<Rightarrow> ('k, unit) op" where
  "deletePublisherJob K session w =
     (case pa_DeleteJob K (publisherJobName session) w of
        (KubeNotFound t, w') \<Rightarrow> (Inr (), w')
      | (KubeOk u, w') \<Rightarrow> waitForDeletion K session deletionWaits w'
      | (KubeExists t, w') \<Rightarrow> throw (errorf ''delete publisher Job'' (Text t)) w'
      | (KubeFailed t, w') \<Rightarrow> throw (errorf ''delete publisher Job'' (Text t)) w')"

definition DeletePublisher :: "'k PublisherAPI \<Rightarrow> string \<Rightarrow> ('k, unit) op" where
  "DeletePublisher K session w =
     (case deletePublisherJob K session w of (jobErr, w') \<Rightarrow>
      case unless_gone (pa_DeleteSecret K (publisherCredentialName session))
             ''delete publisher credential Secret'' w' of (secretErr, w'') \<Rightarrow>
        join_errors ((case jobErr of Inl e \<Rightarrow> [e] | Inr _ \<Rightarrow> [])
          @ (case secretErr of Inl e \<Rightarrow> [e] | Inr _ \<Rightarrow> [])) w'')"

end
