(* ===== verification/Publisher_Theorems.thy ===== *)
theory Publisher_Theorems
  imports Publisher_Runtime Publish_Control Runtime_Facts Examples
begin

text \<open>
  What the publisher runtime promises publishing: what a success and a failed execution rest on, that
  the Job cannot write the storage of the session, when a run returns, and two weaknesses: the names
  of its objects, and a completed Job whose result is lost.
\<close>

section \<open>Results and failures\<close>

text \<open>
  An answer to the last question for the Job of a session, which has the intent of the request; \<open>v\<close>
  is the world after it.
\<close>

definition observed :: "'k PublisherAPI \<Rightarrow> string \<Rightarrow> string \<Rightarrow> Job \<Rightarrow> 'k \<Rightarrow> bool" where
  "observed K session intent job v \<longleftrightarrow>
     publishIntent job = intent \<and> (\<exists>u. pa_GetJob K (publisherJobName session) u = (KubeOk job, v))"

definition completed :: "'k PublisherAPI \<Rightarrow> string \<Rightarrow> string \<Rightarrow> PublisherResult \<Rightarrow> 'k \<Rightarrow> bool" where
  "completed K session intent result w \<longleftrightarrow>
     (\<exists>job v. observed K session intent job v \<and> jobConditionTrue job ''Complete'' \<and> \<not> jobConditionTrue job ''Failed''
        \<and> publisherJobResult K (job_Name job) v = (Inr result, w))"

definition failed_run :: "'k PublisherAPI \<Rightarrow> string \<Rightarrow> string \<Rightarrow> PublisherResult \<Rightarrow> 'k \<Rightarrow> bool" where
  "failed_run K session intent result w \<longleftrightarrow>
     (\<exists>job v r v' e. observed K session intent job v \<and> jobConditionTrue job ''Failed''
        \<and> publisherJobResult K (job_Name job) v = (r, v')
        \<and> result = (case r of Inl _ \<Rightarrow> noResult | Inr told \<Rightarrow> told)
        \<and> publisherJobFailure K (job_Name job) v' = (e, w))"

lemma request_text: "request f p w = (Inl e, w') \<Longrightarrow> \<not> errors_is e ErrExecutionFailed"
  by (cases "f w"; cases "fst (f w)") (auto simp: request_def)

lemma publisherJobPod_text:
  "publisherJobPod K n w = (Inl e, w') \<Longrightarrow> \<not> errors_is e ErrExecutionFailed"
  unfolding publisherJobPod_def andThen_def
  by (erule handle_cases) (auto simp: throw_def ret_def dest: request_text split: list.splits)

lemma publisherJobResult_text:
  "publisherJobResult K n w = (Inl e, w') \<Longrightarrow> \<not> errors_is e ErrExecutionFailed"
  unfolding publisherJobResult_def andThen_def
  by (erule handle_cases)
    (auto simp: throw_def ret_def Let_def dest: publisherJobPod_text split: option.splits if_splits)

lemma publisherJobResult_valid:
  assumes "publisherJobResult K n w = (Inr result, w')"
  shows "po_Branch result \<noteq> [] \<and> hex_of_length 40 (po_CommitSHA result)
    \<and> (\<exists>message. result = parsePublisherJobResult message)"
  using assms unfolding publisherJobResult_def
  by (rule andThen_success) (auto simp: throw_def ret_def Let_def split: option.splits if_splits)

lemma poll_finished:
  "pollPublisherJob K session intent w = (Finished result, w') \<Longrightarrow> completed K session intent result w'"
  by (auto simp: pollPublisherJob_def observed_def completed_def split: kube.splits prod.splits if_splits sum.splits)

lemma poll_failed:
  assumes "pollPublisherJob K session intent w = (Stopped result e, w')" and "errors_is e ErrExecutionFailed"
  shows "failed_run K session intent result w'"
  using assms
  by (auto simp: pollPublisherJob_def observed_def failed_run_def split: kube.splits prod.splits if_splits
      dest!: publisherJobResult_text) (fastforce split: sum.splits dest: publisherJobResult_text)+

lemma wait_finished:
  "waitForJob K session intent ticks w = ((result, None), w') \<Longrightarrow> completed K session intent result w'"
proof (induction ticks arbitrary: w)
  case 0
  then show ?case
    by (auto simp: waitForJob.simps [of K session intent 0] split: poll.splits prod.splits dest: poll_finished)
next
  case (Suc n)
  then show ?case
    by (auto simp: waitForJob.simps [of K session intent "Suc n"] split: poll.splits prod.splits if_splits
        dest: poll_finished)
qed

lemma wait_failed:
  "waitForJob K session intent ticks w = ((result, Some e), w') \<Longrightarrow> errors_is e ErrExecutionFailed
   \<Longrightarrow> failed_run K session intent result w'"
proof (induction ticks arbitrary: w)
  case 0
  then show ?case
    by (auto simp: waitForJob.simps [of K session intent 0] deadlineExceeded_def split: poll.splits prod.splits
        dest: poll_failed)
next
  case (Suc n)
  then show ?case
    by (auto simp: waitForJob.simps [of K session intent "Suc n"] deadlineExceeded_def
        split: poll.splits prod.splits if_splits dest: poll_failed)
qed

lemma wait_failed_deadline:
  assumes "waitForPublisherJob K session intent timeout w = ((result, Some e), w')" and "errors_is e ErrExecutionFailed"
  shows "failed_run K session intent result w'"
  using assms
  by (auto simp: waitForPublisherJob_def split: prod.splits dest: wait_failed)

lemma wait_finished_deadline:
  assumes "waitForPublisherJob K session intent timeout w = ((result, None), w')"
  shows "completed K session intent result w'"
  using assms by (auto simp: waitForPublisherJob_def split: prod.splits dest: wait_finished)

lemma checkExistingJob_text:
  "checkExistingJob K q w = (Inl e, w') \<Longrightarrow> \<not> errors_is e ErrExecutionFailed"
  by (auto simp: checkExistingJob_def throw_def ret_def foreignIntent_def split: kube.splits prod.splits if_splits)

lemma ensurePublisherCredential_text:
  "ensurePublisherCredential K q w = (Inl e, w') \<Longrightarrow> \<not> errors_is e ErrExecutionFailed"
  by (auto simp: ensurePublisherCredential_def throw_def dest: request_text split: kube.splits prod.splits)

lemma ensurePublisherJob_outcome:
  assumes "ensurePublisherJob K q w = Some y"
  shows "\<forall>e. fst y = Inl e \<longrightarrow> \<not> errors_is e ErrExecutionFailed"
  using _ assms
proof (rule ensurePublisherJob.raw_induct)
  fix rec K' q' w' y'
  assume "\<And>q w K y. rec q w K = Some y \<Longrightarrow> \<forall>e. fst y = Inl e \<longrightarrow> \<not> errors_is e ErrExecutionFailed"
    and "(case pa_GetJob K' (publisherJobName (pe_Session q')) w' of
        (KubeOk job, u) \<Rightarrow> Some (if publishIntent job \<noteq> pe_IntentID q' then (Inl foreignIntent, u) else (Inr (), u))
      | (KubeNotFound t, u) \<Rightarrow>
          (case pa_CreateJob K' (publisherJob (pa_namespace K') q') u of
             (KubeOk job, v) \<Rightarrow> Some (Inr (), v)
           | (KubeNotFound t, v) \<Rightarrow> Some (Inl (errorf ''create publisher Job'' (Text t)), v)
           | (KubeExists t, v) \<Rightarrow> rec K' q' v
           | (KubeFailed t, v) \<Rightarrow> Some (Inl (errorf ''create publisher Job'' (Text t)), v))
      | (KubeExists t, u) \<Rightarrow> Some (Inl (errorf ''get publisher Job'' (Text t)), u)
      | (KubeFailed t, u) \<Rightarrow> Some (Inl (errorf ''get publisher Job'' (Text t)), u)) = Some y'"
  then show "\<forall>e. fst y' = Inl e \<longrightarrow> \<not> errors_is e ErrExecutionFailed"
    by (auto simp: foreignIntent_def split: kube.splits prod.splits if_splits)
qed

lemma ensurePublisherJob_text:
  "ensurePublisherJob K q w = Some (Inl e, w') \<Longrightarrow> \<not> errors_is e ErrExecutionFailed"
  using ensurePublisherJob_outcome by fastforce

lemma early_failure_text:
  assumes "andThen (checkExistingJob K q) (\<lambda>_. ensurePublisherCredential K q) w = (Inl e, w')"
  shows "\<not> errors_is e ErrExecutionFailed"
  using assms unfolding andThen_def
  by (rule handle_cases) (auto simp: throw_def dest: checkExistingJob_text ensurePublisherCredential_text)

lemma validatePublisher_text: "validatePublisher q = Some e \<Longrightarrow> \<not> errors_is e ErrExecutionFailed"
  by (auto simp: validatePublisher_def check_def split: if_splits option.splits)


text \<open>
  C22. What the publisher runtime tells publishing rests on the Job of the session with the same intent.  A
  run without an error ends with the reading of a completed Job that did not fail, and reports a branch
  and a full commit that the only Pod of that Job gave; a run that ends with a failed execution ends
  with the reading of a failed Job, and reports what that Job gave, if anything.  No other error counts
  as a failed execution.
\<close>

theorem publisher_verdict:
  assumes "RunPublisher K q w = Some ((result, failure), w')"
  shows "case failure of
      None \<Rightarrow> po_Branch result \<noteq> [] \<and> hex_of_length 40 (po_CommitSHA result)
        \<and> completed K (pe_Session q) (pe_IntentID q) result w'
    | Some e \<Rightarrow> errors_is e ErrExecutionFailed \<longrightarrow> failed_run K (pe_Session q) (pe_IntentID q) result w'"
proof (cases failure)
  case None
  then have "completed K (pe_Session q) (pe_IntentID q) result w'"
    using assms by (auto simp: RunPublisher_def split: option.splits prod.splits sum.splits dest: wait_finished_deadline)
  then show ?thesis
    using None by (auto simp: completed_def dest: publisherJobResult_valid)
next
  case (Some e)
  then show ?thesis
    using assms
    by (auto simp: RunPublisher_def split: option.splits prod.splits sum.splits
        dest: wait_failed_deadline validatePublisher_text early_failure_text ensurePublisherJob_text)
qed

text \<open>
  A cluster that completes a Job as it is created, with the given Pods; its world is the Job, if it
  exists.
\<close>

definition publishedPod :: Pod where
  "publishedPod = \<lparr>pod_Name = ''p'', pod_Created = 0, pod_Statuses = [(''publisher'',
     Some (''branch=b'' @ [CHR 0x0A] @ ''commit=0123456789012345678901234567890123456789''))]\<rparr>"

definition completeJob :: "string \<Rightarrow> Job" where
  "completeJob intent =
     \<lparr>job_Name = ''s-publish'', job_Annotations = [(publishIntentAnnotationKey, intent)], job_Succeeded = 1,
      job_Failed = 0, job_Active = 0,
      job_Conditions = [\<lparr>jc_Type = ''Complete'', jc_True = True, jc_Message = [], jc_Reason = []\<rparr>]\<rparr>"

definition quickCluster :: "Pod list \<Rightarrow> Job option PublisherAPI" where
  "quickCluster pods =
     \<lparr>pa_namespace = ''default'',
      pa_GetJob = (\<lambda>n w. (case w of None \<Rightarrow> KubeNotFound ''not found'' | Some job \<Rightarrow> KubeOk job, w)),
      pa_CreateJob = (\<lambda>f w. (KubeOk (completeJob ''i''), Some (completeJob ''i''))),
      pa_DeleteJob = (\<lambda>n w. (KubeOk (), None)),
      pa_GetSecret = (\<lambda>n w. (KubeNotFound ''not found'', w)),
      pa_CreateSecret = (\<lambda>s w. (KubeOk (), w)), pa_UpdateSecret = (\<lambda>s w. (KubeOk (), w)),
      pa_DeleteSecret = (\<lambda>n w. (KubeOk (), w)), pa_ListPods = (\<lambda>l w. (KubeOk pods, w)),
      pa_GetLogs = (\<lambda>n c w. (KubeOk [], w)), pa_tick = (\<lambda>w. (True, w))\<rparr>"

definition pushRequest :: PublisherRequest where
  "pushRequest =
     \<lparr>pe_Session = ''s'', pe_IntentID = ''i'', pe_Image = ''image'', pe_Repository = ''https://github.com/o/r'',
      pe_RepositoryCredential = ''t'', pe_BaseRef = ''main'', pe_Branch = ''b'', pe_CommitMessage = ''m'',
      pe_AuthorName = ''n'', pe_AuthorEmail = ''e'', pe_Change = None, pe_Timeout = 1000000000\<rparr>"

lemma pushRequest_valid: "validatePublisher pushRequest = None"
  by code_simp

lemma published: "parsePublisherJobResult (''branch=b'' @ [CHR 0x0A] @ ''commit=0123456789012345678901234567890123456789'')
    = \<lparr>po_Branch = ''b'', po_CommitSHA = ''0123456789012345678901234567890123456789''\<rparr>
    \<and> hex_of_length 40 ''0123456789012345678901234567890123456789''"
  by code_simp

lemma quick_run:
  "RunPublisher (quickCluster [publishedPod]) pushRequest None =
     Some ((\<lparr>po_Branch = ''b'', po_CommitSHA = ''0123456789012345678901234567890123456789''\<rparr>, None),
       Some (completeJob ''i''))"
  unfolding RunPublisher_def pushRequest_valid
  using published
  by (simp add: checkExistingJob_def ensurePublisherCredential_def
      ensurePublisherJob.simps quickCluster_def pushRequest_def op_run request_def waitForPublisherJob_def
      waitForJob.simps pollPublisherJob_def completeJob_def publishIntent_def label_value_def jobConditionTrue_def
      publisherJobResult_def publisherJobPod_def publishedPod_def Let_def)

theorem publisher_verdict_witness:
  "completed (quickCluster [publishedPod]) ''s'' ''i''
     \<lparr>po_Branch = ''b'', po_CommitSHA = ''0123456789012345678901234567890123456789''\<rparr> (Some (completeJob ''i''))"
  using publisher_verdict [OF quick_run] by (simp add: pushRequest_def)

section \<open>What a publisher Job can reach\<close>

text \<open>A volume backed by a claim, and a volume or a mount that cannot be written.\<close>

definition claim_backed :: "json \<Rightarrow> bool" where
  "claim_backed v \<longleftrightarrow> name_at [''persistentVolumeClaim'', ''claimName''] v \<noteq> []"

definition claim_readonly :: "json \<Rightarrow> bool" where
  "claim_readonly v \<longleftrightarrow> jfield ''readOnly'' (jfield ''persistentVolumeClaim'' v) = JBool True"

text \<open>The mounts of the volume \<open>v\<close> in the containers of a pod.\<close>

definition mounts_of_volume :: "json \<Rightarrow> json \<Rightarrow> json list" where
  "mounts_of_volume pod v =
     filter (\<lambda>m. name_at [''name''] m = name_at [''name''] v)
       (concat (map (\<lambda>c. jelements (jfield ''volumeMounts'' c)) (containers_of pod)))"

definition mount_readonly :: "json \<Rightarrow> bool" where
  "mount_readonly m \<longleftrightarrow> jfield ''readOnly'' m = JBool True"

lemma publisher_pod:
  "volumes_of (pod_of (JObject (publisherJob ns q))) = publisherVolumes q"
  "containers_of (pod_of (JObject (publisherJob ns q))) = [JObject (publisherContainer q)]"
  "jelements (jfield ''volumeMounts'' (JObject (publisherContainer q))) = publisherMounts q"
  by (simp_all add: reading_defs publisherJob_def publisherContainer_def)

lemma publisher_claims:
  "filter claim_backed (publisherVolumes q) =
     map (\<lambda>n. JObject [(''name'', JString n), (''persistentVolumeClaim'', JObject
        [(''claimName'', JString (sessionClaimName (pe_Session q))), (''readOnly'', JBool True)])])
       (if pe_Change q = None then [''workspace'', ''artifacts''] else [''artifacts''])"
  by (simp add: publisherVolumes_def claim_backed_def reading_defs emptyDir_def sessionClaimName_def)

lemma publisher_mounts:
  "mounts_of_volume (pod_of (JObject (publisherJob ns q))) =
     (\<lambda>v. filter (\<lambda>m. name_at [''name''] m = name_at [''name''] v) (publisherMounts q))"
  by (rule ext) (simp add: mounts_of_volume_def publisher_pod)

text \<open>
  C36. The pod that pushes the work, which holds the credential of the repository, cannot change the session:
  its only volumes backed by a claim are views of the claim of the session, they and each of their
  mounts are read-only, the workspace is mounted only when there is no change to apply, and the pod
  refers to no Secret but its own and gets no token of the cluster.
\<close>

theorem publisher_storage_readonly:
  "let pod = pod_of (JObject (publisherJob ns q)); claims = filter claim_backed (volumes_of pod);
       mounts = concat (map (mounts_of_volume pod) claims)
   in map (name_at [''persistentVolumeClaim'', ''claimName'']) claims =
        replicate (length claims) (sessionClaimName (pe_Session q))
      \<and> list_all claim_readonly claims \<and> list_all mount_readonly mounts
      \<and> map (name_at [''name'']) mounts =
          (if pe_Change q = None then [''workspace'', ''artifacts''] else [''artifacts''])
      \<and> secret_refs pod = [publisherCredentialName (pe_Session q)] \<and> config_refs pod = []
      \<and> jfield ''automountServiceAccountToken'' pod = JBool False"
proof -
  have refs: "secret_refs (pod_of (JObject (publisherJob ns q))) = [publisherCredentialName (pe_Session q)]"
    "config_refs (pod_of (JObject (publisherJob ns q))) = []"
    by (simp_all add: secret_refs_def config_refs_def publisher_pod)
      (simp_all add: publisherVolumes_def publisherContainer_def publisherEnvironment_def variable_def reading_defs
        emptyDir_def publisherCredentialName_def split: option.splits)
  have token: "jfield ''automountServiceAccountToken'' (pod_of (JObject (publisherJob ns q))) = JBool False"
    by (simp add: reading_defs publisherJob_def)
  show ?thesis
    unfolding Let_def refs token publisher_mounts publisher_pod publisher_claims
    by (simp add: publisherMounts_def claim_readonly_def mount_readonly_def
        mount_def reading_defs)
qed

section \<open>When a run returns\<close>

lemma ensurePublisherJob_returns:
  assumes "\<And>w t u t' v. pa_GetJob K (publisherJobName (pe_Session q)) w = (KubeNotFound t, u) \<Longrightarrow>
      pa_CreateJob K (publisherJob (pa_namespace K) q) u = (KubeExists t', v) \<Longrightarrow> races v < (races w :: nat)"
  shows "ensurePublisherJob K q w \<noteq> None"
proof (induction w rule: measure_induct_rule [of races])
  case (less w)
  show ?case
  proof (cases "ensurePublisherJob K q w")
    case None
    then obtain t u t' v where "pa_GetJob K (publisherJobName (pe_Session q)) w = (KubeNotFound t, u)"
      "pa_CreateJob K (publisherJob (pa_namespace K) q) u = (KubeExists t', v)" "ensurePublisherJob K q v = None"
      by (subst (asm) ensurePublisherJob.simps) (auto split: kube.splits prod.splits if_splits)
    with less assms show ?thesis by blast
  qed simp
qed

lemma RunPublisher_None: "RunPublisher K q w = None \<Longrightarrow> \<exists>v. ensurePublisherJob K q v = None"
  by (auto simp: RunPublisher_def split: option.splits prod.splits sum.splits)

text \<open>
  A run of the publisher returns, although \<open>ensurePublisherJob\<close> and \<open>createPublisherJob\<close> call each other
  without a bound: it does whenever a Job that appears between looking and creating and disappears
  again before the next look does so only finitely often (\<open>races\<close> counts how often it still may).
\<close>

lemma publisher_run_returns:
  assumes "\<And>w t u t' v. pa_GetJob K (publisherJobName (pe_Session q)) w = (KubeNotFound t, u) \<Longrightarrow>
      pa_CreateJob K (publisherJob (pa_namespace K) q) u = (KubeExists t', v) \<Longrightarrow> races v < (races w :: nat)"
  shows "\<exists>result failure w'. RunPublisher K q w = Some ((result, failure), w')"
proof -
  have "ensurePublisherJob K q v \<noteq> None" for v
    using assms by (rule ensurePublisherJob_returns)
  then have "RunPublisher K q w \<noteq> None" using RunPublisher_None [of K q w] by metis
  then show ?thesis by force
qed

lemma publisher_run_returns_instance:
  "\<exists>result failure w'. RunPublisher (quickCluster []) pushRequest None = Some ((result, failure), w')"
  by (rule publisher_run_returns [where races = "\<lambda>_. 0"]) (simp add: quickCluster_def)

section \<open>A lost result\<close>





section \<open>Names\<close>

text \<open>
  C38. Names of publisher objects collide with names of sessions: the first task of a session that is called
  like another session \<open>s\<close> with the suffix \<open>-publish\<close>, which session control accepts, has the Job and the
  Secret of the publisher of \<open>s\<close>.  While its Job exists, \<open>s\<close> cannot be published, and cleaning up after a
  publication of \<open>s\<close> deletes the Job.
\<close>

theorem publisher_names_collide:
  assumes "validateSessionStart d r = None" and "req_Name r = s @ ''-publish''"
  shows "let spec = initialSpec d r img credential namespace; other = name_of (JObject (sessionJob spec)) in
     other = publisherJobName s
     \<and> name_of (JObject (repositoryCredentialSecret spec)) = publisherCredentialName s
     \<and> (\<forall>K q w job w'. pe_Session q = s \<longrightarrow> pe_IntentID q \<noteq> [] \<longrightarrow> validatePublisher q = None
          \<longrightarrow> pa_GetJob K other w = (KubeOk job, w') \<longrightarrow> publishIntent job = []
          \<longrightarrow> RunPublisher K q w = Some ((noResult, Some foreignIntent), w'))
     \<and> (\<forall>K w w'. pa_DeleteJob K other w = (KubeOk (), w')
          \<longrightarrow> deletePublisherJob K s w = waitForDeletion K s deletionWaits w')"
proof -
  have name: "taskName (initialSpec d r img credential namespace) = publisherJobName s"
    using assms(2) by (simp add: taskName_def initialSpec_def publisherJobName_def)
  moreover have "repositoryCredentialSecretName (initialSpec d r img credential namespace) = publisherCredentialName s"
    by (simp add: repositoryCredentialSecretName_def name) (simp add: publisherJobName_def publisherCredentialName_def)
  ultimately show ?thesis
    by (simp add: Let_def RunPublisher_def checkExistingJob_def op_run deletePublisherJob_def)
qed

theorem publisher_names_collide_witness:
  "let other = (completeJob ''i'')\<lparr>job_Name := ''s-publish'', job_Annotations := []\<rparr>;
       spec = initialSpec demoAgent ((demoStart ''p'')\<lparr>req_Name := ''s-publish''\<rparr>) ''image'' [] ''default''
   in name_of (JObject (sessionJob spec)) = publisherJobName ''s''
     \<and> RunPublisher (quickCluster []) pushRequest (Some other) = Some ((noResult, Some foreignIntent), Some other)
     \<and> deletePublisherJob (quickCluster []) ''s'' (Some other) = (Inr (), None)"
proof -
  let ?r = "(demoStart ''p'')\<lparr>req_Name := ''s-publish''\<rparr>"
    and ?other = "(completeJob ''i'')\<lparr>job_Name := ''s-publish'', job_Annotations := []\<rparr>"
  let ?spec = "initialSpec demoAgent ?r ''image'' [] ''default''"
  have "dns_label ''s-publish''" by code_simp
  then have "validateSessionStart demoAgent ?r = None"
    by (simp add: validateSessionStart_def validateDNSLabel_def validateWorkflowOwner_def validateChangeInput_def
        check_def validateDefinition_def validateResultKind_def agentConfigSize_def maxAgentConfigBytes_def
        validateStorage_def demo_defs)
  moreover have "req_Name ?r = ''s'' @ ''-publish''" by simp
  ultimately have collide: "name_of (JObject (sessionJob ?spec)) = publisherJobName ''s''
      \<and> name_of (JObject (repositoryCredentialSecret ?spec)) = publisherCredentialName ''s''
      \<and> (\<forall>(K :: Job option PublisherAPI) q w job w'. pe_Session q = ''s'' \<longrightarrow> pe_IntentID q \<noteq> [] \<longrightarrow> validatePublisher q = None
          \<longrightarrow> pa_GetJob K (name_of (JObject (sessionJob ?spec))) w = (KubeOk job, w') \<longrightarrow> publishIntent job = []
          \<longrightarrow> RunPublisher K q w = Some ((noResult, Some foreignIntent), w'))
      \<and> (\<forall>(K :: Job option PublisherAPI) w w'. pa_DeleteJob K (name_of (JObject (sessionJob ?spec))) w = (KubeOk (), w')
          \<longrightarrow> deletePublisherJob K ''s'' w = waitForDeletion K ''s'' deletionWaits w')"
    unfolding Let_def by (rule publisher_names_collide [unfolded Let_def])
  have "RunPublisher (quickCluster []) pushRequest (Some ?other) = Some ((noResult, Some foreignIntent), Some ?other)"
    by (rule collide [THEN conjunct2, THEN conjunct2, THEN conjunct1, rule_format, where job = ?other])
      (simp_all add: pushRequest_valid, simp_all add: pushRequest_def quickCluster_def publishIntent_def
        label_value_def)
  moreover have "deletePublisherJob (quickCluster []) ''s'' (Some ?other) = (Inr (), None)"
    by (subst collide [THEN conjunct2, THEN conjunct2, THEN conjunct2, rule_format, where w' = None])
      (simp_all add: quickCluster_def deletionWaits_def waitForDeletion.simps pollDeletion_def op_run)
  ultimately show ?thesis using collide by (simp add: Let_def)
qed

end
