(* ===== verification/Catalog_Files.thy ===== *)
theory Catalog_Files
  imports Effects
begin

text \<open>
  The files of an agent catalog (\<open>internal/catalog/agents.go\<close>): the part of Go's \<open>path\<close> and \<open>io/fs\<close>
  packages that the sources use, the readers that confine a catalog to its directory, and the bounds
  on the size of a file.  The file system is a parameter whose answers may change between two calls.
\<close>

section \<open>Paths\<close>

definition slash :: char where "slash = CHR 0x2F"

definition is_absolute :: "string \<Rightarrow> bool" where
  "is_absolute p = is_prefix_of [slash] p"

text \<open>
  \<open>path.Clean\<close>, which is \<open>filepath.Clean\<close> where the separator is a slash: one element of a path
  applied to the elements that are kept, the last one first.
\<close>

definition clean_step :: "bool \<Rightarrow> string \<Rightarrow> string list \<Rightarrow> string list" where
  "clean_step rooted part kept =
     (if part = [] \<or> part = ''.'' then kept
      else if part = ''..'' then
        (case kept of
           [] \<Rightarrow> if rooted then [] else [''..'']
         | p # ps \<Rightarrow> if p = ''..'' then ''..'' # kept else ps)
      else part # kept)"

definition clean_parts :: "bool \<Rightarrow> string \<Rightarrow> string list" where
  "clean_parts rooted p = rev (fold (clean_step rooted) (split_on slash p) [])"

definition clean_path :: "string \<Rightarrow> string" where
  "clean_path p =
     (let out = (if is_absolute p then [slash] else []) @ join_on slash (clean_parts (is_absolute p) p)
      in if out = [] then ''.'' else out)"

text \<open>\<open>path.Join\<close> of two elements, \<open>path.Dir\<close> and \<open>path.Base\<close>.\<close>

definition join_path :: "string \<Rightarrow> string \<Rightarrow> string" where
  "join_path a b =
     (if a = [] \<and> b = [] then []
      else if a = [] then clean_path b
      else clean_path (a @ [slash] @ b))"

definition dir_path :: "string \<Rightarrow> string" where
  "dir_path p = clean_path (rev (dropWhile (\<lambda>c. c \<noteq> slash) (rev p)))"

definition base_path :: "string \<Rightarrow> string" where
  "base_path p =
     (if p = [] then ''.''
      else let stripped = rev (dropWhile (\<lambda>c. c = slash) (rev p))
           in if stripped = [] then [slash] else last (split_on slash stripped))"

text \<open>\<open>utf8.ValidString\<close> and \<open>fs.ValidPath\<close>\<close>

definition byte_in :: "nat \<Rightarrow> nat \<Rightarrow> char \<Rightarrow> bool" where
  "byte_in lo hi c \<longleftrightarrow> lo \<le> of_char c \<and> of_char c \<le> hi"

fun valid_utf8 :: "string \<Rightarrow> bool" where
  "valid_utf8 [] = True"
| "valid_utf8 [c] = byte_in 0 127 c"
| "valid_utf8 [c, d] =
     (if byte_in 0 127 c then valid_utf8 [d] else byte_in 194 223 c \<and> byte_in 128 191 d)"
| "valid_utf8 [c, d, e] =
     (if byte_in 0 127 c then valid_utf8 [d, e]
      else if byte_in 194 223 c then byte_in 128 191 d \<and> valid_utf8 [e]
      else byte_in 224 239 c \<and> byte_in (if byte_in 224 224 c then 160 else 128) (if byte_in 237 237 c then 159 else 191) d
        \<and> byte_in 128 191 e)"
| "valid_utf8 (c # d # e # f # s) =
     (if byte_in 0 127 c then valid_utf8 (d # e # f # s)
      else if byte_in 194 223 c then byte_in 128 191 d \<and> valid_utf8 (e # f # s)
      else if byte_in 224 239 c then
        byte_in (if byte_in 224 224 c then 160 else 128) (if byte_in 237 237 c then 159 else 191) d
        \<and> byte_in 128 191 e \<and> valid_utf8 (f # s)
      else byte_in 240 244 c
        \<and> byte_in (if byte_in 240 240 c then 144 else 128) (if byte_in 244 244 c then 143 else 191) d
        \<and> byte_in 128 191 e \<and> byte_in 128 191 f \<and> valid_utf8 s)"

definition plain_part :: "string \<Rightarrow> bool" where
  "plain_part part \<longleftrightarrow> part \<noteq> [] \<and> part \<noteq> ''.'' \<and> part \<noteq> ''..''"

definition valid_path :: "string \<Rightarrow> bool" where
  "valid_path name \<longleftrightarrow> valid_utf8 name \<and> (name = ''.'' \<or> list_all plain_part (split_on slash name))"

section \<open>Files\<close>

record FileInfo =
  fi_Size :: int
  fi_Regular :: bool

text \<open>The operating system (\<open>os\<close> and \<open>filepath\<close>), and an \<open>fs.FS\<close>, which may be absent.\<close>

record 'f FileSystem =
  os_Stat :: "string \<Rightarrow> ('f, FileInfo) op"
  os_ReadFile :: "string \<Rightarrow> ('f, string) op"
  fp_EvalSymlinks :: "string \<Rightarrow> ('f, string) op"
  fp_Abs :: "string \<Rightarrow> ('f, string) op"

record 'f FSFiles =
  fs_Stat :: "string \<Rightarrow> ('f, FileInfo) op"
  fs_ReadFile :: "string \<Rightarrow> ('f, string) op"

definition maxAgentFileBytes :: int where
  "maxAgentFileBytes = 900 * 1024"

definition exceeds :: "int \<Rightarrow> err" where
  "exceeds maximum = Text (''file exceeds '' @ itoa maximum @ '' bytes'')"

definition readBoundedFile :: "'f FileSystem \<Rightarrow> string \<Rightarrow> int \<Rightarrow> ('f, string) op" where
  "readBoundedFile F path maximum =
     andThen (os_Stat F path) (\<lambda>info.
       if fi_Size info > maximum then throw (exceeds maximum) else os_ReadFile F path)"

definition readBoundedFSFile :: "'f FSFiles option \<Rightarrow> string \<Rightarrow> int \<Rightarrow> ('f, string) op" where
  "readBoundedFSFile files name maximum =
     (case files of
        None \<Rightarrow> throw (Text (''invalid file path '' @ quoted name))
      | Some F \<Rightarrow>
          if \<not> valid_path name then throw (Text (''invalid file path '' @ quoted name))
          else andThen (fs_Stat F name) (\<lambda>info.
            if \<not> fi_Regular info then throw (Text (''file '' @ quoted name @ '' must be a regular file''))
            else if fi_Size info > maximum then throw (exceeds maximum)
            else andThen (fs_ReadFile F name) (\<lambda>contents.
              if int (length contents) > maximum then throw (exceeds maximum) else ret contents)))"

section \<open>Readers\<close>

text \<open>\<open>catalogReader\<close>: the path and the kind of a file to its contents and its cleaned path.\<close>

type_synonym 'f reader = "string \<Rightarrow> string \<Rightarrow> ('f, string \<times> string) op"

definition path_error :: "string \<Rightarrow> string \<Rightarrow> string \<Rightarrow> err" where
  "path_error kind relativePath m = Text (kind @ '' path '' @ quoted relativePath @ m)"

text \<open>The checks that both readers share: the cleaned path.\<close>

definition relativeFile :: "string \<Rightarrow> string \<Rightarrow> err + string" where
  "relativeFile relativePath kind =
     (if relativePath = [] \<or> is_absolute relativePath
      then Inl (path_error kind relativePath '' must be relative'')
      else
        let cleanPath = clean_path relativePath in
        if cleanPath = ''..'' \<or> is_prefix_of ''../'' cleanPath
        then Inl (path_error kind relativePath '' must stay within the agents file directory'')
        else Inr cleanPath)"

definition failing :: "('f, 'a) op \<Rightarrow> string \<Rightarrow> ('a \<Rightarrow> ('f, 'b) op) \<Rightarrow> ('f, 'b) op" where
  "failing m what k = handle m (\<lambda>e. throw (errorf what e)) k"

lemma failing_success:
  assumes "failing m what k w = (Inr b, w2)"
  obtains a w1 where "m w = (Inr a, w1)" and "k a w1 = (Inr b, w2)"
  using assms by (auto simp: failing_def handle_def throw_def split: prod.splits sum.splits)

definition catalogFilePath :: "'f FileSystem \<Rightarrow> string \<Rightarrow> string \<Rightarrow> string \<Rightarrow> ('f, string \<times> string) op" where
  "catalogFilePath F directory relativePath kind =
     (case relativeFile relativePath kind of
        Inl e \<Rightarrow> throw e
      | Inr cleanPath \<Rightarrow>
          let path = join_path directory cleanPath;
              resolve = ''resolve '' @ kind @ '' path '' @ quoted relativePath
          in failing (fp_EvalSymlinks F path) resolve (\<lambda>resolved.
             failing (fp_Abs F resolved) resolve (\<lambda>absoluteResolved.
               if absoluteResolved \<noteq> path
               then throw (path_error kind relativePath '' must not contain symlinks'')
               else failing (os_Stat F path) (''stat '' @ kind @ '' path '' @ quoted relativePath) (\<lambda>info.
                 if \<not> fi_Regular info
                 then throw (path_error kind relativePath '' must be a regular file'')
                 else ret (path, cleanPath)))))"

definition readCatalogFile :: "'f FileSystem \<Rightarrow> string \<Rightarrow> 'f reader" where
  "readCatalogFile F directory relativePath kind =
     andThen (catalogFilePath F directory relativePath kind) (\<lambda>(filePath, cleanPath).
       failing (readBoundedFile F filePath maxAgentFileBytes)
         (''read '' @ kind @ '' '' @ quoted relativePath) (\<lambda>contents. ret (contents, cleanPath)))"

definition readCatalogFSFile :: "'f FSFiles option \<Rightarrow> string \<Rightarrow> 'f reader" where
  "readCatalogFSFile files directory relativePath kind =
     (case relativeFile relativePath kind of
        Inl e \<Rightarrow> throw e
      | Inr cleanPath \<Rightarrow>
          failing (readBoundedFSFile files (join_path directory cleanPath) maxAgentFileBytes)
            (''read '' @ kind @ '' '' @ quoted relativePath) (\<lambda>contents. ret (contents, cleanPath)))"

end
