(* ===== verification/Agent_Catalog.thy ===== *)
theory Agent_Catalog
  imports Workflow_Catalog Catalog_Files
begin

text \<open>
  The agent catalog (\<open>internal/catalog/agents.go\<close> and \<open>engineering.go\<close>): from a file and the skills
  that it names to the definitions of agents, and the catalogs that the server starts with.  The
  decoders of YAML, the label check and the quantities of Kubernetes and \<open>time.ParseDuration\<close> are the
  parameters \<open>CatalogLibrary\<close>.  A map of the file is an association list in the order in which the code
  happens to range over it.
\<close>

record AgentFile =
  af_Description :: string
  af_Storage :: string
  af_Instructions :: string
  af_Skills :: "string list"
  af_SetupCommand :: string
  af_CloneDepth :: "int option"
  af_StorageSize :: string
  af_Timeout :: string

record AgentCatalogFile =
  acf_Version :: string
  acf_Guidance :: string
  acf_Agents :: "(string \<times> AgentFile) list"

record SkillMetadata =
  sm_Name :: string
  sm_Description :: string

record AgentDefaults =
  dfl_StorageSize :: string
  dfl_TaskTimeout :: int

record CatalogLibrary =
  cl_decodeAgents :: "string \<Rightarrow> err + AgentCatalogFile"
  cl_decodeSkill :: "string \<Rightarrow> err + SkillMetadata"
  cl_decodeWorkflows :: "string \<Rightarrow> err + WorkflowCatalogFile"
  cl_isDNS1123Label :: "string \<Rightarrow> string list"
  cl_ParseQuantity :: "string \<Rightarrow> err option"
  cl_ParseDuration :: "string \<Rightarrow> err + int"

type_synonym agents = "(string \<times> AgentDefinition) list"

section \<open>Skills and guidance\<close>

text \<open>\<open>strings.TrimSuffix(line, "\r")\<close>\<close>

definition trim_return :: "string \<Rightarrow> string" where
  "trim_return line = (if line \<noteq> [] \<and> last line = CHR 0x0D then butlast line else line)"

definition delimiter :: "string \<Rightarrow> bool" where
  "delimiter line \<longleftrightarrow> trim_return line = ''---''"

definition parseSkillMetadata :: "CatalogLibrary \<Rightarrow> string \<Rightarrow> err + SkillMetadata" where
  "parseSkillMetadata L contents =
     (let lines = split_on CHR 0x0A contents;
          body = takeWhile (\<lambda>line. \<not> delimiter line) (tl lines)
      in if length lines < 3 \<or> \<not> delimiter (hd lines)
         then Inl (Text ''SKILL.md must start with YAML frontmatter'')
         else if length body = length (tl lines) then Inl (Text ''SKILL.md frontmatter is not closed'')
         else case cl_decodeSkill L (join_on CHR 0x0A body) of
           Inl e \<Rightarrow> Inl e
         | Inr metadata \<Rightarrow>
             if cl_isDNS1123Label L (sm_Name metadata) \<noteq> []
             then Inl (Text (''skill name must be a lowercase DNS label: ''
                    @ join_with '', '' (cl_isDNS1123Label L (sm_Name metadata))))
             else if blank (sm_Description metadata) then Inl (Text ''skill description is required'')
             else Inr metadata)"

definition loadSkill :: "CatalogLibrary \<Rightarrow> 'f reader \<Rightarrow> string \<Rightarrow> ('f, Skill) op" where
  "loadSkill L reader relativePath =
     andThen (reader relativePath ''skill'') (\<lambda>(contents, cleanPath).
       if base_path cleanPath \<noteq> ''SKILL.md''
       then throw (Text (''skill path '' @ quoted relativePath @ '' must identify SKILL.md''))
       else case parseSkillMetadata L contents of
         Inl e \<Rightarrow> throw (errorf (''parse skill '' @ quoted relativePath) e)
       | Inr metadata \<Rightarrow> ret \<lparr>sk_Name = sm_Name metadata, sk_Contents = contents\<rparr>)"

text \<open>The names seen so far are those of the skills loaded so far.\<close>

definition addSkill :: "CatalogLibrary \<Rightarrow> 'f reader \<Rightarrow> string \<Rightarrow> Skill list \<Rightarrow> ('f, Skill list) op" where
  "addSkill L reader path skills =
     andThen (loadSkill L reader path) (\<lambda>skill.
       if sk_Name skill \<in> set (map sk_Name skills)
       then throw (Text (''skill name '' @ quoted (sk_Name skill) @ '' is duplicated''))
       else ret (skills @ [skill]))"

definition loadSkills :: "CatalogLibrary \<Rightarrow> 'f reader \<Rightarrow> string list \<Rightarrow> ('f, Skill list) op" where
  "loadSkills L reader paths = for_each (addSkill L reader) paths []"

definition loadGuidance :: "'f reader \<Rightarrow> string \<Rightarrow> ('f, string) op" where
  "loadGuidance reader relativePath =
     (if relativePath = [] then ret []
      else andThen (reader relativePath ''guidance'') (\<lambda>(contents, cleanPath).
        if base_path cleanPath \<noteq> ''AGENTS.md''
        then throw (Text (''guidance path '' @ quoted relativePath @ '' must identify AGENTS.md''))
        else if blank contents then throw (Text (''guidance '' @ quoted relativePath @ '' is empty''))
        else ret contents))"

section \<open>Definitions\<close>

text \<open>The values of an agent that are checked before its skills are read.\<close>

record AgentFields =
  afl_CloneDepth :: int
  afl_StorageSize :: string
  afl_Timeout :: int

definition agentFields :: "CatalogLibrary \<Rightarrow> string \<Rightarrow> AgentFile \<Rightarrow> AgentDefaults \<Rightarrow> err + AgentFields" where
  "agentFields L name raw defaults =
     (if cl_isDNS1123Label L name \<noteq> [] then Inl (labelError (cl_isDNS1123Label L name))
      else if blank (af_Description raw) then Inl (Text ''description is required'')
      else if blank (af_Instructions raw) then Inl (Text ''instructions are required'')
      else if af_Storage raw \<noteq> ''ephemeral'' \<and> af_Storage raw \<noteq> ''persistent''
      then Inl (Text (''unsupported storage '' @ quoted (af_Storage raw)))
      else if af_Storage raw = ''ephemeral'' \<and> af_StorageSize raw \<noteq> []
      then Inl (Text ''storage_size is only valid for persistent agents'')
      else
        let cloneDepth = (case af_CloneDepth raw of None \<Rightarrow> 1 | Some d \<Rightarrow> d);
            storageSize = (if af_StorageSize raw = [] then dfl_StorageSize defaults else af_StorageSize raw)
        in if cloneDepth < 0 then Inl (Text ''clone_depth cannot be negative'')
           else case cl_ParseQuantity L storageSize of
             Some e \<Rightarrow> Inl (errorf ''parse storage_size'' e)
           | None \<Rightarrow>
               (case (if af_Timeout raw = [] then Inr (dfl_TaskTimeout defaults)
                      else cl_ParseDuration L (af_Timeout raw)) of
                  Inl e \<Rightarrow> Inl (errorf ''parse timeout'' e)
                | Inr timeout \<Rightarrow>
                    if timeout \<le> 0 then Inl (Text ''timeout must be greater than zero'')
                    else Inr \<lparr>afl_CloneDepth = cloneDepth, afl_StorageSize = storageSize, afl_Timeout = timeout\<rparr>))"

definition agentInstructions :: "string \<Rightarrow> string \<Rightarrow> string" where
  "agentInstructions guidance instructions =
     (if guidance = [] then instructions
      else TrimSpace guidance @ [CHR 0x0A, CHR 0x0A] @ TrimSpace instructions)"

definition loadAgentDefinition ::
  "CatalogLibrary \<Rightarrow> 'f reader \<Rightarrow> string \<Rightarrow> AgentFile \<Rightarrow> string \<Rightarrow> AgentDefaults \<Rightarrow> ('f, AgentDefinition) op" where
  "loadAgentDefinition L reader name raw guidance defaults =
     (case agentFields L name raw defaults of
        Inl e \<Rightarrow> throw e
      | Inr fs \<Rightarrow>
          andThen (loadSkills L reader (af_Skills raw)) (\<lambda>skills.
            let instructions = agentInstructions guidance (af_Instructions raw);
                size = int (length instructions)
                  + sum_list (map (\<lambda>skill. int (length (sk_Name skill)) + int (length (sk_Contents skill))) skills)
            in if size > maxAgentFileBytes
               then throw (Text (''instructions and skills exceed '' @ itoa maxAgentFileBytes @ '' bytes''))
               else ret
                 \<lparr>ad_Name = name, ad_Description = af_Description raw,
                  ad_Storage = (if af_Storage raw = ''ephemeral'' then StorageEphemeral else StoragePersistent),
                  ad_Instructions = instructions, ad_Skills = skills, ad_SetupCommand = af_SetupCommand raw,
                  ad_CloneDepth = afl_CloneDepth fs, ad_StorageSize = afl_StorageSize fs,
                  ad_Timeout = afl_Timeout fs\<rparr>))"

definition addAgent ::
  "CatalogLibrary \<Rightarrow> 'f reader \<Rightarrow> string \<Rightarrow> AgentDefaults \<Rightarrow> string \<times> AgentFile \<Rightarrow> agents \<Rightarrow> ('f, agents) op" where
  "addAgent L reader guidance defaults = (\<lambda>(name, raw) definitions.
     failing (loadAgentDefinition L reader name raw guidance defaults) (''agent '' @ name)
       (\<lambda>d. ret (AList.update name d definitions)))"

definition loadAgentCatalog ::
  "CatalogLibrary \<Rightarrow> AgentCatalogFile \<Rightarrow> 'f reader \<Rightarrow> AgentDefaults \<Rightarrow> ('f, agents) op" where
  "loadAgentCatalog L source reader defaults =
     andThen (loadGuidance reader (acf_Guidance source)) (\<lambda>guidance.
       for_each (addAgent L reader guidance defaults) (acf_Agents source) [])"

definition decodeAgentCatalog :: "CatalogLibrary \<Rightarrow> string \<Rightarrow> err + AgentCatalogFile" where
  "decodeAgentCatalog L contents =
     (case cl_decodeAgents L contents of
        Inl e \<Rightarrow> Inl (errorf ''decode agents file'' e)
      | Inr source \<Rightarrow>
          if acf_Version source \<noteq> ''v1''
          then Inl (Text (''unsupported agents file version '' @ quoted (acf_Version source)))
          else if acf_Agents source = [] then Inl (Text ''agents file must define at least one agent'')
          else Inr source)"

definition validateDefaults :: "CatalogLibrary \<Rightarrow> AgentDefaults \<Rightarrow> err option" where
  "validateDefaults L defaults =
     (case cl_ParseQuantity L (dfl_StorageSize defaults) of
        Some e \<Rightarrow> Some (errorf ''parse default storage size'' e)
      | None \<Rightarrow> check (dfl_TaskTimeout defaults \<le> 0) ''default task timeout must be greater than zero'')"

section \<open>Loading\<close>

text \<open>A decoded file, or its error, as an operation.\<close>

definition lifted :: "err + 'a \<Rightarrow> ('f, 'a) op" where
  "lifted r = (case r of Inl e \<Rightarrow> throw e | Inr a \<Rightarrow> ret a)"

definition LoadAgents :: "CatalogLibrary \<Rightarrow> 'f FileSystem \<Rightarrow> string \<Rightarrow> AgentDefaults \<Rightarrow> ('f, agents) op" where
  "LoadAgents L F path defaults =
     require (validateDefaults L defaults) id
       (failing (readBoundedFile F path maxAgentFileBytes) ''read agents file'' (\<lambda>contents.
        andThen (lifted (decodeAgentCatalog L contents)) (\<lambda>source.
        failing (fp_Abs F (dir_path path)) ''resolve agents file directory'' (\<lambda>absolute.
        failing (fp_EvalSymlinks F absolute) ''resolve agents file directory'' (\<lambda>directory.
          loadAgentCatalog L source (readCatalogFile F directory) defaults)))))"

definition loadAgentsFS :: "CatalogLibrary \<Rightarrow> 'f FSFiles option \<Rightarrow> string \<Rightarrow> AgentDefaults \<Rightarrow> ('f, agents) op" where
  "loadAgentsFS L files name defaults =
     require (validateDefaults L defaults) id
       (failing (readBoundedFSFile files name maxAgentFileBytes) ''read agents file'' (\<lambda>contents.
        andThen (lifted (decodeAgentCatalog L contents)) (\<lambda>source.
          loadAgentCatalog L source (readCatalogFSFile files (dir_path name)) defaults)))"

definition agents_List :: "agents option \<Rightarrow> AgentSummary list" where
  "agents_List c =
     (case c of
        None \<Rightarrow> []
      | Some ds \<Rightarrow> sort_key as_Name (map (\<lambda>(_, d).
          \<lparr>as_Name = ad_Name d, as_Description = ad_Description d, as_Storage = ad_Storage d,
           as_Skills = sort (map sk_Name (ad_Skills d))\<rparr>) ds))"

definition agents_Find :: "agents option \<Rightarrow> string \<Rightarrow> AgentDefinition option" where
  "agents_Find c name = (case c of None \<Rightarrow> None | Some ds \<Rightarrow> map_of ds name)"

definition agentCatalogOf :: "agents option \<Rightarrow> AgentCatalog" where
  "agentCatalogOf c = \<lparr>ac_List = agents_List c, ac_Find = agents_Find c\<rparr>"

section \<open>The catalogs of the server\<close>

definition loadWorkflowsFS ::
  "CatalogLibrary \<Rightarrow> 'f FSFiles option \<Rightarrow> string \<Rightarrow> AgentCatalog option
   \<Rightarrow> ('f, (string \<times> WorkflowDefinition) list) op" where
  "loadWorkflowsFS L files name agents =
     (let tooLong = Text (''workflows file exceeds '' @ itoa maxWorkflowConfigBytes @ '' bytes'')
      in case files of
        None \<Rightarrow> throw (Text (''read workflows file: invalid file path '' @ quoted name))
      | Some F \<Rightarrow>
          if \<not> valid_path name then throw (Text (''read workflows file: invalid file path '' @ quoted name))
          else failing (fs_Stat F name) ''read workflows file'' (\<lambda>info.
            if \<not> fi_Regular info
            then throw (Text (''read workflows file: file '' @ quoted name @ '' must be a regular file''))
            else if fi_Size info > maxWorkflowConfigBytes then throw tooLong
            else failing (fs_ReadFile F name) ''read workflows file'' (\<lambda>contents.
              if int (length contents) > maxWorkflowConfigBytes then throw tooLong
              else lifted (loadWorkflowCatalog (cl_decodeWorkflows L) (cl_isDNS1123Label L) agents contents))))"

definition LoadEngineeringAgents ::
  "CatalogLibrary \<Rightarrow> 'f FSFiles \<Rightarrow> AgentDefaults \<Rightarrow> ('f, agents) op" where
  "LoadEngineeringAgents L engineeringFiles defaults =
     failing (loadAgentsFS L (Some engineeringFiles) ''engineering/agents.yaml'' defaults)
       ''load built-in agents'' ret"

definition LoadEngineeringWorkflows ::
  "CatalogLibrary \<Rightarrow> 'f FSFiles \<Rightarrow> AgentCatalog option \<Rightarrow> ('f, (string \<times> WorkflowDefinition) list) op" where
  "LoadEngineeringWorkflows L engineeringFiles agents =
     failing (loadWorkflowsFS L (Some engineeringFiles) ''engineering/workflows.yaml'' agents)
       ''load built-in workflows'' ret"

definition loadWorkflowsFile ::
  "CatalogLibrary \<Rightarrow> 'f FileSystem \<Rightarrow> string \<Rightarrow> AgentCatalog option
   \<Rightarrow> ('f, (string \<times> WorkflowDefinition) list) op" where
  "loadWorkflowsFile L F path agents =
     (\<lambda>w. case os_ReadFile F path w of (contents, w') \<Rightarrow>
        (LoadWorkflows (cl_decodeWorkflows L) (cl_isDNS1123Label L) agents contents, w'))"

text \<open>
  \<open>loadServerCatalogs\<close>: the embedded catalogs without files; with an agents file the workflows are those
  of the workflows file, if any.
\<close>

definition loadServerCatalogs ::
  "CatalogLibrary \<Rightarrow> 'f FileSystem \<Rightarrow> 'f FSFiles \<Rightarrow> string \<Rightarrow> string \<Rightarrow> AgentDefaults
   \<Rightarrow> ('f, agents \<times> (string \<times> WorkflowDefinition) list option) op" where
  "loadServerCatalogs L F engineeringFiles agentsFile workflowsFile defaults =
     (if agentsFile = [] then
        if workflowsFile \<noteq> [] then throw (Text ''--agents-file is required with --workflows-file'')
        else
          andThen (LoadEngineeringAgents L engineeringFiles defaults) (\<lambda>agents.
          andThen (LoadEngineeringWorkflows L engineeringFiles (Some (agentCatalogOf (Some agents)))) (\<lambda>workflows.
            ret (agents, Some workflows)))
      else
        failing (LoadAgents L F agentsFile defaults) ''load agents file'' (\<lambda>agents.
          if workflowsFile = [] then ret (agents, None)
          else failing (loadWorkflowsFile L F workflowsFile (Some (agentCatalogOf (Some agents)))) ''load workflows file''
            (\<lambda>workflows. ret (agents, Some workflows))))"

end
