(* ===== verification/Catalog_Facts.thy ===== *)
theory Catalog_Facts
  imports Agent_Catalog
begin

text \<open>
  Lemmas on trimmed text, on cleaned paths and on the loops of the agent catalog, for the properties in
  \<open>Catalog_Theorems\<close>.
\<close>

section \<open>Trimmed text\<close>

lemma is_prefix_of_iff: "is_prefix_of p s \<longleftrightarrow> (\<exists>t. s = p @ t)"
  by (induction p s rule: is_prefix_of.induct) auto

lemma trim_with_split:
  "\<exists>rs. s = concat rs @ trim_with n runes s \<and> set rs \<subseteq> set runes"
proof (induction n arbitrary: s)
  case 0
  show ?case by (rule exI [of _ "[]"]) simp
next
  case (Suc n)
  show ?case
  proof (cases "find (\<lambda>r. is_prefix_of r s) runes")
    case None
    then show ?thesis by (intro exI [of _ "[]"]) simp
  next
    case (Some r)
    then have r: "r \<in> set runes" "is_prefix_of r s" by (auto simp: find_Some_iff)
    then obtain t where s: "s = r @ t" by (auto simp: is_prefix_of_iff)
    obtain rs where "t = concat rs @ trim_with n runes t" "set rs \<subseteq> set runes" using Suc by blast
    with r s Some show ?thesis by (intro exI [of _ "r # rs"]) simp
  qed
qed

lemma trim_with_stops:
  assumes "length s \<le> n" and "[] \<notin> set runes" and "r \<in> set runes"
  shows "\<not> is_prefix_of r (trim_with n runes s)"
  using assms(1)
proof (induction n arbitrary: s)
  case 0
  then show ?case using assms(2,3) by (cases r) auto
next
  case (Suc n)
  show ?case
  proof (cases "find (\<lambda>r. is_prefix_of r s) runes")
    case None
    then have "trim_with (Suc n) runes s = s" by simp
    then show ?thesis using None assms(3) by (metis find_None_iff)
  next
    case (Some q)
    then have "q \<noteq> []" using assms(2) by (metis find_Some_iff nth_mem)
    with Suc.prems have "length (drop (length q) s) \<le> n" by (cases q) auto
    with Suc.IH Some show ?thesis by simp
  qed
qed

lemma space_runes_nonempty: "[] \<notin> set space_runes" "[] \<notin> set (map rev space_runes)"
  by (simp_all add: space_runes_def)

lemma newline_alone: "r \<in> set space_runes \<Longrightarrow> CHR 0x0A \<in> set r \<Longrightarrow> r = [CHR 0x0A]"
  by (auto simp: space_runes_def)

text \<open>Neither end of a trimmed text is a space.\<close>

lemma trimmed_start:
  assumes "r \<in> set space_runes"
  shows "\<not> is_prefix_of r (TrimSpace s)"
proof
  assume "is_prefix_of r (TrimSpace s)"
  moreover obtain rs where "rev (TrimLeft s) = concat rs @ rev (TrimSpace s)"
    using trim_with_split [of "rev (TrimLeft s)" "length (TrimLeft s)" "map rev space_runes"]
    by (auto simp: TrimSpace_def TrimRight_def)
  then have "TrimLeft s = TrimSpace s @ rev (concat rs)" by (metis rev_append rev_rev_ident)
  ultimately have "is_prefix_of r (TrimLeft s)" by (auto simp: is_prefix_of_iff)
  then show False
    using trim_with_stops [OF order_refl space_runes_nonempty(1) assms, of s] by (simp add: TrimLeft_def)
qed

lemma trimmed_end:
  assumes "r \<in> set space_runes"
  shows "\<not> is_prefix_of (rev r) (rev (TrimSpace s))"
  using trim_with_stops [OF order_refl space_runes_nonempty(2), of "rev r" "rev (TrimLeft s)"] assms
  by (simp add: TrimSpace_def TrimRight_def)

text \<open>Text that ends in a line with a trimmed text is not blank.\<close>

definition line_end :: "string \<Rightarrow> bool" where
  "line_end a \<longleftrightarrow> a = [] \<or> last a = CHR 0x0A"

lemma runes_before:
  assumes "concat rs @ z = a @ t" and "set rs \<subseteq> set space_runes" and "line_end a"
    and "\<And>r. r \<in> set space_runes \<Longrightarrow> \<not> is_prefix_of r t"
  shows "\<exists>p. z = p @ t \<and> line_end p"
  using assms(1-3)
proof (induction rs arbitrary: a)
  case Nil
  then show ?case by auto
next
  case (Cons r rs)
  have r: "r \<in> set space_runes" and rest: "r @ concat rs @ z = a @ t" using Cons.prems by auto
  then obtain b where "r @ b = a \<and> concat rs @ z = b @ t \<or> r = a @ b \<and> b @ concat rs @ z = t"
    using append_eq_append_conv2 [THEN iffD1, OF rest] by metis
  then consider "a = r @ b" "concat rs @ z = b @ t" | "r = a @ b" "b \<noteq> []" "t = b @ concat rs @ z"
    by (metis append_Nil append_Nil2)
  then show ?case
  proof cases
    case 1
    moreover have "line_end b" using Cons.prems(3) 1(1) by (auto simp: line_end_def last_append split: if_splits)
    ultimately show ?thesis using Cons by auto
  next
    case 2
    show ?thesis
    proof (cases "a = []")
      case True
      with 2 r assms(4) show ?thesis by (auto simp: is_prefix_of_iff)
    next
      case False
      then have "CHR 0x0A \<in> set a" using Cons.prems(3) by (auto simp: line_end_def) (metis last_in_set)
      with newline_alone [OF r] 2 False show ?thesis by (cases a) auto
    qed
  qed
qed

lemma last_line_kept:
  assumes "\<not> blank s" and "line_end a"
  shows "\<not> blank (a @ TrimSpace s)"
proof -
  let ?t = "TrimSpace s" and ?z = "TrimLeft (a @ TrimSpace s)"
  have t: "?t \<noteq> []" using assms(1) by (simp add: blank_def)
  obtain rs where "concat rs @ ?z = a @ ?t" "set rs \<subseteq> set space_runes"
    using trim_with_split [of "a @ ?t" _ space_runes] by (metis TrimLeft_def)
  with assms(2) trimmed_start obtain p where z: "?z = p @ ?t" "line_end p" using runes_before by blast
  have "\<not> is_prefix_of (rev r) (rev ?z)" if r: "r \<in> set space_runes" for r
  proof
    assume "is_prefix_of (rev r) (rev ?z)"
    then obtain u where "p @ ?t = u @ r" unfolding z(1) is_prefix_of_iff by (metis rev_append rev_rev_ident)
    then obtain v where "p = u @ v \<and> v @ ?t = r \<or> p @ v = u \<and> ?t = v @ r"
      using append_eq_append_conv2 [THEN iffD1, of p ?t u r] by metis
    then consider "?t = v @ r" | "r = v @ ?t" "v \<noteq> []" "p = u @ v" by (metis append_Nil)
    then show False
    proof cases
      case 1
      with trimmed_end [OF r, of s] show False by (simp add: is_prefix_of_iff)
    next
      case 2
      then have "CHR 0x0A \<in> set r" using z(2) by (auto simp: line_end_def) (metis last_in_set)
      with newline_alone [OF r] 2 t show False by (cases v) auto
    qed
  qed
  then have "find (\<lambda>r. is_prefix_of r (rev ?z)) (map rev space_runes) = None" by (auto simp: find_None_iff)
  then have "TrimRight ?z = ?z" by (cases "length ?z") (simp_all add: TrimRight_def)
  then show ?thesis using z t by (simp add: blank_def TrimSpace_def)
qed

section \<open>Cleaned paths\<close>

text \<open>A file name: an element of a path that neither stays nor goes up.\<close>

definition file_part :: "string \<Rightarrow> bool" where
  "file_part part \<longleftrightarrow> plain_part part \<and> slash \<notin> set part"

text \<open>What the elements of a cleaned path look like: going up only at the start of a relative path.\<close>

definition cleaned :: "bool \<Rightarrow> string list \<Rightarrow> bool" where
  "cleaned rooted parts \<longleftrightarrow>
     (\<exists>ups names. parts = replicate ups ''..'' @ names \<and> list_all file_part names \<and> (rooted \<longrightarrow> ups = 0))"

lemma cleaned_step:
  assumes "cleaned rooted (rev kept)" and "slash \<notin> set part"
  shows "cleaned rooted (rev (clean_step rooted part kept))"
proof -
  obtain ups names where kept: "rev kept = replicate ups ''..'' @ names" and names: "list_all file_part names"
    and ups: "rooted \<longrightarrow> ups = 0"
    using assms(1) by (auto simp: cleaned_def)
  show ?thesis
  proof (cases "part = ''..''")
    case up: True
    show ?thesis
    proof (cases names rule: rev_cases)
      case Nil
      then have "kept = replicate ups ''..''" using kept by (metis append_Nil2 rev_replicate rev_rev_ident)
      show ?thesis
      proof (cases rooted)
        case True
        then show ?thesis using \<open>kept = _\<close> up ups by (simp add: clean_step_def cleaned_def)
      next
        case False
        then have "rev (clean_step rooted part kept) = replicate (Suc ups) ''..''"
          using \<open>kept = _\<close> up by (cases ups) (simp_all add: clean_step_def replicate_append_same)
        then show ?thesis using False unfolding cleaned_def by (intro exI [of _ "Suc ups"] exI [of _ "[]"]) simp
      qed
    next
      case (snoc ns n)
      then have "kept = n # rev (replicate ups ''..'' @ ns)" using kept by (simp add: rev_swap)
      moreover have "n \<noteq> ''..''" using names snoc by (auto simp: file_part_def plain_part_def)
      ultimately show ?thesis
        using up ups names snoc by (auto simp: clean_step_def cleaned_def)
    qed
  next
    case False
    show ?thesis
    proof (cases "part = [] \<or> part = ''.''")
      case True
      then show ?thesis using assms(1) by (simp add: clean_step_def)
    next
      case stay: False
      then have "file_part part" using False assms(2) by (simp add: file_part_def plain_part_def)
      then show ?thesis
        using stay False kept names ups unfolding cleaned_def
        by (intro exI [of _ ups] exI [of _ "names @ [part]"]) (simp add: clean_step_def)
    qed
  qed
qed

lemma cleaned_fold:
  assumes "cleaned rooted (rev kept)" and "\<And>p. p \<in> set parts \<Longrightarrow> slash \<notin> set p"
  shows "cleaned rooted (rev (fold (clean_step rooted) parts kept))"
  using assms by (induction parts arbitrary: kept) (auto intro: cleaned_step)

lemma clean_parts_cleaned: "cleaned rooted (clean_parts rooted p)"
  unfolding clean_parts_def
  by (rule cleaned_fold) (auto simp: cleaned_def split_on_parts)

lemma fold_names:
  "list_all file_part names \<Longrightarrow> fold (clean_step rooted) names kept = rev names @ kept"
  by (induction names arbitrary: kept) (auto simp: clean_step_def file_part_def plain_part_def)

lemma names_split:
  "list_all file_part names \<Longrightarrow> names \<noteq> [] \<Longrightarrow> split_on slash (join_on slash names) = names"
  by (rule split_join) (auto simp: list_all_iff file_part_def)

lemma names_absolute: "list_all file_part names \<Longrightarrow> names \<noteq> [] \<Longrightarrow> \<not> is_absolute (join_on slash names @ s)"
  by (cases names; cases "tl names")
    (auto simp: is_absolute_def is_prefix_of_iff file_part_def plain_part_def append_eq_Cons_conv)

text \<open>A relative path that the readers accept is a list of file names.\<close>

lemma relativeFile_names:
  assumes "relativeFile rel kind = Inr clean"
  obtains names where "clean = (if names = [] then ''.'' else join_on slash names)"
    and "list_all file_part names" and "names = clean_parts False rel" and "\<not> is_absolute rel"
proof -
  from assms have rel: "\<not> is_absolute rel" and clean: "clean = clean_path rel"
    and inside: "clean \<noteq> ''..''" "\<not> is_prefix_of ''../'' clean"
    by (auto simp: relativeFile_def Let_def split: if_splits)
  obtain ups names where parts: "clean_parts False rel = replicate ups ''..'' @ names" "list_all file_part names"
    using clean_parts_cleaned [of False rel] by (auto simp: cleaned_def)
  have "ups = 0"
  proof (rule ccontr)
    assume "ups \<noteq> 0"
    then obtain ps where "clean_parts False rel = ''..'' # ps" using parts(1) by (cases ups) auto
    then show False using inside rel by (cases ps) (auto simp: clean clean_path_def Let_def slash_def)
  qed
  then have "clean_parts False rel = names" using parts(1) by simp
  moreover from this have "clean = (if names = [] then ''.'' else join_on slash names)"
    using rel parts(2)
    by (cases names; cases "tl names") (auto simp: clean clean_path_def Let_def file_part_def plain_part_def)
  ultimately show thesis using that parts(2) rel by blast
qed

text \<open>Joining an absolute directory and file names adds the names.\<close>

lemma fold_step_dot: "clean_step rooted ''.'' kept = kept"
  by (simp add: clean_step_def)

lemma join_names:
  assumes "is_absolute dir" and "list_all file_part names"
    and "clean = (if names = [] then ''.'' else join_on slash names)"
  shows "join_path dir clean = slash # join_on slash (clean_parts True dir @ names)"
    and "clean_parts True (join_path dir clean) = clean_parts True dir @ names"
proof -
  have dir: "dir \<noteq> []" "is_absolute (dir @ s)" for s
    using assms(1) by (auto simp: is_absolute_def is_prefix_of_iff)
  have "split_on slash ''.'' = [''.'']" by (simp add: slash_def)
  then have "split_on slash (dir @ slash # clean) = split_on slash dir @ (if names = [] then [''.''] else names)"
    using assms(2,3) by (auto simp: split_on_concat names_split)
  then have parts: "clean_parts True (dir @ slash # clean) = clean_parts True dir @ names"
    using assms(2) by (simp add: clean_parts_def fold_names fold_step_dot)
  then show path: "join_path dir clean = slash # join_on slash (clean_parts True dir @ names)"
    using dir by (simp add: join_path_def clean_path_def Let_def)
  have names: "list_all file_part (clean_parts True dir @ names)"
    using clean_parts_cleaned [of True dir] assms(2) by (auto simp: cleaned_def)
  have "clean_parts True (slash # join_on slash ps) = ps" if "list_all file_part ps" for ps
    using that split_on_concat [of slash "[]" "join_on slash ps"]
    by (cases "ps = []") (auto simp: clean_parts_def names_split fold_names clean_step_def)
  with names show "clean_parts True (join_path dir clean) = clean_parts True dir @ names" by (simp add: path)
qed

end
