(* ===== verification/Catalog_Theorems.thy ===== *)
theory Catalog_Theorems
  imports Catalog_Facts Session_Control
begin

text \<open>
  What the catalogs of the server promise: files are read below the directory of the catalog only, and
  whatever is loaded is accepted by session control.
\<close>

section \<open>The files of a catalog\<close>

lemma readBoundedFile_success:
  assumes "readBoundedFile F path maximum w = (Inr contents, w')"
  obtains info v where "os_Stat F path w = (Inr info, v)" and "fi_Size info \<le> maximum"
    and "os_ReadFile F path v = (Inr contents, w')"
  using assms unfolding readBoundedFile_def
  by (rule andThen_success) (auto simp: throw_def split: if_splits)

lemma catalogFilePath_success:
  assumes "catalogFilePath F directory rel kind w = (Inr (path, clean), w')"
  obtains resolved u v info where "relativeFile rel kind = Inr clean" and "path = join_path directory clean"
    and "fp_EvalSymlinks F path w = (Inr resolved, u)" and "fp_Abs F resolved u = (Inr path, v)"
    and "os_Stat F path v = (Inr info, w')" and "fi_Regular info"
  using assms unfolding catalogFilePath_def Let_def
  by (auto simp: throw_def ret_def split: sum.splits if_splits elim!: failing_success)

text \<open>
  C19. A catalog reads files below its own directory only.  Whenever the reader of an agents file returns
  contents, the path that it read consists of the directory and of the file names that the cleaned
  relative path is made of, none of which is empty, \<open>.\<close> or \<open>..\<close>; that path resolved to itself, so no
  symbolic link was on it, and it was a regular file of bounded size when it was looked at.
\<close>

theorem catalog_reads_confined:
  assumes "readCatalogFile F directory rel kind w = (Inr (contents, clean), w')" and "is_absolute directory"
  shows "\<exists>path names. names = clean_parts False rel \<and> list_all file_part names
    \<and> clean_parts True path = clean_parts True directory @ names
    \<and> (\<exists>resolved u v info v'. fp_EvalSymlinks F path w = (Inr resolved, u) \<and> fp_Abs F resolved u = (Inr path, v)
        \<and> os_Stat F path v = (Inr info, v') \<and> fi_Regular info
        \<and> (\<exists>size v''. os_Stat F path v' = (Inr size, v'') \<and> fi_Size size \<le> maxAgentFileBytes
            \<and> os_ReadFile F path v'' = (Inr contents, w')))"
proof -
  obtain path v' where path: "catalogFilePath F directory rel kind w = (Inr (path, clean), v')"
    and "readBoundedFile F path maxAgentFileBytes v' = (Inr contents, w')"
    using assms(1) unfolding readCatalogFile_def
    by (auto simp: ret_def elim!: andThen_success failing_success)
  then have read: "\<exists>size v''. os_Stat F path v' = (Inr size, v'') \<and> fi_Size size \<le> maxAgentFileBytes
      \<and> os_ReadFile F path v'' = (Inr contents, w')"
    by (metis readBoundedFile_success)
  show ?thesis
  proof (rule catalogFilePath_success [OF path])
    fix resolved u v info
    assume rel: "relativeFile rel kind = Inr clean" and join: "path = join_path directory clean"
      and checks: "fp_EvalSymlinks F path w = (Inr resolved, u)" "fp_Abs F resolved u = (Inr path, v)"
        "os_Stat F path v = (Inr info, v')" "fi_Regular info"
    from rel obtain names where names: "clean = (if names = [] then ''.'' else join_on slash names)"
      "list_all file_part names" "names = clean_parts False rel"
      by (rule relativeFile_names)
    have "clean_parts True (join_path directory clean) = clean_parts True directory @ names"
      using assms(2) names(2,1) by (rule join_names(2))
    with join have below: "clean_parts True path = clean_parts True directory @ names" by simp
    show ?thesis
      by (intro exI [of _ path] exI [of _ names] exI [of _ resolved] exI [of _ u] exI [of _ v] exI [of _ info]
          exI [of _ v'] conjI checks names(2,3) below read)
  qed
qed

section \<open>What is loaded\<close>

lemma for_each_keeps:
  assumes "\<And>x a a' w w'. x \<in> set xs \<Longrightarrow> P a \<Longrightarrow> f x a w = (Inr a', w') \<Longrightarrow> P a'" and "P a"
    and "for_each f xs a w = (Inr b, w')"
  shows "P b"
  using assms
proof (induction xs arbitrary: a w)
  case Nil
  then show ?case by (simp add: ret_def)
next
  case (Cons x xs)
  from Cons.prems(3) obtain a' v where "f x a w = (Inr a', v)" "for_each f xs a' v = (Inr b, w')"
    by (auto elim: andThen_success)
  with Cons.IH [of a'] Cons.prems(1,2) show ?case by (meson list.set_intros)
qed

text \<open>What \<open>IsDNS1123Label\<close> is documented to check.\<close>

definition label_check :: "(string \<Rightarrow> string list) \<Rightarrow> bool" where
  "label_check isDNS1123Label \<longleftrightarrow> (\<forall>s. isDNS1123Label s = [] \<longrightarrow> dns_label s \<and> length s \<le> 63)"

definition skill_ok :: "Skill \<Rightarrow> bool" where
  "skill_ok skill \<longleftrightarrow> validateDNSLabel ''skill name'' (sk_Name skill) 63 = None \<and> \<not> blank (sk_Contents skill)"

lemma blank_chars:
  assumes "blank s"
  shows "set s \<subseteq> \<Union> (set ` set space_runes)"
proof -
  obtain rs where left: "s = concat rs @ TrimLeft s" "set rs \<subseteq> set space_runes"
    using trim_with_split [of s "length s" space_runes] by (auto simp: TrimLeft_def)
  obtain qs where "rev (TrimLeft s) = concat qs @ rev (TrimSpace s)" "set qs \<subseteq> set (map rev space_runes)"
    using trim_with_split [of "rev (TrimLeft s)" "length (TrimLeft s)" "map rev space_runes"]
    by (auto simp: TrimSpace_def TrimRight_def)
  then have "rev (TrimLeft s) = concat qs" and qs: "\<And>q. q \<in> set qs \<Longrightarrow> rev q \<in> set space_runes"
    using assms by (auto simp: blank_def)
  then have "set (TrimLeft s) = set (concat qs)" by (metis set_rev)
  moreover have "\<exists>r \<in> set space_runes. c \<in> set r" if c: "c \<in> set (concat qs)" for c
  proof -
    from c obtain q where "q \<in> set qs" "c \<in> set q" by auto
    then show ?thesis using qs by (intro bexI [of _ "rev q"]) auto
  qed
  ultimately have "set (TrimLeft s) \<subseteq> \<Union> (set ` set space_runes)" by blast
  moreover have "set s = set (concat rs) \<union> set (TrimLeft s)" using left(1) by (metis set_append)
  ultimately show ?thesis using left(2) by auto
qed

lemma dashed: "CHR ''-'' \<in> set s \<Longrightarrow> \<not> blank s"
  using blank_chars by (fastforce simp: space_runes_def)

lemma frontmatter_dashed:
  assumes "parseSkillMetadata L contents = Inr metadata"
  shows "CHR ''-'' \<in> set contents"
proof -
  have "delimiter (hd (split_on CHR 0x0A contents))" using assms by (auto simp: parseSkillMetadata_def Let_def split: if_splits)
  then have "CHR ''-'' \<in> set (hd (split_on CHR 0x0A contents))"
    by (auto simp: delimiter_def trim_return_def split: if_splits dest: in_set_butlastD)
      (metis in_set_butlastD list.set_intros(1))
  moreover obtain p ps where "split_on CHR 0x0A contents = p # ps" by (metis split_on_nonempty list.exhaust)
  moreover from this have "contents = join_on CHR 0x0A (p # ps)" by (metis join_split)
  ultimately show ?thesis by (cases ps) auto
qed

lemma loadSkill_ok:
  assumes "loadSkill L reader path w = (Inr skill, w')" and "label_check (cl_isDNS1123Label L)"
  shows "skill_ok skill"
proof -
  obtain contents metadata where m: "parseSkillMetadata L contents = Inr metadata"
    and skill: "skill = \<lparr>sk_Name = sm_Name metadata, sk_Contents = contents\<rparr>"
    using assms(1) unfolding loadSkill_def
    by (auto simp: throw_def ret_def split: if_splits sum.splits elim!: andThen_success)
  then have "cl_isDNS1123Label L (sm_Name metadata) = []"
    by (auto simp: parseSkillMetadata_def Let_def split: if_splits sum.splits)
  with assms(2) have "dns_label (sm_Name metadata)" "length (sm_Name metadata) \<le> 63" by (auto simp: label_check_def)
  with skill dashed [OF frontmatter_dashed [OF m]] show ?thesis
    by (simp add: skill_ok_def validateDNSLabel_def)
qed

lemma validateSkills_None:
  "validateSkills names skills = None \<longleftrightarrow>
     list_all skill_ok skills \<and> distinct (map sk_Name skills) \<and> set (map sk_Name skills) \<inter> set names = {}"
  by (induction skills arbitrary: names) (auto simp: skill_ok_def split: option.splits)

lemma loadSkills_ok:
  assumes "loadSkills L reader paths w = (Inr skills, w')" and "label_check (cl_isDNS1123Label L)"
  shows "validateSkills [] skills = None"
proof -
  have "list_all skill_ok skills \<and> distinct (map sk_Name skills)"
    using _ _ assms(1) unfolding loadSkills_def
  proof (rule for_each_keeps)
    fix path a a' v v'
    assume a: "list_all skill_ok a \<and> distinct (map sk_Name a)" and "addSkill L reader path a v = (Inr a', v')"
    then obtain skill u u' where "loadSkill L reader path u = (Inr skill, u')" "sk_Name skill \<notin> set (map sk_Name a)"
      "a' = a @ [skill]"
      unfolding addSkill_def by (auto simp: throw_def ret_def split: if_splits elim!: andThen_success)
    with a loadSkill_ok assms(2) show "list_all skill_ok a' \<and> distinct (map sk_Name a')" by auto
  qed simp
  then show ?thesis by (simp add: validateSkills_None)
qed

lemma update_entries: "e \<in> set (AList.update k v m) \<Longrightarrow> e = (k, v) \<or> e \<in> set m"
  by (induction m) (auto split: if_splits)

lemma config_size:
  "int (agentConfigSize i skills) = int (length i)
     + sum_list (map (\<lambda>skill. int (length (sk_Name skill)) + int (length (sk_Contents skill))) skills)"
  by (induction skills) (simp_all add: agentConfigSize_def)

text \<open>What the server relies on in a loaded agent.\<close>

definition agent_ok :: "CatalogLibrary \<Rightarrow> string \<Rightarrow> AgentDefinition \<Rightarrow> bool" where
  "agent_ok L name a \<longleftrightarrow>
     ad_Name a = name \<and> validateDefinition (SessionDefinition a) = None \<and> \<not> blank (ad_Description a)
     \<and> ad_Storage a \<in> {StorageEphemeral, StoragePersistent} \<and> 0 < ad_Timeout a \<and> 0 \<le> ad_CloneDepth a
     \<and> cl_ParseQuantity L (ad_StorageSize a) = None"

lemma agentFields_Inr:
  assumes "agentFields L name raw defaults = Inr fs"
  shows "cl_isDNS1123Label L name = []" and "\<not> blank (af_Description raw)" and "\<not> blank (af_Instructions raw)"
    and "0 \<le> afl_CloneDepth fs" and "cl_ParseQuantity L (afl_StorageSize fs) = None" and "0 < afl_Timeout fs"
  using assms by (auto simp: agentFields_def Let_def split: if_splits option.splits sum.splits)

lemma instructions_kept:
  assumes "\<not> blank instructions"
  shows "\<not> blank (agentInstructions guidance instructions)"
  using assms last_line_kept [OF assms, of "TrimSpace guidance @ [CHR 0x0A, CHR 0x0A]"]
  by (simp add: agentInstructions_def line_end_def)

lemma loadAgentDefinition_ok:
  assumes "loadAgentDefinition L reader name raw guidance defaults w = (Inr a, w')"
    and "label_check (cl_isDNS1123Label L)"
  shows "agent_ok L name a"
proof -
  obtain fs where fs: "agentFields L name raw defaults = Inr fs"
    using assms(1) by (auto simp: loadAgentDefinition_def throw_def split: sum.splits)
  obtain skills v v' where skills: "loadSkills L reader (af_Skills raw) v = (Inr skills, v')"
    and size: "int (length (agentInstructions guidance (af_Instructions raw)))
        + sum_list (map (\<lambda>skill. int (length (sk_Name skill)) + int (length (sk_Contents skill))) skills) \<le> maxAgentFileBytes"
    and a: "a = \<lparr>ad_Name = name, ad_Description = af_Description raw,
        ad_Storage = (if af_Storage raw = ''ephemeral'' then StorageEphemeral else StoragePersistent),
        ad_Instructions = agentInstructions guidance (af_Instructions raw), ad_Skills = skills,
        ad_SetupCommand = af_SetupCommand raw, ad_CloneDepth = afl_CloneDepth fs,
        ad_StorageSize = afl_StorageSize fs, ad_Timeout = afl_Timeout fs\<rparr>"
    using assms(1) unfolding loadAgentDefinition_def fs
    by (auto simp: Let_def throw_def ret_def split: if_splits elim!: andThen_success)
  note checked = agentFields_Inr [OF fs]
  have "dns_label name" "length name \<le> 63" using checked(1) assms(2) by (auto simp: label_check_def)
  moreover from this have "name \<noteq> []" by (auto simp: dns_label_def)
  moreover have "validateSkills [] skills = None" using skills assms(2) by (rule loadSkills_ok)
  moreover have "agentConfigSize (ad_Instructions a) skills \<le> maxAgentConfigBytes"
  proof -
    have "int (agentConfigSize (ad_Instructions a) skills) \<le> maxAgentFileBytes"
      using size by (simp add: config_size a)
    then show ?thesis by (simp add: maxAgentFileBytes_def maxAgentConfigBytes_def)
  qed
  ultimately have "validateDefinition (SessionDefinition a) = None"
    using instructions_kept [OF checked(3)]
    by (simp add: validateDefinition_def SessionDefinition_def a validateDNSLabel_def validateStorage_def)
  then show ?thesis using checked by (simp add: agent_ok_def a)
qed

lemma loadAgentCatalog_ok:
  assumes "loadAgentCatalog L source reader defaults w = (Inr agents, w')"
    and "label_check (cl_isDNS1123Label L)"
  shows "\<forall>(name, a) \<in> set agents. agent_ok L name a"
proof -
  obtain guidance v where
    "for_each (addAgent L reader guidance defaults) (acf_Agents source) [] v = (Inr agents, w')"
    using assms(1) unfolding loadAgentCatalog_def by (auto elim: andThen_success)
  with _ _ show ?thesis
  proof (rule for_each_keeps)
    fix entry ds ds' v v'
    assume ds: "\<forall>(name, a) \<in> set ds. agent_ok L name a"
      and "addAgent L reader guidance defaults entry ds v = (Inr ds', v')"
    then obtain name raw a u u' where "loadAgentDefinition L reader name raw guidance defaults u = (Inr a, u')"
      "ds' = AList.update name a ds"
      by (cases entry) (auto simp: addAgent_def ret_def elim!: failing_success)
    moreover from this(1) assms(2) have "agent_ok L name a" by (rule loadAgentDefinition_ok)
    ultimately show "\<forall>(name, a) \<in> set ds'. agent_ok L name a"
      using ds by (auto dest: update_entries)
  qed simp
qed

lemma LoadAgents_ok:
  assumes "LoadAgents L F path defaults w = (Inr agents, w')" and "label_check (cl_isDNS1123Label L)"
  shows "\<forall>(name, a) \<in> set agents. agent_ok L name a"
  using assms(1) unfolding LoadAgents_def
  by (auto simp: require_def throw_def split: option.splits elim!: failing_success andThen_success
      dest!: loadAgentCatalog_ok [OF _ assms(2)])

lemma loadAgentsFS_ok:
  assumes "loadAgentsFS L files path defaults w = (Inr agents, w')" and "label_check (cl_isDNS1123Label L)"
  shows "\<forall>(name, a) \<in> set agents. agent_ok L name a"
  using assms(1) unfolding loadAgentsFS_def
  by (auto simp: require_def throw_def split: option.splits elim!: failing_success andThen_success
      dest!: loadAgentCatalog_ok [OF _ assms(2)])

text \<open>The session definition of every step of a loaded workflow is that of an agent of the catalog.\<close>

definition steps_from :: "AgentCatalog \<Rightarrow> steps \<Rightarrow> bool" where
  "steps_from cat steps \<longleftrightarrow>
     (\<forall>(n, s) \<in> set steps. \<exists>a. ac_Find cat (sd_Agent s) = Some a \<and> sd_SessionDefinition s = SessionDefinition a)"

lemma loadSteps_from:
  assumes "loadSteps label (Some cat) fs steps p = Inr (steps', p')" and "steps_from cat steps"
  shows "steps_from cat steps'"
  using assms
proof (induction label "Some cat" fs steps p rule: loadSteps.induct)
  case (2 label name f fs steps p)
  from 2(2) obtain s where s: "loadWorkflowStep label (Some cat) name f = Inr s"
    and one: "\<not> (sd_Publishable s \<and> p \<noteq> [])"
    and rest: "loadSteps label (Some cat) fs (AList.update name s steps) (if sd_Publishable s then name else p) = Inr (steps', p')"
    by (auto split: sum.splits if_splits)
  have "\<exists>a. ac_Find cat (sd_Agent s) = Some a \<and> sd_SessionDefinition s = SessionDefinition a"
    using loadWorkflowStep_Inr(6) [OF s] by simp
  then have "steps_from cat (AList.update name s steps)"
    using 2(3) by (auto simp: steps_from_def dest!: update_entries)
  with 2(1) [OF s one rest] show ?case .
qed simp

lemma loadDefinitions_from:
  assumes "loadDefinitions label (Some cat) fs acc = Inr ds" and "\<forall>d \<in> snd ` set acc. steps_from cat (wd_Steps d)"
  shows "\<forall>d \<in> snd ` set ds. steps_from cat (wd_Steps d)"
  using assms
proof (induction label "Some cat" fs acc rule: loadDefinitions.induct)
  case (2 label name f fs acc)
  from 2(2) obtain d where d: "loadWorkflowDefinition label (Some cat) name f = Inr d"
    and rest: "loadDefinitions label (Some cat) fs (AList.update name d acc) = Inr ds"
    by (auto split: sum.splits)
  from d obtain steps p where "loadSteps label (Some cat) (df_Steps f) [] [] = Inr (steps, p)" "wd_Steps d = steps"
    by (auto simp: loadWorkflowDefinition_def Let_def split: if_splits sum.splits option.splits)
  then have "steps_from cat (wd_Steps d)" using loadSteps_from by (metis empty_iff empty_set steps_from_def)
  then have "\<forall>d' \<in> snd ` set (AList.update name d acc). steps_from cat (wd_Steps d')"
    using 2(3) by (auto dest!: update_entries)
  with 2(1) [OF d rest] show ?case by blast
qed simp

lemma loadWorkflowCatalog_from:
  assumes "loadWorkflowCatalog decode label (Some cat) contents = Inr ds"
  shows "\<forall>d \<in> snd ` set ds. steps_from cat (wd_Steps d)"
  using assms loadDefinitions_from [where acc = "[]"]
  by (fastforce simp: loadWorkflowCatalog_def split: sum.splits if_splits)

lemma loadWorkflowsFS_catalog:
  assumes "loadWorkflowsFS L files name agents w = (Inr ds, w')"
  obtains contents where "loadWorkflowCatalog (cl_decodeWorkflows L) (cl_isDNS1123Label L) agents contents = Inr ds"
  using assms unfolding loadWorkflowsFS_def Let_def
  by (auto simp: throw_def ret_def lifted_def split: option.splits if_splits sum.splits elim!: failing_success)

lemma loadWorkflowsFile_catalog:
  assumes "loadWorkflowsFile L F path agents w = (Inr ds, w')"
  obtains contents where "loadWorkflowCatalog (cl_decodeWorkflows L) (cl_isDNS1123Label L) agents contents = Inr ds"
  using assms by (auto simp: loadWorkflowsFile_def LoadWorkflows_def split: prod.splits sum.splits if_splits)

lemma loadWorkflowsFS_from:
  "loadWorkflowsFS L files name (Some cat) w = (Inr ds, w') \<Longrightarrow> \<forall>d \<in> snd ` set ds. steps_from cat (wd_Steps d)"
  by (erule loadWorkflowsFS_catalog) (rule loadWorkflowCatalog_from)

lemma loadWorkflowsFile_from:
  "loadWorkflowsFile L F path (Some cat) w = (Inr ds, w') \<Longrightarrow> \<forall>d \<in> snd ` set ds. steps_from cat (wd_Steps d)"
  by (erule loadWorkflowsFile_catalog) (rule loadWorkflowCatalog_from)

lemma loadServerCatalogs_success:
  assumes "loadServerCatalogs L F E agentsFile workflowsFile defaults w = (Inr (agents, workflows), w')"
    and "label_check (cl_isDNS1123Label L)"
  shows "\<forall>(name, a) \<in> set agents. agent_ok L name a"
    and "\<forall>ds d. workflows = Some ds \<longrightarrow> d \<in> snd ` set ds \<longrightarrow> steps_from (agentCatalogOf (Some agents)) (wd_Steps d)"
proof -
  have "(\<forall>(name, a) \<in> set agents. agent_ok L name a)
      \<and> (\<forall>ds. workflows = Some ds \<longrightarrow> (\<forall>d \<in> snd ` set ds. steps_from (agentCatalogOf (Some agents)) (wd_Steps d)))"
  proof (cases "agentsFile = []")
    case True
    then obtain u v ds where "loadAgentsFS L (Some E) ''engineering/agents.yaml'' defaults w = (Inr agents, u)"
      "loadWorkflowsFS L (Some E) ''engineering/workflows.yaml'' (Some (agentCatalogOf (Some agents))) u = (Inr ds, v)"
      "workflows = Some ds"
      using assms(1) unfolding loadServerCatalogs_def LoadEngineeringAgents_def LoadEngineeringWorkflows_def
      by (auto simp: throw_def ret_def split: if_splits elim!: andThen_success failing_success)
    then show ?thesis using loadAgentsFS_ok [OF _ assms(2)] loadWorkflowsFS_from by (metis option.inject)
  next
    case False
    then obtain u where "LoadAgents L F agentsFile defaults w = (Inr agents, u)"
      "workflows = None \<or> (\<exists>ds v. workflows = Some ds
         \<and> loadWorkflowsFile L F workflowsFile (Some (agentCatalogOf (Some agents))) u = (Inr ds, v))"
      using assms(1) unfolding loadServerCatalogs_def
      by (auto simp: throw_def ret_def split: if_splits elim!: andThen_success failing_success)
    then show ?thesis using LoadAgents_ok [OF _ assms(2)] loadWorkflowsFile_from by (metis option.inject option.discI)
  qed
  then show "\<forall>(name, a) \<in> set agents. agent_ok L name a"
    and "\<forall>ds d. workflows = Some ds \<longrightarrow> d \<in> snd ` set ds \<longrightarrow> steps_from (agentCatalogOf (Some agents)) (wd_Steps d)"
    by blast+
qed

lemma found_ok: "\<forall>(name, a) \<in> set agents. agent_ok L name a \<Longrightarrow> agents_Find (Some agents) name = Some a \<Longrightarrow> agent_ok L name a"
  by (auto simp: agents_Find_def dest: map_of_SomeD)

text \<open>
  C18. Whatever the server loads at its start, session control accepts: every agent of the catalogs has the
  name under which it is found, passes the validation of session definitions (labels, instructions,
  distinct skills, size), and has a positive timeout, a clone depth and a storage size; every step of
  every workflow carries the definition of an agent of the same catalog.
\<close>

theorem loaded_catalogs_ok:
  assumes "loadServerCatalogs L F E agentsFile workflowsFile defaults w = (Inr (agents, workflows), w')"
    and "label_check (cl_isDNS1123Label L)"
  shows "(\<forall>name a. agents_Find (Some agents) name = Some a \<longrightarrow> agent_ok L name a)
    \<and> (\<forall>ds d n step. workflows = Some ds \<longrightarrow> d \<in> snd ` set ds \<longrightarrow> (n, step) \<in> set (wd_Steps d)
         \<longrightarrow> validateDefinition (sd_SessionDefinition step) = None
           \<and> (\<exists>a. agents_Find (Some agents) (sd_Agent step) = Some a \<and> sd_SessionDefinition step = SessionDefinition a))"
proof -
  note ok = loadServerCatalogs_success [OF assms]
  have find: "agent_ok L name a" if "agents_Find (Some agents) name = Some a" for name a
    using ok(1) that by (rule found_ok)
  have from_agent: "\<exists>a. agents_Find (Some agents) (sd_Agent step) = Some a \<and> sd_SessionDefinition step = SessionDefinition a"
    if "workflows = Some ds" "d \<in> snd ` set ds" "(n, step) \<in> set (wd_Steps d)" for ds d n step
    using ok(2) that by (fastforce simp: steps_from_def agentCatalogOf_def)
  show ?thesis
  proof (intro conjI allI impI)
    fix ds d n step
    assume "workflows = Some ds" "d \<in> snd ` set ds" "(n, step) \<in> set (wd_Steps d)"
    then obtain a where a: "agents_Find (Some agents) (sd_Agent step) = Some a"
        "sd_SessionDefinition step = SessionDefinition a"
      using from_agent by blast
    then show "validateDefinition (sd_SessionDefinition step) = None" using find by (auto simp: agent_ok_def)
    show "\<exists>a. agents_Find (Some agents) (sd_Agent step) = Some a \<and> sd_SessionDefinition step = SessionDefinition a"
      using a by blast
  qed (rule find)
qed

section \<open>Examples\<close>

text \<open>A directory with a catalog of one agent with one skill and one workflow of one step.\<close>

definition demoLabel :: "string \<Rightarrow> string list" where
  "demoLabel s = (if dns_label s \<and> length s \<le> 63 then [] else [''a lowercase RFC 1123 label''])"

definition readerFile :: AgentFile where
  "readerFile =
     \<lparr>af_Description = ''d'', af_Storage = ''ephemeral'', af_Instructions = ''i'',
      af_Skills = [''skills/read/../read/SKILL.md''], af_SetupCommand = [], af_CloneDepth = None,
      af_StorageSize = [], af_Timeout = []\<rparr>"

definition catalogLibrary :: CatalogLibrary where
  "catalogLibrary =
     \<lparr>cl_decodeAgents =
        (\<lambda>_. Inr \<lparr>acf_Version = ''v1'', acf_Guidance = [], acf_Agents = [(''reader'', readerFile)]\<rparr>),
      cl_decodeSkill = (\<lambda>_. Inr \<lparr>sm_Name = ''read'', sm_Description = ''d''\<rparr>),
      cl_decodeWorkflows = (\<lambda>_. Inr \<lparr>wcf_Version = ''v1'', wcf_Workflows = [(''one'',
        \<lparr>df_Description = ''x'', df_MaxParallelism = 0, df_Steps = [(''plan'',
          \<lparr>sf_Agent = ''reader'', sf_Prompt = ''p'', sf_After = [], sf_ChangeFrom = [], sf_Publishable = False\<rparr>)]\<rparr>)]\<rparr>),
      cl_isDNS1123Label = demoLabel, cl_ParseQuantity = (\<lambda>_. None), cl_ParseDuration = (\<lambda>_. Inr 60)\<rparr>"

definition skillText :: string where
  "skillText = ''---'' @ [CHR 0x0A] @ ''name: read'' @ [CHR 0x0A] @ ''---'' @ [CHR 0x0A]"

definition catalogDisk :: "'w FileSystem" where
  "catalogDisk =
     \<lparr>os_Stat = (\<lambda>p w. (Inr \<lparr>fi_Size = 10, fi_Regular = True\<rparr>, w)), os_ReadFile = (\<lambda>p w. (Inr skillText, w)),
      fp_EvalSymlinks = (\<lambda>p w. (Inr p, w)), fp_Abs = (\<lambda>p w. (Inr p, w))\<rparr>"

lemma demo_read:
  "readCatalogFile catalogDisk ''/c'' ''skills/read/../read/SKILL.md'' kind w = (Inr (skillText, ''skills/read/SKILL.md''), w)"
proof -
  have "relativeFile ''skills/read/../read/SKILL.md'' kind = Inr ''skills/read/SKILL.md''"
  proof -
    have "clean_path ''skills/read/../read/SKILL.md'' = ''skills/read/SKILL.md''"
      "\<not> is_absolute ''skills/read/../read/SKILL.md''" "\<not> is_prefix_of ''../'' ''skills/read/SKILL.md''"
      by code_simp+
    then show ?thesis by (simp add: relativeFile_def)
  qed
  then show ?thesis
    by (simp add: readCatalogFile_def catalogFilePath_def Let_def failing_def op_run readBoundedFile_def
        catalogDisk_def maxAgentFileBytes_def)
qed

theorem catalog_reads_confined_witness:
  "\<exists>path. clean_parts True path = clean_parts True ''/c'' @ clean_parts False ''skills/read/../read/SKILL.md''
     \<and> fp_EvalSymlinks catalogDisk path () = (Inr path, ())"
proof -
  have "is_absolute ''/c''" by code_simp
  from catalog_reads_confined [OF demo_read this] show ?thesis by (auto simp: catalogDisk_def)
qed

definition catalogDefaults :: AgentDefaults where
  "catalogDefaults = \<lparr>dfl_StorageSize = ''1Gi'', dfl_TaskTimeout = 60\<rparr>"

definition readerAgent :: AgentDefinition where
  "readerAgent =
     \<lparr>ad_Name = ''reader'', ad_Description = ''d'', ad_Storage = StorageEphemeral, ad_Instructions = ''i'',
      ad_Skills = [\<lparr>sk_Name = ''read'', sk_Contents = skillText\<rparr>], ad_SetupCommand = [], ad_CloneDepth = 1,
      ad_StorageSize = ''1Gi'', ad_Timeout = 60\<rparr>"

lemma catalog_texts [simp]:
  "dir_path ''/c/agents.yaml'' = ''/c''" "base_path ''skills/read/SKILL.md'' = ''SKILL.md''"
  "parseSkillMetadata catalogLibrary skillText = Inr \<lparr>sm_Name = ''read'', sm_Description = ''d''\<rparr>"
  "demoLabel ''reader'' = []" "demoLabel ''one'' = []" "demoLabel ''plan'' = []"
  "\<not> blank ''d''" "\<not> blank ''i''" "\<not> blank ''p''" "\<not> blank ''x''" "length skillText = 19"
  by code_simp+

lemma demo_agent:
  "loadAgentDefinition catalogLibrary (readCatalogFile catalogDisk ''/c'') ''reader'' readerFile [] catalogDefaults w =
     (Inr readerAgent, w)"
proof -
  have skills: "loadSkills catalogLibrary (readCatalogFile catalogDisk ''/c'') (af_Skills readerFile) w =
      (Inr [\<lparr>sk_Name = ''read'', sk_Contents = skillText\<rparr>], w)"
    by (simp add: loadSkills_def addSkill_def loadSkill_def op_run demo_read readerFile_def)
  have fields: "agentFields catalogLibrary ''reader'' readerFile catalogDefaults =
      Inr \<lparr>afl_CloneDepth = 1, afl_StorageSize = ''1Gi'', afl_Timeout = 60\<rparr>"
    by (simp add: agentFields_def catalogLibrary_def readerFile_def catalogDefaults_def)
  show ?thesis
    unfolding loadAgentDefinition_def fields
    by (simp add: op_run skills) (simp add: readerFile_def agentInstructions_def maxAgentFileBytes_def readerAgent_def
        Let_def ret_def)
qed

lemma loaded_reader:
  "LoadAgents catalogLibrary catalogDisk ''/c/agents.yaml'' catalogDefaults w = (Inr [(''reader'', readerAgent)], w)"
proof -
  have parts: "validateDefaults catalogLibrary catalogDefaults = None"
    "readBoundedFile catalogDisk ''/c/agents.yaml'' maxAgentFileBytes w = (Inr skillText, w)"
    "decodeAgentCatalog catalogLibrary skillText =
       Inr \<lparr>acf_Version = ''v1'', acf_Guidance = [], acf_Agents = [(''reader'', readerFile)]\<rparr>"
    "fp_Abs catalogDisk p w = (Inr p, w)" "fp_EvalSymlinks catalogDisk p w = (Inr p, w)" for p
    by (simp_all add: validateDefaults_def catalogDefaults_def catalogLibrary_def check_def readBoundedFile_def op_run
        catalogDisk_def maxAgentFileBytes_def decodeAgentCatalog_def)
  show ?thesis
    by (simp add: LoadAgents_def failing_def op_run parts lifted_def loadAgentCatalog_def loadGuidance_def addAgent_def
        demo_agent)
qed

lemma demo_workflows:
  "\<exists>d. loadWorkflowsFile catalogLibrary catalogDisk ''/c/workflows.yaml''
     (Some (agentCatalogOf (Some [(''reader'', readerAgent)]))) w = (Inr [(''one'', d)], w)"
  by (simp add: loadWorkflowsFile_def LoadWorkflows_def maxWorkflowConfigBytes_def catalogDisk_def catalogLibrary_def
      loadWorkflowCatalog_def loadWorkflowDefinition_def Let_def maxParallelism_def maxWorkflowSteps_def
      loadWorkflowStep_def agentCatalogOf_def agents_Find_def readerAgent_def SessionDefinition_def validateGraph_def
      visit.simps stepAfter_def checkLeaf_def)

definition embeddedFiles :: "'w FSFiles" where
  "embeddedFiles = \<lparr>fs_Stat = os_Stat catalogDisk, fs_ReadFile = os_ReadFile catalogDisk\<rparr>"

lemma loaded_demo:
  "\<exists>d. loadServerCatalogs catalogLibrary catalogDisk embeddedFiles ''/c/agents.yaml'' ''/c/workflows.yaml'' catalogDefaults w =
       (Inr ([(''reader'', readerAgent)], Some [(''one'', d)]), w)"
proof -
  obtain d where "loadWorkflowsFile catalogLibrary catalogDisk ''/c/workflows.yaml''
      (Some (agentCatalogOf (Some [(''reader'', readerAgent)]))) w = (Inr [(''one'', d)], w)"
    using demo_workflows [of w] by blast
  then show ?thesis
    by (intro exI [of _ d]) (simp add: loadServerCatalogs_def failing_def op_run loaded_reader)
qed

lemma demo_label_check: "label_check (cl_isDNS1123Label catalogLibrary)"
  by (simp add: label_check_def catalogLibrary_def demoLabel_def)

theorem loaded_catalogs_ok_witness:
  "\<exists>d. loadServerCatalogs catalogLibrary catalogDisk embeddedFiles ''/c/agents.yaml'' ''/c/workflows.yaml'' catalogDefaults () =
       (Inr ([(''reader'', readerAgent)], Some [(''one'', d)]), ())
     \<and> agent_ok catalogLibrary ''reader'' readerAgent
     \<and> list_all (\<lambda>(n, step). validateDefinition (sd_SessionDefinition step) = None) (wd_Steps d)"
proof -
  obtain d where load: "loadServerCatalogs catalogLibrary catalogDisk embeddedFiles ''/c/agents.yaml'' ''/c/workflows.yaml'' catalogDefaults () =
      (Inr ([(''reader'', readerAgent)], Some [(''one'', d)]), ())"
    using loaded_demo [of "()"] by blast
  note ok = loaded_catalogs_ok [OF load demo_label_check]
  have "agents_Find (Some [(''reader'', readerAgent)]) ''reader'' = Some readerAgent" by (simp add: agents_Find_def)
  with ok have "agent_ok catalogLibrary ''reader'' readerAgent" by blast
  moreover have "list_all (\<lambda>(n, step). validateDefinition (sd_SessionDefinition step) = None) (wd_Steps d)"
    using ok by (auto simp: list_all_iff)
  ultimately show ?thesis using load by blast
qed

end
