(* ===== verification/Credentials.thy ===== *)
theory Credentials
  imports Kubernetes_Runtime Json_Encode Catalog_Files
begin

text \<open>
  How the server gets its credentials: the Kubernetes configuration (\<open>internal/kubernetes/config.go\<close>),
  the configuration and the token cache of EKS (\<open>internal/kubernetes/eks.go\<close>) and the tokens of the
  GitHub App (\<open>internal/github/app.go\<close>).  The AWS and Kubernetes clients, the GitHub API and the
  cryptography of the standard library are parameters.
\<close>

section \<open>Kubernetes configuration\<close>

record ConnectionConfig =
  kc_KubeconfigPath :: string
  kc_ContextName :: string
  kc_EKSCluster :: string
  kc_AWSRegion :: string
  kc_AWSRoleARN :: string

text \<open>\<open>connectionLoaders\<close>, with the test for \<open>rest.ErrNotInCluster\<close>\<close>

record ('w, 'c) ConnectionLoaders =
  cnl_inCluster :: "('w, 'c) op"
  cnl_kubeconfig :: "string \<Rightarrow> string \<Rightarrow> ('w, 'c) op"
  cnl_eks :: "ConnectionConfig \<Rightarrow> ('w, 'c) op"
  cnl_notInCluster :: "err \<Rightarrow> bool"

definition loadConnectionConfig :: "ConnectionConfig \<Rightarrow> ('w, 'c) ConnectionLoaders \<Rightarrow> ('w, 'c) op" where
  "loadConnectionConfig config loaders =
     (if kc_EKSCluster config \<noteq> [] then
        if kc_KubeconfigPath config \<noteq> [] \<or> kc_ContextName config \<noteq> []
        then throw (Text ''--eks-cluster cannot be combined with --kubeconfig or --context'')
        else cnl_eks loaders config
      else if kc_KubeconfigPath config \<noteq> [] \<or> kc_ContextName config \<noteq> []
      then cnl_kubeconfig loaders (kc_KubeconfigPath config) (kc_ContextName config)
      else
        handle (cnl_inCluster loaders)
          (\<lambda>e. if \<not> cnl_notInCluster loaders e
               then throw (errorf ''load in-cluster Kubernetes configuration'' e)
               else cnl_kubeconfig loaders [] [])
          ret)"

text \<open>The client of a kubeconfig file: an explicit path, if any, and a context.\<close>

definition loadKubeconfig :: "(string option \<Rightarrow> string \<Rightarrow> ('w, 'c) op) \<Rightarrow> string \<Rightarrow> string \<Rightarrow> ('w, 'c) op" where
  "loadKubeconfig clientConfig path contextName =
     failing (clientConfig (if path = [] then None else Some path) contextName)
       ''load Kubernetes configuration'' ret"

section \<open>EKS\<close>

definition second_ns :: int where "second_ns = 1000000000"
definition minute :: int where "minute = 60 * second_ns"

definition eksTokenPrefix :: string where "eksTokenPrefix = ''k8s-aws-v1.''"
definition eksTokenLifetime :: int where "eksTokenLifetime = 15 * minute"
definition eksRefreshMargin :: int where "eksRefreshMargin = minute"

text \<open>\<open>base64.RawURLEncoding.EncodeToString\<close>\<close>

definition url_digit :: "nat \<Rightarrow> char" where
  "url_digit n = ''ABCDEFGHIJKLMNOPQRSTUVWXYZabcdefghijklmnopqrstuvwxyz0123456789-_'' ! n"

fun base64_url :: "string \<Rightarrow> string" where
  "base64_url [] = []"
| "base64_url [a] =
     (let x = (of_char a :: nat) in [url_digit (x div 4), url_digit (x mod 4 * 16)])"
| "base64_url [a, b] =
     (let x = (of_char a :: nat); y = (of_char b :: nat)
      in [url_digit (x div 4), url_digit (x mod 4 * 16 + y div 16), url_digit (y mod 16 * 4)])"
| "base64_url (a # b # c # s) =
     (let x = (of_char a :: nat); y = (of_char b :: nat); z = (of_char c :: nat)
      in url_digit (x div 4) # url_digit (x mod 4 * 16 + y div 16) # url_digit (y mod 16 * 4 + z div 64)
         # url_digit (z mod 64) # base64_url s)"

record eksTokenValue =
  tok_bearer :: string
  tok_expiresAt :: int

text \<open>
  The AWS clients over an AWS configuration \<open>'a\<close>: the cluster that \<open>DescribeCluster\<close> answers with has an
  endpoint and, in its certificate authority, data, each of which may be missing.
\<close>

record EKSCluster =
  clu_Endpoint :: "string option"
  clu_CertificateAuthority :: "string option option"

record ('w, 'a) AWS =
  aws_LoadDefaultConfig :: "string option \<Rightarrow> ('w, 'a) op"
  aws_Region :: "'a \<Rightarrow> string"
  aws_AssumeRole :: "'a \<Rightarrow> string \<Rightarrow> 'a"
  aws_DescribeCluster :: "'a \<Rightarrow> string \<Rightarrow> ('w, EKSCluster option) op"
  aws_PresignGetCallerIdentity :: "'a \<Rightarrow> (string \<times> string) list \<Rightarrow> ('w, string) op"
  aws_now :: "'w \<Rightarrow> int \<times> 'w"

text \<open>The part of the REST configuration that the code sets; its tokens come from the generator.\<close>

record 'w EKSConfig =
  ekc_Host :: string
  ekc_CAData :: string
  ekc_generate :: "('w, eksTokenValue) op"

definition eksClusterIDHeader :: string where
  "eksClusterIDHeader = ''x-k8s-aws-id''"

definition newEKSTokenGenerator :: "('w, 'a) AWS \<Rightarrow> 'a \<Rightarrow> string \<Rightarrow> ('w, eksTokenValue) op" where
  "newEKSTokenGenerator A awsConfig clusterName =
     failing (aws_PresignGetCallerIdentity A awsConfig [(eksClusterIDHeader, clusterName)])
       ''sign EKS authentication token'' (\<lambda>url.
       andThen (total (aws_now A)) (\<lambda>now.
         ret \<lparr>tok_bearer = eksTokenPrefix @ base64_url url, tok_expiresAt = now + eksTokenLifetime\<rparr>))"

definition eksRESTConfig :: "('w, 'a) AWS \<Rightarrow> 'a \<Rightarrow> string \<Rightarrow> EKSCluster option \<Rightarrow> err + 'w EKSConfig" where
  "eksRESTConfig A awsConfig clusterName output =
     (let describe = ''describe EKS cluster '' @ clusterName in
      case output of
        None \<Rightarrow> Inl (Text (describe @ '': response has no endpoint''))
      | Some cluster \<Rightarrow>
          (case clu_Endpoint cluster of
             None \<Rightarrow> Inl (Text (describe @ '': response has no endpoint''))
           | Some endpoint \<Rightarrow>
               if blank endpoint then Inl (Text (describe @ '': response has no endpoint''))
               else case clu_CertificateAuthority cluster of
                 None \<Rightarrow> Inl (Text (describe @ '': response has no certificate authority''))
               | Some None \<Rightarrow> Inl (Text (describe @ '': response has no certificate authority''))
               | Some (Some contents) \<Rightarrow>
                   (case base64_decode contents of
                      None \<Rightarrow> Inl (errorf (''decode EKS cluster '' @ clusterName @ '' certificate authority'')
                                (Text ''illegal base64 data''))
                    | Some authority \<Rightarrow>
                        Inr \<lparr>ekc_Host = endpoint, ekc_CAData = authority,
                             ekc_generate = newEKSTokenGenerator A awsConfig clusterName\<rparr>)))"

definition loadEKSConnectionConfig :: "('w, 'a) AWS \<Rightarrow> ConnectionConfig \<Rightarrow> ('w, 'w EKSConfig) op" where
  "loadEKSConnectionConfig A config =
     failing (aws_LoadDefaultConfig A (if kc_AWSRegion config = [] then None else Some (kc_AWSRegion config)))
       ''load AWS configuration'' (\<lambda>loaded.
       if aws_Region A loaded = []
       then throw (Text ''--aws-region is required when the AWS default configuration has no region'')
       else
         let awsConfig = (if kc_AWSRoleARN config = [] then loaded else aws_AssumeRole A loaded (kc_AWSRoleARN config))
         in failing (aws_DescribeCluster A awsConfig (kc_EKSCluster config))
              (''describe EKS cluster '' @ kc_EKSCluster config) (\<lambda>output.
              case eksRESTConfig A awsConfig (kc_EKSCluster config) output of
                Inl e \<Rightarrow> throw e
              | Inr c \<Rightarrow> ret c))"

text \<open>
  The token cache, whose mutex makes each call atomic: the state is the world and the value that is kept.
\<close>

definition newEKSTokenCache :: eksTokenValue where
  "newEKSTokenCache = \<lparr>tok_bearer = [], tok_expiresAt = 0\<rparr>"

definition refreshToken :: "('w, eksTokenValue) op \<Rightarrow> ('w \<times> eksTokenValue, string) op" where
  "refreshToken generate = (\<lambda>(w, v).
     case generate w of
       (Inl e, w') \<Rightarrow> (Inl e, (w', v))
     | (Inr new, w') \<Rightarrow> (Inr (tok_bearer new), (w', new)))"

definition eks_Token :: "('w, eksTokenValue) op \<Rightarrow> ('w \<Rightarrow> int \<times> 'w) \<Rightarrow> ('w \<times> eksTokenValue, string) op" where
  "eks_Token generate now = (\<lambda>(w, v).
     if tok_bearer v = [] then refreshToken generate (w, v)
     else case now w of (t, w') \<Rightarrow>
       if t + eksRefreshMargin < tok_expiresAt v then (Inr (tok_bearer v), (w', v))
       else refreshToken generate (w', v))"

text \<open>The transport: a request is its header; the other transport answers with an \<open>'r\<close>.\<close>

type_synonym header = "(string \<times> string) list"

definition eks_RoundTrip ::
  "('w, eksTokenValue) op \<Rightarrow> ('w \<Rightarrow> int \<times> 'w) \<Rightarrow> (header \<Rightarrow> ('w, 'r) op) \<Rightarrow> header \<Rightarrow> ('w \<times> eksTokenValue, 'r) op" where
  "eks_RoundTrip generate now base asked =
     andThen (eks_Token generate now) (\<lambda>token. \<lambda>(w, v).
       case base (AList.update ''Authorization'' (''Bearer '' @ token) asked) w of (r, w') \<Rightarrow> (r, (w', v)))"

section \<open>The GitHub App\<close>

record 'k GitHubApp =
  app_ID :: int
  app_installationID :: int
  app_privateKey :: 'k
  app_baseURL :: string

text \<open>The cryptography, the clock and the one request of the App.\<close>

record ('w, 'k) AppLibrary =
  apl_pemDecode :: "string \<Rightarrow> string option"
  apl_ParsePKCS1 :: "string \<Rightarrow> 'k option"
  apl_ParsePKCS8 :: "string \<Rightarrow> err + 'k option"
  apl_Sum256 :: "string \<Rightarrow> string"
  apl_Sign :: "'k \<Rightarrow> string \<Rightarrow> ('w, string) op"
  apl_now :: "'w \<Rightarrow> int \<times> 'w"
  apl_parseBaseURL :: "string \<Rightarrow> err option"
  apl_CreateInstallationToken :: "string \<Rightarrow> string \<Rightarrow> int \<Rightarrow> ('w, string) op"

text \<open>\<open>ParsePKCS8\<close> answers \<open>Inr None\<close> for a key that is not an RSA key.\<close>

definition parseRSAPrivateKey :: "('w, 'k) AppLibrary \<Rightarrow> string \<Rightarrow> err + 'k" where
  "parseRSAPrivateKey L contents =
     (case apl_ParsePKCS1 L contents of
        Some key \<Rightarrow> Inr key
      | None \<Rightarrow>
          (case apl_ParsePKCS8 L contents of
             Inl e \<Rightarrow> Inl e
           | Inr None \<Rightarrow> Inl (Text ''private key is not RSA'')
           | Inr (Some key) \<Rightarrow> Inr key))"

definition newApp :: "('w, 'k) AppLibrary \<Rightarrow> int \<Rightarrow> int \<Rightarrow> string \<Rightarrow> string \<Rightarrow> err + 'k GitHubApp" where
  "newApp L appID installationID privateKeyPEM baseURL =
     (if appID \<le> 0 \<or> installationID \<le> 0
      then Inl (Text ''GitHub App ID and installation ID must be positive'')
      else case apl_pemDecode L privateKeyPEM of
        None \<Rightarrow> Inl (Text ''parse GitHub App private key: PEM block is required'')
      | Some block \<Rightarrow>
          (case parseRSAPrivateKey L block of
             Inl e \<Rightarrow> Inl (errorf ''parse GitHub App private key'' e)
           | Inr key \<Rightarrow>
               Inr \<lparr>app_ID = appID, app_installationID = installationID, app_privateKey = key, app_baseURL = baseURL\<rparr>))"

definition NewApp :: "('w, 'k) AppLibrary \<Rightarrow> int \<Rightarrow> int \<Rightarrow> string \<Rightarrow> err + 'k GitHubApp" where
  "NewApp L appID installationID privateKeyPEM = newApp L appID installationID privateKeyPEM []"

text \<open>\<open>json.Marshal\<close> of the header and of the payload cannot fail.\<close>

definition jwt_header :: json where
  "jwt_header = JObject [(''alg'', JString ''RS256''), (''typ'', JString ''JWT'')]"

definition unix :: "int \<Rightarrow> int" where
  "unix t = t div second_ns"

definition jwt_payload :: "int \<Rightarrow> int \<Rightarrow> json" where
  "jwt_payload now appID = JObject
     [(''iat'', jint (unix (now - minute))), (''exp'', jint (unix (now + 9 * minute))), (''iss'', jint appID)]"

definition signedIdentity :: "('w, 'k) AppLibrary \<Rightarrow> 'k GitHubApp \<Rightarrow> ('w, string) op" where
  "signedIdentity L a =
     andThen (total (apl_now L)) (\<lambda>now.
       let unsigned = base64_url (json_text jwt_header) @ ''.'' @ base64_url (json_text (jwt_payload now (app_ID a)))
       in failing (apl_Sign L (app_privateKey a) (apl_Sum256 L unsigned)) ''sign GitHub App JWT'' (\<lambda>signature.
            ret (unsigned @ ''.'' @ base64_url signature)))"

definition InstallationToken :: "('w, 'k) AppLibrary \<Rightarrow> 'k GitHubApp \<Rightarrow> ('w, string) op" where
  "InstallationToken L a =
     andThen (signedIdentity L a) (\<lambda>identity.
       require (if app_baseURL a = [] then None else apl_parseBaseURL L (app_baseURL a))
         (errorf ''configure GitHub API URL'')
         (failing (apl_CreateInstallationToken L identity (app_baseURL a) (app_installationID a))
            ''create GitHub App installation token'' (\<lambda>answer.
            if TrimSpace answer = [] then throw (Text ''GitHub App returned an empty installation token'')
            else ret (TrimSpace answer))))"

end
