(* ===== verification/Credentials_Theorems.thy ===== *)
theory Credentials_Theorems
  imports Credentials
begin

text \<open>
  What the credentials of the server promise: no expired token is sent to EKS, and the identity of the
  GitHub App is read back by the other side as what was signed.
\<close>

section \<open>The tokens of EKS\<close>

text \<open>
  The cache of one configuration after any calls of \<open>Token\<close>: between two calls the world, and with it
  the clock, may change in any way.
\<close>

inductive token_cache :: "('w, eksTokenValue) op \<Rightarrow> ('w \<Rightarrow> int \<times> 'w) \<Rightarrow> eksTokenValue \<Rightarrow> bool"
  for generate now where
  new_cache: "token_cache generate now newEKSTokenCache"
| after_call: "token_cache generate now v \<Longrightarrow> eks_Token generate now (w, v) = (r, (w', v'))
    \<Longrightarrow> token_cache generate now v'"

text \<open>A token that was made for the cluster when the clock said \<open>made\<close>.\<close>

definition made_token :: "('w, 'a) AWS \<Rightarrow> 'a \<Rightarrow> string \<Rightarrow> int \<Rightarrow> string \<Rightarrow> bool" where
  "made_token A a cluster made bearer \<longleftrightarrow>
     (\<exists>u u' url u''. aws_PresignGetCallerIdentity A a [(eksClusterIDHeader, cluster)] u = (Inr url, u')
        \<and> aws_now A u' = (made, u'') \<and> bearer = eksTokenPrefix @ base64_url url)"

lemma generated:
  assumes "newEKSTokenGenerator A a cluster w = (Inr v, w')"
  obtains made u where "made_token A a cluster made (tok_bearer v)" and "tok_expiresAt v = made + eksTokenLifetime"
    and "aws_now A u = (made, w')"
  using assms unfolding newEKSTokenGenerator_def made_token_def
  by (fastforce simp: total_def ret_def andThen_def handle_def failing_def throw_def split: prod.splits sum.splits)

lemma refresh_cases:
  assumes "refreshToken generate (w, v) = (r, (w', v'))"
  obtains (failed) e where "generate w = (Inl e, w')" and "r = Inl e" and "v' = v"
    | (made) "generate w = (Inr v', w')" and "r = Inr (tok_bearer v')"
  using assms by (auto simp: refreshToken_def split: prod.splits sum.splits)

lemma cached_made:
  assumes "token_cache (newEKSTokenGenerator A a cluster) (aws_now A) v" and "tok_bearer v \<noteq> []"
  shows "\<exists>made. made_token A a cluster made (tok_bearer v) \<and> tok_expiresAt v = made + eksTokenLifetime"
  using assms
proof (induction rule: token_cache.induct)
  case new_cache
  then show ?case by (simp add: newEKSTokenCache_def)
next
  case (after_call v w r w' v')
  have "v' = v \<or> (\<exists>u. newEKSTokenGenerator A a cluster u = (Inr v', w'))"
    using after_call(2) by (auto simp: eks_Token_def split: if_splits prod.splits elim!: refresh_cases)
  with after_call show ?case by (metis generated)
qed

text \<open>
  C25. No request goes to an EKS cluster with a token that is about to expire: whatever calls the cache of
  tokens has served, a call that returns a bearer token returns one that was signed for the cluster at a
  time \<open>made\<close>, and the clock reading \<open>t\<close> that the call ended with, or that the new token was stamped with,
  leaves more than the margin of a minute of its lifetime of a quarter of an hour.
\<close>

theorem eks_token_fresh:
  assumes "token_cache (newEKSTokenGenerator A a cluster) (aws_now A) v"
    and "eks_Token (newEKSTokenGenerator A a cluster) (aws_now A) (w, v) = (Inr bearer, (w', v'))"
  shows "\<exists>made t u. made_token A a cluster made bearer \<and> aws_now A u = (t, w') \<and> t + eksRefreshMargin < made + eksTokenLifetime"
proof -
  have refreshed: ?thesis if "refreshToken (newEKSTokenGenerator A a cluster) (x, v) = (Inr bearer, (w', v'))" for x
    using that
  proof (cases rule: refresh_cases)
    case made
    from this(1) obtain made u where "made_token A a cluster made (tok_bearer v')" "aws_now A u = (made, w')"
      by (rule generated)
    moreover have "made + eksRefreshMargin < made + eksTokenLifetime"
      by (simp add: eksRefreshMargin_def eksTokenLifetime_def minute_def second_ns_def)
    moreover have "bearer = tok_bearer v'" using made(2) by simp
    ultimately show ?thesis by blast
  qed simp
  show ?thesis
  proof (cases "tok_bearer v = []")
    case True
    then show ?thesis using assms(2) refreshed by (simp add: eks_Token_def)
  next
    case False
    obtain t x where now: "aws_now A w = (t, x)" by fastforce
    show ?thesis
    proof (cases "t + eksRefreshMargin < tok_expiresAt v")
      case True
      then have "bearer = tok_bearer v" "w' = x" using assms(2) False now by (auto simp: eks_Token_def)
      with cached_made [OF assms(1) False] True now show ?thesis by fastforce
    next
      case expired: False
      then have "refreshToken (newEKSTokenGenerator A a cluster) (x, v) = (Inr bearer, (w', v'))"
        using assms(2) False now by (simp add: eks_Token_def)
      then show ?thesis by (rule refreshed)
    qed
  qed
qed

section \<open>Reading an encoded text\<close>

text \<open>The receiving side of \<open>base64_url\<close>: the values of the digits and the groups of four digits.\<close>

definition url_value :: "char \<Rightarrow> nat" where
  "url_value c =
     (let n = (of_char c :: nat) in
      if 65 \<le> n \<and> n \<le> 90 then n - 65
      else if 97 \<le> n \<and> n \<le> 122 then n - 71
      else if 48 \<le> n \<and> n \<le> 57 then n + 4
      else if c = CHR ''-'' then 62 else 63)"

fun read_url :: "string \<Rightarrow> string" where
  "read_url [] = []"
| "read_url [c] = []"
| "read_url [c, d] = [char_of (url_value c * 4 + url_value d div 16)]"
| "read_url [c, d, e] =
     [char_of (url_value c * 4 + url_value d div 16), char_of (url_value d mod 16 * 16 + url_value e div 4)]"
| "read_url (c # d # e # f # s) =
     char_of (url_value c * 4 + url_value d div 16) # char_of (url_value d mod 16 * 16 + url_value e div 4)
       # char_of (url_value e mod 4 * 64 + url_value f) # read_url s"

lemma url_alphabet:
  "map url_value ''ABCDEFGHIJKLMNOPQRSTUVWXYZabcdefghijklmnopqrstuvwxyz0123456789-_'' = [0..<64]"
  by (simp add: url_value_def) (simp add: upt_rec)

lemma url_value_digit [simp]: "n < 64 \<Longrightarrow> url_value (url_digit n) = n"
  using arg_cong [OF url_alphabet, of "\<lambda>ns. ns ! n"] unfolding url_digit_def by (subst (asm) nth_map) simp_all

lemma url_digit_dot [simp]:
  assumes "n < 64"
  shows "url_digit n \<noteq> CHR ''.''"
proof -
  have "url_digit n \<in> set ''ABCDEFGHIJKLMNOPQRSTUVWXYZabcdefghijklmnopqrstuvwxyz0123456789-_''"
    unfolding url_digit_def by (rule nth_mem) (use assms in simp)
  then show ?thesis by auto
qed

text \<open>The quotients and remainders of bytes that make the digits, and their recomposition.\<close>

lemma byte_quotients:
  fixes x :: nat
  assumes "x < 256"
  shows "x div 4 < 64" and "x div 16 < 16" and "x div 64 < 4"
  using assms by (simp_all add: less_mult_imp_div_less)

lemma pack:
  fixes q r m :: nat
  assumes "r < m"
  shows "(q * m + r) div m = q" and "(q * m + r) mod m = r"
  using assms by (simp_all add: div_mult_self3 add.commute)

lemma byte_parts:
  fixes a b :: char
  shows "(of_char a :: nat) div 4 < 64" and "(of_char a :: nat) mod 64 < 64"
    and "(of_char a :: nat) mod 4 * 16 + (of_char b :: nat) div 16 < 64" and "(of_char a :: nat) mod 4 * 16 < 64"
    and "(of_char a :: nat) mod 16 * 4 + (of_char b :: nat) div 64 < 64" and "(of_char a :: nat) mod 16 * 4 < 64"
proof -
  have "(of_char a :: nat) mod 4 < 4" "(of_char a :: nat) mod 16 < 16" by simp_all
  with byte_quotients [OF nat_of_char_less_256 [of a]] byte_quotients [OF nat_of_char_less_256 [of b]]
  show "(of_char a :: nat) div 4 < 64" and "(of_char a :: nat) mod 64 < 64"
    and "(of_char a :: nat) mod 4 * 16 + (of_char b :: nat) div 16 < 64" and "(of_char a :: nat) mod 4 * 16 < 64"
    and "(of_char a :: nat) mod 16 * 4 + (of_char b :: nat) div 64 < 64" and "(of_char a :: nat) mod 16 * 4 < 64"
    by linarith+
qed

lemma byte_groups:
  fixes x y z :: nat
  shows "y < 256 \<Longrightarrow> x div 4 * 4 + (x mod 4 * 16 + y div 16) div 16 = x"
    and "y < 256 \<Longrightarrow> z < 256 \<Longrightarrow> (x mod 4 * 16 + y div 16) mod 16 * 16 + (y mod 16 * 4 + z div 64) div 4 = y"
    and "z < 256 \<Longrightarrow> (y mod 16 * 4 + z div 64) mod 4 * 64 + z mod 64 = z"
    and "x div 4 * 4 + (x mod 4 * 16) div 16 = x"
    and "y < 256 \<Longrightarrow> (x mod 4 * 16 + y div 16) mod 16 * 16 + (y mod 16 * 4) div 4 = y"
  by (simp_all add: byte_quotients pack)

lemma read_base64_url: "read_url (base64_url s) = s"
proof (induction s rule: base64_url.induct)
  case (4 a b c s)
  then show ?case by (simp only: base64_url.simps Let_def read_url.simps byte_parts url_value_digit
        byte_groups nat_of_char_less_256 char_of_char)
next
  case (3 a b)
  then show ?case by (simp only: base64_url.simps Let_def read_url.simps byte_parts url_value_digit
        byte_groups nat_of_char_less_256 char_of_char)
next
  case (2 a)
  then show ?case by (simp only: base64_url.simps Let_def read_url.simps byte_parts url_value_digit
        byte_groups char_of_char)
qed simp

lemma base64_url_dotless: "CHR ''.'' \<notin> set (base64_url s)"
  by (induction s rule: base64_url.induct) (auto simp: Let_def byte_parts dest: sym)

text \<open>A clock that is the world and a signer that always answers the same address.\<close>

definition clockAWS :: "(int, unit) AWS" where
  "clockAWS =
     \<lparr>aws_LoadDefaultConfig = (\<lambda>r w. (Inr (), w)), aws_Region = (\<lambda>a. ''eu''), aws_AssumeRole = (\<lambda>a r. a),
      aws_DescribeCluster = (\<lambda>a n w. (Inr None, w)), aws_PresignGetCallerIdentity = (\<lambda>a h w. (Inr ''u'', w)),
      aws_now = (\<lambda>w. (w, w + 1))\<rparr>"

theorem eks_token_fresh_witness:
  "\<exists>bearer v made t. token_cache (newEKSTokenGenerator clockAWS () ''c'') (aws_now clockAWS) v \<and> tok_bearer v = bearer
     \<and> made_token clockAWS () ''c'' made bearer \<and> t = 899 \<and> t + eksRefreshMargin < made + eksTokenLifetime"
proof -
  let ?gen = "newEKSTokenGenerator clockAWS () ''c''" and ?bearer = "eksTokenPrefix @ base64_url ''u''"
  let ?v = "\<lparr>tok_bearer = ?bearer, tok_expiresAt = 5 + eksTokenLifetime\<rparr>"
  have first: "eks_Token ?gen (aws_now clockAWS) (5, newEKSTokenCache) = (Inr ?bearer, (6, ?v))"
    by (simp add: eks_Token_def newEKSTokenCache_def refreshToken_def newEKSTokenGenerator_def clockAWS_def failing_def op_run)
  then have "token_cache ?gen (aws_now clockAWS) ?v" by (rule after_call [OF new_cache])
  moreover have "eks_Token ?gen (aws_now clockAWS) (899, ?v) = (Inr ?bearer, (900, ?v))"
    by (simp add: eks_Token_def clockAWS_def eksTokenPrefix_def eksRefreshMargin_def eksTokenLifetime_def minute_def second_ns_def)
  note fresh = eks_token_fresh [OF calculation this]
  then obtain made t u where "made_token clockAWS () ''c'' made ?bearer" "aws_now clockAWS u = (t, 900)"
    "t + eksRefreshMargin < made + eksTokenLifetime" by blast
  moreover from this(2) have "t = 899" by (simp add: clockAWS_def)
  ultimately show ?thesis by (intro exI conjI) auto
qed

section \<open>The identity of the GitHub App\<close>

lemma split_three:
  assumes "sep \<notin> set a" and "sep \<notin> set b" and "sep \<notin> set c"
  shows "split_on sep ((a @ [sep] @ b) @ [sep] @ c) = [a, b, c]"
  using split_on_append [OF assms(1), of "b @ sep # c"] split_on_append [OF assms(2), of c] split_on_single [OF assms(3)]
  by simp

lemma payload_window: "unix (now + 9 * minute) - unix (now - minute) = 600"
proof -
  have "now + 9 * minute = now + 540 * second_ns" "now - minute = now + (- 60) * second_ns" by (simp_all add: minute_def)
  moreover have shift: "unix (now + k * second_ns) = unix now + k" for k
    unfolding unix_def by (simp add: second_ns_def)
  ultimately have "unix (now + 9 * minute) = unix now + 540" "unix (now - minute) = unix now + (- 60)" by metis+
  then show ?thesis by simp
qed

text \<open>
  C39. The identity that the GitHub App signs is what GitHub reads: its three parts are separated by the two
  points, the first two are the header and the payload, in URL-safe base64, and the third is the
  signature of the digest of their text.  The payload parses to the number of the App and to two times ten
  minutes apart, the first of them a minute before the clock.
\<close>

theorem identity_read_back:
  assumes "signedIdentity L a w = (Inr identity, w')"
  shows "\<exists>now u h p signature. apl_now L w = (now, u)
    \<and> apl_Sign L (app_privateKey a) (apl_Sum256 L (h @ ''.'' @ p)) u = (Inr signature, w')
    \<and> split_on CHR ''.'' identity = [h, p, base64_url signature] \<and> read_url (base64_url signature) = signature
    \<and> parse_json (read_url h) = Some (JObject [(''alg'', JString ''RS256''), (''typ'', JString ''JWT'')])
    \<and> parse_json (read_url p) = Some (JObject [(''iat'', jint (unix (now - minute))),
         (''exp'', jint (unix (now - minute) + 600)), (''iss'', jint (app_ID a))])"
proof -
  obtain now u where now: "apl_now L w = (now, u)" by fastforce
  let ?h = "base64_url (json_text jwt_header)" and ?p = "base64_url (json_text (jwt_payload now (app_ID a)))"
  obtain signature where sign: "apl_Sign L (app_privateKey a) (apl_Sum256 L (?h @ ''.'' @ ?p)) u = (Inr signature, w')"
    and identity: "identity = (?h @ ''.'' @ ?p) @ ''.'' @ base64_url signature"
    using assms now by (auto simp: signedIdentity_def andThen_def total_def handle_def Let_def ret_def elim!: failing_success)
  have "split_on CHR ''.'' identity = [?h, ?p, base64_url signature]"
    unfolding identity by (rule split_three) (rule base64_url_dotless)+
  moreover have "parse_json (json_text jwt_header) = Some jwt_header"
    by (rule parse_json_text) (simp add: jwt_header_def)
  moreover have "parse_json (json_text (jwt_payload now (app_ID a))) = Some (jwt_payload now (app_ID a))"
    by (rule parse_json_text) (auto simp: jwt_payload_def jint_def)
  moreover have "unix (now + 9 * minute) = unix (now - minute) + 600" using payload_window [of now] by simp
  ultimately show ?thesis
    using now sign by (intro exI conjI) (auto simp: read_base64_url jwt_header_def jwt_payload_def)
qed

text \<open>An App whose signature is the digest, which is the text itself.\<close>

definition plainApp :: "(int, unit) AppLibrary" where
  "plainApp =
     \<lparr>apl_pemDecode = Some, apl_ParsePKCS1 = (\<lambda>c. Some ()), apl_ParsePKCS8 = (\<lambda>c. Inr None), apl_Sum256 = (\<lambda>t. t),
      apl_Sign = (\<lambda>k d w. (Inr d, w)), apl_now = (\<lambda>w. (w, w)), apl_parseBaseURL = (\<lambda>u. None),
      apl_CreateInstallationToken = (\<lambda>i b n w. (Inr '' t '', w))\<rparr>"

theorem identity_read_back_witness:
  "\<exists>identity h p. signedIdentity plainApp \<lparr>app_ID = 7, app_installationID = 8, app_privateKey = (), app_baseURL = []\<rparr> (120 * second_ns)
       = (Inr identity, 120 * second_ns)
     \<and> split_on CHR ''.'' identity = [h, p, base64_url (h @ ''.'' @ p)]
     \<and> parse_json (read_url p) = Some (JObject [(''iat'', jint 60), (''exp'', jint 660), (''iss'', jint 7)])"
proof -
  let ?a = "\<lparr>app_ID = 7, app_installationID = 8, app_privateKey = (), app_baseURL = []\<rparr>" and ?w = "120 * second_ns"
  obtain identity where run: "signedIdentity plainApp ?a ?w = (Inr identity, ?w)"
    by (simp add: signedIdentity_def failing_def op_run plainApp_def Let_def)
  have "unix (?w - minute) = 60" by (simp add: unix_def second_ns_def minute_def)
  with identity_read_back [OF run] show ?thesis
    using run by (force simp: plainApp_def)
qed

end
