(* ===== verification/Database_Open.thy ===== *)
theory Database_Open
  imports Cli Catalog_Files
begin

text \<open>
  Opening the database (\<open>internal/storage/connection.go\<close>) and bringing its schema up to date
  (\<open>internal/storage/schema.go\<close>).  The drivers, the files of the operating system and the execution of a
  schema file are parameters; the table of applied versions is part of the model.
\<close>

section \<open>The data source\<close>

definition contains :: "string \<Rightarrow> string \<Rightarrow> bool" where
  "contains s part = list_ex (\<lambda>k. is_prefix_of part (drop k s)) [0..<Suc (length s)]"

text \<open>\<open>strings.TrimPrefix\<close>\<close>

definition trim_prefix :: "string \<Rightarrow> string \<Rightarrow> string" where
  "trim_prefix prefix s = (if is_prefix_of prefix s then drop (length prefix) s else s)"

text \<open>The parameters that are added to the data source of a file.\<close>

definition filePragmas :: string where
  "filePragmas = ''_pragma=busy_timeout(5000)&_pragma=foreign_keys(1)&_pragma=journal_mode(WAL)''"

text \<open>\<open>connection\<close>: the driver and the data source of a database URL.\<close>

definition connection :: "string \<Rightarrow> err + string \<times> string" where
  "connection databaseURL =
     (if is_prefix_of ''sqlite:'' databaseURL then
        let location = trim_prefix ''sqlite:'' databaseURL in
        if location = [] then Inl (Text ''SQLite database path is required'')
        else if location = '':memory:''
        then Inr (''sqlite'', ''file:dyne-workflows?mode=memory&cache=shared&_pragma=busy_timeout(5000)&_pragma=foreign_keys(1)'')
        else
          let dataSource = (if is_prefix_of ''file:'' location then location else ''file:'' @ location);
              separator = (if CHR ''?'' \<in> set dataSource then ''&'' else ''?'')
          in Inr (''sqlite'', dataSource @ separator @ filePragmas)
      else if is_prefix_of ''postgres://'' databaseURL \<or> is_prefix_of ''postgresql://'' databaseURL
      then Inr (''pgx'', databaseURL)
      else Inl (Text ''unsupported database URL; use sqlite: or postgres://''))"

section \<open>The file of a SQLite database\<close>

text \<open>Files with handles \<open>'h\<close>: opened for reading and writing, created if missing, with a mode.\<close>

record ('w, 'h) Files =
  fl_OpenFile :: "string \<Rightarrow> int \<Rightarrow> ('w, 'h) op"
  fl_Chmod :: "'h \<Rightarrow> int \<Rightarrow> ('w, unit) op"
  fl_Close :: "'h \<Rightarrow> ('w, unit) op"

definition private_mode :: int where
  "private_mode = 384"

text \<open>The path of the file, \<open>None\<close> for a database in memory; an escape that is malformed is an error.\<close>

definition sqlitePath :: "string \<Rightarrow> err + string option" where
  "sqlitePath databaseURL =
     (let location = trim_prefix ''sqlite:'' databaseURL in
      if location = '':memory:'' \<or> contains location ''mode=memory'' then Inr None
      else
        let path = takeWhile (\<lambda>c. c \<noteq> CHR ''?'') (trim_prefix ''file:'' location)
        in case url_unescape False path of
             None \<Rightarrow> Inl (errorf ''decode SQLite database path'' (Text ''invalid URL escape''))
           | Some p \<Rightarrow> Inr (Some p))"

definition protectSQLiteFile :: "('w, 'h) Files \<Rightarrow> string \<Rightarrow> ('w, unit) op" where
  "protectSQLiteFile F databaseURL =
     (case sqlitePath databaseURL of
        Inl e \<Rightarrow> throw e
      | Inr None \<Rightarrow> ret ()
      | Inr (Some path) \<Rightarrow>
          failing (fl_OpenFile F path private_mode) ''create SQLite database'' (\<lambda>file.
            handle (fl_Chmod F file private_mode)
              (\<lambda>e. handle (fl_Close F file)
                 (\<lambda>_. throw (errorf ''protect SQLite database'' e))
                 (\<lambda>_. throw (errorf ''protect SQLite database'' e)))
              (\<lambda>_. failing (fl_Close F file) ''close SQLite database'' ret)))"

section \<open>The schema\<close>

text \<open>\<open>strconv.ParseInt(s, 10, 64)\<close>\<close>

definition decimal :: "char \<Rightarrow> bool" where
  "decimal c \<longleftrightarrow> c \<in> set ''0123456789''"

definition ParseInt10 :: "string \<Rightarrow> int option" where
  "ParseInt10 s =
     (let signed = (s \<noteq> [] \<and> hd s \<in> {CHR ''+'', CHR ''-''});
          digits = (if signed then tl s else s);
          size = foldl (\<lambda>n c. 10 * n + (of_char c - 48)) 0 digits;
          v = (if signed \<and> hd s = CHR ''-'' then - size else size)
      in if digits = [] \<or> \<not> list_all decimal digits \<or> v < - (2 ^ 63) \<or> 2 ^ 63 \<le> v then None else Some v)"

definition schemaVersion :: "string \<Rightarrow> err + int" where
  "schemaVersion name =
     (case cut CHR ''_'' name of
        None \<Rightarrow> Inl (Text (''schema file '' @ name @ '' has no numeric prefix''))
      | Some (prefix, _) \<Rightarrow>
          (case ParseInt10 prefix of
             None \<Rightarrow> Inl (Text (''schema file '' @ name @ '' has an invalid version''))
           | Some version \<Rightarrow>
               if version \<le> 0 then Inl (Text (''schema file '' @ name @ '' has an invalid version''))
               else Inr version))"

text \<open>An entry of the embedded directory \<open>schema\<close>.\<close>

record SchemaEntry =
  sce_Name :: string
  sce_IsDir :: bool
  sce_Contents :: "err + string"

text \<open>
  The contents \<open>'d\<close> of the database beside the versions that \<open>schema_versions\<close> holds.  Each statement may
  fail, which \<open>sch_fails\<close> decides by the state and the name of the statement; a commit that fails may
  have taken effect nevertheless, when \<open>sch_committed\<close>.
\<close>

record 'd SchemaState =
  sch_data :: 'd
  sch_versions :: "int list"

record 'd SchemaEngine =
  sch_fails :: "string \<Rightarrow> 'd SchemaState \<Rightarrow> err option"
  sch_exec :: "string \<Rightarrow> 'd \<Rightarrow> err + 'd"
  sch_committed :: "'d SchemaState \<Rightarrow> bool"

definition schemaFile :: "SchemaEntry \<Rightarrow> bool" where
  "schemaFile entry \<longleftrightarrow> \<not> sce_IsDir entry \<and> is_prefix_of (rev ''.sql'') (rev (sce_Name entry))"

definition applyEntry :: "'d SchemaEngine \<Rightarrow> SchemaEntry \<Rightarrow> 'd SchemaState \<Rightarrow> err + 'd SchemaState" where
  "applyEntry E entry s =
     (case schemaVersion (sce_Name entry) of
        Inl e \<Rightarrow> Inl e
      | Inr version \<Rightarrow>
          (case sch_fails E ''count'' s of
             Some e \<Rightarrow> Inl (errorf (''read schema version '' @ itoa version) e)
           | None \<Rightarrow>
               if version \<in> set (sch_versions s) then Inr s
               else case sce_Contents entry of
                 Inl e \<Rightarrow> Inl (errorf (''read schema version '' @ itoa version) e)
               | Inr contents \<Rightarrow>
                   (case sch_exec E contents (sch_data s) of
                      Inl e \<Rightarrow> Inl (errorf (''apply schema version '' @ itoa version) e)
                    | Inr d \<Rightarrow>
                        let s' = s\<lparr>sch_data := d\<rparr> in
                        case sch_fails E ''record'' s' of
                          Some e \<Rightarrow> Inl (errorf (''record schema version '' @ itoa version) e)
                        | None \<Rightarrow> Inr (s'\<lparr>sch_versions := sch_versions s @ [version]\<rparr>))))"

fun applyEntries :: "'d SchemaEngine \<Rightarrow> SchemaEntry list \<Rightarrow> 'd SchemaState \<Rightarrow> err + 'd SchemaState" where
  "applyEntries E [] s = Inr s"
| "applyEntries E (entry # es) s =
     (if \<not> schemaFile entry then applyEntries E es s
      else case applyEntry E entry s of Inl e \<Rightarrow> Inl e | Inr s' \<Rightarrow> applyEntries E es s')"

text \<open>What happens between \<open>BeginTx\<close> and \<open>Commit\<close>; \<open>entries\<close> is what \<open>fs.ReadDir\<close> answers.\<close>

definition schemaSteps ::
  "'d SchemaEngine \<Rightarrow> string \<Rightarrow> err + SchemaEntry list \<Rightarrow> 'd SchemaState \<Rightarrow> err + 'd SchemaState" where
  "schemaSteps E driver entries s =
     (case (if driver = ''pgx'' then sch_fails E ''lock'' s else None) of
        Some e \<Rightarrow> Inl (errorf ''lock schema'' e)
      | None \<Rightarrow>
          (case sch_fails E ''create'' s of
             Some e \<Rightarrow> Inl (errorf ''create schema version table'' e)
           | None \<Rightarrow>
               (case entries of
                  Inl e \<Rightarrow> Inl (errorf ''read schema'' e)
                | Inr es \<Rightarrow> applyEntries E es s)))"

definition applySchema ::
  "'d SchemaEngine \<Rightarrow> string \<Rightarrow> err + SchemaEntry list \<Rightarrow> ('d SchemaState, unit) op" where
  "applySchema E driver entries s =
     (case sch_fails E ''begin'' s of
        Some e \<Rightarrow> (Inl (errorf ''begin schema update'' e), s)
      | None \<Rightarrow>
          (case schemaSteps E driver entries s of
             Inl e \<Rightarrow> (Inl e, s)
           | Inr s' \<Rightarrow>
               (case sch_fails E ''commit'' s' of
                  Some e \<Rightarrow> (Inl (errorf ''commit schema updates'' e), if sch_committed E s' then s' else s)
                | None \<Rightarrow> (Inr (), s'))))"

section \<open>Opening\<close>

text \<open>The connection pool of \<open>database/sql\<close>, with handles \<open>'p\<close>.\<close>

record ('w, 'p) Pools =
  pl_Open :: "string \<Rightarrow> string \<Rightarrow> ('w, 'p) op"
  pl_SetMaxOpenConns :: "'p \<Rightarrow> int \<Rightarrow> ('w, unit) op"
  pl_Ping :: "'p \<Rightarrow> ('w, unit) op"
  pl_Close :: "'p \<Rightarrow> ('w, unit) op"
  pl_applySchema :: "'p \<Rightarrow> string \<Rightarrow> ('w, unit) op"

text \<open>\<open>_ = database.Close()\<close> before an error is returned.\<close>

definition closing :: "('w, 'p) Pools \<Rightarrow> 'p \<Rightarrow> err \<Rightarrow> ('w, 'a) op" where
  "closing P pool e = handle (pl_Close P pool) (\<lambda>_. throw e) (\<lambda>_. throw e)"

definition Open :: "('w, 'h) Files \<Rightarrow> ('w, 'p) Pools \<Rightarrow> string \<Rightarrow> ('w, 'p) op" where
  "Open F P databaseURL =
     (case connection databaseURL of
        Inl e \<Rightarrow> throw e
      | Inr (driver, dataSource) \<Rightarrow>
          andThen (if driver = ''sqlite'' then protectSQLiteFile F databaseURL else ret ()) (\<lambda>_.
          failing (pl_Open P driver dataSource) ''open database'' (\<lambda>pool.
          andThen (if driver = ''sqlite'' then pl_SetMaxOpenConns P pool 1 else ret ()) (\<lambda>_.
          handle (pl_Ping P pool)
            (\<lambda>e. closing P pool (errorf ''connect to database'' e))
            (\<lambda>_. handle (pl_applySchema P pool driver) (closing P pool) (\<lambda>_. ret pool))))))"

end
