(* ===== verification/Database_Theorems.thy ===== *)
theory Database_Theorems
  imports Database_Open Cli_Facts
begin

text \<open>
  What opening the database promises: SQLite enforces the foreign keys that the repositories rely on, and
  the schema is updated as a whole and only once.
\<close>

section \<open>The parameters of a SQLite data source\<close>

text \<open>The parameters after the first question mark, which the driver reads.\<close>

definition data_source_parameters :: "string \<Rightarrow> string list" where
  "data_source_parameters ds = (case cut CHR ''?'' ds of None \<Rightarrow> [] | Some (_, q) \<Rightarrow> split_on CHR ''&'' q)"

lemma parameters_appended:
  assumes "CHR ''?'' \<in> set s"
  shows "set (split_on CHR ''&'' extra) \<subseteq> set (data_source_parameters (s @ ''&'' @ extra))"
proof -
  obtain a b where s: "s = a @ CHR ''?'' # b" "CHR ''?'' \<notin> set a" using assms by (meson split_list_first)
  then have "cut CHR ''?'' (s @ ''&'' @ extra) = Some (a, b @ ''&'' @ extra)"
    using cut_first [OF s(2), of "b @ ''&'' @ extra"] by simp
  then show ?thesis using split_on_concat [of "CHR ''&''" b extra] by (simp add: data_source_parameters_def)
qed

lemma parameters_added:
  assumes "CHR ''?'' \<notin> set s"
  shows "data_source_parameters (s @ ''?'' @ extra) = split_on CHR ''&'' extra"
  using cut_first [OF assms, of extra] by (simp add: data_source_parameters_def)

definition foreign_keys_pragma :: string where
  "foreign_keys_pragma = ''_pragma=foreign_keys(1)''"

lemma pragmas:
  "foreign_keys_pragma \<in> set (split_on CHR ''&'' filePragmas)"
  "foreign_keys_pragma \<in> set (data_source_parameters
     ''file:dyne-workflows?mode=memory&cache=shared&_pragma=busy_timeout(5000)&_pragma=foreign_keys(1)'')"
  by code_simp+

text \<open>
  C40. Every SQLite database that the server opens enforces foreign keys: whatever the database URL is, the
  parameters of the data source turn them on, which the cascades that the repositories rely on need.
\<close>

theorem sqlite_foreign_keys:
  assumes "connection databaseURL = Inr (driver, dataSource)"
  shows "driver = ''sqlite'' \<and> foreign_keys_pragma \<in> set (data_source_parameters dataSource)
    \<or> driver = ''pgx'' \<and> dataSource = databaseURL"
proof (cases "is_prefix_of ''sqlite:'' databaseURL")
  case True
  let ?location = "trim_prefix ''sqlite:'' databaseURL"
  let ?s = "if is_prefix_of ''file:'' ?location then ?location else ''file:'' @ ?location"
  have added: "foreign_keys_pragma \<in> set (data_source_parameters (s @ (if CHR ''?'' \<in> set s then ''&'' else ''?'') @ filePragmas))" for s
    using pragmas(1) parameters_appended [of s filePragmas] parameters_added [of s filePragmas]
    by (cases "CHR ''?'' \<in> set s") auto
  have used: "?location \<noteq> []" using assms True by (auto simp: connection_def)
  show ?thesis
  proof (cases "?location = '':memory:''")
    case memory: True
    show ?thesis
      using assms True memory pragmas(2) unfolding connection_def Let_def
      by (simp only: memory if_True if_False sum.inject prod.inject list.distinct) simp
  next
    case on_disk: False
    have "(driver, dataSource) = (''sqlite'', ?s @ (if CHR ''?'' \<in> set ?s then ''&'' else ''?'') @ filePragmas)"
      using assms unfolding connection_def Let_def by (simp only: True used on_disk if_True if_False sum.inject)
    with added [of ?s] show ?thesis by blast
  qed
next
  case False
  with assms show ?thesis by (auto simp: connection_def split: if_splits)
qed

theorem sqlite_foreign_keys_witness:
  "\<exists>ds. connection ''sqlite:dyne.db?cache=private'' = Inr (''sqlite'', ds) \<and> foreign_keys_pragma \<in> set (data_source_parameters ds)"
proof -
  have run: "connection ''sqlite:dyne.db?cache=private'' = Inr (''sqlite'',
      ''file:dyne.db?cache=private&_pragma=busy_timeout(5000)&_pragma=foreign_keys(1)&_pragma=journal_mode(WAL)'')"
    by code_simp
  from sqlite_foreign_keys [OF run] run show ?thesis by simp
qed

section \<open>The schema\<close>

text \<open>The versions of the schema files among the entries.\<close>

definition entry_versions :: "SchemaEntry list \<Rightarrow> int set" where
  "entry_versions es = {v. \<exists>e \<in> set es. schemaFile e \<and> schemaVersion (sce_Name e) = Inr v}"

lemma applyEntry_Inr:
  assumes "applyEntry E e s = Inr s'"
  obtains v where "schemaVersion (sce_Name e) = Inr v" and "v \<in> set (sch_versions s)" and "s' = s"
  | v where "schemaVersion (sce_Name e) = Inr v" and "v \<notin> set (sch_versions s)"
      and "sch_versions s' = sch_versions s @ [v]"
  using assms by (auto simp: applyEntry_def Let_def split: sum.splits option.splits if_splits)

lemma applyEntries_Inr:
  assumes "applyEntries E es s = Inr s'"
  shows "set (sch_versions s') = set (sch_versions s) \<union> entry_versions es
    \<and> (distinct (sch_versions s) \<longrightarrow> distinct (sch_versions s'))
    \<and> (\<forall>e \<in> set es. schemaFile e \<longrightarrow> (\<exists>v. schemaVersion (sce_Name e) = Inr v))"
  using assms
proof (induction es arbitrary: s)
  case Nil
  then show ?case by (simp add: entry_versions_def)
next
  case (Cons e es)
  show ?case
  proof (cases "schemaFile e")
    case False
    with Cons show ?thesis by (simp add: entry_versions_def)
  next
    case True
    with Cons.prems obtain s1 where one: "applyEntry E e s = Inr s1" and rest: "applyEntries E es s1 = Inr s'"
      by (auto split: sum.splits)
    from one True Cons.IH [OF rest] show ?thesis
      by (auto simp: entry_versions_def elim!: applyEntry_Inr)
  qed
qed

lemma applied_again:
  assumes "entry_versions es \<subseteq> set (sch_versions s)" and "applyEntries E es s = Inr s'"
  shows "s' = s"
  using assms
proof (induction es)
  case (Cons e es)
  have "s1 = s" if "schemaFile e" "applyEntry E e s = Inr s1" for s1
    using that Cons.prems(1) by (auto simp: entry_versions_def elim!: applyEntry_Inr)
  with Cons show ?case by (auto simp: entry_versions_def split: if_splits sum.splits)
qed simp

lemma schemaSteps_Inr: "schemaSteps E driver (Inr es) s = Inr s' \<Longrightarrow> applyEntries E es s = Inr s'"
  by (auto simp: schemaSteps_def split: option.splits)

text \<open>
  C26. Bringing the schema up to date is all or nothing, and happens once.  Whatever fails, the database is
  left as it was or completely updated; a success leaves exactly the versions that were recorded before
  and those of the schema files, none of them twice; and after a success every further attempt, on
  whatever connection and failing or not, changes nothing.
\<close>

theorem schema_update:
  assumes "applySchema E driver (Inr es) s = (r, s')"
  shows "(s' = s \<or> schemaSteps E driver (Inr es) s = Inr s')
    \<and> (r = Inr () \<longrightarrow>
         set (sch_versions s') = set (sch_versions s) \<union> entry_versions es
         \<and> (distinct (sch_versions s) \<longrightarrow> distinct (sch_versions s'))
         \<and> (\<forall>E' driver' r2 s2. applySchema E' driver' (Inr es) s' = (r2, s2) \<longrightarrow> s2 = s'))"
proof (intro conjI impI allI)
  show "s' = s \<or> schemaSteps E driver (Inr es) s = Inr s'"
    using assms by (auto simp: applySchema_def split: option.splits sum.splits if_splits)
  assume "r = Inr ()"
  then have "schemaSteps E driver (Inr es) s = Inr s'"
    using assms by (auto simp: applySchema_def split: option.splits sum.splits)
  note updated = applyEntries_Inr [OF schemaSteps_Inr [OF this]]
  from updated show versions: "set (sch_versions s') = set (sch_versions s) \<union> entry_versions es" by blast
  from updated show "distinct (sch_versions s')" if "distinct (sch_versions s)" using that by blast
  fix E' driver' r2 s2
  assume "applySchema E' driver' (Inr es) s' = (r2, s2)"
  then have "s2 = s' \<or> applyEntries E' es s' = Inr s2"
    by (auto simp: applySchema_def dest: schemaSteps_Inr split: option.splits sum.splits if_splits)
  then show "s2 = s'" using applied_again [of es s'] versions by blast
qed

theorem schema_update_witness:
  defines "E \<equiv> (\<lparr>sch_fails = (\<lambda>_ _. None), sch_exec = (\<lambda>sql d. Inr (d @ [sql])), sch_committed = (\<lambda>_. True)\<rparr> :: string list SchemaEngine)"
    and "es \<equiv> [\<lparr>sce_Name = ''001_workflow_runs.sql'', sce_IsDir = False, sce_Contents = Inr ''create''\<rparr>,
      \<lparr>sce_Name = ''002_workflow_agent_snapshots.sql'', sce_IsDir = False, sce_Contents = Inr ''alter''\<rparr>]"
  shows "applySchema E ''pgx'' (Inr es) \<lparr>sch_data = [''create''], sch_versions = [1]\<rparr>
      = (Inr (), \<lparr>sch_data = [''create'', ''alter''], sch_versions = [1, 2]\<rparr>)
    \<and> entry_versions es \<subseteq> {1, 2}"
proof -
  have run: "applySchema E ''pgx'' (Inr es) \<lparr>sch_data = [''create''], sch_versions = [1]\<rparr>
      = (Inr (), \<lparr>sch_data = [''create'', ''alter''], sch_versions = [1, 2]\<rparr>)"
    unfolding E_def es_def by code_simp
  from schema_update [OF run] have "set [1, 2] = set [1] \<union> entry_versions es" by simp
  with run show ?thesis by auto
qed

end
