(* ===== verification/Startup.thy ===== *)
theory Startup
  imports Control_Facts Cli Agent_Catalog Credentials Database_Open
begin

text \<open>
  The command \<open>server\<close> (\<open>serve\<close> in \<open>cmd/dyne/main.go\<close>) from its arguments to its end, with the
  constructors of the controls (\<open>New\<close> in \<open>internal/session\<close>, \<open>internal/workflow\<close>, \<open>internal/agent\<close> and
  \<open>internal/publish\<close>), of the runtime (\<open>internal/workload/runtime.go\<close>) and the loop of the workflows.

  A field of an interface type is an option, \<open>None\<close> for nil.  The network, the processes of the operating
  system and the schedule of the goroutines are parameters.
\<close>

section \<open>Constructors\<close>

record 'w SessionConfig =
  scf_Repository :: "'w SessionRepository option"
  scf_Runtime :: "'w SessionRuntime option"
  scf_RepositoryAuth :: "('w, string) op option"
  scf_Image :: string
  scf_TaskTimeout :: int

text \<open>
  \<open>newControl\<close> of the sessions: the generator of task names and the clock are replaced by those of the
  environment when they are nil.
\<close>

definition newSessionControl ::
  "'e Environment \<Rightarrow> 'e world SessionConfig \<Rightarrow> ('e world, string) op option
   \<Rightarrow> ('e world \<Rightarrow> int \<times> 'e world) option \<Rightarrow> err + 'e world SessionControl" where
  "newSessionControl E config newTaskID now =
     (case scf_Repository config of
        None \<Rightarrow> Inl (Text ''session repository is required'')
      | Some repository \<Rightarrow>
          (case scf_Runtime config of
             None \<Rightarrow> Inl (Text ''session runtime is required'')
           | Some runtime \<Rightarrow>
               if blank (scf_Image config) then Inl (Text ''session image is required'')
               else if scf_TaskTimeout config \<le> 0 then Inl (Text ''task timeout must be greater than zero'')
               else Inr
                 \<lparr>sc_repository = repository, sc_runtime = runtime, sc_repositoryAuth = scf_RepositoryAuth config,
                  sc_image = scf_Image config, sc_taskTimeout = scf_TaskTimeout config,
                  sc_newTaskID = (case newTaskID of None \<Rightarrow> randomTaskID (env_random E) | Some f \<Rightarrow> f),
                  sc_now = (case now of None \<Rightarrow> lift_fun (env_now E) | Some f \<Rightarrow> f),
                  sc_sha256 = env_sha256 E, sc_marshalIntent = env_marshalTask E\<rparr>))"

definition NewSessions :: "'e Environment \<Rightarrow> 'e world SessionConfig \<Rightarrow> err + 'e world SessionControl" where
  "NewSessions E config = newSessionControl E config None None"

text \<open>The operations of session control that the workflows use.\<close>

definition sessionOperationsOf :: "'w SessionControl \<Rightarrow> 'w SessionOperations" where
  "sessionOperationsOf c =
     \<lparr>so_Start = session_Start c, so_Status = session_Status c, so_Artifacts = session_Artifacts c,
      so_Delete = session_Delete c, so_Destroy = session_Destroy c\<rparr>"

definition newWorkflowControl ::
  "'e Environment \<Rightarrow> 'e world RunRepository \<Rightarrow> 'e world SessionOperations \<Rightarrow> WorkflowCatalog option
   \<Rightarrow> ('e world \<Rightarrow> int \<times> 'e world) option \<Rightarrow> 'e world WorkflowControl" where
  "newWorkflowControl E repository sessions catalog now =
     \<lparr>wc_repository = repository, wc_sessions = sessions, wc_catalog = catalog,
      wc_now = (case now of None \<Rightarrow> lift_fun (env_now E) | Some f \<Rightarrow> f), wc_sha256 = env_sha256 E,
      wc_marshalIntent = env_marshalIntent E, wc_marshalOutputs = env_marshalOutputs E\<rparr>"

definition NewWorkflows ::
  "'e Environment \<Rightarrow> 'e world RunRepository option \<Rightarrow> 'e world SessionControl option \<Rightarrow> WorkflowCatalog option
   \<Rightarrow> err + 'e world WorkflowControl" where
  "NewWorkflows E repository sessions catalog =
     (case sessions of
        None \<Rightarrow> Inl (Text ''session control is required'')
      | Some c \<Rightarrow>
          (case repository of
             None \<Rightarrow> Inl (Text ''workflow repository is required'')
           | Some r \<Rightarrow> Inr (newWorkflowControl E r (sessionOperationsOf c) catalog None)))"

definition newAgentControl ::
  "'w SessionControl option \<Rightarrow> AgentCatalog option \<Rightarrow> err + 'w AgentControl" where
  "newAgentControl sessions agents =
     (case sessions of
        None \<Rightarrow> Inl (Text ''session control is required'')
      | Some c \<Rightarrow> Inr \<lparr>agc_start = session_Start c, agc_catalog = agents\<rparr>)"

record 'w PublisherRuntime =
  pbr_Scope :: string
  pbr_RunPublisher :: "PublisherRequest \<Rightarrow> 'w \<Rightarrow> (PublisherResult \<times> err option) \<times> 'w"
  pbr_DeletePublisher :: "string \<Rightarrow> ('w, unit) op"

record 'w PublishConfig =
  pcf_Sessions :: "'w SessionControl option"
  pcf_Repository :: "'w PublishRepository option"
  pcf_Runtime :: "'w PublisherRuntime option"
  pcf_RepositoryAuth :: "('w, string) op option"

definition NewPublisher :: "'e Environment \<Rightarrow> 'e world PublishConfig \<Rightarrow> err + 'e world PublishControl" where
  "NewPublisher E config =
     (case pcf_Sessions config of
        None \<Rightarrow> Inl (Text ''session control is required'')
      | Some sessions \<Rightarrow>
     (case pcf_Repository config of
        None \<Rightarrow> Inl (Text ''publish repository is required'')
      | Some repository \<Rightarrow>
     (case pcf_Runtime config of
        None \<Rightarrow> Inl (Text ''publisher runtime is required'')
      | Some runtime \<Rightarrow>
     (case pcf_RepositoryAuth config of
        None \<Rightarrow> Inl (Text ''repository credential provider is required'')
      | Some token \<Rightarrow> Inr
          \<lparr>pc_PreparePublication = session_PreparePublication sessions, pc_repository = repository,
           pc_scope = pbr_Scope runtime, pc_RunPublisher = pbr_RunPublisher runtime,
           pc_DeletePublisher = pbr_DeletePublisher runtime, pc_token = token,
           pc_newGitHubClient = newClient (\<lambda>t. lift_api (env_github E t)), pc_now = lift_fun (env_now E),
           pc_parseURL = env_parseURL E, pc_sha256 = env_sha256 E, pc_marshalIntent = env_marshalPublish E\<rparr>))))"

text \<open>
  \<open>NewForConfig\<close>: the typed and the dynamic client of a REST configuration \<open>'c\<close> may be refused; together
  they make the requests of the runtime.
\<close>

record ('c, 'e) ClientLibrary =
  clb_typed :: "'c \<Rightarrow> err option"
  clb_dynamic :: "'c \<Rightarrow> err option"
  clb_requests :: "'c \<Rightarrow> 'e Kubernetes"

definition NewForConfig :: "('c, 'e) ClientLibrary \<Rightarrow> 'c option \<Rightarrow> string \<Rightarrow> bool \<Rightarrow> err + 'e Kubernetes" where
  "NewForConfig C restConfig namespace output =
     (case restConfig of
        None \<Rightarrow> Inl (Text ''kubernetes configuration is required'')
      | Some conf \<Rightarrow>
          if bad_label 63 namespace
          then Inl (Text ''namespace must be a lowercase DNS label no longer than 63 characters'')
          else if \<not> output then Inl (Text ''output stream is required'')
          else case clb_typed C conf of
            Some e \<Rightarrow> Inl (errorf ''create Kubernetes client'' e)
          | None \<Rightarrow>
              (case clb_dynamic C conf of
                 Some e \<Rightarrow> Inl (errorf ''create Kubernetes dynamic client'' e)
               | None \<Rightarrow> Inr ((clb_requests C conf)\<lparr>k_namespace := namespace\<rparr>)))"

text \<open>\<open>controlplane.New\<close>\<close>

definition writeLogsOf ::
  "'e world SessionControl \<Rightarrow> ('e \<Rightarrow> 'e) \<Rightarrow> ('e \<Rightarrow> string list) \<Rightarrow> string \<Rightarrow> bool \<Rightarrow> 'e world
   \<Rightarrow> (string list \<times> (err + unit)) \<times> 'e world" where
  "writeLogsOf c fresh written name follow w =
     (case session_WriteLogs c name follow (w\<lparr>w_env := fresh (w_env w)\<rparr>) of
        (r, w') \<Rightarrow> ((written (w_env w'), r), w'))"

definition newControlPlane ::
  "'e world AgentControl \<Rightarrow> 'e world SessionControl \<Rightarrow> 'e world PublishControl \<Rightarrow> 'e world WorkflowControl option
   \<Rightarrow> ('e \<Rightarrow> 'e) \<Rightarrow> ('e \<Rightarrow> string list) \<Rightarrow> (string \<Rightarrow> string) \<Rightarrow> 'e world ControlPlane" where
  "newControlPlane ctl ss pub flow fresh written decoderError =
     \<lparr>cp_agents = \<lparr>ao_Agents = agent_Agents ctl, ao_Start = agent_Start ctl\<rparr>,
      cp_sessions =
        \<lparr>cs_Continue = session_Continue ss, cs_Status = session_Status ss,
         cs_Artifacts = session_Artifacts ss, cs_WriteLogs = writeLogsOf ss fresh written,
         cs_Delete = session_Delete ss, cs_Destroy = session_Destroy ss\<rparr>,
      cp_Publish = Publish pub,
      cp_workflows = map_option (\<lambda>ws.
        \<lparr>wo_Workflows = workflow_Workflows ws, wo_Start = workflow_Start ws,
         wo_Get = workflow_Get ws, wo_Artifacts = workflow_Artifacts ws,
         wo_Cancel = workflow_Cancel ws, wo_Delete = workflow_Delete ws\<rparr>) flow,
      cp_decoderError = decoderError\<rparr>"

section \<open>The loop of the workflows\<close>

text \<open>
  \<open>workflow.Control.Run\<close>: one attempt when it starts and one for each tick that it sees before it sees the
  end of its context.  An attempt comes with whether the context had ended when it failed, in which case
  nothing is reported.
\<close>

definition attempt :: "'w WorkflowControl \<Rightarrow> (string \<Rightarrow> 'w \<Rightarrow> 'w) \<Rightarrow> bool \<Rightarrow> 'w \<Rightarrow> 'w" where
  "attempt c print ended w =
     (case workflow_ReconcileAll c w of
        (Inl e, w') \<Rightarrow>
          if ended then w' else print (''reconcile workflows: '' @ error_text e @ [CHR 0x0A]) w'
      | (Inr u, w') \<Rightarrow> w')"

definition workflow_Run ::
  "'w WorkflowControl \<Rightarrow> (string \<Rightarrow> 'w \<Rightarrow> 'w) \<Rightarrow> int \<Rightarrow> bool \<Rightarrow> bool list \<Rightarrow> ('w, unit) op" where
  "workflow_Run c print interval first ticks w =
     (if interval \<le> 0 then (Inl (Text ''workflow reconcile interval must be greater than zero''), w)
      else (Inr (), fold (attempt c print) ticks (attempt c print first w)))"

section \<open>Options\<close>

definition defaultDatabaseURL :: "(string \<Rightarrow> string) \<Rightarrow> string" where
  "defaultDatabaseURL Getenv =
     (if Getenv ''DYNE_DATABASE_URL'' \<noteq> [] then Getenv ''DYNE_DATABASE_URL'' else ''sqlite:dyne.db'')"

definition serverFlags :: "(string \<Rightarrow> string) \<Rightarrow> flags" where
  "serverFlags Getenv =
     [(''listen'', FlagString ''127.0.0.1:8080''), (''namespace'', FlagString ''coding-agents''),
      (''image'', FlagString ''coding-agent:local''), (''storage-size'', FlagString ''10Gi''),
      (''task-timeout'', FlagDuration (120 * minute)), (''kubeconfig'', FlagString []), (''context'', FlagString []),
      (''eks-cluster'', FlagString []), (''aws-region'', FlagString []), (''aws-role-arn'', FlagString []),
      (''github-app-id'', FlagInt64 0), (''github-installation-id'', FlagInt64 0),
      (''github-private-key-file'', FlagString []), (''agents-file'', FlagString []),
      (''workflows-file'', FlagString []), (''database-url'', FlagString (defaultDatabaseURL Getenv))]"

definition connectionOptions :: "flags \<Rightarrow> ConnectionConfig" where
  "connectionOptions fls =
     \<lparr>kc_KubeconfigPath = text_flag fls ''kubeconfig'', kc_ContextName = text_flag fls ''context'',
      kc_EKSCluster = text_flag fls ''eks-cluster'', kc_AWSRegion = text_flag fls ''aws-region'',
      kc_AWSRoleARN = text_flag fls ''aws-role-arn''\<rparr>"

definition agentDefaults :: "flags \<Rightarrow> AgentDefaults" where
  "agentDefaults fls =
     \<lparr>dfl_StorageSize = text_flag fls ''storage-size'', dfl_TaskTimeout = duration_flag fls ''task-timeout''\<rparr>"

section \<open>The process\<close>

text \<open>How \<open>select\<close> left the serving phase: \<open>Serve\<close> returned an error or \<open>ErrServerClosed\<close>, or the context ended.\<close>

datatype serving = ServeReturned err | ServeClosed | Interrupted

text \<open>
  Everything outside the sources.  \<open>pr_serve\<close> is the phase in which requests are served on a listener \<open>'l\<close>
  while the loop of the workflows runs beside it; \<open>pr_ticks\<close> are the attempts that the loop still makes
  after that, until it has seen that it is to stop.  \<open>pr_fresh\<close> and \<open>pr_written\<close> are the response writer
  of \<open>Control_Facts\<close>.
\<close>

record ('e, 'c, 'k, 'h, 'p, 'l) Process =
  pr_Getenv :: "string \<Rightarrow> string"
  pr_parseDuration :: "string \<Rightarrow> int option"
  pr_catalog :: CatalogLibrary
  pr_files :: "'e world FileSystem"
  pr_engineering :: "'e world FSFiles"
  pr_ReadFile :: "string \<Rightarrow> ('e world, string) op"
  pr_app :: "('e, 'k) AppLibrary"
  pr_loaders :: "('e world, 'c) ConnectionLoaders"
  pr_clients :: "('c, 'e) ClientLibrary"
  pr_databaseFiles :: "('e world, 'h) Files"
  pr_pools :: "('e world, 'p) Pools"
  pr_environment :: "'e Environment"
  pr_fresh :: "'e \<Rightarrow> 'e"
  pr_written :: "'e \<Rightarrow> string list"
  pr_decoderError :: "string \<Rightarrow> string"
  pr_print :: "string \<Rightarrow> 'e world \<Rightarrow> 'e world"
  pr_Listen :: "string \<Rightarrow> ('e world, 'l) op"
  pr_serve :: "'l \<Rightarrow> 'e world ControlPlane \<Rightarrow> 'e world WorkflowControl option \<Rightarrow> 'e world \<Rightarrow> serving \<times> 'e world"
  pr_Shutdown :: "('e world, unit) op"
  pr_ticks :: "'e world \<Rightarrow> bool list"

text \<open>
  The environment of the controls, with the runtime on the Kubernetes requests and the tokens of the App.
  The publisher's operations stay those of the given environment.
\<close>

definition serverEnvironment ::
  "('e, 'c, 'k, 'h, 'p, 'l) Process \<Rightarrow> flags \<Rightarrow> 'k GitHubApp \<Rightarrow> 'e Kubernetes
   \<Rightarrow> (string \<times> WorkflowDefinition) list option \<Rightarrow> 'e Environment" where
  "serverEnvironment P fls app K workflows = (pr_environment P)
     \<lparr>env_auth := Some (InstallationToken (pr_app P) app), env_scope := k_namespace K,
      env_start := runtime_Start K, env_observe := runtime_Observe K, env_logs := runtime_WriteLogs K,
      env_delete := runtime_Delete K, env_image := text_flag fls ''image'',
      env_taskTimeout := duration_flag fls ''task-timeout'',
      env_catalog := map_option (\<lambda>ds. catalogOf (Some ds)) workflows\<rparr>"

text \<open>The part of \<open>serve\<close> before the database is opened.\<close>

definition configureServer ::
  "('e, 'c, 'k, 'h, 'p, 'l) Process \<Rightarrow> flags \<Rightarrow> ('e world, 'e Environment \<times> agents) op" where
  "configureServer P fls =
     andThen (loadServerCatalogs (pr_catalog P) (pr_files P) (pr_engineering P)
       (text_flag fls ''agents-file'') (text_flag fls ''workflows-file'') (agentDefaults fls)) (\<lambda>(agents, workflows).
     if text_flag fls ''github-private-key-file'' = [] then throw (Text ''--github-private-key-file is required'')
     else
       failing (pr_ReadFile P (text_flag fls ''github-private-key-file'')) ''read GitHub App private key'' (\<lambda>privateKey.
       andThen (lifted (NewApp (pr_app P) (int_flag fls ''github-app-id'') (int_flag fls ''github-installation-id'')
         privateKey)) (\<lambda>app.
       andThen (loadConnectionConfig (connectionOptions fls) (pr_loaders P)) (\<lambda>restConfig.
       andThen (lifted (NewForConfig (pr_clients P) (Some restConfig) (text_flag fls ''namespace'') True)) (\<lambda>K.
         ret (serverEnvironment P fls app K workflows, agents))))))"

text \<open>The controls over an open database, whose repositories are those of \<open>Storage\<close>.\<close>

definition buildControls ::
  "('e, 'c, 'k, 'h, 'p, 'l) Process \<Rightarrow> 'e Environment \<Rightarrow> agents
   \<Rightarrow> ('e world, 'e world ControlPlane \<times> 'e world WorkflowControl option) op" where
  "buildControls P E agents =
     andThen (lifted (NewSessions E
       \<lparr>scf_Repository = Some (sessionRepository (env_driver E)), scf_Runtime = Some (serverRuntime E),
        scf_RepositoryAuth = map_option lift_env (env_auth E), scf_Image = env_image E,
        scf_TaskTimeout = env_taskTimeout E\<rparr>)) (\<lambda>sessions.
     andThen (lifted (newAgentControl (Some sessions) (Some (agentCatalogOf (Some agents))))) (\<lambda>agentsControl.
     andThen (lifted (NewPublisher E
       \<lparr>pcf_Sessions = Some sessions, pcf_Repository = Some (publishRepository (env_driver E)),
        pcf_Runtime = Some \<lparr>pbr_Scope = env_scope E, pbr_RunPublisher = (\<lambda>q. lift_fun (env_runPublisher E q)),
          pbr_DeletePublisher = (\<lambda>name. lift_env (env_deletePublisher E name))\<rparr>,
        pcf_RepositoryAuth = map_option lift_env (env_auth E)\<rparr>)) (\<lambda>publisher.
     andThen (handle (session_ReconcileDeletions sessions)
       (\<lambda>e. total (\<lambda>w. ((), pr_print P (''reconcile session deletions: '' @ error_text e @ [CHR 0x0A]) w))) ret) (\<lambda>_.
     andThen (case env_catalog E of
         None \<Rightarrow> ret None
       | Some catalog \<Rightarrow> andThen (lifted (NewWorkflows E (Some (runRepository (env_driver E))) (Some sessions) (Some catalog)))
           (\<lambda>control. ret (Some control))) (\<lambda>workflows.
       ret (newControlPlane agentsControl sessions publisher workflows (pr_fresh P) (pr_written P) (pr_decoderError P),
            workflows))))))"

text \<open>
  The deferred end of the loop of the workflows (\<open>workflow_Run\<close> with two seconds), which runs after \<open>m\<close>
  whether it fails or not: the attempts that are left of the loop.
\<close>

definition stopping ::
  "('e, 'c, 'k, 'h, 'p, 'l) Process \<Rightarrow> 'e world WorkflowControl option \<Rightarrow> ('e world, 'a) op \<Rightarrow> ('e world, 'a) op" where
  "stopping P workflows m w =
     (case m w of (r, w1) \<Rightarrow>
        (case workflows of
           None \<Rightarrow> (r, w1)
         | Some control \<Rightarrow>
             (r, fold (attempt control (pr_print P)) (pr_ticks P w1) w1)))"

definition listenAndServe ::
  "('e, 'c, 'k, 'h, 'p, 'l) Process \<Rightarrow> string \<Rightarrow> 'e world ControlPlane \<Rightarrow> 'e world WorkflowControl option
   \<Rightarrow> ('e world, unit) op" where
  "listenAndServe P address handler workflows =
     failing (pr_Listen P address) (''listen on '' @ address) (\<lambda>listener.
     andThen (total (pr_serve P listener handler workflows)) (\<lambda>outcome.
       case outcome of
         ServeClosed \<Rightarrow> ret ()
       | ServeReturned e \<Rightarrow> throw e
       | Interrupted \<Rightarrow> failing (pr_Shutdown P) ''shut down HTTP server'' ret))"

text \<open>The deferred \<open>Close\<close> of the database, whose error is joined to the result.\<close>

definition closingStorage ::
  "('e, 'c, 'k, 'h, 'p, 'l) Process \<Rightarrow> 'p \<Rightarrow> ('e world, unit) op \<Rightarrow> ('e world, unit) op" where
  "closingStorage P pool m w =
     (case m w of (r, w1) \<Rightarrow>
        (case pl_Close (pr_pools P) pool w1 of
           (Inr u, w2) \<Rightarrow> (r, w2)
         | (Inl e, w2) \<Rightarrow>
             (Inl (Join ((case r of Inl re \<Rightarrow> [re] | Inr _ \<Rightarrow> []) @ [errorf ''close storage'' e])), w2)))"

text \<open>What happens while the database is open.\<close>

definition runServer ::
  "('e, 'c, 'k, 'h, 'p, 'l) Process \<Rightarrow> flags \<Rightarrow> 'e Environment \<Rightarrow> agents \<Rightarrow> 'p \<Rightarrow> ('e world, unit) op" where
  "runServer P fls E agents pool =
     closingStorage P pool
       (andThen (buildControls P E agents) (\<lambda>(handler, workflows).
          stopping P workflows (listenAndServe P (text_flag fls ''listen'') handler workflows)))"

definition serve :: "('e, 'c, 'k, 'h, 'p, 'l) Process \<Rightarrow> string list \<Rightarrow> ('e world, unit) op" where
  "serve P args =
     andThen (lifted (parse_flags (pr_parseDuration P) (serverFlags (pr_Getenv P)) args)) (\<lambda>(fls, rest).
     andThen (configureServer P fls) (\<lambda>(E, agents).
     andThen (Open (pr_databaseFiles P) (pr_pools P) (text_flag fls ''database-url'')) (runServer P fls E agents)))"

end
