(* ===== verification/Startup_Theorems.thy ===== *)
theory Startup_Theorems
  imports Startup Catalog_Theorems Runtime_Theorems Workflow_Creation
begin

text \<open>
  What the start of the server establishes for the operations that it serves, and what the life of a
  server does to its database.
\<close>

section \<open>The constructors on the server's own parts\<close>

lemma NewSessions_server:
  "NewSessions E
     \<lparr>scf_Repository = Some (sessionRepository (env_driver E)), scf_Runtime = Some (serverRuntime E),
      scf_RepositoryAuth = map_option lift_env (env_auth E), scf_Image = env_image E,
      scf_TaskTimeout = env_taskTimeout E\<rparr> =
   (if blank (env_image E) then Inl (Text ''session image is required'')
    else if env_taskTimeout E \<le> 0 then Inl (Text ''task timeout must be greater than zero'')
    else Inr (serverSessions E))"
  by (simp add: NewSessions_def newSessionControl_def serverSessions_def)

lemma NewPublisher_server:
  "NewPublisher E
     \<lparr>pcf_Sessions = Some (serverSessions E), pcf_Repository = Some (publishRepository (env_driver E)),
      pcf_Runtime = Some \<lparr>pbr_Scope = env_scope E, pbr_RunPublisher = (\<lambda>q. lift_fun (env_runPublisher E q)),
        pbr_DeletePublisher = (\<lambda>name. lift_env (env_deletePublisher E name))\<rparr>,
      pcf_RepositoryAuth = map_option lift_env (env_auth E)\<rparr> =
   (if env_auth E = None then Inl (Text ''repository credential provider is required'')
    else Inr (serverPublish E))"
  by (auto simp: NewPublisher_def serverPublish_def)

lemma NewWorkflows_server:
  "env_catalog E = Some catalog \<Longrightarrow>
   NewWorkflows E (Some (runRepository (env_driver E))) (Some (serverSessions E)) (Some catalog) = Inr (serverWorkflows E)"
  by (simp add: NewWorkflows_def newWorkflowControl_def serverWorkflows_def serverOperations_def sessionOperationsOf_def)

abbreviation "loopOf E \<equiv> (if env_catalog E = None then None else Some (serverWorkflows E))"

lemma newControlPlane_server:
  "newControlPlane (serverAgents E agents) (serverSessions E) (serverPublish E) (loopOf E) fresh written decoderError =
     serverControlPlane E agents fresh written decoderError"
  by (auto simp: newControlPlane_def serverControlPlane_def Let_def writeLogsOf_def serverWriteLogs_def fun_eq_iff
      split: prod.splits)

lemmas server_constructors = NewSessions_server NewPublisher_server newAgentControl_def serverAgents_def [symmetric]

lemma buildControls_eq:
  "buildControls P E agents =
     (if blank (env_image E) then throw (Text ''session image is required'')
      else if env_taskTimeout E \<le> 0 then throw (Text ''task timeout must be greater than zero'')
      else if env_auth E = None then throw (Text ''repository credential provider is required'')
      else
        andThen (handle (session_ReconcileDeletions (serverSessions E))
          (\<lambda>e. total (\<lambda>w. ((), pr_print P (''reconcile session deletions: '' @ error_text e @ [CHR 0x0A]) w))) ret)
          (\<lambda>_. ret (serverControlPlane E (Some (agentCatalogOf (Some agents))) (pr_fresh P) (pr_written P)
                     (pr_decoderError P), loopOf E)))"
proof -
  have loop: "(case env_catalog E of
       None \<Rightarrow> ret None
     | Some catalog \<Rightarrow> andThen (lifted (NewWorkflows E (Some (runRepository (env_driver E))) (Some (serverSessions E)) (Some catalog)))
         (\<lambda>control. ret (Some control))) = ret (loopOf E)"
    by (simp add: NewWorkflows_server lifted_def split: option.split)
  show ?thesis
    unfolding buildControls_def NewSessions_server newAgentControl_def
    by (simp add: lifted_def NewPublisher_server loop serverAgents_def [symmetric] newControlPlane_server
        del: option.case_eq_if)
qed

section \<open>A server that is set up\<close>

lemma lifted_success: "lifted r w = (Inr a, w') \<longleftrightarrow> r = Inr a \<and> w' = w"
  by (auto simp: lifted_def op_run split: sum.splits)

lemma configureServer_Inr:
  assumes "configureServer P fls w = (Inr (E, agents), w')"
  obtains workflows u v app K where
    "loadServerCatalogs (pr_catalog P) (pr_files P) (pr_engineering P)
       (text_flag fls ''agents-file'') (text_flag fls ''workflows-file'') (agentDefaults fls) w = (Inr (agents, workflows), u)"
    and "E = serverEnvironment P fls app K workflows" and "\<not> bad_label 63 (k_namespace K)"
    and "0 < app_ID app" and "0 < app_installationID app"
proof -
  from assms obtain workflows u pem u1 app u2 conf u3 K u4 where
    load: "loadServerCatalogs (pr_catalog P) (pr_files P) (pr_engineering P)
       (text_flag fls ''agents-file'') (text_flag fls ''workflows-file'') (agentDefaults fls) w = (Inr (agents, workflows), u)"
    and app: "NewApp (pr_app P) (int_flag fls ''github-app-id'') (int_flag fls ''github-installation-id'') pem = Inr app"
    and K: "NewForConfig (pr_clients P) (Some conf) (text_flag fls ''namespace'') True = Inr K"
    and E: "E = serverEnvironment P fls app K workflows"
    unfolding configureServer_def
    by (auto simp: throw_def ret_def lifted_success split: if_splits prod.splits elim!: andThen_success failing_success)
  have "\<not> bad_label 63 (k_namespace K)"
    using K by (auto simp: NewForConfig_def split: if_splits option.splits)
  moreover have "0 < app_ID app" "0 < app_installationID app"
    using app by (auto simp: NewApp_def newApp_def split: if_splits option.splits sum.splits)
  ultimately show thesis using that load E by blast
qed

text \<open>The YAML decoder keeps the names of the steps of a workflow apart, as the keys of a mapping.\<close>

definition step_keys_distinct :: "CatalogLibrary \<Rightarrow> bool" where
  "step_keys_distinct L \<longleftrightarrow>
     (\<forall>contents file f. cl_decodeWorkflows L contents = Inr file \<longrightarrow> f \<in> snd ` set (wcf_Workflows file)
        \<longrightarrow> distinct (map fst (df_Steps f)))"

lemma loaded_workflows_ok:
  assumes load: "loadServerCatalogs L F S agentsFile workflowsFile defaults w = (Inr (agents, Some ds), w')"
    and label: "label_check (cl_isDNS1123Label L)" and keys: "step_keys_distinct L"
  shows "catalog_ok (Some (catalogOf (Some ds)))"
proof -
  have "\<exists>cat contents. loadWorkflowCatalog (cl_decodeWorkflows L) (cl_isDNS1123Label L) cat contents = Inr ds"
  proof (cases "agentsFile = []")
    case True
    with load obtain cat u v where "loadWorkflowsFS L (Some S) ''engineering/workflows.yaml'' cat u = (Inr ds, v)"
      unfolding loadServerCatalogs_def LoadEngineeringWorkflows_def
      by (auto simp: throw_def ret_def split: if_splits elim!: andThen_success failing_success)
    then show ?thesis by (rule loadWorkflowsFS_catalog) blast
  next
    case False
    with load obtain cat u v where "loadWorkflowsFile L F workflowsFile cat u = (Inr ds, v)"
      unfolding loadServerCatalogs_def
      by (auto simp: throw_def ret_def split: if_splits elim!: andThen_success failing_success)
    then show ?thesis by (rule loadWorkflowsFile_catalog) blast
  qed
  then obtain cat contents where
    "loadWorkflowCatalog (cl_decodeWorkflows L) (cl_isDNS1123Label L) cat contents = Inr ds" by blast
  moreover have "cl_isDNS1123Label L [] \<noteq> []"
    using label by (auto simp: label_check_def dns_label_def)
  ultimately show ?thesis
    using keys by (intro loadWorkflowCatalog_ok) (auto simp: step_keys_distinct_def)
qed

lemma configured:
  assumes "configureServer P fls w0 = (Inr (E, agents), w1)"
    and "label_check (cl_isDNS1123Label (pr_catalog P))" and "step_keys_distinct (pr_catalog P)"
  shows "catalog_ok (env_catalog E)"
    and "\<exists>K. env_start E = runtime_Start K \<and> env_observe E = runtime_Observe K \<and> env_delete E = runtime_Delete K
        \<and> env_scope E = k_namespace K \<and> \<not> bad_label 63 (k_namespace K)"
proof -
  from assms(1) obtain workflows u app K where
    load: "loadServerCatalogs (pr_catalog P) (pr_files P) (pr_engineering P)
       (text_flag fls ''agents-file'') (text_flag fls ''workflows-file'') (agentDefaults fls) w0 = (Inr (agents, workflows), u)"
    and E: "E = serverEnvironment P fls app K workflows" and K: "\<not> bad_label 63 (k_namespace K)"
    by (rule configureServer_Inr)
  show "catalog_ok (env_catalog E)"
  proof (cases workflows)
    case None
    then show ?thesis by (simp add: E serverEnvironment_def catalog_ok_def)
  next
    case (Some ds)
    with load loaded_workflows_ok [OF _ assms(2,3)] show ?thesis by (auto simp: E serverEnvironment_def)
  qed
  show "\<exists>K. env_start E = runtime_Start K \<and> env_observe E = runtime_Observe K \<and> env_delete E = runtime_Delete K
      \<and> env_scope E = k_namespace K \<and> \<not> bad_label 63 (k_namespace K)"
    using K by (intro exI [of _ K]) (simp add: E serverEnvironment_def)
qed

lemma buildControls_Inr:
  assumes "buildControls P E agents w = (Inr (handler, workflows), w')"
  shows "handler = serverControlPlane E (Some (agentCatalogOf (Some agents))) (pr_fresh P) (pr_written P) (pr_decoderError P)"
    and "workflows = loopOf E" and "\<not> blank (env_image E)" and "0 < env_taskTimeout E" and "env_auth E \<noteq> None"
  using assms unfolding buildControls_eq
  by (simp_all add: throw_def ret_def not_le split: if_splits) (auto elim!: andThen_success)

lemma buildControls_succeeds:
  assumes "\<not> blank (env_image E)" and "0 < env_taskTimeout E" and "env_auth E \<noteq> None"
  shows "\<exists>handler workflows w'. buildControls P E agents w = (Inr (handler, workflows), w')"
  using assms by (cases "session_ReconcileDeletions (serverSessions E) w")
    (auto simp: buildControls_eq op_run split: sum.splits)

text \<open>
  C17. A server that is set up is ready for what it accepts.  When the configuration and the construction of
  the controls succeed, the requests are served by the operations of session, agent, publish and workflow
  control, and the loop reconciles with the same workflow control; every configured workflow satisfies
  the contract of runs, there are credentials and a default timeout; and no accepted session can be
  refused by the runtime: unless its timeout is shorter than a second, the first task is rendered and
  applied in the namespace of the server.
\<close>

theorem server_ready:
  assumes "configureServer P fls w0 = (Inr (E, agents), w1)"
    and "buildControls P E agents w2 = (Inr (handler, workflows), w3)"
    and "label_check (cl_isDNS1123Label (pr_catalog P))" and "step_keys_distinct (pr_catalog P)"
  shows "handler = serverControlPlane E (Some (agentCatalogOf (Some agents))) (pr_fresh P) (pr_written P) (pr_decoderError P)
    \<and> workflows = (if env_catalog E = None then None else Some (serverWorkflows E))
    \<and> catalog_ok (env_catalog E) \<and> env_auth E \<noteq> None \<and> 0 < env_taskTimeout E
    \<and> (\<forall>d q w rec t w' credential. validateSessionStart d q = None \<longrightarrow> 10 ^ 9 \<le> req_Timeout q
         \<longrightarrow> initialIntent (serverSessions E) d q w = ((rec, t), w')
         \<longrightarrow> (\<exists>K. env_scope E = k_namespace K \<and> env_start E (taskRequest rec t False credential) =
               applyManifest K (encodeResourceList
                 (manifestItems (manifestSpec (taskRequest rec t False credential) (env_scope E)) True))))"
proof -
  note built = buildControls_Inr [OF assms(2)]
  obtain K where K: "env_start E = runtime_Start K" "env_scope E = k_namespace K" "\<not> bad_label 63 (k_namespace K)"
    using configured(2) [OF assms(1,3,4)] by blast
  have image: "\<not> blank (sc_image (serverSessions E))" using built(3) by (simp add: serverSessions_def)
  have "env_start E (taskRequest rec t False credential) = applyManifest K (encodeResourceList
      (manifestItems (manifestSpec (taskRequest rec t False credential) (env_scope E)) True))"
    if "validateSessionStart d q = None" "10 ^ 9 \<le> req_Timeout q"
      "initialIntent (serverSessions E) d q w = ((rec, t), w')" for d q w rec t w' credential
    using accepted_start_renders [OF that(1) K(3) image that(3,2)] by (simp add: K)
  with built configured(1) [OF assms(1,3,4)] K(2) show ?thesis by blast
qed

section \<open>The life of a server\<close>

text \<open>What the server does to its world, in any number of steps.\<close>

abbreviation "steps E \<equiv> (server_step E)\<^sup>*\<^sup>*"





abbreviation "handlerOf P E agents \<equiv>
  serverControlPlane E (Some (agentCatalogOf (Some agents))) (pr_fresh P) (pr_written P) (pr_decoderError P)"












section \<open>Examples\<close>

text \<open>
  A server on the demonstration environment: its catalog and its key are files, the cluster takes every
  request, one request for a status arrives before the process is interrupted, and the loop makes one more
  attempt.
\<close>

definition startProcess :: "(Demo, unit, unit, unit, unit, unit) Process" where
  "startProcess =
     \<lparr>pr_Getenv = (\<lambda>_. []), pr_parseDuration = (\<lambda>_. Some 60), pr_catalog = catalogLibrary, pr_files = catalogDisk,
      pr_engineering = embeddedFiles, pr_ReadFile = (\<lambda>p. ret ''key''),
      pr_app = \<lparr>apl_pemDecode = Some, apl_ParsePKCS1 = (\<lambda>_. Some ()), apl_ParsePKCS8 = (\<lambda>_. Inr None),
        apl_Sum256 = id, apl_Sign = (\<lambda>k. ret), apl_now = (\<lambda>w. (0, w)), apl_parseBaseURL = (\<lambda>_. None),
        apl_CreateInstallationToken = (\<lambda>i u n. ret ''token'')\<rparr>,
      pr_loaders = \<lparr>cnl_inCluster = ret (), cnl_kubeconfig = (\<lambda>p c. ret ()), cnl_eks = (\<lambda>c. ret ()),
        cnl_notInCluster = (\<lambda>e. True)\<rparr>,
      pr_clients = \<lparr>clb_typed = (\<lambda>_. None), clb_dynamic = (\<lambda>_. None), clb_requests = (\<lambda>_. demoCluster)\<rparr>,
      pr_databaseFiles = \<lparr>fl_OpenFile = (\<lambda>p m. ret ()), fl_Chmod = (\<lambda>h m. ret ()), fl_Close = (\<lambda>h. ret ())\<rparr>,
      pr_pools = \<lparr>pl_Open = (\<lambda>d s. ret ()), pl_SetMaxOpenConns = (\<lambda>p n. ret ()), pl_Ping = (\<lambda>p. ret ()),
        pl_Close = (\<lambda>p. ret ()), pl_applySchema = (\<lambda>p d. ret ())\<rparr>,
      pr_environment = demoEnvironment, pr_fresh = id, pr_written = (\<lambda>_. []), pr_decoderError = id,
      pr_print = (\<lambda>s w. w), pr_Listen = (\<lambda>a. ret ()),
      pr_serve = (\<lambda>l h f w. (Interrupted, snd (cs_Status (cp_sessions h) ''s'' w))),
      pr_Shutdown = ret (), pr_ticks = (\<lambda>w. [False])\<rparr>"

definition startFlags :: flags where
  "startFlags =
     [(''listen'', FlagString ''127.0.0.1:8080''), (''namespace'', FlagString ''default''),
      (''image'', FlagString ''coding-agent:local''), (''storage-size'', FlagString ''1Gi''),
      (''task-timeout'', FlagDuration 60), (''kubeconfig'', FlagString []), (''context'', FlagString []),
      (''eks-cluster'', FlagString []), (''aws-region'', FlagString []), (''aws-role-arn'', FlagString []),
      (''github-app-id'', FlagInt64 7), (''github-installation-id'', FlagInt64 31),
      (''github-private-key-file'', FlagString ''key.pem''), (''agents-file'', FlagString ''/c/agents.yaml''),
      (''workflows-file'', FlagString ''/c/workflows.yaml''), (''database-url'', FlagString ''sqlite:dyne.db'')]"

lemma startFlags_parsed:
  "parse_flags (\<lambda>_. Some 60) (serverFlags (\<lambda>_. []))
     [''-namespace'', ''default'', ''-storage-size=1Gi'', ''--task-timeout'', ''60ns'', ''-github-app-id=7'',
      ''-github-installation-id'', ''0x1_f'', ''-github-private-key-file=key.pem'', ''-agents-file'', ''/c/agents.yaml'',
      ''-workflows-file'', ''/c/workflows.yaml''] = Inr (startFlags, [])"
  unfolding startFlags_def by code_simp

lemma start_values:
  "text_flag startFlags ''agents-file'' = ''/c/agents.yaml''" "text_flag startFlags ''workflows-file'' = ''/c/workflows.yaml''"
  "text_flag startFlags ''github-private-key-file'' = ''key.pem''" "text_flag startFlags ''namespace'' = ''default''"
  "text_flag startFlags ''image'' = ''coding-agent:local''" "duration_flag startFlags ''task-timeout'' = 60"
  "int_flag startFlags ''github-app-id'' = 7" "int_flag startFlags ''github-installation-id'' = 31"
  "agentDefaults startFlags = catalogDefaults"
  "connectionOptions startFlags = \<lparr>kc_KubeconfigPath = [], kc_ContextName = [], kc_EKSCluster = [], kc_AWSRegion = [], kc_AWSRoleARN = []\<rparr>"
  by (simp_all add: startFlags_def text_flag_def duration_flag_def int_flag_def agentDefaults_def catalogDefaults_def
      connectionOptions_def)

lemma start_configured:
  "\<exists>E. configureServer startProcess startFlags w = (Inr (E, [(''reader'', readerAgent)]), w)
     \<and> env_catalog E \<noteq> None \<and> env_image E = ''coding-agent:local'' \<and> env_taskTimeout E = 60 \<and> env_auth E \<noteq> None"
proof -
  obtain d where load: "loadServerCatalogs catalogLibrary catalogDisk embeddedFiles ''/c/agents.yaml'' ''/c/workflows.yaml''
      catalogDefaults w = (Inr ([(''reader'', readerAgent)], Some [(''one'', d)]), w)"
    using loaded_demo [of w] by blast
  have label: "\<not> bad_label 63 ''default''" by code_simp
  have "configureServer startProcess startFlags w =
      (Inr (serverEnvironment startProcess startFlags
        \<lparr>app_ID = 7, app_installationID = 31, app_privateKey = (), app_baseURL = []\<rparr>
        (demoCluster\<lparr>k_namespace := ''default''\<rparr>) (Some [(''one'', d)]), [(''reader'', readerAgent)]), w)"
    unfolding configureServer_def start_values
    by (simp add: startProcess_def load op_run failing_def lifted_def NewApp_def newApp_def parseRSAPrivateKey_def
        loadConnectionConfig_def NewForConfig_def label)
  then show ?thesis by (simp add: serverEnvironment_def start_values)
qed

lemma start_keys: "step_keys_distinct (pr_catalog startProcess)"
  by (auto simp: step_keys_distinct_def startProcess_def catalogLibrary_def)

lemma start_labels: "label_check (cl_isDNS1123Label (pr_catalog startProcess))"
  using demo_label_check by (simp add: startProcess_def)

theorem server_ready_witness:
  "\<exists>E handler w3. buildControls startProcess E [(''reader'', readerAgent)] (demoWorld runningObservation)
       = (Inr (handler, Some (serverWorkflows E)), w3)
     \<and> catalog_ok (env_catalog E) \<and> env_catalog E \<noteq> None
     \<and> configureServer startProcess startFlags (demoWorld runningObservation)
       = (Inr (E, [(''reader'', readerAgent)]), demoWorld runningObservation)"
proof -
  let ?w = "demoWorld runningObservation"
  obtain E where conf: "configureServer startProcess startFlags ?w = (Inr (E, [(''reader'', readerAgent)]), ?w)"
    and E: "env_catalog E \<noteq> None" "env_image E = ''coding-agent:local''" "env_taskTimeout E = 60" "env_auth E \<noteq> None"
    using start_configured [of ?w] by blast
  have "\<not> blank ''coding-agent:local''" by code_simp
  then obtain handler flows w3 where built: "buildControls startProcess E [(''reader'', readerAgent)] ?w = (Inr (handler, flows), w3)"
    using buildControls_succeeds [of E startProcess "[(''reader'', readerAgent)]" ?w] E by auto
  from server_ready [OF conf built start_labels start_keys] E built conf show ?thesis by auto
qed


end
