(* ===== verification/Spec2Isabelle.thy ===== *)
theory Spec2Isabelle
  imports Session_Theorems Workflow_Theorems Publish_Theorems Runtime_Theorems Cli_Theorems Publisher_Theorems Catalog_Theorems Credentials_Theorems Database_Theorems Startup_Theorems
begin

text \<open>
  A model of dyne, a server that runs coding agents in Kubernetes: its sessions and their tasks, its
  workflows of sessions, the publication of a session's work as a pull request, and the database that
  they share.  Names are those of the sources under \<open>src/\<close>.

  \<^bold>\<open>How the code is modelled.\<close>  Structs are records, string enumerations are datatypes, errors are
  the values of \<open>err\<close> (\<open>Effects\<close>).  A function that may fail and changes a world \<open>'w\<close> is an
  operation \<open>('w, 'a) op\<close>: it returns an error or a value with the new world, and what it wrote
  before it failed stays written.  Go maps are association lists, the order of which stands for one
  iteration order.  Times and durations are integers counting nanoseconds.  The locks of the two
  controls make each operation on one session or run atomic; the lock table itself is modelled
  separately (\<open>Session_Locks\<close>).

  \<^bold>\<open>Theories and sources.\<close>
  \<^item> \<open>Prelude\<close>, \<open>Effects\<close>, \<open>Json_Value\<close>, \<open>Json_Text\<close>, \<open>Json_Encode\<close>: the parts of Go's standard
    library that the sources use (text, errors, JSON values, the reading and writing of JSON text) and
    the combinators of operations with their proof rules.
  \<^item> \<open>Session_Types\<close>, \<open>Session_Control\<close>, \<open>Session_Locks\<close>: \<open>internal/session\<close>.
    \<open>Session_Refinement\<close> proves that a task only makes the moves of \<open>task_move\<close>.
  \<^item> \<open>Workflow_Types\<close>, \<open>Workflow_Schedule\<close>, \<open>Workflow_Control\<close>: \<open>internal/workflow\<close>.
    \<open>Workflow_Steps\<close> has the state machine \<open>run_move\<close> of a run and its invariant \<open>run_ok\<close>;
    \<open>Workflow_Refinement\<close>, \<open>Workflow_Creation\<close> and \<open>Workflow_Properties\<close> relate the code to it.
  \<^item> \<open>Workflow_Graph\<close>, \<open>Workflow_Catalog\<close>, \<open>Catalog_Files\<close>, \<open>Agent_Catalog\<close>: \<open>internal/catalog\<close>, with
    the paths of Go's \<open>path\<close> package and the bounded readers; \<open>Agents\<close>: \<open>internal/agent\<close>.
  \<^item> \<open>Publish_Types\<close>, \<open>GitHub_Client\<close>, \<open>Publish_Control\<close>, \<open>Publish_Refinement\<close>:
    \<open>internal/publish\<close> and \<open>internal/github/client.go\<close>, with the state machine \<open>publish_move\<close>.
  \<^item> \<open>Database\<close>, \<open>Storage\<close>, \<open>Storage_Facts\<close>: \<open>internal/storage\<close>, each statement as a function on
    tables under the constraints of the schema, with a driver that may fail before or after any
    statement; \<open>Database_Open\<close>: the opening of the database and the update of its schema.
  \<^item> \<open>Manifest\<close>, \<open>Kubernetes_Runtime\<close>, \<open>Publisher_Runtime\<close>: \<open>internal/workload\<close>, with the facts in
    \<open>Manifest_Facts\<close> and \<open>Runtime_Facts\<close>.
  \<^item> \<open>Control_Plane\<close>: \<open>internal/controlplane\<close>, with the routes, handlers and answers to errors;
    \<open>Cli\<close>: the client commands of \<open>cmd/dyne/main.go\<close> with the package \<open>flag\<close>.
  \<^item> \<open>Credentials\<close>: \<open>internal/kubernetes\<close> and \<open>internal/github/app.go\<close>.
  \<^item> \<open>Server\<close>, \<open>Server_Invariants\<close>, \<open>Server_Properties\<close>: the composition of \<open>cmd/dyne/main.go\<close> over one
    database and one environment, the step relation \<open>server_step\<close> of everything the server can do, and
    the invariants of its reachable states; \<open>Startup\<close>: the command \<open>server\<close> with the constructors of
    the controls, from its flags to the close of the database.
  \<^item> \<open>Error_Kinds\<close>, \<open>Session_Facts\<close>, \<open>Run_Facts\<close>, \<open>Catalog_Facts\<close>, \<open>Control_Facts\<close>, \<open>Cli_Facts\<close>: facts
    that several properties share; \<open>Examples\<close>: a concrete environment for the witnesses; the theories
    \<open>*_Theorems\<close> and this one: the properties.

  \<^bold>\<open>What is shown.\<close>  Tasks, runs and publications only make the moves of their state machines in any
  reachable database, and stored runs satisfy their invariant (\<open>Session_Theorems\<close>, this theory,
  \<open>Publish_Theorems\<close>).  The scheduler respects dependencies and the bound on parallelism and cannot get
  stuck, runs terminate, the graph check finds exactly the cycles (\<open>Workflow_Theorems\<close>).  A manifest is
  closed and confines the credential, observations are truthful, a publisher reports only what it has
  published (\<open>Runtime_Theorems\<close>, \<open>Publisher_Theorems\<close>).  The HTTP interface answers errors without
  internal detail, accepts only strict bodies, and serves what the client commands send
  (\<open>Control_Theorems\<close>, \<open>Cli_Theorems\<close>).  Catalogs read only below their directory and load only what
  session control accepts (\<open>Catalog_Theorems\<close>); tokens are fresh (\<open>Credentials_Theorems\<close>); the schema
  update is all or nothing (\<open>Database_Theorems\<close>); a server that starts is ready for what it accepts and
  leaves a valid database behind (\<open>Startup_Theorems\<close>).

  \<^bold>\<open>Bounds.\<close>  The polling loops of the GitHub client take the number of ticks of their deadline
  as fuel (15 or 5 seconds at one tick a second).  The graph search terminates by the number of
  steps it has not coloured.  The JSON parser has fuel above what any text of its length needs
  (\<open>next_value_fuel\<close>).  The waits of the publisher take the ticks that their deadlines allow, and the
  two calls by which a publisher Job is created and found again, which may repeat for ever, are a
  \<open>partial_function\<close> that is proved to return when the races with other creators are finite
  (\<open>publisher_run_returns\<close>).

  \<^bold>\<open>Parameters.\<close>  SHA-256, RSA and X.509, the texts of \<open>json.Marshal\<close> that are hashed, the YAML
  decoder, \<open>url.Parse\<close>, \<open>time.ParseDuration\<close>, the label and quantity checks of the Kubernetes libraries,
  the GitHub, Kubernetes and AWS APIs, the SQL drivers, the file system, the network, the schedule of
  the goroutines, the clock and the random source.

  \<^bold>\<open>Not modelled.\<close>  \<open>main\<close>, which turns an error into an exit status; the progress output of the
  runtimes; the bound of the GitHub client on the size of a response and the middleware of the AWS
  library, which act inside third-party clients; the text of JSON responses, which hold values here; the
  interfaces that are generated for the SQL statements.
\<close>

section \<open>The server as a whole\<close>

text \<open>
  C1. The server refines the state machine of a workflow run: whatever it does, whether an operation of its
  API with any arguments, a reconciler or a change of the environment, and whatever fails in between, a
  stored run that is still stored afterwards has only made moves of \<open>run_move\<close>.
\<close>

theorem run_evolution:
  assumes "server_step E w w'" and "server_reachable E w"
    and "storedRun (w_db w) name = Some run" and "storedRun (w_db w') name = Some run'"
  shows "run_moves run run'"
proof -
  have "world_sound w" using reachable_sound [OF assms(2)] by simp
  from server_step_run [OF assms(1) this assms(3,4)] show ?thesis .
qed

theorem run_evolution_witness:
  "\<exists>w run. workflow_Reconcile (serverWorkflows demoEnvironment) ''run'' cancelWorld = (Inr (), w)
     \<and> storedRun (w_db w) ''run'' = Some run \<and> run_moves cancelRun run \<and> run_State run = StateCanceled"
proof -
  obtain w where w: "workflow_Reconcile (serverWorkflows demoEnvironment) ''run'' cancelWorld = (Inr (), w)"
    using cancel_demo by (metis prod.collapse)
  obtain run where run: "storedRun (w_db w) ''run'' = Some run" "run_State run = StateCanceled"
    using workflow_Reconcile_cancel [OF cancelWorld_run _ _ _ cancelWorld_ok w] by (auto simp: cancelRun_fields terminal_def)
  have "server_step demoEnvironment cancelWorld w"
    using server_step.reconcile [of demoEnvironment cancelWorld "''run''"] w by simp
  from run_evolution [OF this cancelWorld_reachable cancelWorld_run run(1)] w run show ?thesis by blast
qed

text \<open>
  C2. In every database that the server can reach from an empty one with a valid catalog, a stored run keeps
  its bound on parallelism, a step has started only if all its dependencies are completed, a step is
  skipped only if a dependency failed, and a completed step has kept its output and the change that
  another step takes over.
\<close>

theorem stored_run_valid:
  assumes "server_reachable E w" and "catalog_ok (env_catalog E)"
    and "storedRun (w_db w) name = Some run" and "get_step run n = Some s"
  shows "activeSteps run \<le> run_MaxParallelism run
    \<and> (step_State s \<in> {StepStarting, StepRunning, StepCompleted, StepBlocked, StepFailed} \<longrightarrow>
         list_all (dep_completed run) (step_After s))
    \<and> (step_State s = StepSkipped \<longrightarrow> list_ex (dep_failed run) (step_After s))
    \<and> (step_State s = StepCompleted \<longrightarrow> retained run s)"
proof -
  have "runs_satisfy (\<lambda>r. catalog_ok (env_catalog E) \<longrightarrow> run_ok r) (w_db w)"
    using reachable_sound [OF assms(1)] by simp
  with assms(2,3) have "run_ok run"
    by (auto simp: runs_satisfy_def storedRun_def find_Some_iff)
  with assms(4) show ?thesis by (auto simp: run_ok_def step_sound_def)
qed

theorem stored_run_valid_witness:
  "activeSteps (demoNewRun\<lparr>run_Revision := 1\<rparr>) \<le> run_MaxParallelism (demoNewRun\<lparr>run_Revision := 1\<rparr>)"
proof -
  have "get_step (demoNewRun\<lparr>run_Revision := 1\<rparr>) ''plan'' = get_step demoNewRun ''plan''"
    by (simp add: get_step_def)
  with demo_plan(1) stored_run_valid [OF runWorld_reachable demo_catalog demo_storedRun] show ?thesis by metis
qed

text \<open>
  C9. A step that has ended never changes its state, its output, its change or its summary again, whatever
  the server does.
\<close>

theorem settled_step_kept:
  assumes "server_step E w w'" and "server_reachable E w"
    and "storedRun (w_db w) name = Some run" and "storedRun (w_db w') name = Some run'"
    and "get_step run n = Some s"
    and "step_State s \<in> {StepCompleted, StepBlocked, StepFailed, StepCanceled, StepSkipped}"
  shows "\<exists>s'. get_step run' n = Some s' \<and> step_State s' = step_State s \<and> step_Output s' = step_Output s
    \<and> step_Change s' = step_Change s \<and> step_Summary s' = step_Summary s \<and> step_Blocker s' = step_Blocker s"
proof -
  have "world_sound w" using reachable_sound [OF assms(2)] by simp
  moreover have "settled (step_State s)" using assms(6) by (simp add: settled_def)
  ultimately have "\<exists>s'. get_step run' n = Some s' \<and> kept s s'"
    using server_step_settled [OF assms(1) _ assms(3-5)] by blast
  then show ?thesis by (auto simp: kept_def)
qed

theorem settled_step_kept_witness:
  "\<exists>w run s. server_reachable demoEnvironment w \<and> storedRun (w_db w) ''run'' = Some run
     \<and> get_step run ''plan'' = Some s \<and> settled (step_State s)
     \<and> (\<exists>s'. get_step run ''plan'' = Some s' \<and> step_State s' = step_State s)"
proof -
  obtain w where w: "workflow_Reconcile (serverWorkflows demoEnvironment) ''run'' cancelWorld = (Inr (), w)"
    using cancel_demo by (metis prod.collapse)
  have step: "server_step demoEnvironment cancelWorld w"
    using server_step.reconcile [of demoEnvironment cancelWorld "''run''"] w by simp
  have reachable: "server_reachable demoEnvironment w" using cancelWorld_reachable step by (rule server_reachable.step)
  obtain run where run: "storedRun (w_db w) ''run'' = Some run"
    and ended: "\<And>n s. get_step run n = Some s \<Longrightarrow> \<not> step_unfinished s"
    using workflow_Reconcile_cancel [OF cancelWorld_run _ _ _ cancelWorld_ok w] by (auto simp: cancelRun_fields terminal_def)
  have "run_moves cancelRun run"
    using server_step_run [OF step _ cancelWorld_run run] reachable_sound [OF cancelWorld_reachable] by simp
  then have "map_option static_step (get_step run ''plan'') = map_option static_step (get_step cancelRun ''plan'')"
    using static_run_get run_moves_static by blast
  then obtain s where s: "get_step run ''plan'' = Some s" using demo_plan(1) by (auto simp: cancelRun_fields)
  have settled: "step_State s \<in> {StepCompleted, StepBlocked, StepFailed, StepCanceled, StepSkipped}"
    using ended [OF s] by (cases "step_State s") (simp_all add: step_unfinished_def step_active_def)
  have same: "storedRun (w_db (w\<lparr>w_env := w_env w\<rparr>)) ''run'' = Some run" using run by simp
  from settled_step_kept [OF server_step.environment reachable run same s settled]
  have "\<exists>s'. get_step run ''plan'' = Some s' \<and> step_State s' = step_State s" by blast
  moreover have "settled (step_State s)" using settled by (simp add: settled_def)
  ultimately show ?thesis using reachable run s by blast
qed

end
